(* ===== verification/Prelude.thy ===== *)
theory Prelude
  imports Main "HOL-Library.Char_ord" "HOL-Library.Product_Lexorder"
    "HOL-Library.List_Lexorder"
begin

text \<open>
  Shared vocabulary of the development: times, the ASCII string operations the source uses
  (\<open>str.upper\<close>, \<open>str.lower\<close>, \<open>str.strip\<close>, \<open>str.isdigit\<close>, \<open>str.startswith\<close>), and the
  database operations every table goes through (a table is a list of rows in insertion
  order; \<open>update_where\<close> is \<open>UPDATE ... WHERE ...\<close> with its row count, \<open>first_by\<close> is
  \<open>ORDER BY ... LIMIT 1\<close>).  The collection \<open>row_simps\<close> gathers the rewrite rules about tables.
\<close>

named_theorems row_simps \<open>rewrite rules for tables of rows\<close>

section \<open>Times\<close>

text \<open>
  A naive UTC \<open>datetime\<close> is its number of microseconds; \<open>timedelta(seconds=n)\<close> is \<open>seconds n\<close>.
\<close>

type_synonym time = int

definition seconds :: "int \<Rightarrow> int" where
  "seconds n = 1000000 * n"

lemma seconds_mono [simp]: "seconds a \<le> seconds b \<longleftrightarrow> a \<le> b"
  by (simp add: seconds_def)

lemma seconds_strict_mono [simp]: "seconds a < seconds b \<longleftrightarrow> a < b"
  by (simp add: seconds_def)

lemma seconds_pos [simp]: "0 < seconds a \<longleftrightarrow> 0 < a"
  by (simp add: seconds_def)

lemma seconds_nonneg [simp]: "0 \<le> seconds a \<longleftrightarrow> 0 \<le> a"
  by (simp add: seconds_def)

section \<open>Strings\<close>

definition char_code :: "char \<Rightarrow> nat" where
  "char_code c = of_char c"

definition upper_char :: "char \<Rightarrow> char" where
  "upper_char c = (if 97 \<le> char_code c \<and> char_code c \<le> 122 then char_of (char_code c - 32) else c)"

definition lower_char :: "char \<Rightarrow> char" where
  "lower_char c = (if 65 \<le> char_code c \<and> char_code c \<le> 90 then char_of (char_code c + 32) else c)"

definition str_upper :: "string \<Rightarrow> string" where
  "str_upper s = map upper_char s"

definition str_lower :: "string \<Rightarrow> string" where
  "str_lower s = map lower_char s"

definition space_char :: "char \<Rightarrow> bool" where
  "space_char c = (let n = char_code c in (9 \<le> n \<and> n \<le> 13) \<or> (28 \<le> n \<and> n \<le> 32))"

definition str_lstrip :: "string \<Rightarrow> string" where
  "str_lstrip s = dropWhile space_char s"

definition str_strip :: "string \<Rightarrow> string" where
  "str_strip s = rev (dropWhile space_char (rev (dropWhile space_char s)))"

definition digit_char :: "char \<Rightarrow> bool" where
  "digit_char c = (48 \<le> char_code c \<and> char_code c \<le> 57)"

definition alpha_char :: "char \<Rightarrow> bool" where
  "alpha_char c =
     (65 \<le> char_code c \<and> char_code c \<le> 90 \<or> 97 \<le> char_code c \<and> char_code c \<le> 122)"

definition alnum_char :: "char \<Rightarrow> bool" where
  "alnum_char c = (digit_char c \<or> alpha_char c)"

definition str_isdigit :: "string \<Rightarrow> bool" where
  "str_isdigit s = (s \<noteq> [] \<and> list_all digit_char s)"

fun starts_with :: "string \<Rightarrow> string \<Rightarrow> bool" where
  "starts_with s [] = True"
| "starts_with [] (p # ps) = False"
| "starts_with (c # cs) (p # ps) = (c = p \<and> starts_with cs ps)"

lemma starts_with_iff: "starts_with s p \<longleftrightarrow> (\<exists>t. s = p @ t)"
  by (induction s p rule: starts_with.induct) auto

lemma starts_with_append [simp]: "starts_with (p @ t) p"
  by (simp add: starts_with_iff)

fun contains_str :: "string \<Rightarrow> string \<Rightarrow> bool" where
  "contains_str p [] = (p = [])"
| "contains_str p (c # cs) = (starts_with (c # cs) p \<or> contains_str p cs)"

lemma contains_str_iff: "contains_str p s \<longleftrightarrow> (\<exists>a b. s = a @ p @ b)"
proof (induction p s rule: contains_str.induct)
  case (1 p)
  then show ?case by auto
next
  case (2 p c cs)
  have "(\<exists>a b. c # cs = a @ p @ b) \<longleftrightarrow> (\<exists>b. c # cs = p @ b) \<or> (\<exists>a b. cs = a @ p @ b)"
    by (metis append_Cons append_self_conv2 neq_Nil_conv list.sel(3))
  with 2 show ?case by (simp add: starts_with_iff)
qed

fun join :: "string \<Rightarrow> string list \<Rightarrow> string" where
  "join sep [] = []"
| "join sep [s] = s"
| "join sep (s # t # ss) = s @ sep @ join sep (t # ss)"

lemma join_Cons: "ss \<noteq> [] \<Longrightarrow> join sep (s # ss) = s @ sep @ join sep ss"
  by (cases ss) simp_all

text \<open>Decimal text of an integer, as \<open>f"{n}"\<close> prints it.\<close>

definition digit_text :: "nat \<Rightarrow> char" where
  "digit_text n = char_of (48 + n)"

fun nat_text :: "nat \<Rightarrow> string" where
  "nat_text n = (if n < 10 then [digit_text n] else nat_text (n div 10) @ [digit_text (n mod 10)])"

declare nat_text.simps [simp del]

definition int_text :: "int \<Rightarrow> string" where
  "int_text i = (if i < 0 then CHR ''-'' # nat_text (nat (- i)) else nat_text (nat i))"

lemma digit_char_digit_text [simp]: "n < 10 \<Longrightarrow> digit_char (digit_text n)"
  by (simp add: digit_char_def digit_text_def char_code_def)

lemma nat_text_digits: "list_all digit_char (nat_text n)"
proof (induction n rule: nat_text.induct)
  case (1 n)
  then show ?case by (cases "n < 10") (simp_all add: nat_text.simps [of n])
qed

lemma nat_text_nonempty [simp]: "nat_text n \<noteq> []"
  by (simp add: nat_text.simps [of n])

definition opt_truthy :: "string option \<Rightarrow> bool" where
  "opt_truthy s = (case s of None \<Rightarrow> False | Some t \<Rightarrow> t \<noteq> [])"

definition or_empty :: "string option \<Rightarrow> string" where
  "or_empty s = (case s of None \<Rightarrow> [] | Some t \<Rightarrow> t)"

lemma opt_truthyE: "opt_truthy s \<Longrightarrow> (\<And>t. s = Some t \<Longrightarrow> t \<noteq> [] \<Longrightarrow> P) \<Longrightarrow> P"
  by (cases s) (simp_all add: opt_truthy_def)

section \<open>Tables\<close>

definition update_where :: "('r \<Rightarrow> bool) \<Rightarrow> ('r \<Rightarrow> 'r) \<Rightarrow> 'r list \<Rightarrow> nat \<times> 'r list" where
  "update_where P f rows =
     (length (filter P rows), map (\<lambda>r. if P r then f r else r) rows)"

fun first_by :: "('r \<Rightarrow> 'k::linorder) \<Rightarrow> 'r list \<Rightarrow> 'r option" where
  "first_by key [] = None"
| "first_by key (r # rs) =
     (case first_by key rs of
        None \<Rightarrow> Some r
      | Some s \<Rightarrow> if key r \<le> key s then Some r else Some s)"

definition sort_by :: "('r \<Rightarrow> 'k::linorder) \<Rightarrow> 'r list \<Rightarrow> 'r list" where
  "sort_by key rows = sort_key key rows"

text \<open>\<open>sorted(set(xs))\<close>.\<close>

definition sorted_set :: "'a::linorder list \<Rightarrow> 'a list" where
  "sorted_set xs = sort (remdups xs)"

lemma set_sorted_set [simp]: "set (sorted_set xs) = set xs"
  by (simp add: sorted_set_def)

definition find_id :: "('r \<Rightarrow> 'k) \<Rightarrow> 'k \<Rightarrow> 'r list \<Rightarrow> 'r option" where
  "find_id key k rows = find (\<lambda>r. key r = k) rows"

lemma first_by_None [simp]: "first_by key rs = None \<longleftrightarrow> rs = []"
  by (induction rs) (auto split: option.splits if_splits)

lemma first_by_in: "first_by key rs = Some r \<Longrightarrow> r \<in> set rs"
  by (induction rs arbitrary: r) (auto split: option.splits if_splits)

lemma first_by_least: "first_by key rs = Some r \<Longrightarrow> s \<in> set rs \<Longrightarrow> key r \<le> key s"
proof (induction rs arbitrary: r s)
  case Nil
  then show ?case by simp
next
  case (Cons a rs)
  show ?case
  proof (cases "first_by key rs")
    case None
    with Cons.prems show ?thesis by simp
  next
    case (Some b)
    with Cons show ?thesis by (force split: if_splits)
  qed
qed

lemma find_id_Some: "find_id key k rows = Some r \<Longrightarrow> r \<in> set rows \<and> key r = k"
  unfolding find_id_def by (induction rows) (auto split: if_splits)

lemma find_id_None: "find_id key k rows = None \<longleftrightarrow> k \<notin> key ` set rows"
  unfolding find_id_def by (auto simp: find_None_iff)

lemma find_id_none: "find_id key k rows = None \<longleftrightarrow> (\<forall>r \<in> set rows. key r \<noteq> k)"
  by (auto simp: find_id_None image_iff)

lemma find_id_in: "distinct (map key rows) \<Longrightarrow> r \<in> set rows \<Longrightarrow> find_id key (key r) rows = Some r"
  unfolding find_id_def by (induction rows) (auto simp: image_iff)

lemma find_id_append_new [row_simps]:
  "find_id key k (rows @ [r]) =
     (case find_id key k rows of Some s \<Rightarrow> Some s | None \<Rightarrow> if key r = k then Some r else None)"
  unfolding find_id_def by (induction rows) auto

text \<open>An update that keeps the key commutes with the lookup by key.\<close>

lemma find_id_map [row_simps]:
  assumes "\<And>r. key (f r) = key r"
  shows "find_id key k (map f rows) = map_option f (find_id key k rows)"
  unfolding find_id_def using assms by (induction rows) auto

lemma find_id_update_where [row_simps]:
  assumes "\<And>r. key (f r) = key r"
  shows "find_id key k (snd (update_where P f rows)) =
           map_option (\<lambda>r. if P r then f r else r) (find_id key k rows)"
  unfolding update_where_def using assms by (simp add: find_id_map)

lemma map_key_update_where [row_simps]:
  assumes "\<And>r. key (f r) = key r"
  shows "map key (snd (update_where P f rows)) = map key rows"
  unfolding update_where_def using assms by simp

lemma update_where_count_zero:
  "fst (update_where P f rows) = 0 \<longleftrightarrow> (\<forall>r \<in> set rows. \<not> P r)"
  unfolding update_where_def by (auto simp: filter_empty_conv)

lemma update_where_none: "(\<forall>r \<in> set rows. \<not> P r) \<Longrightarrow> snd (update_where P f rows) = rows"
  unfolding update_where_def by (induction rows) auto

text \<open>A condition that names one key matches at most one row of a table with distinct keys.\<close>

lemma update_where_key_count:
  assumes "distinct (map key rows)"
  shows "fst (update_where (\<lambda>r. key r = k \<and> Q r) f rows) =
           (case find_id key k rows of None \<Rightarrow> 0 | Some r \<Rightarrow> if Q r then 1 else 0)"
  using assms unfolding update_where_def find_id_def
proof (induction rows)
  case Nil
  then show ?case by simp
next
  case (Cons a rows)
  show ?case
  proof (cases "key a = k")
    case True
    with Cons.prems have "filter (\<lambda>r. key r = k \<and> Q r) rows = []"
      by (auto simp: filter_empty_conv) (metis image_eqI)
    with True show ?thesis by simp
  next
    case False
    with Cons show ?thesis by simp
  qed
qed

end
