(* ===== verification/Lifecycle.thy ===== *)
theory Lifecycle
  imports Prelude
begin

text \<open>
  The canonical remediation lifecycle of \<open>shared/remediation_state_machine.py\<close>: the closed set
  of states, \<open>transition\<close> (one validated edge), \<open>recover_after_worker_restart\<close> and
  \<open>canonical_state\<close>.  The lemmas characterise the accepted edges, then lift them to runs.
\<close>

section \<open>States and tables\<close>

datatype remediation_state =
    PROPOSED | APPROVED | EXECUTING | VERIFYING | SUCCEEDED
  | FAILED | ROLLED_BACK | INCONCLUSIVE | EXPIRED | CANCELLED

fun state_value :: "remediation_state \<Rightarrow> string" where
  "state_value PROPOSED = ''PROPOSED''"
| "state_value APPROVED = ''APPROVED''"
| "state_value EXECUTING = ''EXECUTING''"
| "state_value VERIFYING = ''VERIFYING''"
| "state_value SUCCEEDED = ''SUCCEEDED''"
| "state_value FAILED = ''FAILED''"
| "state_value ROLLED_BACK = ''ROLLED_BACK''"
| "state_value INCONCLUSIVE = ''INCONCLUSIVE''"
| "state_value EXPIRED = ''EXPIRED''"
| "state_value CANCELLED = ''CANCELLED''"

definition all_states :: "remediation_state list" where
  "all_states = [PROPOSED, APPROVED, EXECUTING, VERIFYING, SUCCEEDED,
     FAILED, ROLLED_BACK, INCONCLUSIVE, EXPIRED, CANCELLED]"

definition terminal_states :: "remediation_state list" where
  "terminal_states = [SUCCEEDED, ROLLED_BACK, INCONCLUSIVE, EXPIRED, CANCELLED]"

definition locked_states :: "remediation_state list" where
  "locked_states = [EXECUTING, VERIFYING]"

text \<open>\<open>_ALLOWED.get(state, frozenset())\<close>; the states without an entry have the empty set.\<close>

fun allowed_next :: "remediation_state \<Rightarrow> remediation_state list" where
  "allowed_next PROPOSED = [APPROVED, EXPIRED, CANCELLED]"
| "allowed_next APPROVED = [EXECUTING, EXPIRED, CANCELLED]"
| "allowed_next EXECUTING = [VERIFYING, FAILED, INCONCLUSIVE]"
| "allowed_next VERIFYING = [SUCCEEDED, FAILED, ROLLED_BACK, INCONCLUSIVE]"
| "allowed_next FAILED = [ROLLED_BACK]"
| "allowed_next INCONCLUSIVE = [ROLLED_BACK]"
| "allowed_next _ = []"

section \<open>Parsing a state\<close>

text \<open>
  A caller passes a member of the enumeration or its text.  \<open>RemediationState(text)\<close> raises
  \<open>ValueError\<close> for a text that is no member's value: \<open>Inl\<close> of that text.
\<close>

datatype state_arg = Member remediation_state | Text string

definition parse_state :: "state_arg \<Rightarrow> string + remediation_state" where
  "parse_state v =
     (case v of
        Member s \<Rightarrow> Inr s
      | Text t \<Rightarrow>
          (let u = str_upper (str_strip t)
           in case find (\<lambda>s. state_value s = u) all_states of
                None \<Rightarrow> Inl u
              | Some s \<Rightarrow> Inr s))"

section \<open>Decisions\<close>

datatype transition_reason =
    UnknownState string
  | TerminalCannotTransition
  | ExpiryAccepted
  | ExpiredTransitionFirst
  | EdgeNotAllowed remediation_state remediation_state
  | LockRequired
  | LockForeign
  | TransitionAccepted
  | RecoveryNotNeeded
  | ActiveLockRemains
  | LockDisappeared

record transition_decision =
  td_allowed :: bool
  td_current :: remediation_state
  td_requested :: remediation_state
  td_reason :: transition_reason
  td_requires_lock :: bool
  td_terminal :: bool

definition decision ::
  "bool \<Rightarrow> remediation_state \<Rightarrow> remediation_state \<Rightarrow> transition_reason \<Rightarrow> bool \<Rightarrow> bool
     \<Rightarrow> transition_decision" where
  "decision ok cur req why lock term =
     \<lparr>td_allowed = ok, td_current = cur, td_requested = req, td_reason = why,
      td_requires_lock = lock, td_terminal = term\<rparr>"

lemma decision_sel [simp]:
  "td_allowed (decision ok cur req why lock term) = ok"
  "td_current (decision ok cur req why lock term) = cur"
  "td_requested (decision ok cur req why lock term) = req"
  "td_reason (decision ok cur req why lock term) = why"
  "td_requires_lock (decision ok cur req why lock term) = lock"
  "td_terminal (decision ok cur req why lock term) = term"
  by (simp_all add: decision_def)

definition expired :: "time \<Rightarrow> time option \<Rightarrow> bool" where
  "expired now expires_at = (case expires_at of None \<Rightarrow> False | Some e \<Rightarrow> now \<ge> e)"

text \<open>
  \<open>transition\<close>.  The first argument is the clock, read only when \<open>now\<close> is not given.
\<close>

definition transition ::
  "time \<Rightarrow> state_arg \<Rightarrow> state_arg \<Rightarrow> time option \<Rightarrow> time option \<Rightarrow> string option \<Rightarrow> string option
     \<Rightarrow> transition_decision" where
  "transition utcnow current requested now expires_at lock_owner active_lock_owner =
     (case parse_state current of
        Inl e \<Rightarrow> decision False INCONCLUSIVE INCONCLUSIVE (UnknownState e) False False
      | Inr cur \<Rightarrow>
     (case parse_state requested of
        Inl e \<Rightarrow> decision False INCONCLUSIVE INCONCLUSIVE (UnknownState e) False False
      | Inr req \<Rightarrow>
          (if cur \<in> set terminal_states
           then decision False cur req TerminalCannotTransition False True
           else
             (let effective_now = (case now of None \<Rightarrow> utcnow | Some t \<Rightarrow> t) in
              if expired effective_now expires_at
              then (if req = EXPIRED
                    then decision True cur req ExpiryAccepted False True
                    else decision False cur req ExpiredTransitionFirst False False)
              else if req \<notin> set (allowed_next cur)
              then decision False cur req (EdgeNotAllowed cur req) False False
              else
                (let requires_lock = req \<in> set locked_states in
                 if requires_lock \<and> (\<not> opt_truthy lock_owner \<or> \<not> opt_truthy active_lock_owner)
                 then decision False cur req LockRequired True False
                 else if requires_lock \<and> lock_owner \<noteq> active_lock_owner
                 then decision False cur req LockForeign True False
                 else decision True cur req TransitionAccepted requires_lock
                        (req \<in> set terminal_states))))))"

text \<open>\<open>recover_after_worker_restart\<close>; an unknown text raises, so the result is a sum.\<close>

definition recover_after_worker_restart ::
  "state_arg \<Rightarrow> bool \<Rightarrow> string + transition_decision" where
  "recover_after_worker_restart current lock_present =
     (case parse_state current of
        Inl e \<Rightarrow> Inl e
      | Inr s \<Rightarrow>
          Inr (if s \<notin> set locked_states
               then decision False s s RecoveryNotNeeded False (s \<in> set terminal_states)
               else if lock_present
               then decision False s s ActiveLockRemains True False
               else decision True s INCONCLUSIVE LockDisappeared True True))"

text \<open>\<open>canonical_state\<close>: the persisted values are searched in the source's order.\<close>

definition canonical_state ::
  "string option \<Rightarrow> string option \<Rightarrow> string option \<Rightarrow> remediation_state" where
  "canonical_state action_status case_outcome incident_status =
     (let statuses = [str_upper (or_empty action_status), str_upper (or_empty case_outcome),
                      str_upper (or_empty incident_status)];
          has = (\<lambda>v. v \<in> set statuses)
      in if has ''VERIFIED_SUCCESS'' \<or> has ''RESOLVED'' \<or> has ''AUTO_FIXED'' then SUCCEEDED
         else if has ''ROLLED_BACK'' then ROLLED_BACK
         else if has ''INCONCLUSIVE'' then INCONCLUSIVE
         else if has ''VERIFIED_FAILED'' \<or> has ''FAILED'' then FAILED
         else if has ''VERIFYING'' \<or> has ''EXECUTED_PENDING_VERIFY'' then VERIFYING
         else if has ''EXECUTING'' then EXECUTING
         else if has ''APPROVED'' then APPROVED
         else if has ''EXPIRED'' then EXPIRED
         else if has ''CANCELLED'' \<or> has ''REJECTED'' then CANCELLED
         else PROPOSED)"

section \<open>Lemmas on one transition\<close>

lemma parse_state_Member [simp]: "parse_state (Member s) = Inr s"
  by (simp add: parse_state_def)

lemma parse_state_Inr_value:
  "parse_state (Text t) = Inr s \<Longrightarrow> state_value s = str_upper (str_strip t)"
  by (auto simp: parse_state_def Let_def split: option.splits)
     (auto simp: find_Some_iff)

text \<open>What an accepted transition guarantees: the parsed edge and why it was accepted.\<close>

lemma transition_allowedE:
  assumes "td_allowed (transition utcnow a b now ex lo al)"
  obtains cur req where
    "parse_state a = Inr cur" "parse_state b = Inr req" "cur \<notin> set terminal_states"
    "req = EXPIRED \<and> expired (case now of None \<Rightarrow> utcnow | Some t \<Rightarrow> t) ex
     \<or> \<not> expired (case now of None \<Rightarrow> utcnow | Some t \<Rightarrow> t) ex \<and> req \<in> set (allowed_next cur)
         \<and> (req \<in> set locked_states \<longrightarrow> opt_truthy lo \<and> lo = al)"
    "td_current (transition utcnow a b now ex lo al) = cur"
    "td_requested (transition utcnow a b now ex lo al) = req"
  using assms
  by (auto simp: transition_def Let_def split: sum.splits if_splits)

text \<open>The accepted edge as a relation between states, for some clock, expiry and lock owners.\<close>

inductive lifecycle_step :: "remediation_state \<Rightarrow> remediation_state \<Rightarrow> bool" where
  accepted: "td_allowed (transition utcnow (Member s) (Member t) now ex lo al)
             \<Longrightarrow> lifecycle_step s t"

inductive_cases lifecycle_stepE: "lifecycle_step s t"

lemma lifecycle_step_iff:
  "lifecycle_step s t \<longleftrightarrow>
     s \<notin> set terminal_states \<and> (t = EXPIRED \<or> t \<in> set (allowed_next s))"
proof
  assume "lifecycle_step s t"
  then show "s \<notin> set terminal_states \<and> (t = EXPIRED \<or> t \<in> set (allowed_next s))"
    by (auto elim!: lifecycle_stepE transition_allowedE)
next
  assume r: "s \<notin> set terminal_states \<and> (t = EXPIRED \<or> t \<in> set (allowed_next s))"
  show "lifecycle_step s t"
  proof (cases "t = EXPIRED")
    case True
    with r have "td_allowed (transition 0 (Member s) (Member t) (Some 0) (Some 0) None None)"
      by (simp add: transition_def expired_def)
    then show ?thesis by (rule lifecycle_step.accepted)
  next
    case False
    with r have "td_allowed (transition 0 (Member s) (Member t) (Some 0) None (Some ''w'') (Some ''w''))"
      by (simp add: transition_def expired_def opt_truthy_def)
    then show ?thesis by (rule lifecycle_step.accepted)
  qed
qed

text \<open>Runs: the states visited, first to last.\<close>

inductive lifecycle_run :: "remediation_state \<Rightarrow> remediation_state list \<Rightarrow> remediation_state \<Rightarrow> bool"
where
  run_here: "lifecycle_run s [s] s"
| run_step: "lifecycle_step s t \<Longrightarrow> lifecycle_run t vs u \<Longrightarrow> lifecycle_run s (s # vs) u"

lemma run_next: "lifecycle_step s t \<Longrightarrow> lifecycle_run t (t # vs) u \<Longrightarrow> lifecycle_run s (s # t # vs) u"
  by (rule run_step)

inductive_cases lifecycle_runE: "lifecycle_run s vs u"

text \<open>A rank that every accepted step increases, so runs are short.\<close>

fun state_rank :: "remediation_state \<Rightarrow> nat" where
  "state_rank PROPOSED = 0"
| "state_rank APPROVED = 1"
| "state_rank EXECUTING = 2"
| "state_rank VERIFYING = 3"
| "state_rank FAILED = 4"
| "state_rank _ = 5"

lemma lifecycle_step_rank: "lifecycle_step s t \<Longrightarrow> state_rank s < state_rank t"
  unfolding lifecycle_step_iff by (cases s; cases t) (simp_all add: terminal_states_def)

lemma lifecycle_run_rank: "lifecycle_run s vs u \<Longrightarrow> state_rank s + length vs \<le> state_rank u + 1"
  by (induction rule: lifecycle_run.induct) (auto dest: lifecycle_step_rank)

lemma state_rank_bound: "state_rank s \<le> 5"
  by (cases s) simp_all

lemma lifecycle_run_ends: "lifecycle_run s vs u \<Longrightarrow> vs \<noteq> [] \<and> hd vs = s \<and> last vs = u"
  by (induction rule: lifecycle_run.induct) (auto elim: lifecycle_runE)

text \<open>Backwards reachability of \<open>SUCCEEDED\<close>: only through the approved, executing, verifying path.\<close>

lemma step_into_SUCCEEDED: "lifecycle_step s SUCCEEDED \<Longrightarrow> s = VERIFYING"
  unfolding lifecycle_step_iff by (cases s) (simp_all add: terminal_states_def)

lemma run_to_SUCCEEDED:
  assumes "lifecycle_run s vs SUCCEEDED"
  shows "s = SUCCEEDED \<and> vs = [SUCCEEDED]
       \<or> s = VERIFYING \<and> vs = [VERIFYING, SUCCEEDED]
       \<or> s = EXECUTING \<and> vs = [EXECUTING, VERIFYING, SUCCEEDED]
       \<or> s = APPROVED \<and> vs = [APPROVED, EXECUTING, VERIFYING, SUCCEEDED]
       \<or> s = PROPOSED \<and> vs = [PROPOSED, APPROVED, EXECUTING, VERIFYING, SUCCEEDED]"
  using assms
proof (induction s vs "SUCCEEDED" rule: lifecycle_run.induct)
  case run_here
  then show ?case by simp
next
  case (run_step s t vs)
  from run_step.hyps(1) have "t = EXPIRED \<or> t \<in> set (allowed_next s)"
    by (simp add: lifecycle_step_iff)
  moreover from run_step.hyps(1) have "s \<notin> set terminal_states"
    by (simp add: lifecycle_step_iff)
  ultimately show ?case using run_step.hyps(3)
    by (cases s) (auto simp: terminal_states_def)
qed

section \<open>Properties\<close>

text \<open>
  C1. No unattended success: every accepted run of the lifecycle from a proposal to success visits
  exactly approval, execution and verification, in that order.
\<close>

theorem success_path_unique:
  "lifecycle_run PROPOSED vs SUCCEEDED \<Longrightarrow>
     vs = [PROPOSED, APPROVED, EXECUTING, VERIFYING, SUCCEEDED]"
  using run_to_SUCCEEDED by blast

lemma success_path_unique_witness:
  "lifecycle_run PROPOSED [PROPOSED, APPROVED, EXECUTING, VERIFYING, SUCCEEDED] SUCCEEDED
   \<and> [PROPOSED, APPROVED, EXECUTING, VERIFYING, SUCCEEDED] =
     [PROPOSED, APPROVED, EXECUTING, VERIFYING, SUCCEEDED]"
proof -
  have r: "lifecycle_run PROPOSED [PROPOSED, APPROVED, EXECUTING, VERIFYING, SUCCEEDED] SUCCEEDED"
    by (intro run_next run_here) (simp_all add: lifecycle_step_iff terminal_states_def)
  from success_path_unique [OF r] r show ?thesis by blast
qed

text \<open>
  C14. The lock guards command dispatch: a transition accepted into an in-flight state names a
  non-empty lock owner that is the active owner, and is not past its expiry.
\<close>

theorem in_flight_needs_own_lock:
  assumes "td_allowed (transition utcnow a b now ex lo al)"
    and "td_requested (transition utcnow a b now ex lo al) \<in> set locked_states"
  shows "(\<exists>w. lo = Some w \<and> al = Some w \<and> w \<noteq> [])
       \<and> \<not> expired (case now of None \<Rightarrow> utcnow | Some t \<Rightarrow> t) ex"
  using assms
  by (auto elim!: transition_allowedE opt_truthyE simp: locked_states_def)

lemma in_flight_needs_own_lock_witness:
  "(\<exists>w. Some ''w1'' = Some w \<and> Some ''w1'' = Some w \<and> w \<noteq> [])
   \<and> \<not> expired (case Some 5 of None \<Rightarrow> 0 | Some t \<Rightarrow> t) (Some 9)"
proof -
  have "td_allowed (transition 0 (Text '' approved'') (Text ''EXECUTING'') (Some 5) (Some 9)
          (Some ''w1'') (Some ''w1''))"
    by code_simp
  moreover have "td_requested (transition 0 (Text '' approved'') (Text ''EXECUTING'') (Some 5) (Some 9)
          (Some ''w1'') (Some ''w1'')) \<in> set locked_states"
    by code_simp
  ultimately show ?thesis by (rule in_flight_needs_own_lock)
qed

text \<open>
  C36. Every accepted run makes at most five transitions, so a remediation always ends.
\<close>

theorem lifecycle_run_bounded: "lifecycle_run s vs u \<Longrightarrow> length vs \<le> 6"
  using lifecycle_run_rank state_rank_bound [of u] by fastforce

lemma lifecycle_run_bounded_witness:
  "length [PROPOSED, APPROVED, EXECUTING, VERIFYING, FAILED, ROLLED_BACK] \<le> 6"
proof -
  have r: "lifecycle_run PROPOSED [PROPOSED, APPROVED, EXECUTING, VERIFYING, FAILED, ROLLED_BACK] ROLLED_BACK"
    by (intro run_next run_here) (simp_all add: lifecycle_step_iff terminal_states_def)
  show ?thesis by (rule lifecycle_run_bounded [OF r])
qed

text \<open>
  The table lists a rollback edge out of \<open>INCONCLUSIVE\<close>, but the terminal check comes first, so
  no transition out of \<open>INCONCLUSIVE\<close> is ever accepted, with any clock, expiry or lock.
\<close>

theorem inconclusive_rollback_unreachable:
  "ROLLED_BACK \<in> set (allowed_next INCONCLUSIVE)
   \<and> \<not> td_allowed (transition utcnow (Member INCONCLUSIVE) b now ex lo al)"
  by (auto elim!: transition_allowedE simp: terminal_states_def)

text \<open>
  Restart recovery never resumes a write: it is accepted exactly for an in-flight state whose
  lock is gone, and then it only marks the action inconclusive.
\<close>

theorem recovery_only_inconclusive:
  "(\<exists>d. recover_after_worker_restart a lock_present = Inr d \<and> td_allowed d \<and> td_requested d = t)
   \<longleftrightarrow> t = INCONCLUSIVE \<and> \<not> lock_present
       \<and> (parse_state a = Inr EXECUTING \<or> parse_state a = Inr VERIFYING)"
  by (auto simp: recover_after_worker_restart_def locked_states_def split: sum.splits if_splits)

end
