(* ===== verification/PyVal.thy ===== *)
theory PyVal
  imports Prelude Complex_Main
begin

text \<open>
  The dynamic Python values the source handles where no class fixes their shape: JSON
  documents (Ceph command output, contract snapshots, action parameters).  A dictionary is
  its list of items in insertion order.  A float is its exact rational value, or
  \<open>PNonFinite\<close> for a NaN or an infinity.  A text column that holds JSON is modelled by
  what \<open>json.loads\<close> makes of it: \<open>JMalformed\<close> where it raises, \<open>JText v\<close> where it
  returns \<open>v\<close>; \<open>json.dumps v\<close> is \<open>JText v\<close>.
\<close>

datatype pyval =
    PNone
  | PBool bool
  | PInt int
  | PFloat rat
  | PNonFinite
  | PStr string
  | PList "pyval list"
  | PDict "(pyval \<times> pyval) list"

datatype json_text = JMalformed | JText pyval

fun truthy :: "pyval \<Rightarrow> bool" where
  "truthy PNone = False"
| "truthy (PBool b) = b"
| "truthy (PInt i) = (i \<noteq> 0)"
| "truthy (PFloat q) = (q \<noteq> 0)"
| "truthy PNonFinite = True"
| "truthy (PStr s) = (s \<noteq> [])"
| "truthy (PList xs) = (xs \<noteq> [])"
| "truthy (PDict kvs) = (kvs \<noteq> [])"

text \<open>\<open>isinstance\<close> tests; \<open>bool\<close> is a subclass of \<open>int\<close>.\<close>

fun is_dict :: "pyval \<Rightarrow> bool" where
  "is_dict (PDict _) = True"
| "is_dict _ = False"

fun is_list :: "pyval \<Rightarrow> bool" where
  "is_list (PList _) = True"
| "is_list _ = False"

fun is_str :: "pyval \<Rightarrow> bool" where
  "is_str (PStr _) = True"
| "is_str _ = False"

fun items_of :: "pyval \<Rightarrow> (pyval \<times> pyval) list" where
  "items_of (PDict kvs) = kvs"
| "items_of _ = []"

fun elems_of :: "pyval \<Rightarrow> pyval list" where
  "elems_of (PList xs) = xs"
| "elems_of _ = []"

text \<open>\<open>d.get(key)\<close> and \<open>d.get(key, default)\<close> on a dictionary.\<close>

definition dget :: "pyval \<Rightarrow> string \<Rightarrow> pyval" where
  "dget d k = (case map_of (items_of d) (PStr k) of None \<Rightarrow> PNone | Some v \<Rightarrow> v)"

definition dget_default :: "pyval \<Rightarrow> string \<Rightarrow> pyval \<Rightarrow> pyval" where
  "dget_default d k v = (case map_of (items_of d) (PStr k) of None \<Rightarrow> v | Some w \<Rightarrow> w)"

text \<open>\<open>a or b\<close>.\<close>

definition por :: "pyval \<Rightarrow> pyval \<Rightarrow> pyval" where
  "por a b = (if truthy a then a else b)"

text \<open>
  \<open>str(v)\<close> where the source compares or tests the text of a value: exact for \<open>None\<close>, booleans,
  integers and strings.  The text of a float, a list or a dictionary is never digits only, never
  empty and never equal to a name in the closed vocabularies of the source, which is all that is
  asked of it; it is the value between angle brackets here.
\<close>

definition opaque_text :: string where
  "opaque_text = ''<value>''"

fun py_str :: "pyval \<Rightarrow> string" where
  "py_str PNone = ''None''"
| "py_str (PBool b) = (if b then ''True'' else ''False'')"
| "py_str (PInt i) = int_text i"
| "py_str (PStr s) = s"
| "py_str (PFloat _) = opaque_text"
| "py_str PNonFinite = opaque_text"
| "py_str (PList _) = opaque_text"
| "py_str (PDict _) = opaque_text"

text \<open>The value of a decimal text, as \<open>int(s)\<close> reads it.\<close>

fun digits_value :: "int \<Rightarrow> string \<Rightarrow> int option" where
  "digits_value acc [] = Some acc"
| "digits_value acc (c # cs) =
     (if digit_char c then digits_value (acc * 10 + int (char_code c) - 48) cs
      else if c = CHR ''_''
      then (case cs of [] \<Rightarrow> None
            | d # _ \<Rightarrow> if digit_char d then digits_value acc cs else None)
      else None)"

definition int_of_text :: "string \<Rightarrow> int option" where
  "int_of_text s =
     (case str_strip s of
        [] \<Rightarrow> None
      | c # cs \<Rightarrow>
          (let (sign, ds) = (if c = CHR ''-'' then (-1, cs) else if c = CHR ''+'' then (1, cs)
                             else (1, c # cs)) in
           if ds = [] \<or> \<not> digit_char (hd ds) then None
           else map_option (\<lambda>n. sign * n) (digits_value 0 ds)))"

text \<open>
  \<open>int(v)\<close>, \<open>None\<close> where it raises \<open>TypeError\<close> or \<open>ValueError\<close>; a float is truncated.
\<close>

definition py_int :: "pyval \<Rightarrow> int option" where
  "py_int v =
     (case v of
        PInt i \<Rightarrow> Some i
      | PBool b \<Rightarrow> Some (if b then 1 else 0)
      | PFloat q \<Rightarrow> Some (if q \<ge> 0 then floor q else - floor (- q))
      | PStr s \<Rightarrow> int_of_text s
      | _ \<Rightarrow> None)"

text \<open>The exceptions of the language that the modelled code lets escape.\<close>

datatype py_exn = TypeError | ValueError | KeyError | AttributeError | MultipleResultsFound

text \<open>Membership in a set of strings raises \<open>TypeError\<close> for an unhashable value.\<close>

fun hashable :: "pyval \<Rightarrow> bool" where
  "hashable (PList _) = False"
| "hashable (PDict _) = False"
| "hashable _ = True"

definition in_strings :: "pyval \<Rightarrow> string list \<Rightarrow> py_exn + bool" where
  "in_strings v ss =
     (if \<not> hashable v then Inl TypeError
      else Inr (case v of PStr s \<Rightarrow> s \<in> set ss | _ \<Rightarrow> False))"

definition opt_py :: "string option \<Rightarrow> pyval" where
  "opt_py s = (case s of None \<Rightarrow> PNone | Some t \<Rightarrow> PStr t)"

text \<open>A dictionary display with text keys.\<close>

definition doc :: "(string \<times> pyval) list \<Rightarrow> pyval" where
  "doc kvs = PDict (map (\<lambda>(k, v). (PStr k, v)) kvs)"

text \<open>
  \<open>json.dumps(v, sort_keys=True)\<close> orders the items of every dictionary by their key, which is what
  \<open>json.loads\<close> then returns; the keys of the documents stored this way are texts.
\<close>

definition key_text :: "pyval \<Rightarrow> string" where
  "key_text k = (case k of PStr s \<Rightarrow> s | _ \<Rightarrow> [])"

fun sort_keys :: "pyval \<Rightarrow> pyval" where
  "sort_keys (PDict kvs) =
     PDict (sort_key (\<lambda>kv. key_text (fst kv)) (map (\<lambda>kv. (fst kv, sort_keys (snd kv))) kvs))"
| "sort_keys (PList xs) = PList (map sort_keys xs)"
| "sort_keys v = v"

lemma map_of_sort_key:
  "distinct (map fst kvs) \<Longrightarrow> map_of (sort_key f kvs) = map_of kvs"
  by (subst map_of_inject_set) (simp_all add: distinct_map)

lemma map_of_map_snd: "map_of (map (\<lambda>kv. (fst kv, f (snd kv))) kvs) k = map_option f (map_of kvs k)"
  by (induction kvs) auto

text \<open>Reading a field of a stored document gives the stored form of the field.\<close>

lemma map_of_items_sort_keys:
  assumes "distinct (map fst (items_of d))"
  shows "map_of (items_of (sort_keys d)) (PStr k) = map_option sort_keys (map_of (items_of d) (PStr k))"
proof (cases d)
  case (PDict kvs)
  have "distinct (map fst (map (\<lambda>kv. (fst kv, sort_keys (snd kv))) kvs))"
    using assms PDict by (simp add: comp_def)
  from map_of_sort_key [OF this, of "\<lambda>kv. key_text (fst kv)"] show ?thesis
    by (simp add: PDict map_of_map_snd)
qed simp_all

lemma dget_sort_keys:
  "distinct (map fst (items_of d)) \<Longrightarrow> dget (sort_keys d) k = sort_keys (dget d k)"
  by (simp add: dget_def map_of_items_sort_keys split: option.split)

lemma is_dict_sort_keys [simp]: "is_dict (sort_keys d) = is_dict d"
  by (cases d) simp_all

lemma in_strings_PStr [simp]: "in_strings (PStr s) ss = Inr (s \<in> set ss)"
  by (simp add: in_strings_def)

lemma in_strings_True: "in_strings v ss = Inr True \<Longrightarrow> \<exists>s. v = PStr s \<and> s \<in> set ss"
  by (cases v) (auto simp: in_strings_def)

lemma dget_PStr_Cons [simp]:
  "dget (PDict ((PStr k', v) # kvs)) k = (if k' = k then v else dget (PDict kvs) k)"
  by (simp add: dget_def)

lemma dget_not_dict [simp]: "\<not> is_dict v \<Longrightarrow> dget v k = PNone"
  by (cases v) (simp_all add: dget_def)

lemma dget_empty [simp]: "dget (PDict []) k = PNone"
  by (simp add: dget_def)

lemma is_dictE: "is_dict v \<Longrightarrow> (\<And>kvs. v = PDict kvs \<Longrightarrow> P) \<Longrightarrow> P"
  by (cases v) simp_all

lemma is_listE: "is_list v \<Longrightarrow> (\<And>xs. v = PList xs \<Longrightarrow> P) \<Longrightarrow> P"
  by (cases v) simp_all

lemma is_strE: "is_str v \<Longrightarrow> (\<And>s. v = PStr s \<Longrightarrow> P) \<Longrightarrow> P"
  by (cases v) simp_all

end
