(* ===== verification/Policy.thy ===== *)
theory Policy
  imports PyVal
begin

text \<open>
  The action policy of \<open>worker/policy/gate.py\<close>: the id lists loaded from the policy document,
  the conflict sets computed at import, and \<open>classify_action\<close>.  \<open>shipped_policy\<close> is the
  content of \<open>worker/policy/action_policy.yaml\<close> (the four tiers), so that the lemmas also speak
  of the policy as it is deployed.
\<close>

section \<open>Loading the lists\<close>

datatype action_classification = READ_ONLY | SAFE | RISKY | DESTRUCTIVE

fun classification_value :: "action_classification \<Rightarrow> string" where
  "classification_value READ_ONLY = ''READ_ONLY''"
| "classification_value SAFE = ''SAFE''"
| "classification_value RISKY = ''RISKY''"
| "classification_value DESTRUCTIVE = ''DESTRUCTIVE''"

definition strings_of :: "pyval \<Rightarrow> string list" where
  "strings_of v = [s. PStr s \<leftarrow> elems_of v]"

text \<open>\<open>frozenset(policy.get(key) or [])\<close> for a document whose lists hold strings.\<close>

definition load_ids :: "pyval \<Rightarrow> string \<Rightarrow> string list" where
  "load_ids policy key = strings_of (por (dget policy key) (PList []))"

record action_id_lists =
  read_only_ids :: "string list"
  safe_ids :: "string list"
  risky_ids :: "string list"
  destructive_ids :: "string list"

definition load_action_id_lists :: "pyval \<Rightarrow> action_id_lists" where
  "load_action_id_lists policy =
     \<lparr>read_only_ids = load_ids policy ''read_only'', safe_ids = load_ids policy ''safe'',
      risky_ids = load_ids policy ''risky'', destructive_ids = load_ids policy ''destructive''\<rparr>"

definition load_management_action_ids :: "pyval \<Rightarrow> string list" where
  "load_management_action_ids policy = load_ids policy ''management_action_ids''"

definition load_cluster_upgrade_action_ids :: "pyval \<Rightarrow> string list" where
  "load_cluster_upgrade_action_ids policy = load_ids policy ''cluster_upgrade_action_ids''"

definition load_cluster_deploy_action_ids :: "pyval \<Rightarrow> string list" where
  "load_cluster_deploy_action_ids policy = load_ids policy ''cluster_deploy_action_ids''"

definition load_volume_perf_action_ids :: "pyval \<Rightarrow> string list" where
  "load_volume_perf_action_ids policy = load_ids policy ''volume_perf_action_ids''"

definition load_backup_action_ids :: "pyval \<Rightarrow> string list" where
  "load_backup_action_ids policy = load_ids policy ''backup_action_ids''"

definition load_device_health_action_ids :: "pyval \<Rightarrow> string list" where
  "load_device_health_action_ids policy = load_ids policy ''device_health_action_ids''"

definition load_bluestore_action_ids :: "pyval \<Rightarrow> string list" where
  "load_bluestore_action_ids policy = load_ids policy ''bluestore_action_ids''"

definition cluster_lifecycle_action_ids :: "string list" where
  "cluster_lifecycle_action_ids =
     [''deploy_cluster_cephadm'', ''deploy_cluster_ceph_deploy'', ''deploy_cluster_rpm_local'',
      ''delete_cluster_cephadm'', ''delete_cluster_manual'', ''convert_cluster_to_cephadm'',
      ''restore_cluster_from_backup'', ''remove_cluster_nodes'', ''finish_remove_cluster_nodes'',
      ''replace_failed_osd'', ''finish_replace_osd'']"

definition conflicting_action_ids :: "action_id_lists \<Rightarrow> string list" where
  "conflicting_action_ids L = filter (\<lambda>a. a \<in> set (risky_ids L)) (safe_ids L)"

definition unsafe_destructive_overlap :: "action_id_lists \<Rightarrow> string list" where
  "unsafe_destructive_overlap L =
     filter (\<lambda>a. a \<in> set (safe_ids L) \<or> a \<in> set (read_only_ids L)) (destructive_ids L)"

section \<open>Classification\<close>

text \<open>
  The session argument is \<open>None\<close>, or the lookup of an override row's classification text by
  action id.  Only the three listed texts override.
\<close>

definition override_classification :: "string \<Rightarrow> action_classification option" where
  "override_classification v =
     (if v = ''SAFE'' then Some SAFE
      else if v = ''RISKY'' then Some RISKY
      else if v = ''DESTRUCTIVE'' then Some DESTRUCTIVE
      else None)"

definition classify_action ::
  "action_id_lists \<Rightarrow> string \<Rightarrow> (string \<Rightarrow> string option) option \<Rightarrow> action_classification" where
  "classify_action L action_id session =
     (let tier =
        (if action_id \<in> set (destructive_ids L) then DESTRUCTIVE
         else if action_id \<in> set (risky_ids L) then RISKY
         else if action_id \<in> set (safe_ids L) then SAFE
         else if action_id \<in> set (read_only_ids L) then READ_ONLY
         else RISKY)
      in case session of
           None \<Rightarrow> tier
         | Some get \<Rightarrow>
             (case get action_id of
                None \<Rightarrow> tier
              | Some v \<Rightarrow>
                  (case override_classification v of None \<Rightarrow> tier | Some c \<Rightarrow> c)))"

section \<open>The deployed document\<close>

definition py_strs :: "string list \<Rightarrow> pyval" where
  "py_strs ss = PList (map PStr ss)"

definition shipped_policy :: pyval where
  "shipped_policy = PDict
    [(PStr ''safe'', py_strs
       [''resync_ntp'', ''enable_mon_msgr2'', ''create_pool'', ''set_pool_size'',
        ''set_pool_pg_num'', ''edit_pool'', ''scrub_pool'', ''set_pool_protection'',
        ''mark_osd_out'', ''mark_osd_in'', ''mark_osd_down'', ''enable_pool_application'',
        ''rbd_backup_run'', ''retention_sweep_delete'', ''restore_drill_execute'',
        ''backup_metadata_run'', ''crash_archive_all'']),
     (PStr ''risky'', py_strs
       [''cephfs_create_volume'', ''cephfs_create_subvolume'', ''nfs_create_cluster'',
        ''nfs_create_export'', ''nfs_delete_export'', ''rgw_apply_service'',
        ''finish_remove_cluster_nodes'', ''tune_bluestore_slow_ops_warn'',
        ''backup_repair_missing_copy'', ''enable_pool_pg_autoscaler'', ''reshard_rgw_bucket'',
        ''deep_scrub_omap_pg'', ''remove_invalid_rgw_default_key'', ''execute_node_command'',
        ''restart_osd_daemon'', ''finalize_osd_release'', ''hard_reboot_node'',
        ''finalize_pacific_osd_release'', ''upgrade_ceph_cluster'',
        ''upgrade_ceph_cluster_package_download'', ''upgrade_ceph_cluster_package_local'',
        ''deploy_cluster_cephadm'', ''deploy_cluster_ceph_deploy'', ''deploy_cluster_rpm_local'',
        ''convert_cluster_to_cephadm'', ''rbd_create_volume'', ''rbd_resize_volume'',
        ''rbd_rename_volume'', ''rbd_clone_volume'', ''rbd_copy_volume'', ''rbd_move_volume'',
        ''rbd_move_cleanup_partial'', ''rbd_template_mark'', ''rbd_qos_set'',
        ''rbd_trash_move_volume'', ''rbd_trash_restore_volume'', ''cinder_attach_volume'',
        ''cinder_detach_volume'', ''cinder_create_snapshot'', ''volume_perf_sweep'',
        ''vm_perf_benchmark'', ''restore_rbd_image_as_new'', ''evacuate_predicted_failing_osd'',
        ''bluestore_omap_quick_fix'', ''node_os_gate_prepare'', ''node_os_gate_abort'',
        ''node_os_gate_recover'']),
     (PStr ''destructive'', py_strs
       [''replace_failed_osd'', ''finish_replace_osd'', ''remove_cluster_nodes'', ''delete_pool'',
        ''pg_repair_force'', ''delete_cluster_cephadm'', ''delete_cluster_manual'',
        ''restore_cluster_from_backup'', ''rbd_trash_remove'', ''rbd_trash_purge_all'',
        ''cinder_delete_snapshot'', ''restore_rbd_image_to_production'', ''rbd_flatten_volume'',
        ''rbd_move_volume'', ''rbd_move_cleanup_partial'', ''backup_delete_manual'']),
     (PStr ''read_only'', PList [])]"

definition shipped_lists :: action_id_lists where
  "shipped_lists = load_action_id_lists shipped_policy"

section \<open>Lemmas\<close>

lemma override_never_read_only [simp]: "override_classification v \<noteq> Some READ_ONLY"
  by (simp add: override_classification_def)

text \<open>Where no row overrides, the tiers are searched from the most to the least conservative.\<close>

definition no_override :: "string \<Rightarrow> (string \<Rightarrow> string option) option \<Rightarrow> bool" where
  "no_override a session =
     (case session of None \<Rightarrow> True
      | Some get \<Rightarrow> (case get a of None \<Rightarrow> True | Some v \<Rightarrow> override_classification v = None))"

lemma classify_without_override:
  "no_override a session \<Longrightarrow> classify_action L a session = classify_action L a None"
  by (auto simp: classify_action_def no_override_def split: option.splits)

lemma classify_auto_iff:
  "classify_action L a None \<in> {READ_ONLY, SAFE} \<longleftrightarrow>
     a \<in> set (safe_ids L) \<union> set (read_only_ids L)
     \<and> a \<notin> set (risky_ids L) \<and> a \<notin> set (destructive_ids L)"
  by (auto simp: classify_action_def)

lemma classify_unknown:
  "a \<notin> set (safe_ids L) \<Longrightarrow> a \<notin> set (read_only_ids L) \<Longrightarrow> classify_action L a None \<in> {RISKY, DESTRUCTIVE}"
  by (simp add: classify_action_def)

lemma shipped_lists_simps:
  "safe_ids shipped_lists =
     [''resync_ntp'', ''enable_mon_msgr2'', ''create_pool'', ''set_pool_size'',
      ''set_pool_pg_num'', ''edit_pool'', ''scrub_pool'', ''set_pool_protection'',
      ''mark_osd_out'', ''mark_osd_in'', ''mark_osd_down'', ''enable_pool_application'',
      ''rbd_backup_run'', ''retention_sweep_delete'', ''restore_drill_execute'',
      ''backup_metadata_run'', ''crash_archive_all'']"
  "read_only_ids shipped_lists = []"
  by code_simp+

lemma shipped_safe_not_conflicting:
  "list_all (\<lambda>a. a \<notin> set (risky_ids shipped_lists) \<and> a \<notin> set (destructive_ids shipped_lists))
     (safe_ids shipped_lists)"
  by code_simp

section \<open>Properties\<close>

text \<open>
  Conservative default: without an administrator's override an action is classified as one that
  runs without approval exactly when it is listed as safe or read-only and in neither the risky nor
  the destructive list; an unknown action never is.
\<close>

theorem auto_tier_iff_listed:
  assumes "no_override a session"
  shows "classify_action L a session \<in> {READ_ONLY, SAFE} \<longleftrightarrow>
           (a \<in> set (safe_ids L) \<or> a \<in> set (read_only_ids L))
           \<and> a \<notin> set (risky_ids L) \<and> a \<notin> set (destructive_ids L)"
  using classify_auto_iff [of L a] classify_without_override [OF assms, of L] by auto

lemma auto_tier_iff_listed_witness:
  "(classify_action shipped_lists ''rbd_move_volume'' (Some (\<lambda>_. Some ''READ_ONLY'')) \<in> {READ_ONLY, SAFE})
   = ((''rbd_move_volume'' \<in> set (safe_ids shipped_lists)
       \<or> ''rbd_move_volume'' \<in> set (read_only_ids shipped_lists))
      \<and> ''rbd_move_volume'' \<notin> set (risky_ids shipped_lists)
      \<and> ''rbd_move_volume'' \<notin> set (destructive_ids shipped_lists))"
  by (rule auto_tier_iff_listed) (simp add: no_override_def override_classification_def)

end
