(* ===== verification/Guardrails.thy ===== *)
theory Guardrails
  imports PyVal
begin

text \<open>
  The safe-autopilot guardrails of \<open>shared/autopilot_guardrails.py\<close> (mode resolution and the
  ordered guard list) and the server-owned write contract of
  \<open>shared/controlled_action_contract.py\<close>.
\<close>

section \<open>Modes\<close>

datatype autopilot_mode = ADVISORY | APPROVAL_REQUIRED | LIMITED_AUTOPILOT

datatype mode_arg = ModeMember autopilot_mode | ModeText string

fun mode_value :: "autopilot_mode \<Rightarrow> string" where
  "mode_value ADVISORY = ''ADVISORY''"
| "mode_value APPROVAL_REQUIRED = ''APPROVAL_REQUIRED''"
| "mode_value LIMITED_AUTOPILOT = ''LIMITED_AUTOPILOT''"

text \<open>\<open>_mode\<close>: \<open>None\<close> where \<open>AutopilotMode(...)\<close> raises \<open>ValueError\<close>.\<close>

definition parse_mode :: "mode_arg \<Rightarrow> autopilot_mode option" where
  "parse_mode v =
     (case v of
        ModeMember m \<Rightarrow> Some m
      | ModeText t \<Rightarrow>
          find (\<lambda>m. mode_value m = str_upper t) [ADVISORY, APPROVAL_REQUIRED, LIMITED_AUTOPILOT])"

text \<open>
  \<open>cluster_configured_mode\<close>; \<open>loads\<close> is \<open>json.loads\<close> on the mapping's text.
\<close>

definition cluster_configured_mode ::
  "(string \<Rightarrow> json_text) \<Rightarrow> string option \<Rightarrow> string option \<Rightarrow> string option \<Rightarrow> string option" where
  "cluster_configured_mode loads cluster_id raw_mapping fallback_mode =
     (case raw_mapping of
        None \<Rightarrow> fallback_mode
      | Some raw \<Rightarrow>
          (if raw = [] \<or> str_strip raw = [] then fallback_mode
           else
             (case loads raw of
                JMalformed \<Rightarrow> Some (mode_value APPROVAL_REQUIRED)
              | JText mapping \<Rightarrow>
                  (if \<not> is_dict mapping then Some (mode_value APPROVAL_REQUIRED)
                   else
                     (case cluster_id of
                        None \<Rightarrow> Some (mode_value APPROVAL_REQUIRED)
                      | Some c \<Rightarrow>
                          (case dget mapping c of
                             PStr v \<Rightarrow>
                               (if str_strip v = [] then Some (mode_value APPROVAL_REQUIRED)
                                else Some (str_strip v))
                           | _ \<Rightarrow> Some (mode_value APPROVAL_REQUIRED)))))))"

definition resolve_mode :: "bool \<Rightarrow> bool \<Rightarrow> bool \<Rightarrow> autopilot_mode" where
  "resolve_mode global_enabled cluster_enabled advisory_only =
     (if advisory_only then ADVISORY
      else if global_enabled \<and> cluster_enabled then LIMITED_AUTOPILOT
      else APPROVAL_REQUIRED)"

definition effective_runtime_mode :: "bool \<Rightarrow> bool \<Rightarrow> string option \<Rightarrow> autopilot_mode" where
  "effective_runtime_mode global_enabled cluster_enabled configured_mode =
     (let legacy = resolve_mode global_enabled cluster_enabled False in
      if \<not> opt_truthy configured_mode then legacy
      else
        (case parse_mode (ModeText (str_strip (or_empty configured_mode))) of
           None \<Rightarrow> ADVISORY
         | Some requested \<Rightarrow> if legacy \<noteq> LIMITED_AUTOPILOT then legacy else requested))"

section \<open>The guard list\<close>

record guardrail_context =
  gc_mode :: mode_arg
  gc_kill_switch :: bool
  gc_cluster_enabled :: bool
  gc_action_id :: string
  gc_classification :: string
  gc_allowlisted :: bool
  gc_target_count :: int
  gc_max_targets :: int
  gc_actions_used :: int
  gc_action_budget :: int
  gc_cooldown_active :: bool
  gc_health_status :: string
  gc_maintenance_window_open :: bool

datatype guardrail_reason =
    UnknownMode | AdvisoryNeverWrites | KillSwitchActive | ClusterGateDisabled
  | OperatorApprovalRequired | OnlySafeActions | NotAllowlisted | BlastRadiusExceeded
  | BudgetExhausted | CooldownActive | OutsideMaintenanceWindow | HealthFloorBlocks
  | AllGuardrailsPassed

record guardrail_decision =
  gd_allowed :: bool
  gd_reason :: guardrail_reason
  gd_mode :: autopilot_mode
  gd_requires_approval :: bool

definition guard ::
  "bool \<Rightarrow> guardrail_reason \<Rightarrow> autopilot_mode \<Rightarrow> bool \<Rightarrow> guardrail_decision" where
  "guard ok why m appr =
     \<lparr>gd_allowed = ok, gd_reason = why, gd_mode = m, gd_requires_approval = appr\<rparr>"

lemma guard_sel [simp]:
  "gd_allowed (guard ok why m appr) = ok"
  "gd_reason (guard ok why m appr) = why"
  "gd_mode (guard ok why m appr) = m"
  "gd_requires_approval (guard ok why m appr) = appr"
  by (simp_all add: guard_def)

definition evaluate_guardrails :: "guardrail_context \<Rightarrow> guardrail_decision" where
  "evaluate_guardrails c =
     (case parse_mode (gc_mode c) of
        None \<Rightarrow> guard False UnknownMode APPROVAL_REQUIRED False
      | Some m \<Rightarrow>
          (if m = ADVISORY then guard False AdvisoryNeverWrites m True
           else if \<not> gc_kill_switch c then guard False KillSwitchActive m True
           else if \<not> gc_cluster_enabled c then guard False ClusterGateDisabled m True
           else if m = APPROVAL_REQUIRED then guard False OperatorApprovalRequired m True
           else if str_upper (gc_classification c) \<noteq> ''SAFE'' then guard False OnlySafeActions m True
           else if \<not> gc_allowlisted c then guard False NotAllowlisted m True
           else if gc_target_count c < 1 \<or> gc_target_count c > gc_max_targets c
           then guard False BlastRadiusExceeded m True
           else if gc_actions_used c \<ge> gc_action_budget c then guard False BudgetExhausted m True
           else if gc_cooldown_active c then guard False CooldownActive m True
           else if \<not> gc_maintenance_window_open c then guard False OutsideMaintenanceWindow m True
           else if str_upper (gc_health_status c) \<in> {''HEALTH_ERR'', ''CRITICAL'', ''UNKNOWN''}
           then guard False HealthFloorBlocks m True
           else guard True AllGuardrailsPassed m False))"

record operator_view =
  ov_mode :: string
  ov_action_id :: string
  ov_classification :: string
  ov_decision :: string
  ov_reason :: guardrail_reason
  ov_requires_approval :: bool
  ov_controls :: guardrail_context

definition operator_snapshot :: "guardrail_context \<Rightarrow> operator_view" where
  "operator_snapshot c =
     (let d = evaluate_guardrails c in
      \<lparr>ov_mode = mode_value (gd_mode d), ov_action_id = gc_action_id c,
       ov_classification = str_upper (gc_classification c),
       ov_decision = (if gd_allowed d then ''ALLOWED'' else ''BLOCKED''),
       ov_reason = gd_reason d, ov_requires_approval = gd_requires_approval d,
       ov_controls = c\<rparr>)"

section \<open>The controlled write contract\<close>

record controlled_action =
  ca_action_id :: string
  ca_domain :: string
  ca_classification :: string
  ca_max_targets :: int
  ca_shadow_required :: bool
  ca_requires_approval :: bool

definition controlled :: "string \<Rightarrow> string \<Rightarrow> string \<Rightarrow> int \<Rightarrow> controlled_action" where
  "controlled a d c n =
     \<lparr>ca_action_id = a, ca_domain = d, ca_classification = c, ca_max_targets = n,
      ca_shadow_required = True, ca_requires_approval = True\<rparr>"

definition controlled_actions :: "(string \<times> controlled_action) list" where
  "controlled_actions = map (\<lambda>a. (ca_action_id a, a))
    [controlled ''reshard_rgw_bucket'' ''RGW'' ''RISKY'' 1,
     controlled ''rgw_user_suspend'' ''RGW'' ''DESTRUCTIVE'' 1,
     controlled ''rgw_bucket_policy_update'' ''RGW'' ''RISKY'' 1,
     controlled ''rbd_resize_volume'' ''BLOCK'' ''RISKY'' 1,
     controlled ''rbd_trash_move_volume'' ''BLOCK'' ''RISKY'' 1,
     controlled ''rbd_trash_restore_volume'' ''BLOCK'' ''RISKY'' 1,
     controlled ''cinder_attach_volume'' ''BLOCK'' ''RISKY'' 1,
     controlled ''cinder_detach_volume'' ''BLOCK'' ''RISKY'' 1,
     controlled ''vitastor_resize_volume'' ''VITASTOR'' ''RISKY'' 1,
     controlled ''vitastor_snapshot_create'' ''VITASTOR'' ''RISKY'' 1,
     controlled ''vitastor_snapshot_delete'' ''VITASTOR'' ''DESTRUCTIVE'' 1]"

datatype controlled_reason =
    NotInAllowlist | TargetCountExceeds | PreflightRequired | TelemetryRequired
  | ShadowRequired | ApprovalRequired | GatesPassed

record controlled_decision =
  cd_allowed :: bool
  cd_action :: "controlled_action option"
  cd_reason :: controlled_reason

definition cdec :: "bool \<Rightarrow> controlled_action option \<Rightarrow> controlled_reason \<Rightarrow> controlled_decision" where
  "cdec ok a why = \<lparr>cd_allowed = ok, cd_action = a, cd_reason = why\<rparr>"

lemma cdec_sel [simp]:
  "cd_allowed (cdec ok a why) = ok" "cd_action (cdec ok a why) = a" "cd_reason (cdec ok a why) = why"
  by (simp_all add: cdec_def)

definition evaluate_controlled_action ::
  "string \<Rightarrow> int \<Rightarrow> bool \<Rightarrow> bool \<Rightarrow> bool \<Rightarrow> bool \<Rightarrow> bool \<Rightarrow> controlled_decision" where
  "evaluate_controlled_action action_id target_count approved capability_verified target_verified
     fresh_telemetry shadow_passed =
     (case map_of controlled_actions (str_strip action_id) of
        None \<Rightarrow> cdec False None NotInAllowlist
      | Some a \<Rightarrow>
          (if target_count < 1 \<or> target_count > ca_max_targets a
           then cdec False (Some a) TargetCountExceeds
           else if \<not> capability_verified \<or> \<not> target_verified
           then cdec False (Some a) PreflightRequired
           else if \<not> fresh_telemetry then cdec False (Some a) TelemetryRequired
           else if ca_shadow_required a \<and> \<not> shadow_passed then cdec False (Some a) ShadowRequired
           else if ca_requires_approval a \<and> \<not> approved then cdec False (Some a) ApprovalRequired
           else cdec True (Some a) GatesPassed))"

definition allowed_domains :: "string list" where
  "allowed_domains = sorted_set (map (ca_domain \<circ> snd) controlled_actions)"

section \<open>Lemmas\<close>

fun mode_rank :: "autopilot_mode \<Rightarrow> nat" where
  "mode_rank ADVISORY = 0"
| "mode_rank APPROVAL_REQUIRED = 1"
| "mode_rank LIMITED_AUTOPILOT = 2"

lemma mode_rank_le: "mode_rank m \<le> 2"
  by (cases m) simp_all

lemma controlled_all:
  "map_of controlled_actions k = Some a \<Longrightarrow>
     ca_shadow_required a \<and> ca_requires_approval a \<and> ca_max_targets a = 1"
  by (drule map_of_SomeD) (auto simp: controlled_actions_def controlled_def)

section \<open>Properties\<close>

text \<open>
  The guard list is complete: the limited autopilot executes exactly when every guard passes, and
  a decision that blocks under a known mode always asks for approval.
\<close>

theorem guardrails_exact:
  "(gd_allowed (evaluate_guardrails c) \<longleftrightarrow>
      parse_mode (gc_mode c) = Some LIMITED_AUTOPILOT \<and> gc_kill_switch c \<and> gc_cluster_enabled c
      \<and> str_upper (gc_classification c) = ''SAFE'' \<and> gc_allowlisted c
      \<and> 1 \<le> gc_target_count c \<and> gc_target_count c \<le> gc_max_targets c
      \<and> gc_actions_used c < gc_action_budget c \<and> \<not> gc_cooldown_active c
      \<and> gc_maintenance_window_open c
      \<and> str_upper (gc_health_status c) \<notin> {''HEALTH_ERR'', ''CRITICAL'', ''UNKNOWN''})
   \<and> gd_requires_approval (evaluate_guardrails c) =
       (parse_mode (gc_mode c) \<noteq> None \<and> \<not> gd_allowed (evaluate_guardrails c))"
proof (cases "parse_mode (gc_mode c)")
  case None
  then show ?thesis by (simp add: evaluate_guardrails_def)
next
  case (Some m)
  then show ?thesis
    by (cases m) (simp_all add: evaluate_guardrails_def not_le not_less)
qed

text \<open>
  A configured mode only reduces what the two switches grant; limited autopilot needs both
  switches on and a configuration that is absent or names that very mode.
\<close>

theorem configured_mode_never_grants:
  "mode_rank (effective_runtime_mode g cl cfg) \<le> mode_rank (resolve_mode g cl False)
   \<and> (effective_runtime_mode g cl cfg = LIMITED_AUTOPILOT \<longleftrightarrow>
        g \<and> cl \<and> (cfg \<in> {None, Some []}
                  \<or> parse_mode (ModeText (str_strip (or_empty cfg))) = Some LIMITED_AUTOPILOT))"
  by (auto simp: effective_runtime_mode_def resolve_mode_def Let_def mode_rank_le opt_truthy_def
      split: option.splits)

text \<open>
  A controlled write passes only for a listed action, with exactly one target, with preflight,
  fresh telemetry, shadow evidence and an operator's approval all present.
\<close>

theorem controlled_write_needs_everything:
  "cd_allowed (evaluate_controlled_action a n approved cap tgt fresh shadow) \<longleftrightarrow>
     map_of controlled_actions (str_strip a) \<noteq> None \<and> n = 1 \<and> approved \<and> cap \<and> tgt \<and> fresh \<and> shadow"
  using controlled_all [of "str_strip a"]
  by (auto simp: evaluate_controlled_action_def split: option.splits)

end
