(* ===== verification/Playbooks.thy ===== *)
theory Playbooks
  imports Policy
begin

text \<open>
  The playbook registry of \<open>worker/policy/playbook_registry.py\<close> (contracts, their validation, the
  resolution of a frozen case contract, post-checks, the automatic-execution decision) and the
  rollback planner of \<open>shared/rollback_planner.py\<close>.
\<close>

section \<open>Contracts\<close>

definition levels :: "(string \<times> nat) list" where
  "levels = [(''L0'', 0), (''L1'', 1), (''L2'', 2), (''L3'', 3), (''L4'', 4), (''L5'', 5)]"

definition target_schemas :: "string list" where
  "target_schemas = [''cluster'', ''host'', ''osd'', ''pool'', ''pg'', ''manual'']"

definition preflight_hooks :: "string list" where
  "preflight_hooks = [''capability_and_operational_preflight'']"

definition postcheck_hooks :: "string list" where
  "postcheck_hooks =
     [''fresh_health_telemetry'', ''node_and_cluster_health_telemetry'',
      ''osd_and_fault_health_telemetry'', ''osd_release_health_telemetry'',
      ''pool_application_health_telemetry'', ''pool_pg_health_telemetry'']"

definition postcheck_max_timeout_seconds :: int where
  "postcheck_max_timeout_seconds = 24 * 60 * 60"

definition health_floors :: "string list" where
  "health_floors = [''NO_NEW_CRITICAL'']"

record playbook_contract =
  pc_action_id :: string
  pc_version :: string
  pc_target_schema :: string
  pc_max_autonomy :: string
  pc_conflict_scope :: string
  pc_max_targets :: int
  pc_cooldown_seconds :: int
  pc_command_builder :: "string option"
  pc_command_builder_version :: "string option"
  pc_preflight :: "string option"
  pc_postcheck :: "string option"
  pc_rollback :: "string option"
  pc_postcheck_timeout_seconds :: int
  pc_health_floor :: string

text \<open>\<open>snapshot\<close>; \<open>sha\<close> is the SHA-256 of the canonical JSON text of the payload.\<close>

definition contract_fields :: "playbook_contract \<Rightarrow> (pyval \<times> pyval) list" where
  "contract_fields c =
     [(PStr ''action_id'', PStr (pc_action_id c)),
      (PStr ''version'', PStr (pc_version c)),
      (PStr ''target_schema'', PStr (pc_target_schema c)),
      (PStr ''max_autonomy'', PStr (pc_max_autonomy c)),
      (PStr ''conflict_scope'', PStr (pc_conflict_scope c)),
      (PStr ''max_targets'', PInt (pc_max_targets c)),
      (PStr ''cooldown_seconds'', PInt (pc_cooldown_seconds c)),
      (PStr ''command_builder'', opt_py (pc_command_builder c)),
      (PStr ''command_builder_version'', opt_py (pc_command_builder_version c)),
      (PStr ''preflight'', opt_py (pc_preflight c)),
      (PStr ''postcheck'', opt_py (pc_postcheck c)),
      (PStr ''rollback'', opt_py (pc_rollback c)),
      (PStr ''postcheck_timeout_seconds'', PInt (pc_postcheck_timeout_seconds c)),
      (PStr ''health_floor'', PStr (pc_health_floor c))]"

definition contract_snapshot :: "(pyval \<Rightarrow> string) \<Rightarrow> playbook_contract \<Rightarrow> pyval" where
  "contract_snapshot sha c =
     (let payload = contract_fields c @
        [(PStr ''postcheck_contract'', PDict
            [(PStr ''hook_id'', opt_py (pc_postcheck c)),
             (PStr ''timeout_seconds'', PInt (pc_postcheck_timeout_seconds c)),
             (PStr ''health_floor'', PStr (pc_health_floor c)),
             (PStr ''success_criteria'', py_strs [''fresh_telemetry'', ''fault_absent'', ''no_new_critical'']),
             (PStr ''rollback_action_id'', opt_py (pc_rollback c)),
             (PStr ''rollback_supported'', PBool (opt_truthy (pc_rollback c))),
             (PStr ''rollback_requires_approval'', PBool True)])]
      in PDict (payload @ [(PStr ''contract_checksum'', PStr (sha (PDict payload)))]))"

text \<open>\<open>_contract\<close> with its default arguments; an entry overrides fields by record update.\<close>

definition contract ::
  "string \<Rightarrow> string \<Rightarrow> string \<Rightarrow> string \<Rightarrow> playbook_contract" where
  "contract a schema autonomy scope =
     \<lparr>pc_action_id = a, pc_version = ''1'', pc_target_schema = schema, pc_max_autonomy = autonomy,
      pc_conflict_scope = scope, pc_max_targets = 1, pc_cooldown_seconds = 1800,
      pc_command_builder = Some ''closed_command_builder'', pc_command_builder_version = Some ''1'',
      pc_preflight = Some ''capability_and_operational_preflight'',
      pc_postcheck = Some ''fresh_health_telemetry'', pc_rollback = None,
      pc_postcheck_timeout_seconds = 300, pc_health_floor = ''NO_NEW_CRITICAL''\<rparr>"

definition playbooks :: "(string \<times> playbook_contract) list" where
  "playbooks = map (\<lambda>c. (pc_action_id c, c))
    [(contract ''resync_ntp'' ''host'' ''L3'' ''host'')\<lparr>pc_version := ''3'', pc_max_targets := 2\<rparr>,
     (contract ''enable_mon_msgr2'' ''cluster'' ''L3'' ''cluster'')
       \<lparr>pc_version := ''3'', pc_cooldown_seconds := 3600\<rparr>,
     (contract ''crash_archive_all'' ''cluster'' ''L3'' ''cluster'')\<lparr>pc_cooldown_seconds := 3600\<rparr>,
     (contract ''restart_osd_daemon'' ''osd'' ''L3'' ''osd'')
       \<lparr>pc_max_targets := 0, pc_postcheck := Some ''osd_and_fault_health_telemetry''\<rparr>,
     (contract ''finalize_osd_release'' ''cluster'' ''L2'' ''cluster'')
       \<lparr>pc_postcheck := Some ''osd_release_health_telemetry''\<rparr>,
     (contract ''set_pool_pg_num'' ''pool'' ''L2'' ''cluster'')
       \<lparr>pc_postcheck := Some ''pool_pg_health_telemetry''\<rparr>,
     (contract ''enable_pool_pg_autoscaler'' ''pool'' ''L2'' ''cluster'')
       \<lparr>pc_postcheck := Some ''pool_pg_health_telemetry''\<rparr>,
     (contract ''reshard_rgw_bucket'' ''cluster'' ''L3'' ''cluster'')\<lparr>pc_cooldown_seconds := 0\<rparr>,
     (contract ''deep_scrub_omap_pg'' ''cluster'' ''L2'' ''cluster'')\<lparr>pc_cooldown_seconds := 3600\<rparr>,
     (contract ''enable_pool_application'' ''pool'' ''L2'' ''cluster'')
       \<lparr>pc_postcheck := Some ''pool_application_health_telemetry''\<rparr>,
     (contract ''hard_reboot_node'' ''host'' ''L2'' ''host'')
       \<lparr>pc_postcheck := Some ''node_and_cluster_health_telemetry''\<rparr>,
     (contract ''pg_repair_force'' ''pg'' ''L2'' ''pg'')
       \<lparr>pc_command_builder := None, pc_preflight := None, pc_postcheck := None,
        pc_command_builder_version := None\<rparr>,
     (contract ''investigate_manually'' ''manual'' ''L1'' ''none'')
       \<lparr>pc_max_targets := 0, pc_cooldown_seconds := 0, pc_command_builder := None,
        pc_preflight := None, pc_postcheck := None, pc_command_builder_version := None\<rparr>,
     contract ''remove_invalid_rgw_default_key'' ''host'' ''L2'' ''cluster'']"

definition get_contract :: "string \<Rightarrow> playbook_contract option" where
  "get_contract a = map_of playbooks a"

section \<open>Validation\<close>

datatype contract_error =
    MissingActionId | MissingVersion | UnknownTargetSchema string | InvalidMaxAutonomy string
  | MissingConflictScope | NegativeMaxTargets | NegativeCooldown | TimeoutOutsideRange
  | MissingHealthFloor | UnknownHealthFloor string | MissingBuilderVersion
  | UnregisteredPreflight string | UnregisteredPostcheck string

definition validate_contract :: "playbook_contract \<Rightarrow> contract_error list" where
  "validate_contract c =
     (if pc_action_id c = [] then [MissingActionId] else []) @
     (if pc_version c = [] then [MissingVersion] else []) @
     (if pc_target_schema c \<notin> set target_schemas then [UnknownTargetSchema (pc_target_schema c)] else []) @
     (if map_of levels (pc_max_autonomy c) = None then [InvalidMaxAutonomy (pc_max_autonomy c)] else []) @
     (if pc_conflict_scope c = [] then [MissingConflictScope] else []) @
     (if pc_max_targets c < 0 then [NegativeMaxTargets] else []) @
     (if pc_cooldown_seconds c < 0 then [NegativeCooldown] else []) @
     (if \<not> (1 \<le> pc_postcheck_timeout_seconds c
             \<and> pc_postcheck_timeout_seconds c \<le> postcheck_max_timeout_seconds)
      then [TimeoutOutsideRange] else []) @
     (if pc_health_floor c = [] then [MissingHealthFloor]
      else if pc_health_floor c \<notin> set health_floors then [UnknownHealthFloor (pc_health_floor c)]
      else []) @
     (if opt_truthy (pc_command_builder c) \<and> \<not> opt_truthy (pc_command_builder_version c)
      then [MissingBuilderVersion] else []) @
     (if opt_truthy (pc_preflight c) \<and> or_empty (pc_preflight c) \<notin> set preflight_hooks
      then [UnregisteredPreflight (or_empty (pc_preflight c))] else []) @
     (if opt_truthy (pc_postcheck c) \<and> or_empty (pc_postcheck c) \<notin> set postcheck_hooks
      then [UnregisteredPostcheck (or_empty (pc_postcheck c))] else [])"

definition registry_coverage :: "string list \<Rightarrow> string list" where
  "registry_coverage required =
     sorted_set (filter (\<lambda>a. a \<notin> set (map fst playbooks)) required)"

section \<open>Resolving a frozen case contract\<close>

datatype resolve_error =
    SnapshotMalformed | NoRegisteredContract | ActionIdMismatch | VersionMismatch
  | HookNotRegistered pyval | NoInverseRegistered | RollbackNotRegistered | RollbackIsOriginal

text \<open>The checks both resolvers start with.\<close>

definition case_registry :: "string \<Rightarrow> string \<Rightarrow> pyval \<Rightarrow> resolve_error + pyval" where
  "case_registry action_id playbook_version snapshot =
     (if \<not> is_dict snapshot then Inl SnapshotMalformed
      else
        (let registry = dget snapshot ''registry'' in
         if \<not> is_dict registry then Inl NoRegisteredContract
         else if dget registry ''action_id'' \<noteq> PStr action_id then Inl ActionIdMismatch
         else if py_str (dget registry ''version'') \<noteq> playbook_version then Inl VersionMismatch
         else Inr registry))"

text \<open>The outer sum is an exception that escapes: a list or a dictionary as a hook id.\<close>

definition resolve_case_postcheck ::
  "string \<Rightarrow> string \<Rightarrow> pyval \<Rightarrow> py_exn + (resolve_error + string)" where
  "resolve_case_postcheck action_id playbook_version snapshot =
     (case case_registry action_id playbook_version snapshot of
        Inl e \<Rightarrow> Inr (Inl e)
      | Inr registry \<Rightarrow>
          (let hook = dget registry ''postcheck'' in
           case in_strings hook postcheck_hooks of
             Inl x \<Rightarrow> Inl x
           | Inr b \<Rightarrow> Inr (if b then Inr (py_str hook) else Inl (HookNotRegistered hook))))"

definition resolve_case_rollback ::
  "string \<Rightarrow> string \<Rightarrow> pyval \<Rightarrow> resolve_error + string" where
  "resolve_case_rollback action_id playbook_version snapshot =
     (case case_registry action_id playbook_version snapshot of
        Inl e \<Rightarrow> Inl e
      | Inr registry \<Rightarrow>
          (let rollback = dget registry ''rollback'' in
           if \<not> truthy rollback then Inl NoInverseRegistered
           else if get_contract (py_str rollback) = None then Inl RollbackNotRegistered
           else if py_str rollback = action_id then Inl RollbackIsOriginal
           else Inr (py_str rollback)))"

section \<open>Post-checks\<close>

datatype postcheck_outcome = PC_PASSED | PC_FAILED | PC_INCONCLUSIVE

datatype postcheck_reason =
    FaultStillPresent | FaultAbsent | HookUnresolvable string | FloorUnresolvable pyval
  | FloorViolated | NoExecutedAction | LegacyFaultAbsence | ContractError resolve_error
  | TimeoutMalformed | TimeoutExceeded int

record postcheck_result =
  pr_outcome :: postcheck_outcome
  pr_reason :: postcheck_reason
  pr_hook :: "string option"

definition presult ::
  "postcheck_outcome \<Rightarrow> postcheck_reason \<Rightarrow> string option \<Rightarrow> postcheck_result" where
  "presult oc why h = \<lparr>pr_outcome = oc, pr_reason = why, pr_hook = h\<rparr>"

lemma presult_sel [simp]:
  "pr_outcome (presult oc why h) = oc" "pr_reason (presult oc why h) = why"
  "pr_hook (presult oc why h) = h"
  by (simp_all add: presult_def)

definition fault_absence_postcheck :: "bool \<Rightarrow> pyval \<Rightarrow> postcheck_result" where
  "fault_absence_postcheck fault_present health =
     (if fault_present then presult PC_FAILED FaultStillPresent None
      else presult PC_PASSED FaultAbsent None)"

definition critical_health :: "pyval \<Rightarrow> bool" where
  "critical_health health =
     (str_upper (py_str (por (dget health ''status'')
                             (por (dget health ''overall_status'') (PStr []))))
      \<in> {''HEALTH_ERR'', ''HEALTH_CRITICAL'', ''CRITICAL'', ''ERROR''})"

definition run_postcheck ::
  "string \<Rightarrow> bool \<Rightarrow> pyval \<Rightarrow> pyval \<Rightarrow> py_exn + postcheck_result" where
  "run_postcheck hook_id fault_present health health_floor =
     (if hook_id \<notin> set postcheck_hooks
      then Inr (presult PC_INCONCLUSIVE (HookUnresolvable hook_id) None)
      else
        (case in_strings health_floor health_floors of
           Inl x \<Rightarrow> Inl x
         | Inr False \<Rightarrow> Inr (presult PC_INCONCLUSIVE (FloorUnresolvable health_floor) None)
         | Inr True \<Rightarrow>
             (if health_floor = PStr ''NO_NEW_CRITICAL'' \<and> is_dict health \<and> critical_health health
              then Inr (presult PC_INCONCLUSIVE FloorViolated None)
              else
                (let r = fault_absence_postcheck fault_present health
                 in Inr (presult (pr_outcome r) (pr_reason r) (Some hook_id))))))"

section \<open>Administrator view\<close>

datatype eligibility_reason =
    CompleteContract | ContractInvalid "contract_error list" | LacksHooks | BuilderUnavailable
  | AutonomyCeiling string | OsdConditional | PolicyClassified action_classification

record contract_description =
  dn_contract :: playbook_contract
  dn_policy_classification :: action_classification
  dn_status :: string
  dn_reason :: eligibility_reason
  dn_builder_available :: bool
  dn_preflight_registered :: bool
  dn_postcheck_registered :: bool

definition incomplete :: "playbook_contract \<Rightarrow> bool" where
  "incomplete c = (\<not> opt_truthy (pc_command_builder c) \<or> \<not> opt_truthy (pc_preflight c)
                   \<or> \<not> opt_truthy (pc_postcheck c))"

definition level_of :: "string \<Rightarrow> nat" where
  "level_of l = (case map_of levels l of None \<Rightarrow> 0 | Some n \<Rightarrow> n)"

definition describe_contract ::
  "action_id_lists \<Rightarrow> playbook_contract \<Rightarrow> bool \<Rightarrow> contract_description" where
  "describe_contract L c command_builder_available =
     (let errors = validate_contract c;
          policy_class = classify_action L (pc_action_id c) None;
          view = (\<lambda>status reason.
            \<lparr>dn_contract = c, dn_policy_classification = policy_class, dn_status = status,
             dn_reason = reason, dn_builder_available = command_builder_available,
             dn_preflight_registered =
               (case pc_preflight c of None \<Rightarrow> False | Some h \<Rightarrow> h \<in> set preflight_hooks),
             dn_postcheck_registered =
               (case pc_postcheck c of None \<Rightarrow> False | Some h \<Rightarrow> h \<in> set postcheck_hooks)\<rparr>)
      in if errors \<noteq> [] then view ''INVALID'' (ContractInvalid errors)
         else if incomplete c then view ''L2_ONLY'' LacksHooks
         else if \<not> command_builder_available then view ''L2_ONLY'' BuilderUnavailable
         else if level_of (pc_max_autonomy c) < level_of ''L3''
         then view ''L2_ONLY'' (AutonomyCeiling (pc_max_autonomy c))
         else if policy_class = DESTRUCTIVE \<or> policy_class = RISKY
         then (if pc_action_id c = ''restart_osd_daemon'' then view ''CONDITIONAL'' OsdConditional
               else view ''L2_ONLY'' (PolicyClassified policy_class))
         else view ''L3_READY'' CompleteContract)"

definition registry_status_rows ::
  "action_id_lists \<Rightarrow> (string \<Rightarrow> bool) \<Rightarrow> contract_description list" where
  "registry_status_rows L command_available =
     map (\<lambda>p. describe_contract L (snd p) (command_available (fst p))) (sort_by fst playbooks)"

section \<open>The automatic-execution decision\<close>

datatype target_error =
    TargetsMissing | TargetsInvalidHost | TargetCountExceedsCeiling nat int | OsdIdsRequired
  | OsdInvalidId | OsdCountExceedsCeiling nat int

definition valid_host :: "pyval \<Rightarrow> bool" where
  "valid_host v = (case v of PStr s \<Rightarrow> str_strip s \<noteq> [] | _ \<Rightarrow> False)"

definition osd_ids_of :: "pyval \<Rightarrow> pyval list option" where
  "osd_ids_of action_params =
     (let params = (if is_dict action_params then action_params else PDict []);
          cephadm_ids = dget params ''cephadm_osd_ids'';
          by_host = dget params ''osd_ids_by_host''
      in if is_list cephadm_ids then Some (elems_of cephadm_ids)
         else if is_dict by_host
         then Some (concat (map (\<lambda>kv. elems_of (snd kv)) (items_of by_host)))
         else None)"

definition validate_runtime_target ::
  "playbook_contract \<Rightarrow> pyval \<Rightarrow> pyval \<Rightarrow> target_error option" where
  "validate_runtime_target c target_nodes action_params =
     (if \<not> is_list target_nodes \<or> elems_of target_nodes = [] then Some TargetsMissing
      else if \<not> list_all valid_host (elems_of target_nodes) then Some TargetsInvalidHost
      else if pc_max_targets c > 0 \<and> int (length (elems_of target_nodes)) > pc_max_targets c
      then Some (TargetCountExceedsCeiling (length (elems_of target_nodes)) (pc_max_targets c))
      else if pc_target_schema c = ''osd''
      then
        (case osd_ids_of action_params of
           None \<Rightarrow> Some OsdIdsRequired
         | Some ids \<Rightarrow>
             (if ids = [] \<or> \<not> list_all (\<lambda>v. str_isdigit (py_str v)) ids then Some OsdInvalidId
              else if pc_max_targets c > 0 \<and> int (length ids) > pc_max_targets c
              then Some (OsdCountExceedsCeiling (length ids) (pc_max_targets c))
              else None))
      else None)"

text \<open>The reason's text starts with \<open>target_nodes\<close> or contains \<open>invalid id\<close>.\<close>

fun malformed_target :: "target_error \<Rightarrow> bool" where
  "malformed_target TargetsMissing = True"
| "malformed_target TargetsInvalidHost = True"
| "malformed_target OsdInvalidId = True"
| "malformed_target _ = False"

datatype contract_reason =
    NotRegistered | Invalid "contract_error list" | LacksBuilderOrChecks
  | RegisteredBuilderUnavailable | NotAutoExecutable string | PlaybookCeiling string
  | TargetRejected target_error | PermitsL3

record contract_decision =
  ad_allowed :: bool
  ad_reason :: contract_reason
  ad_contract :: "playbook_contract option"
  ad_effective_max_autonomy :: string
  ad_hard_failure :: bool

definition adec ::
  "bool \<Rightarrow> contract_reason \<Rightarrow> playbook_contract option \<Rightarrow> string \<Rightarrow> bool \<Rightarrow> contract_decision" where
  "adec ok why c eff hard =
     \<lparr>ad_allowed = ok, ad_reason = why, ad_contract = c, ad_effective_max_autonomy = eff,
      ad_hard_failure = hard\<rparr>"

lemma adec_sel [simp]:
  "ad_allowed (adec ok why c eff hard) = ok" "ad_reason (adec ok why c eff hard) = why"
  "ad_contract (adec ok why c eff hard) = c"
  "ad_effective_max_autonomy (adec ok why c eff hard) = eff"
  "ad_hard_failure (adec ok why c eff hard) = hard"
  by (simp_all add: adec_def)

definition evaluate_auto_execution ::
  "string \<Rightarrow> string \<Rightarrow> pyval \<Rightarrow> pyval \<Rightarrow> bool \<Rightarrow> contract_decision" where
  "evaluate_auto_execution action_id classification target_nodes action_params
     command_builder_available =
     (case get_contract action_id of
        None \<Rightarrow> adec False NotRegistered None ''L2'' False
      | Some c \<Rightarrow>
          (let errors = validate_contract c in
           if errors \<noteq> [] then adec False (Invalid errors) (Some c) ''L2'' False
           else if incomplete c then adec False LacksBuilderOrChecks (Some c) ''L2'' False
           else if \<not> command_builder_available
           then adec False RegisteredBuilderUnavailable (Some c) ''L2'' False
           else if classification \<notin> {classification_value READ_ONLY, classification_value SAFE}
           then adec False (NotAutoExecutable classification) (Some c) ''L2'' False
           else if level_of (pc_max_autonomy c) < level_of ''L3''
           then adec False (PlaybookCeiling (pc_max_autonomy c)) (Some c) (pc_max_autonomy c) False
           else
             (case validate_runtime_target c target_nodes action_params of
                Some e \<Rightarrow> adec False (TargetRejected e) (Some c) ''L2'' (malformed_target e)
              | None \<Rightarrow> adec True PermitsL3 (Some c) (pc_max_autonomy c) False)))"

section \<open>Rollback planning\<close>

datatype rollback_reason =
    NoAssumedInverse | Unresolved resolve_error | LacksTestedEvidence | ApprovalStillRequired
  | ApprovalPresent

record rollback_plan =
  rp_supported :: bool
  rp_executable :: bool
  rp_original :: string
  rp_rollback :: "string option"
  rp_reason :: rollback_reason
  rp_requires_approval :: bool
  rp_contract_frozen :: bool
  rp_inverse_tested :: bool
  rp_operator_approved :: bool

definition plan_case_rollback ::
  "string \<Rightarrow> string \<Rightarrow> pyval \<Rightarrow> bool \<Rightarrow> bool \<Rightarrow> string option \<Rightarrow> rollback_plan" where
  "plan_case_rollback action_id playbook_version snapshot inverse_tested operator_approved
     classification =
     (let plan = (\<lambda>supported executable rb why.
            \<lparr>rp_supported = supported, rp_executable = executable, rp_original = action_id,
             rp_rollback = rb, rp_reason = why, rp_requires_approval = True,
             rp_contract_frozen = is_dict snapshot, rp_inverse_tested = inverse_tested,
             rp_operator_approved = operator_approved\<rparr>)
      in if str_upper (or_empty classification) \<in> {''DESTRUCTIVE'', ''DATA_REPAIR''}
         then plan False False None NoAssumedInverse
         else
           (case resolve_case_rollback action_id playbook_version snapshot of
              Inl e \<Rightarrow> plan False False None (Unresolved e)
            | Inr rb \<Rightarrow>
                (if \<not> inverse_tested then plan False False (Some rb) LacksTestedEvidence
                 else if \<not> operator_approved
                 then plan True False (Some rb) ApprovalStillRequired
                 else plan True True (Some rb) ApprovalPresent)))"

section \<open>Lemmas\<close>


lemma playbooks_keyed: "(a, c) \<in> set playbooks \<Longrightarrow> pc_action_id c = a"
  by (auto simp: playbooks_def)

lemma playbooks_valid: "list_all (\<lambda>p. validate_contract (snd p) = []) playbooks"
  by code_simp

lemma playbooks_no_rollback: "list_all (\<lambda>p. pc_rollback (snd p) = None) playbooks"
  by code_simp



lemma auto_execution_allowedE:
  assumes "ad_allowed (evaluate_auto_execution a k tn params b)"
  obtains c where "get_contract a = Some c" "validate_contract c = []" "\<not> incomplete c" "b"
    "k \<in> {classification_value READ_ONLY, classification_value SAFE}"
    "3 \<le> level_of (pc_max_autonomy c)" "validate_runtime_target c tn params = None"
  using assms
  by (auto simp: evaluate_auto_execution_def Let_def level_of_def levels_def
        split: option.splits if_splits)

lemma validate_runtime_target_None:
  "validate_runtime_target c tn params = None \<Longrightarrow>
     is_list tn \<and> elems_of tn \<noteq> [] \<and> list_all valid_host (elems_of tn)
     \<and> (pc_max_targets c > 0 \<longrightarrow> int (length (elems_of tn)) \<le> pc_max_targets c)
     \<and> (pc_target_schema c = ''osd'' \<longrightarrow>
          (\<exists>ids. osd_ids_of params = Some ids \<and> ids \<noteq> []
             \<and> list_all (\<lambda>v. str_isdigit (py_str v)) ids
             \<and> (pc_max_targets c > 0 \<longrightarrow> int (length ids) \<le> pc_max_targets c)))"
  by (auto simp: validate_runtime_target_def split: if_splits option.splits)

lemma dget_contract_snapshot [simp]:
  "dget (contract_snapshot sha c) ''action_id'' = PStr (pc_action_id c)"
  "dget (contract_snapshot sha c) ''version'' = PStr (pc_version c)"
  "dget (contract_snapshot sha c) ''postcheck'' = opt_py (pc_postcheck c)"
  "dget (contract_snapshot sha c) ''rollback'' = opt_py (pc_rollback c)"
  by (simp_all add: contract_snapshot_def contract_fields_def Let_def)

lemma is_dict_contract_snapshot [simp]: "is_dict (contract_snapshot sha c)"
  by (simp add: contract_snapshot_def Let_def)

lemma case_registry_frozen:
  "case_registry (pc_action_id c) v (PDict ((PStr ''registry'', contract_snapshot sha c) # rest)) =
     (if v = pc_version c then Inr (contract_snapshot sha c) else Inl VersionMismatch)"
  by (auto simp: case_registry_def)

lemma resolve_case_rollback_Inr:
  "resolve_case_rollback a v s = Inr rb \<Longrightarrow> get_contract rb \<noteq> None \<and> rb \<noteq> a"
  by (auto simp: resolve_case_rollback_def Let_def split: sum.splits if_splits)

section \<open>Properties\<close>



text \<open>
  C2. An automatic execution names real targets inside the contract's ceiling: a non-empty list of
  non-blank hosts, and for an OSD playbook a non-empty list of numeric OSD ids.
\<close>

theorem auto_execution_bounded_targets:
  assumes "ad_allowed (evaluate_auto_execution a k tn params b)"
  shows "\<exists>c hosts. get_contract a = Some c \<and> tn = PList hosts \<and> hosts \<noteq> []
           \<and> list_all valid_host hosts
           \<and> (0 < pc_max_targets c \<longrightarrow> int (length hosts) \<le> pc_max_targets c)
           \<and> (pc_target_schema c = ''osd'' \<longrightarrow>
                (\<exists>ids. osd_ids_of params = Some ids \<and> ids \<noteq> []
                   \<and> list_all (\<lambda>v. str_isdigit (py_str v)) ids))"
proof -
  from assms obtain c where c: "get_contract a = Some c"
    and v: "validate_runtime_target c tn params = None"
    by (elim auto_execution_allowedE)
  from validate_runtime_target_None [OF v] obtain hosts where "tn = PList hosts"
    by (auto elim: is_listE)
  with c validate_runtime_target_None [OF v] show ?thesis by fastforce
qed

lemma auto_execution_bounded_targets_witness:
  "\<exists>c hosts. get_contract ''restart_osd_daemon'' = Some c
     \<and> PList [PStr ''node1''] = PList hosts \<and> hosts \<noteq> [] \<and> list_all valid_host hosts
     \<and> (0 < pc_max_targets c \<longrightarrow> int (length hosts) \<le> pc_max_targets c)
     \<and> (pc_target_schema c = ''osd'' \<longrightarrow>
          (\<exists>ids. osd_ids_of (PDict [(PStr ''cephadm_osd_ids'', PList [PInt 3, PStr ''7''])]) = Some ids
             \<and> ids \<noteq> [] \<and> list_all (\<lambda>v. str_isdigit (py_str v)) ids))"
proof -
  have "ad_allowed (evaluate_auto_execution ''restart_osd_daemon'' ''SAFE'' (PList [PStr ''node1''])
          (PDict [(PStr ''cephadm_osd_ids'', PList [PInt 3, PStr ''7''])]) True)"
    by code_simp
  then show ?thesis by (rule auto_execution_bounded_targets)
qed

text \<open>
  A case verifies against the contract it was frozen with: the snapshot written at proposal time
  resolves to that contract's own post-check for the recorded version, and to a version mismatch for
  any other version, whatever the current registry says.
\<close>

theorem frozen_contract_postcheck:
  assumes "pc_postcheck c = Some h" and "h \<in> set postcheck_hooks"
  shows "resolve_case_postcheck (pc_action_id c) v
           (PDict ((PStr ''registry'', contract_snapshot sha c) # rest)) =
         Inr (if v = pc_version c then Inr h else Inl VersionMismatch)"
  using assms by (simp add: resolve_case_postcheck_def case_registry_frozen opt_py_def)

lemma frozen_contract_postcheck_witness:
  "resolve_case_postcheck (pc_action_id (contract ''resync_ntp'' ''host'' ''L3'' ''host'')) ''2''
     (PDict ((PStr ''registry'',
        contract_snapshot (\<lambda>_. ''00'') (contract ''resync_ntp'' ''host'' ''L3'' ''host'')) # []))
   = Inr (if ''2'' = pc_version (contract ''resync_ntp'' ''host'' ''L3'' ''host'')
          then Inr ''fresh_health_telemetry'' else Inl VersionMismatch)"
  by (rule frozen_contract_postcheck) (simp_all add: contract_def postcheck_hooks_def)

text \<open>
  A post-check passes exactly for a registered hook and a known health floor, when the fault is
  absent and the fresh telemetry, where there is any, is not critical.
\<close>

theorem postcheck_passes_iff:
  "(\<exists>r. run_postcheck hook fault health fl = Inr r \<and> pr_outcome r = PC_PASSED) \<longleftrightarrow>
     hook \<in> set postcheck_hooks \<and> fl = PStr ''NO_NEW_CRITICAL'' \<and> \<not> fault
     \<and> \<not> (is_dict health \<and> critical_health health)"
  by (auto simp: run_postcheck_def fault_absence_postcheck_def health_floors_def Let_def
        dest!: in_strings_True split: sum.splits bool.splits)

text \<open>
  C15. No rollback is invented: a plan is executable exactly when the case's own contract names an
  inverse that is registered and is not the action itself, the inverse was tested, an operator
  approved it, and the action is not destructive; and no contract of the registry names an inverse,
  so no case frozen from it has a supported plan.
\<close>

theorem rollback_needs_tested_approved_inverse:
  "(rp_executable (plan_case_rollback a v s tested approved k) \<longleftrightarrow>
      tested \<and> approved \<and> str_upper (or_empty k) \<notin> {''DESTRUCTIVE'', ''DATA_REPAIR''}
      \<and> (\<exists>rb. resolve_case_rollback a v s = Inr rb \<and> get_contract rb \<noteq> None \<and> rb \<noteq> a))
   \<and> list_all (\<lambda>p. \<not> rp_supported (plan_case_rollback (fst p) (pc_version (snd p))
        (PDict [(PStr ''registry'', contract_snapshot sha (snd p))]) tested approved k)) playbooks"
proof
  show "rp_executable (plan_case_rollback a v s tested approved k) \<longleftrightarrow>
      tested \<and> approved \<and> str_upper (or_empty k) \<notin> {''DESTRUCTIVE'', ''DATA_REPAIR''}
      \<and> (\<exists>rb. resolve_case_rollback a v s = Inr rb \<and> get_contract rb \<noteq> None \<and> rb \<noteq> a)"
    using resolve_case_rollback_Inr [of a v s]
    by (auto simp: plan_case_rollback_def Let_def split: sum.splits)
next
  have "resolve_case_rollback x (pc_version c)
          (PDict [(PStr ''registry'', contract_snapshot sha c)]) = Inl NoInverseRegistered"
    if "(x, c) \<in> set playbooks" for x c
    using that playbooks_no_rollback playbooks_keyed [OF that]
    by (auto simp: resolve_case_rollback_def list_all_iff opt_py_def case_registry_frozen)
  then show "list_all (\<lambda>p. \<not> rp_supported (plan_case_rollback (fst p) (pc_version (snd p))
        (PDict [(PStr ''registry'', contract_snapshot sha (snd p))]) tested approved k)) playbooks"
    by (auto simp: list_all_iff plan_case_rollback_def Let_def)
qed

end
