(* ===== verification/Models.thy ===== *)
theory Models
  imports PyVal
begin

text \<open>
  The tables the modelled services share (\<open>shared/models.py\<close>): one record per mapped class with
  every column, in the order of the class, and one datatype per status enumeration that a check
  constraint closes.  A column that holds JSON text is a \<open>json_text\<close>, a nullable column an option,
  a \<open>DateTime\<close> a \<open>time\<close>.  Foreign keys are the identifiers they store.  The partial unique
  indexes that the services rely on are the predicates \<open>inflight_incidents_unique\<close>,
  \<open>inflight_actions_unique\<close> and \<open>single_default_cluster\<close>.
\<close>

section \<open>Clusters\<close>

record cluster =
  cl_id :: string
  cl_name :: string
  cl_ceph_mon_nodes :: string
  cl_ceph_container_name :: string
  cl_ceph_keyring_path :: string
  cl_ceph_mgr_nodes :: string
  cl_ceph_osd_nodes :: string
  cl_ceph_rgw_nodes :: string
  cl_ceph_rgw_container_name :: string
  cl_openstack_controller_nodes :: string
  cl_openstack_compute_nodes :: string
  cl_openstack_ceph_config_path :: string
  cl_openstack_openrc_path :: string
  cl_ceph_mon_hostnames :: string
  cl_ceph_osd_container_name :: string
  cl_ssh_user :: string
  cl_ssh_key_path :: string
  cl_ceph_exec_mode :: string
  cl_telegram_bot_token :: string
  cl_telegram_chat_id :: string
  cl_telegram_enabled :: bool
  cl_backup_enabled :: bool
  cl_backup_tracked_images :: string
  cl_backup_full_refresh_days :: "int option"
  cl_backup_rpo_hours :: int
  cl_backup_transport :: string
  cl_backup_ssh_host :: string
  cl_backup_ssh_user :: string
  cl_backup_ssh_key_path :: string
  cl_backup_ssh_landing_dir :: string
  cl_backup_s3_endpoint :: string
  cl_backup_s3_access_key :: string
  cl_backup_s3_secret_key :: string
  cl_backup_s3_bucket :: string
  cl_backup_immutable_enabled :: bool
  cl_backup_immutable_lock_days :: int
  cl_is_default :: bool
  cl_is_active :: bool
  cl_autonomy_environment :: string
  cl_autopilot_enabled :: bool
  cl_created_at :: time

definition single_default_cluster :: "cluster list \<Rightarrow> bool" where
  "single_default_cluster rows = (length (filter cl_is_default rows) \<le> 1)"

section \<open>Incidents\<close>

datatype incident_status =
    IS_NEW
  | IS_DIAGNOSING
  | IS_AUTO_FIXED
  | IS_PENDING_APPROVAL
  | IS_APPROVED
  | IS_EXECUTING
  | IS_GRACE_PENDING
  | IS_VERIFYING
  | IS_RESOLVED
  | IS_REJECTED
  | IS_FAILED

record incident =
  in_id :: string
  in_cluster_id :: "string option"
  in_ceph_code :: string
  in_dedupe_key :: "string option"
  in_status :: incident_status
  in_severity :: "string option"
  in_log_excerpt :: "string option"
  in_signal_evidence_json :: "json_text option"
  in_group_root_incident_id :: "string option"
  in_diagnosis_text :: "string option"
  in_postmortem_json :: "json_text option"
  in_postmortem_generated_at :: "time option"
  in_postmortem_prompt_version :: "string option"
  in_telegram_reminded_at :: "time option"
  in_acknowledged_at :: "time option"
  in_acknowledged_by :: "string option"
  in_muted_until :: "time option"
  in_muted_by :: "string option"
  in_verify_after :: "time option"
  in_verify_attempts :: int
  in_detected_at :: time
  in_created_at :: time
  in_updated_at :: time
  in_failed_at :: "time option"

text \<open>The statuses of the partial unique index \<open>uq_incidents_inflight_cluster_code\<close>.\<close>

definition inflight_incident :: "incident_status \<Rightarrow> bool" where
  "inflight_incident s =
     (s \<in> {IS_NEW, IS_DIAGNOSING, IS_PENDING_APPROVAL, IS_APPROVED, IS_EXECUTING, IS_GRACE_PENDING,
           IS_VERIFYING})"

definition inflight_key :: "incident \<Rightarrow> string \<times> string \<times> string" where
  "inflight_key r = (or_empty (in_cluster_id r), in_ceph_code r, or_empty (in_dedupe_key r))"

definition inflight_incidents_unique :: "incident list \<Rightarrow> bool" where
  "inflight_incidents_unique rows =
     distinct (map inflight_key (filter (\<lambda>r. inflight_incident (in_status r)) rows))"

text \<open>The listener on \<open>Incident.status\<close>: entering FAILED stamps the failure time.\<close>

definition set_incident_status :: "time \<Rightarrow> incident_status \<Rightarrow> incident \<Rightarrow> incident" where
  "set_incident_status now s r =
     (if s = IS_FAILED \<and> in_status r \<noteq> IS_FAILED
      then r\<lparr>in_status := s, in_failed_at := Some now\<rparr>
      else r\<lparr>in_status := s\<rparr>)"

section \<open>Actions\<close>

datatype action_status =
    AS_PENDING
  | AS_AUTO_EXECUTED
  | AS_PENDING_APPROVAL
  | AS_APPROVED
  | AS_EXECUTING
  | AS_GRACE_PENDING
  | AS_INCONCLUSIVE
  | AS_REJECTED
  | AS_EXECUTED
  | AS_FAILED

record action_row =
  ac_id :: string
  ac_incident_id :: string
  ac_action_id :: string
  ac_classification :: string
  ac_status :: action_status
  ac_proposed_command :: "string option"
  ac_rationale :: "string option"
  ac_target_nodes :: "json_text option"
  ac_action_params :: "json_text option"
  ac_execution_progress :: "json_text option"
  ac_telegram_message_ids :: "json_text option"
  ac_telegram_notified_at :: "time option"
  ac_executed_at :: "time option"
  ac_expires_at :: "time option"
  ac_grace_until :: "time option"
  ac_cancelled_at :: "time option"
  ac_cancelled_by :: "string option"
  ac_idempotency_key :: "string option"
  ac_created_at :: time
  ac_updated_at :: time

definition inflight_action :: "action_status \<Rightarrow> bool" where
  "inflight_action s =
     (s \<in> {AS_PENDING, AS_PENDING_APPROVAL, AS_APPROVED, AS_EXECUTING, AS_GRACE_PENDING})"

definition inflight_actions_unique :: "action_row list \<Rightarrow> bool" where
  "inflight_actions_unique rows =
     distinct (map ac_idempotency_key
       (filter (\<lambda>r. ac_idempotency_key r \<noteq> None \<and> inflight_action (ac_status r)) rows))"

section \<open>Outboxes\<close>

datatype incident_outbox_status = IO_PENDING | IO_PROCESSING | IO_SENT | IO_DEAD

text \<open>\<open>CONSUMER_PENDING\<close>, \<open>CONSUMER_PROCESSING\<close>, \<open>CONSUMER_DONE\<close> of \<open>shared/incident_outbox.py\<close>.\<close>

datatype consumer_status = CONSUMER_PENDING | CONSUMER_PROCESSING | CONSUMER_DONE

record incident_outbox =
  io_id :: string
  io_event_id :: string
  io_incident_id :: string
  io_payload_json :: json_text
  io_payload_hash :: string
  io_status :: incident_outbox_status
  io_attempts :: int
  io_next_attempt_at :: time
  io_claimed_at :: "time option"
  io_claim_token :: "string option"
  io_sent_at :: "time option"
  io_publish_latency_ms :: "rat option"
  io_last_error :: "string option"
  io_created_at :: time
  io_updated_at :: time
  io_consumer_status :: consumer_status
  io_consumer_claimed_at :: "time option"
  io_consumer_claim_token :: "string option"
  io_consumer_finished_at :: "time option"

datatype telegram_outbox_status = TO_PENDING | TO_PROCESSING | TO_SENT | TO_DEAD

record telegram_outbox =
  to_id :: string
  to_event_id :: string
  to_incident_id :: "string option"
  to_category :: string
  to_payload_json :: json_text
  to_payload_hash :: string
  to_status :: telegram_outbox_status
  to_attempts :: int
  to_next_attempt_at :: time
  to_claimed_at :: "time option"
  to_claim_token :: "string option"
  to_sent_at :: "time option"
  to_last_error :: "string option"
  to_created_at :: time
  to_updated_at :: time

section \<open>Case memory, trust and audit\<close>

text \<open>The outcome column is a plain text; these are the literals the code stores in it.\<close>

datatype case_outcome =
    CO_PROPOSED
  | CO_EXECUTING
  | CO_EXECUTED_PENDING_VERIFY
  | CO_EXECUTED_UNVERIFIED
  | CO_EXECUTION_FAILED
  | CO_VERIFIED_SUCCESS
  | CO_VERIFIED_FAILED
  | CO_INCONCLUSIVE
  | CO_REJECTED
  | CO_LEGACY_RESOLVED_UNVERIFIED

record remediation_case =
  rc_id :: string
  rc_incident_id :: string
  rc_action_id :: string
  rc_cluster_id :: "string option"
  rc_fault_family :: string
  rc_entity_keys_json :: "json_text option"
  rc_evidence_fingerprint :: string
  rc_ceph_version :: "string option"
  rc_deployment_mode :: "string option"
  rc_topology_snapshot_json :: "json_text option"
  rc_diagnosis :: "string option"
  rc_diagnosis_confidence :: "rat option"
  rc_prompt_version :: string
  rc_model_provider :: "string option"
  rc_classification :: string
  rc_autonomy_decision :: string
  rc_playbook_version :: string
  rc_preflight_snapshot_json :: "json_text option"
  rc_command_preview_hash :: "string option"
  rc_pre_state_json :: "json_text option"
  rc_post_state_json :: "json_text option"
  rc_rollback_state_json :: "json_text option"
  rc_outcome :: case_outcome
  rc_side_effects_json :: "json_text option"
  rc_started_at :: "time option"
  rc_executed_at :: "time option"
  rc_verified_at :: "time option"
  rc_recovery_seconds :: "int option"
  rc_regressed_1h :: "bool option"
  rc_regressed_24h :: "bool option"
  rc_regressed_7d :: "bool option"
  rc_operator_verdict :: "string option"
  rc_operator_note :: "string option"
  rc_operator_verdict_by :: "string option"
  rc_operator_verdict_at :: "time option"
  rc_shadow_decision :: "string option"
  rc_shadow_reason :: "string option"
  rc_shadow_trust_score :: "rat option"
  rc_shadow_sample_count :: "int option"
  rc_shadow_recorded_at :: "time option"
  rc_created_at :: time
  rc_updated_at :: time

record playbook_stat =
  ps_id :: string
  ps_playbook_id :: string
  ps_playbook_version :: string
  ps_scope_key :: string
  ps_proposed_count :: int
  ps_executed_count :: int
  ps_verified_count :: int
  ps_success_count :: int
  ps_failure_count :: int
  ps_inconclusive_count :: int
  ps_trust_score :: rat
  ps_maturity_level :: string
  ps_last_failure_at :: "time option"
  ps_auto_disabled_reason :: "string option"
  ps_promotion_candidate_at :: "time option"
  ps_promotion_blocked_reason :: "string option"
  ps_created_at :: time
  ps_updated_at :: time

record autopilot_lease =
  al_cluster_id :: string
  al_action_id :: string
  al_acquired_at :: time
  al_expires_at :: time

text \<open>The primary key and the unique column of the lease table.\<close>

definition leases_unique :: "autopilot_lease list \<Rightarrow> bool" where
  "leases_unique rows = (distinct (map al_cluster_id rows) \<and> distinct (map al_action_id rows))"

record audit_entry =
  ae_id :: string
  ae_incident_id :: string
  ae_action_id :: "string option"
  ae_event_type :: string
  ae_actor :: string
  ae_created_at :: time

record timeline_event =
  te_id :: string
  te_incident_id :: string
  te_action_id :: "string option"
  te_event_type :: string
  te_actor :: string
  te_evidence_json :: "json_text option"
  te_source_type :: "string option"
  te_source_id :: "string option"
  te_created_at :: time

record change_risk_assessment =
  cr_id :: string
  cr_action_id :: string
  cr_cluster_id :: "string option"
  cr_risk_level :: string
  cr_sample_count :: int
  cr_success_count :: int
  cr_failure_count :: int
  cr_regression_count :: int
  cr_summary :: string
  cr_evidence_json :: json_text
  cr_assessment_hash :: string
  cr_acknowledged_hash :: "string option"
  cr_analyzed_at :: time

text \<open>The administrator's overrides of the action policy.\<close>

record policy_override =
  po_action_id :: string
  po_classification :: string
  po_updated_by :: string
  po_reason :: string
  po_updated_at :: time

text \<open>The columns of \<open>LogFinding\<close> the verification reads.\<close>

record log_finding =
  lf_cluster_id :: string
  lf_dedupe_key :: string
  lf_title :: "string option"
  lf_created_at :: time

section \<open>Node gates\<close>

datatype node_upgrade_gate_state =
  NG_PREPARING | NG_PREPARED | NG_RECOVERING | NG_ABORTING | NG_DONE | NG_FAILED

record node_upgrade_gate =
  ng_id :: string
  ng_cluster_id :: "string option"
  ng_host :: string
  ng_target_version :: string
  ng_state :: node_upgrade_gate_state
  ng_roles_snapshot :: "json_text option"
  ng_osd_backup :: "json_text option"
  ng_maintenance_flags_added :: "json_text option"
  ng_mon_removed :: bool
  ng_prepare_action_id :: "string option"
  ng_confirm_action_id :: "string option"
  ng_abort_action_id :: "string option"
  ng_created_at :: time
  ng_updated_at :: time

record node_upgrade_gate_lock =
  nl_id :: string
  nl_active_gate_id :: "string option"

text \<open>The columns of \<open>ChatMessage\<close> that the execution of approved actions reads and writes.\<close>

record chat_message =
  ch_id :: string
  ch_session_id :: "string option"
  ch_role :: string
  ch_content :: string
  ch_actor :: "string option"
  ch_proposed_action_id :: "string option"
  ch_proposed_status :: "string option"
  ch_proposed_incident_id :: "string option"
  ch_created_at :: time

text \<open>The percentage is kept in hundredths, as \<open>round(..., 2)\<close> leaves it.\<close>

record rbd_trash_usage =
  ru_id :: string
  ru_cluster_id :: string
  ru_pool :: string
  ru_trash_id :: string
  ru_image :: string
  ru_provisioned_size_bytes :: int
  ru_used_size_bytes :: int
  ru_used_percent :: int
  ru_observed_at :: time
  ru_created_at :: time

section \<open>Facts\<close>

lemma set_incident_status_status [simp]: "in_status (set_incident_status now s r) = s"
  by (simp add: set_incident_status_def)

lemma set_incident_status_id [simp]: "in_id (set_incident_status now s r) = in_id r"
  by (simp add: set_incident_status_def)

lemma set_incident_status_failed_at:
  "in_failed_at (set_incident_status now s r) =
     (if s = IS_FAILED \<and> in_status r \<noteq> IS_FAILED then Some now else in_failed_at r)"
  by (simp add: set_incident_status_def)

section \<open>Sample rows\<close>

definition sample_cluster :: cluster where
  "sample_cluster =
     \<lparr>cl_id = ''c1'', cl_name = ''lab'', cl_ceph_mon_nodes = [], cl_ceph_container_name = [],
      cl_ceph_keyring_path = [], cl_ceph_mgr_nodes = [], cl_ceph_osd_nodes = [],
      cl_ceph_rgw_nodes = [], cl_ceph_rgw_container_name = [], cl_openstack_controller_nodes = [],
      cl_openstack_compute_nodes = [], cl_openstack_ceph_config_path = [],
      cl_openstack_openrc_path = [], cl_ceph_mon_hostnames = [], cl_ceph_osd_container_name = [],
      cl_ssh_user = [], cl_ssh_key_path = [], cl_ceph_exec_mode = ''docker'',
      cl_telegram_bot_token = [], cl_telegram_chat_id = [], cl_telegram_enabled = True,
      cl_backup_enabled = False, cl_backup_tracked_images = [], cl_backup_full_refresh_days = None,
      cl_backup_rpo_hours = 24, cl_backup_transport = [], cl_backup_ssh_host = [],
      cl_backup_ssh_user = [], cl_backup_ssh_key_path = [], cl_backup_ssh_landing_dir = [],
      cl_backup_s3_endpoint = [], cl_backup_s3_access_key = [], cl_backup_s3_secret_key = [],
      cl_backup_s3_bucket = [], cl_backup_immutable_enabled = False,
      cl_backup_immutable_lock_days = 7, cl_is_default = False, cl_is_active = True,
      cl_autonomy_environment = ''production'', cl_autopilot_enabled = False, cl_created_at = 0\<rparr>"

end
