(* ===== verification/Redaction.thy ===== *)
theory Redaction
  imports Prelude
begin

text \<open>
  The secret redaction both outboxes apply before an error text is stored (\<open>_SECRET_RE\<close> and
  \<open>_safe_error\<close> in \<open>shared/incident_outbox.py\<close> and \<open>shared/telegram_outbox.py\<close>): a keyword,
  optional space, a colon or an equals sign, optional space and the longest non-empty run of
  non-space characters is replaced by the keyword and \<open>=[REDACTED]\<close>, leftmost match first.
\<close>

definition max_error_length :: nat where
  "max_error_length = 500"

text \<open>The alternatives of the keyword group, \<open>[_-]?\<close> written out.\<close>

definition secret_keywords :: "string list" where
  "secret_keywords =
     [''token'', ''secret'', ''password'', ''passwd'', ''api_key'', ''api-key'', ''apikey'',
      ''private_key'', ''private-key'', ''privatekey'']"

text \<open>The keyword at the start of a text, as it is spelled there.\<close>

definition keyword_at :: "string \<Rightarrow> string option" where
  "keyword_at s =
     (case find (\<lambda>k. starts_with (str_lower s) k) secret_keywords of
        None \<Rightarrow> None
      | Some k \<Rightarrow> Some (take (length k) s))"

text \<open>What follows a match at the start of the text: the keyword and the rest after the value.\<close>

definition secret_at :: "string \<Rightarrow> (string \<times> string) option" where
  "secret_at s =
     (case keyword_at s of
        None \<Rightarrow> None
      | Some k \<Rightarrow>
          (case str_lstrip (drop (length k) s) of
             [] \<Rightarrow> None
           | c # r \<Rightarrow>
               (if c \<noteq> CHR '':'' \<and> c \<noteq> CHR ''='' then None
                else (let v = str_lstrip r in
                      if v = [] then None
                      else Some (k, dropWhile (\<lambda>x. \<not> space_char x) v)))))"

lemma length_dropWhile_le': "length (dropWhile P s) \<le> length s"
  by (rule length_dropWhile_le)

lemma secret_at_shorter: "secret_at s = Some (k, rest) \<Longrightarrow> length rest < length s"
proof -
  assume a: "secret_at s = Some (k, rest)"
  then obtain c r where r: "str_lstrip (drop (length k) s) = c # r"
    and rest: "rest = dropWhile (\<lambda>x. \<not> space_char x) (str_lstrip r)"
    by (auto simp: secret_at_def Let_def split: option.splits list.splits if_splits)
  have "length rest \<le> length r"
    unfolding rest str_lstrip_def
    by (rule order_trans [OF length_dropWhile_le' length_dropWhile_le'])
  also have "length r < length (drop (length k) s)"
    using length_dropWhile_le' [of space_char "drop (length k) s"] r by (simp add: str_lstrip_def)
  finally show ?thesis by simp
qed

function redact :: "string \<Rightarrow> string" where
  "redact [] = []"
| "redact (c # cs) =
     (case secret_at (c # cs) of
        None \<Rightarrow> c # redact cs
      | Some (k, rest) \<Rightarrow> k @ ''=[REDACTED]'' @ redact rest)"
  by pat_completeness auto
termination
  by (relation "measure length") (auto dest: secret_at_shorter)

text \<open>\<open>_safe_error\<close> of an exception's class name and message.\<close>

record py_exception =
  ex_type :: string
  ex_message :: string

definition safe_error :: "py_exception \<Rightarrow> string" where
  "safe_error e = ex_type e @ '': '' @ take max_error_length (redact (ex_message e))"

lemma redact_value_dropped:
  assumes "secret_at (c # cs) = Some (k, rest)"
  shows "redact (c # cs) = k @ ''=[REDACTED]'' @ redact rest"
  using assms by simp

lemma safe_error_length: "length (safe_error e) \<le> length (ex_type e) + 2 + max_error_length"
  by (simp add: safe_error_def)

end
