(* ===== verification/LeaseQueue.thy ===== *)
theory LeaseQueue
  imports Prelude
begin

text \<open>
  The contract both outboxes promise their dispatchers, as a locale: rows with a delivery status, a
  claim token and an attempt counter; \<open>claim\<close> takes a due row for one token, \<open>ack\<close> and \<open>nack\<close>
  close the delivery of the token that still owns it.  \<open>exclusive_lease_queue\<close> adds the law that
  makes concurrent claims safe: a claim selected before another dispatcher's claim of the same row
  commits only if that lease has run out.  The theories of the two outboxes interpret the locales.
\<close>

datatype queue_status = QPending | QProcessing | QSent | QDead

text \<open>What a dispatcher sees of a row.\<close>

record 'p row_view =
  rv_status :: queue_status
  rv_token :: "string option"
  rv_attempts :: int
  rv_payload :: 'p

datatype 'e queue_event =
    Claim time string
  | Ack time string string
  | Nack time string string 'e

text \<open>A run of a queue: the events in the order they commit.\<close>

fun run_queue ::
  "(time \<Rightarrow> string \<Rightarrow> 'q \<Rightarrow> 'q) \<Rightarrow> (time \<Rightarrow> string \<Rightarrow> string \<Rightarrow> 'q \<Rightarrow> 'q)
     \<Rightarrow> (time \<Rightarrow> string \<Rightarrow> string \<Rightarrow> 'e \<Rightarrow> 'q \<Rightarrow> 'q) \<Rightarrow> 'e queue_event list \<Rightarrow> 'q \<Rightarrow> 'q" where
  "run_queue claim ack nack [] q = q"
| "run_queue claim ack nack (Claim t k # es) q = run_queue claim ack nack es (claim t k q)"
| "run_queue claim ack nack (Ack t i k # es) q = run_queue claim ack nack es (ack t i k q)"
| "run_queue claim ack nack (Nack t i k e # es) q = run_queue claim ack nack es (nack t i k e q)"

locale lease_queue =
  fixes view :: "'q \<Rightarrow> string \<Rightarrow> 'p row_view option"
    and inv :: "'q \<Rightarrow> bool"
    and claim :: "time \<Rightarrow> string \<Rightarrow> 'q \<Rightarrow> string option \<times> 'q"
    and ack :: "time \<Rightarrow> string \<Rightarrow> string \<Rightarrow> 'q \<Rightarrow> 'q"
    and nack :: "time \<Rightarrow> string \<Rightarrow> string \<Rightarrow> 'e \<Rightarrow> 'q \<Rightarrow> 'q"
    and max_attempts :: int
  assumes inv_claim: "inv q \<Longrightarrow> inv (snd (claim t k q))"
    and inv_ack: "inv q \<Longrightarrow> inv (ack t i k q)"
    and inv_nack: "inv q \<Longrightarrow> inv (nack t i k e q)"
    and claim_None: "fst (claim t k q) = None \<Longrightarrow> snd (claim t k q) = q"
    and claim_Some: "inv q \<Longrightarrow> fst (claim t k q) = Some i \<Longrightarrow>
          \<exists>v. view q i = Some v \<and> rv_status v \<in> {QPending, QProcessing}
            \<and> view (snd (claim t k q)) i =
                Some (v\<lparr>rv_status := QProcessing, rv_token := Some k, rv_attempts := rv_attempts v + 1\<rparr>)"
    and claim_frame: "inv q \<Longrightarrow> fst (claim t k q) = Some i \<Longrightarrow> j \<noteq> i \<Longrightarrow>
          view (snd (claim t k q)) j = view q j"
    and ack_view: "inv q \<Longrightarrow> view (ack t i k q) j =
          map_option (\<lambda>v. if j = i \<and> rv_status v = QProcessing \<and> rv_token v = Some k
                          then v\<lparr>rv_status := QSent\<rparr> else v) (view q j)"
    and nack_view: "inv q \<Longrightarrow> view (nack t i k e q) j =
          map_option (\<lambda>v. if j = i \<and> rv_status v = QProcessing \<and> rv_token v = Some k
                          then v\<lparr>rv_status := (if rv_attempts v \<ge> max_attempts then QDead else QPending)\<rparr>
                          else v) (view q j)"
begin

text \<open>One claim, seen at any row.\<close>

lemma claim_view:
  assumes "inv q" and "view q j = Some v"
  shows "view (snd (claim t k q)) j = Some v
       \<or> rv_status v \<in> {QPending, QProcessing}
         \<and> view (snd (claim t k q)) j =
             Some (v\<lparr>rv_status := QProcessing, rv_token := Some k, rv_attempts := rv_attempts v + 1\<rparr>)"
proof (cases "fst (claim t k q)")
  case None
  then show ?thesis using claim_None assms by simp
next
  case (Some i)
  show ?thesis
  proof (cases "j = i")
    case True
    from claim_Some [OF assms(1) Some] assms(2) True show ?thesis by auto
  next
    case False
    from claim_frame [OF assms(1) Some False] assms(2) show ?thesis by simp
  qed
qed

lemma run_inv: "inv q \<Longrightarrow> inv (run_queue (\<lambda>t k q. snd (claim t k q)) ack nack es q)"
proof (induction es arbitrary: q)
  case Nil
  then show ?case by simp
next
  case (Cons ev es)
  then show ?case by (cases ev) (simp_all add: inv_claim inv_ack inv_nack)
qed

text \<open>
  Each event keeps a closed row closed, keeps the payload of every row and never lowers an attempt
  counter; so does a run.
\<close>

definition progress :: "'p row_view \<Rightarrow> 'p row_view \<Rightarrow> bool" where
  "progress v w = (rv_payload w = rv_payload v \<and> rv_attempts v \<le> rv_attempts w
     \<and> (rv_status v \<in> {QSent, QDead} \<longrightarrow> w = v))"

lemma progress_refl: "progress v v"
  by (simp add: progress_def)

lemma progress_trans: "progress u v \<Longrightarrow> progress v w \<Longrightarrow> progress u w"
  by (auto simp: progress_def)

lemma claim_progress:
  "inv q \<Longrightarrow> view q j = Some v \<Longrightarrow> \<exists>w. view (snd (claim t k q)) j = Some w \<and> progress v w"
  using claim_view [of q j v t k] by (fastforce simp: progress_def)

lemma ack_progress:
  "inv q \<Longrightarrow> view q j = Some v \<Longrightarrow> \<exists>w. view (ack t i k q) j = Some w \<and> progress v w"
  by (simp add: ack_view progress_def)

lemma nack_progress:
  "inv q \<Longrightarrow> view q j = Some v \<Longrightarrow> \<exists>w. view (nack t i k e q) j = Some w \<and> progress v w"
  by (simp add: nack_view progress_def)

lemma run_progress:
  assumes "inv q" and "view q j = Some v"
  shows "\<exists>w. view (run_queue (\<lambda>t k q. snd (claim t k q)) ack nack es q) j = Some w \<and> progress v w"
  using assms
proof (induction es arbitrary: q v)
  case Nil
  then show ?case by (simp add: progress_refl)
next
  case (Cons ev es)
  have "\<exists>q' u. run_queue (\<lambda>t k q. snd (claim t k q)) ack nack (ev # es) q =
            run_queue (\<lambda>t k q. snd (claim t k q)) ack nack es q'
          \<and> inv q' \<and> view q' j = Some u \<and> progress v u"
  proof (cases ev)
    case (Claim t k)
    with claim_progress [OF Cons.prems, of t k] inv_claim [OF Cons.prems(1)] show ?thesis by auto
  next
    case (Ack t i k)
    with ack_progress [OF Cons.prems, of t i k] inv_ack [OF Cons.prems(1)] show ?thesis by auto
  next
    case (Nack t i k e)
    with nack_progress [OF Cons.prems, of t i k e] inv_nack [OF Cons.prems(1)] show ?thesis by auto
  qed
  then obtain q' u where "run_queue (\<lambda>t k q. snd (claim t k q)) ack nack (ev # es) q =
      run_queue (\<lambda>t k q. snd (claim t k q)) ack nack es q'"
    "inv q'" "view q' j = Some u" "progress v u" by blast
  with Cons.IH [of q' u] show ?case by (auto intro: progress_trans)
qed

text \<open>A row that was delivered or given up is never touched again, so it is never sent twice.\<close>

lemma closed_row_final:
  assumes "inv q" and "view q j = Some v" and "rv_status v \<in> {QSent, QDead}"
  shows "view (run_queue (\<lambda>t k q. snd (claim t k q)) ack nack es q) j = Some v"
  using run_progress [OF assms(1,2), of es] assms(3) by (auto simp: progress_def)

lemma payload_immutable:
  assumes "inv q" and "view q j = Some v"
  shows "\<exists>w. view (run_queue (\<lambda>t k q. snd (claim t k q)) ack nack es q) j = Some w
             \<and> rv_payload w = rv_payload v \<and> rv_attempts v \<le> rv_attempts w"
  using run_progress [OF assms, of es] by (auto simp: progress_def)

text \<open>A dispatcher whose lease was taken over cannot close the new owner's delivery.\<close>

lemma stale_owner_harmless:
  assumes "inv q" and "view q i = Some v" and "rv_token v \<noteq> Some k"
  shows "view (ack t i k q) j = view q j" and "view (nack t i k e q) j = view q j"
  using assms by (cases "view q j"; auto simp: ack_view nack_view)+

text \<open>The owner's own acknowledgement closes the row.\<close>

lemma claim_then_ack:
  assumes "inv q" and "fst (claim t k q) = Some i"
  shows "\<exists>w. view (ack t' i k (snd (claim t k q))) i = Some w \<and> rv_status w = QSent"
proof -
  from claim_Some [OF assms] obtain v where "view (snd (claim t k q)) i =
      Some (v\<lparr>rv_status := QProcessing, rv_token := Some k, rv_attempts := rv_attempts v + 1\<rparr>)"
    by blast
  then show ?thesis by (simp add: ack_view [OF inv_claim [OF assms(1)]])
qed

end

text \<open>
  Claims in two phases: \<open>select\<close> reads a candidate, \<open>commit\<close> takes it if it may still be taken.
\<close>

locale exclusive_lease_queue = lease_queue view inv claim ack nack max_attempts
  for view :: "'q \<Rightarrow> string \<Rightarrow> 'p row_view option"
    and inv :: "'q \<Rightarrow> bool"
    and claim :: "time \<Rightarrow> string \<Rightarrow> 'q \<Rightarrow> string option \<times> 'q"
    and ack :: "time \<Rightarrow> string \<Rightarrow> string \<Rightarrow> 'q \<Rightarrow> 'q"
    and nack :: "time \<Rightarrow> string \<Rightarrow> string \<Rightarrow> 'e \<Rightarrow> 'q \<Rightarrow> 'q"
    and max_attempts :: int +
  fixes select :: "time \<Rightarrow> 'q \<Rightarrow> 'c option"
    and commit :: "time \<Rightarrow> string \<Rightarrow> 'c \<Rightarrow> 'q \<Rightarrow> string option \<times> 'q"
    and lease :: int
  assumes claim_two_phase:
      "claim t k q = (case select t q of None \<Rightarrow> (None, q) | Some c \<Rightarrow> commit t k c q)"
    and commit_exclusive: "inv q \<Longrightarrow> select t1 q = Some c \<Longrightarrow> select t2 q = Some c \<Longrightarrow>
      fst (commit t1 k1 c q) = Some i \<Longrightarrow> t2 - lease < t1 \<Longrightarrow>
      commit t2 k2 c (snd (commit t1 k1 c q)) = (None, snd (commit t1 k1 c q))"
begin

text \<open>Two dispatchers that selected the same row: only the first to commit gets it.\<close>

lemma racing_claims_one_winner:
  assumes "inv q" and "select t1 q = Some c" and "select t2 q = Some c"
    and "fst (claim t1 k1 q) = Some i" and "t2 - lease < t1"
  shows "fst (commit t2 k2 c (snd (claim t1 k1 q))) = None"
  using commit_exclusive [OF assms(1-3), of k1 i k2] assms by (simp add: claim_two_phase)

end

end
