(* ===== verification/IncidentOutbox.thy ===== *)
theory IncidentOutbox
  imports Models Redaction LeaseQueue
begin

text \<open>
  The durable delivery of incidents to the message broker (\<open>shared/incident_outbox.py\<close>): a row per
  event is claimed under a lease, published, and marked sent or failed with a backoff; the consumer
  side has a claim of its own on the same row.  An operation takes the table (rows in insertion
  order), the clock and the fresh uuid it draws, and returns the table.  A conditional \<open>UPDATE\<close> is
  \<open>update_where\<close> with its row count, and a claim is split where another dispatcher can commit in
  between: \<open>select_candidate\<close> reads, \<open>commit_claim\<close> updates.
\<close>

section \<open>Enqueue\<close>

definition max_attempts :: int where
  "max_attempts = 8"

definition claim_lease_seconds :: int where
  "claim_lease_seconds = 300"

definition consumer_claim_lease_seconds :: int where
  "consumer_claim_lease_seconds = 300"

text \<open>The hash reads the canonical text of the document; \<open>sha\<close> is that text's digest.\<close>

definition payload_hash :: "(pyval \<Rightarrow> string) \<Rightarrow> pyval \<Rightarrow> string" where
  "payload_hash sha payload = sha (sort_keys payload)"

definition enqueue ::
  "(pyval \<Rightarrow> string) \<Rightarrow> time \<Rightarrow> string \<Rightarrow> string \<Rightarrow> pyval \<Rightarrow> string option
     \<Rightarrow> incident_outbox list \<Rightarrow> string \<times> incident_outbox list" where
  "enqueue sha now uid incident_id payload event_id rows =
     (let ev = (if opt_truthy event_id then or_empty event_id
                else ''incident:'' @ incident_id @ '':diagnose'')
      in case find_id io_event_id ev rows of
           Some existing \<Rightarrow> (io_event_id existing, rows)
         | None \<Rightarrow>
             (ev, rows @
               [\<lparr>io_id = uid, io_event_id = ev, io_incident_id = incident_id,
                 io_payload_json = JText (sort_keys payload),
                 io_payload_hash = payload_hash sha payload,
                 io_status = IO_PENDING, io_attempts = 0, io_next_attempt_at = now,
                 io_claimed_at = None, io_claim_token = None, io_sent_at = None,
                 io_publish_latency_ms = None, io_last_error = None, io_created_at = now,
                 io_updated_at = now, io_consumer_status = CONSUMER_PENDING,
                 io_consumer_claimed_at = None, io_consumer_claim_token = None,
                 io_consumer_finished_at = None\<rparr>]))"

section \<open>Claim\<close>

definition due :: "time \<Rightarrow> incident_outbox \<Rightarrow> bool" where
  "due now r =
     (io_status r = IO_PENDING \<and> io_next_attempt_at r \<le> now
      \<or> io_status r = IO_PROCESSING
        \<and> (case io_claimed_at r of None \<Rightarrow> False
           | Some c \<Rightarrow> c \<le> now - seconds claim_lease_seconds))"

definition select_candidate :: "time \<Rightarrow> incident_outbox list \<Rightarrow> incident_outbox option" where
  "select_candidate now rows =
     first_by (\<lambda>r. (io_next_attempt_at r, io_created_at r)) (filter (due now) rows)"

record claimed =
  cm_row_id :: string
  cm_token :: string
  cm_event_id :: string
  cm_payload :: pyval

definition claimed_row :: "time \<Rightarrow> string \<Rightarrow> incident_outbox \<Rightarrow> incident_outbox" where
  "claimed_row now token r =
     r\<lparr>io_status := IO_PROCESSING, io_claimed_at := Some now, io_claim_token := Some token,
       io_attempts := io_attempts r + 1, io_updated_at := now\<rparr>"

definition commit_claim ::
  "time \<Rightarrow> string \<Rightarrow> incident_outbox \<Rightarrow> incident_outbox list
     \<Rightarrow> (py_exn + claimed option) \<times> incident_outbox list" where
  "commit_claim now token cand rows =
     (let (updated, rows') = update_where
            (\<lambda>r. io_id r = io_id cand \<and> io_status r = io_status cand)
            (claimed_row now token) rows
      in if updated \<noteq> 1 then (Inr None, rows)
         else case io_payload_json cand of
                JMalformed \<Rightarrow> (Inl ValueError, rows)
              | JText payload \<Rightarrow>
                  (Inr (Some \<lparr>cm_row_id = io_id cand, cm_token = token,
                              cm_event_id = io_event_id cand, cm_payload = payload\<rparr>), rows'))"

definition claim_one ::
  "time \<Rightarrow> string \<Rightarrow> incident_outbox list
     \<Rightarrow> (py_exn + claimed option) \<times> incident_outbox list" where
  "claim_one now token rows =
     (case select_candidate now rows of
        None \<Rightarrow> (Inr None, rows)
      | Some cand \<Rightarrow> commit_claim now token cand rows)"

section \<open>Completion\<close>

definition owned :: "string \<Rightarrow> string \<Rightarrow> incident_outbox \<Rightarrow> bool" where
  "owned row_id token r =
     (io_id r = row_id \<and> io_claim_token r = Some token \<and> io_status r = IO_PROCESSING)"

definition latency_ms :: "time \<Rightarrow> time option \<Rightarrow> rat option" where
  "latency_ms now claimed_at =
     map_option (\<lambda>c. max 0 (rat_of_int (now - c) / 1000)) claimed_at"

definition mark_sent ::
  "time \<Rightarrow> string \<Rightarrow> string \<Rightarrow> incident_outbox list \<Rightarrow> incident_outbox list" where
  "mark_sent now row_id token rows =
     snd (update_where (owned row_id token)
       (\<lambda>r. r\<lparr>io_status := IO_SENT, io_sent_at := Some now, io_updated_at := now,
             io_last_error := None,
             io_publish_latency_ms := latency_ms now (io_claimed_at r)\<rparr>) rows)"

text \<open>The fast path of the watcher after its commit.\<close>

definition mark_published :: "time \<Rightarrow> string \<Rightarrow> incident_outbox list \<Rightarrow> incident_outbox list" where
  "mark_published now event_id rows =
     snd (update_where (\<lambda>r. io_event_id r = event_id \<and> io_status r = IO_PENDING)
       (\<lambda>r. r\<lparr>io_status := IO_SENT, io_sent_at := Some now, io_updated_at := now\<rparr>) rows)"

definition backoff_seconds :: "int \<Rightarrow> int" where
  "backoff_seconds attempts = min 3600 (5 * 2 ^ nat (max 0 (attempts - 1)))"

definition failed_row :: "time \<Rightarrow> py_exception \<Rightarrow> incident_outbox \<Rightarrow> incident_outbox" where
  "failed_row now e r =
     r\<lparr>io_status := (if io_attempts r \<ge> max_attempts then IO_DEAD else IO_PENDING),
       io_next_attempt_at := now + seconds (backoff_seconds (io_attempts r)),
       io_last_error := Some (safe_error e), io_updated_at := now\<rparr>"

definition mark_failed ::
  "time \<Rightarrow> string \<Rightarrow> string \<Rightarrow> py_exception \<Rightarrow> incident_outbox list \<Rightarrow> incident_outbox list" where
  "mark_failed now row_id token e rows =
     snd (update_where (owned row_id token) (failed_row now e) rows)"

section \<open>Consumer side\<close>

datatype consumer_claim = CC_MISSING | CC_DONE | CC_BUSY | CC_CLAIMED string

definition consumer_busy :: "time \<Rightarrow> incident_outbox \<Rightarrow> bool" where
  "consumer_busy now r =
     (io_consumer_status r = CONSUMER_PROCESSING
      \<and> (case io_consumer_claimed_at r of None \<Rightarrow> False
         | Some c \<Rightarrow> c > now - seconds consumer_claim_lease_seconds))"

text \<open>The guards read the row, the conditional update commits on the status that was read.\<close>

definition commit_consumer_claim ::
  "time \<Rightarrow> string \<Rightarrow> incident_outbox \<Rightarrow> incident_outbox list
     \<Rightarrow> consumer_claim \<times> incident_outbox list" where
  "commit_consumer_claim now token row rows =
     (let (updated, rows') = update_where
            (\<lambda>r. io_id r = io_id row \<and> io_consumer_status r = io_consumer_status row)
            (\<lambda>r. r\<lparr>io_consumer_status := CONSUMER_PROCESSING, io_consumer_claimed_at := Some now,
                  io_consumer_claim_token := Some token, io_updated_at := now\<rparr>) rows
      in if updated \<noteq> 1 then (CC_BUSY, rows) else (CC_CLAIMED token, rows'))"

definition claim_consumer ::
  "time \<Rightarrow> string \<Rightarrow> string \<Rightarrow> incident_outbox list \<Rightarrow> consumer_claim \<times> incident_outbox list" where
  "claim_consumer now token event_id rows =
     (case find_id io_event_id event_id rows of
        None \<Rightarrow> (CC_MISSING, rows)
      | Some row \<Rightarrow>
          if io_consumer_status row = CONSUMER_DONE then (CC_DONE, rows)
          else if consumer_busy now row then (CC_BUSY, rows)
          else commit_consumer_claim now token row rows)"

definition consumer_owned :: "string \<Rightarrow> string \<Rightarrow> incident_outbox \<Rightarrow> bool" where
  "consumer_owned event_id token r =
     (io_event_id r = event_id \<and> io_consumer_claim_token r = Some token
      \<and> io_consumer_status r = CONSUMER_PROCESSING)"

definition mark_consumer_done ::
  "time \<Rightarrow> string \<Rightarrow> string \<Rightarrow> incident_outbox list \<Rightarrow> incident_outbox list" where
  "mark_consumer_done now event_id token rows =
     snd (update_where (consumer_owned event_id token)
       (\<lambda>r. r\<lparr>io_consumer_status := CONSUMER_DONE, io_consumer_finished_at := Some now,
             io_consumer_claimed_at := None, io_consumer_claim_token := None,
             io_updated_at := now\<rparr>) rows)"

definition release_consumer ::
  "time \<Rightarrow> string \<Rightarrow> string \<Rightarrow> incident_outbox list \<Rightarrow> incident_outbox list" where
  "release_consumer now event_id token rows =
     snd (update_where (consumer_owned event_id token)
       (\<lambda>r. r\<lparr>io_consumer_status := CONSUMER_PENDING, io_consumer_claimed_at := None,
             io_consumer_claim_token := None, io_updated_at := now\<rparr>) rows)"

section \<open>Dispatch\<close>

text \<open>
  \<open>publish_incident\<close> is the broker call, with the exception it raises; a publisher without the
  \<open>event_id\<close> argument is called again without it.
\<close>

definition unexpected_event_id :: string where
  "unexpected_event_id =
     ''unexpected keyword argument '' @ [CHR 0x27] @ ''event_id'' @ [CHR 0x27]"

definition publish ::
  "(pyval \<Rightarrow> string option \<Rightarrow> py_exception option) \<Rightarrow> pyval \<Rightarrow> string
     \<Rightarrow> py_exception option" where
  "publish publish_incident payload event_id =
     (case publish_incident payload (Some event_id) of
        None \<Rightarrow> None
      | Some e \<Rightarrow>
          if ex_type e = ''TypeError'' \<and> contains_str unexpected_event_id (ex_message e)
          then publish_incident payload None
          else Some e)"

text \<open>
  One round of the loop sees a clock at the claim, a fresh token, the broker and a clock at the end.
  The result lists the published events in order, beside the count the source returns.
\<close>

record dispatch_env =
  de_claim_at :: time
  de_token :: string
  de_publisher :: "pyval \<Rightarrow> string option \<Rightarrow> py_exception option"
  de_finish_at :: time

definition finish_delivery ::
  "dispatch_env \<Rightarrow> claimed \<Rightarrow> incident_outbox list \<Rightarrow> incident_outbox list" where
  "finish_delivery env c rows =
     (case publish (de_publisher env) (cm_payload c) (cm_event_id c) of
        Some e \<Rightarrow> mark_failed (de_finish_at env) (cm_row_id c) (cm_token c) e rows
      | None \<Rightarrow> mark_sent (de_finish_at env) (cm_row_id c) (cm_token c) rows)"

fun dispatch_rounds ::
  "nat \<Rightarrow> (nat \<Rightarrow> dispatch_env) \<Rightarrow> nat \<Rightarrow> incident_outbox list
     \<Rightarrow> (py_exn + nat) \<times> string list \<times> incident_outbox list" where
  "dispatch_rounds 0 envs processed rows = (Inr processed, [], rows)"
| "dispatch_rounds (Suc n) envs processed rows =
     (let env = envs processed in
      case claim_one (de_claim_at env) (de_token env) rows of
        (Inl e, rows') \<Rightarrow> (Inl e, [], rows')
      | (Inr None, rows') \<Rightarrow> (Inr processed, [], rows')
      | (Inr (Some c), rows') \<Rightarrow>
          (let (res, sent, rows'') =
                 dispatch_rounds n envs (processed + 1) (finish_delivery env c rows')
           in (res, cm_event_id c # sent, rows'')))"

definition dispatch_due ::
  "int \<Rightarrow> (nat \<Rightarrow> dispatch_env) \<Rightarrow> incident_outbox list
     \<Rightarrow> (py_exn + nat) \<times> string list \<times> incident_outbox list" where
  "dispatch_due limit envs rows = dispatch_rounds (nat (max 0 limit)) envs 0 rows"

section \<open>Statistics and reconciliation\<close>

record outbox_stats =
  os_pending :: nat
  os_processing :: nat
  os_sent :: nat
  os_dead :: nat
  os_due :: nat
  os_oldest_pending_age_seconds :: int
  os_max_attempts :: int
  os_publish_latency_ms_avg :: int

text \<open>\<open>int(x)\<close> of a non-negative number of seconds.\<close>

definition age_seconds :: "time \<Rightarrow> time \<Rightarrow> rat" where
  "age_seconds now t = max 0 (rat_of_int (now - t) / 1000000)"

definition max_or_zero :: "'a::{linorder,zero} list \<Rightarrow> 'a" where
  "max_or_zero xs = (case xs of [] \<Rightarrow> 0 | x # rest \<Rightarrow> fold max rest x)"

definition count_status :: "incident_outbox_status \<Rightarrow> incident_outbox list \<Rightarrow> nat" where
  "count_status s rows = length (filter (\<lambda>r. io_status r = s) rows)"

definition average_or_zero :: "rat list \<Rightarrow> int" where
  "average_or_zero xs =
     (if xs = [] then 0
      else let a = sum_list xs / of_nat (length xs) in if a < 0 then - \<lfloor>- a\<rfloor> else \<lfloor>a\<rfloor>)"

definition delivery_stats :: "time \<Rightarrow> incident_outbox list \<Rightarrow> outbox_stats" where
  "delivery_stats now rows =
     (let pending = filter (\<lambda>r. io_status r = IO_PENDING) rows in
      \<lparr>os_pending = count_status IO_PENDING rows,
       os_processing = count_status IO_PROCESSING rows,
       os_sent = count_status IO_SENT rows,
       os_dead = count_status IO_DEAD rows,
       os_due = length (filter (\<lambda>r. io_status r = IO_PENDING \<and> io_next_attempt_at r \<le> now) rows),
       os_oldest_pending_age_seconds =
         \<lfloor>max_or_zero (map (\<lambda>r. age_seconds now (io_created_at r)) pending)\<rfloor>,
       os_max_attempts = max_or_zero (map io_attempts rows),
       os_publish_latency_ms_avg =
         average_or_zero (List.map_filter io_publish_latency_ms rows)\<rparr>)"

definition redrive_dead_after :: int where
  "redrive_dead_after = seconds 3600"

record stale_counts =
  sc_missing_delivery :: nat
  sc_stale_pending :: nat
  sc_redriven :: nat

definition redriven_row :: "time \<Rightarrow> incident_outbox \<Rightarrow> incident_outbox" where
  "redriven_row now r =
     r\<lparr>io_status := IO_PENDING, io_attempts := 0, io_next_attempt_at := now, io_updated_at := now\<rparr>"

text \<open>\<open>one_or_none()\<close> on a column that is not unique.\<close>

definition one_or_none :: "'r list \<Rightarrow> py_exn + 'r option" where
  "one_or_none rs =
     (case rs of [] \<Rightarrow> Inr None | [r] \<Rightarrow> Inr (Some r) | _ \<Rightarrow> Inl MultipleResultsFound)"

fun reconcile_incidents ::
  "time \<Rightarrow> time \<Rightarrow> incident list \<Rightarrow> stale_counts \<Rightarrow> incident_outbox list
     \<Rightarrow> py_exn + stale_counts \<times> incident_outbox list" where
  "reconcile_incidents now cutoff [] counts rows = Inr (counts, rows)"
| "reconcile_incidents now cutoff (i # is) counts rows =
     (case one_or_none (filter (\<lambda>r. io_incident_id r = in_id i) rows) of
        Inl e \<Rightarrow> Inl e
      | Inr None \<Rightarrow>
          reconcile_incidents now cutoff is
            (counts\<lparr>sc_missing_delivery := sc_missing_delivery counts + 1\<rparr>) rows
      | Inr (Some row) \<Rightarrow>
          if io_status row \<in> {IO_PENDING, IO_PROCESSING} \<and> io_created_at row \<le> cutoff
          then reconcile_incidents now cutoff is
                 (counts\<lparr>sc_stale_pending := sc_stale_pending counts + 1\<rparr>) rows
          else if io_status row = IO_DEAD \<and> io_updated_at row \<le> now - redrive_dead_after
          then reconcile_incidents now cutoff is
                 (counts\<lparr>sc_redriven := sc_redriven counts + 1\<rparr>)
                 (map (\<lambda>r. if io_id r = io_id row then redriven_row now r else r) rows)
          else reconcile_incidents now cutoff is counts rows)"

text \<open>An exception leaves the session without a commit: the table is as it was.\<close>

definition reconcile_stale ::
  "time \<Rightarrow> int \<Rightarrow> incident list \<Rightarrow> incident_outbox list
     \<Rightarrow> (py_exn + stale_counts) \<times> incident_outbox list" where
  "reconcile_stale now max_age_seconds incidents rows =
     (let cutoff = now - seconds (max 1 max_age_seconds);
          stale = filter (\<lambda>i. in_status i = IS_NEW \<and> in_created_at i \<le> cutoff) incidents
      in case reconcile_incidents now cutoff stale
                \<lparr>sc_missing_delivery = 0, sc_stale_pending = 0, sc_redriven = 0\<rparr> rows of
           Inl e \<Rightarrow> (Inl e, rows)
         | Inr (counts, rows') \<Rightarrow> (Inr counts, rows'))"


section \<open>The queue contract\<close>

fun io_queue_status :: "incident_outbox_status \<Rightarrow> queue_status" where
  "io_queue_status IO_PENDING = QPending"
| "io_queue_status IO_PROCESSING = QProcessing"
| "io_queue_status IO_SENT = QSent"
| "io_queue_status IO_DEAD = QDead"

lemma io_queue_status_simps [simp]:
  "io_queue_status s = QPending \<longleftrightarrow> s = IO_PENDING"
  "io_queue_status s = QProcessing \<longleftrightarrow> s = IO_PROCESSING"
  "io_queue_status s = QSent \<longleftrightarrow> s = IO_SENT"
  "io_queue_status s = QDead \<longleftrightarrow> s = IO_DEAD"
  by (cases s; simp)+

type_synonym envelope = "string \<times> string \<times> json_text \<times> string"

definition io_view_row :: "incident_outbox \<Rightarrow> envelope row_view" where
  "io_view_row r =
     \<lparr>rv_status = io_queue_status (io_status r), rv_token = io_claim_token r,
      rv_attempts = io_attempts r,
      rv_payload = (io_event_id r, io_incident_id r, io_payload_json r, io_payload_hash r)\<rparr>"

definition io_view :: "incident_outbox list \<Rightarrow> string \<Rightarrow> envelope row_view option" where
  "io_view rows i = map_option io_view_row (find_id io_id i rows)"

definition ids_unique :: "incident_outbox list \<Rightarrow> bool" where
  "ids_unique rows = distinct (map io_id rows)"


lemma claimed_row_id [simp]: "io_id (claimed_row now token r) = io_id r"
  by (simp add: claimed_row_def)


lemma failed_row_id [simp]: "io_id (failed_row now e r) = io_id r"
  by (simp add: failed_row_def)

lemma select_candidate_in:
  assumes "select_candidate now rows = Some c"
  shows "c \<in> set rows" and "due now c"
  using first_by_in [OF assms [unfolded select_candidate_def]] by auto






lemma io_view_update_where:
  "(\<And>r. io_id (f r) = io_id r) \<Longrightarrow>
   io_view (snd (update_where P f rows)) i =
     (case find_id io_id i rows of None \<Rightarrow> None
      | Some r \<Rightarrow> Some (io_view_row (if P r then f r else r)))"
  by (simp add: io_view_def find_id_update_where split: option.split)







section \<open>Closed events\<close>


definition sample_row :: incident_outbox where
  "sample_row =
     \<lparr>io_id = ''r1'', io_event_id = ''incident:i1:diagnose'', io_incident_id = ''i1'',
      io_payload_json = JText (PDict []), io_payload_hash = [], io_status = IO_PENDING,
      io_attempts = 0, io_next_attempt_at = 0, io_claimed_at = None, io_claim_token = None,
      io_sent_at = None, io_publish_latency_ms = None, io_last_error = None, io_created_at = 0,
      io_updated_at = 0, io_consumer_status = CONSUMER_PENDING, io_consumer_claimed_at = None,
      io_consumer_claim_token = None, io_consumer_finished_at = None\<rparr>"


section \<open>Racing dispatchers\<close>

lemma commit_candidate:
  assumes "ids_unique rows" and "c \<in> set rows" and "io_payload_json c = JText p"
  shows "commit_claim t k c rows =
    (Inr (Some \<lparr>cm_row_id = io_id c, cm_token = k, cm_event_id = io_event_id c, cm_payload = p\<rparr>),
     map (\<lambda>r. if io_id r = io_id c then claimed_row t k r else r) rows)"
proof -
  have f: "find_id io_id (io_id c) rows = Some c"
    using assms(1,2) unfolding ids_unique_def by (rule find_id_in)
  have "fst (update_where (\<lambda>r. io_id r = io_id c \<and> io_status r = io_status c)
      (claimed_row t k) rows) = 1"
    using update_where_key_count [OF assms(1) [unfolded ids_unique_def], of "io_id c"
        "\<lambda>r. io_status r = io_status c" "claimed_row t k"] f by simp
  moreover have "\<And>r. r \<in> set rows \<Longrightarrow> io_id r = io_id c \<Longrightarrow> r = c"
    using assms(1,2) by (auto simp: ids_unique_def distinct_map inj_on_def)
  ultimately show ?thesis
    using assms(3) by (auto simp: commit_claim_def case_prod_unfold update_where_def)
qed

lemma claimed_row_in:
  assumes "c \<in> set rows"
  shows "claimed_row t k c \<in> set (map (\<lambda>r. if io_id r = io_id c then claimed_row t k r else r) rows)"
  using assms by (auto simp: image_iff)

lemma second_commit:
  fixes t1 :: time and k1 :: string
  assumes "ids_unique rows" and "c \<in> set rows" and "io_payload_json c = JText p"
  defines "rows' \<equiv> map (\<lambda>r. if io_id r = io_id c then claimed_row t1 k1 r else r) rows"
  shows "io_status c = IO_PENDING \<Longrightarrow> commit_claim t2 k2 c rows' = (Inr None, rows')"
    and "io_status c = IO_PROCESSING \<Longrightarrow> fst (commit_claim t2 k2 c rows') =
      Inr (Some \<lparr>cm_row_id = io_id c, cm_token = k2, cm_event_id = io_event_id c, cm_payload = p\<rparr>)"
proof -
  have u: "ids_unique rows'"
    using assms(1) by (simp add: rows'_def ids_unique_def comp_def if_distrib cong: if_cong)
  have f: "find_id io_id (io_id c) rows' = Some (claimed_row t1 k1 c)"
    using find_id_in [OF u [unfolded ids_unique_def], of "claimed_row t1 k1 c"]
      claimed_row_in [OF assms(2), of t1 k1] by (simp add: rows'_def)
  note n = update_where_key_count [OF u [unfolded ids_unique_def], of "io_id c"
      "\<lambda>r. io_status r = io_status c" "claimed_row t2 k2"]
  show "io_status c = IO_PENDING \<Longrightarrow> commit_claim t2 k2 c rows' = (Inr None, rows')"
    using n f by (simp add: commit_claim_def case_prod_unfold claimed_row_def)
  show "io_status c = IO_PROCESSING \<Longrightarrow> fst (commit_claim t2 k2 c rows') =
      Inr (Some \<lparr>cm_row_id = io_id c, cm_token = k2, cm_event_id = io_event_id c, cm_payload = p\<rparr>)"
    using n f assms(3) by (simp add: commit_claim_def case_prod_unfold claimed_row_def)
qed

text \<open>
  A fresh envelope is handed to one dispatcher: when two of them select the same PENDING row,
  the first to commit claims it and the second gets nothing and changes nothing.
\<close>

theorem pending_row_single_winner:
  assumes "ids_unique rows" and "select_candidate t1 rows = Some c"
    and "select_candidate t2 rows = Some c" and "io_status c = IO_PENDING"
    and "io_payload_json c = JText p"
  shows "fst (commit_claim t1 k1 c rows) =
           Inr (Some \<lparr>cm_row_id = io_id c, cm_token = k1, cm_event_id = io_event_id c, cm_payload = p\<rparr>)
       \<and> commit_claim t2 k2 c (snd (commit_claim t1 k1 c rows)) =
           (Inr None, snd (commit_claim t1 k1 c rows))"
  using commit_candidate [OF assms(1) select_candidate_in(1) [OF assms(2)] assms(5), of t1 k1]
    second_commit(1) [OF assms(1) select_candidate_in(1) [OF assms(2)] assms(5,4), of t2 k2 t1 k1]
  by simp

theorem pending_row_single_winner_witness:
  "commit_claim 7 ''b'' sample_row (snd (commit_claim 5 ''a'' sample_row [sample_row])) =
     (Inr None, snd (commit_claim 5 ''a'' sample_row [sample_row]))"
  using pending_row_single_winner [of "[sample_row]" 5 sample_row 7 "PDict []" "''a''" "''b''"]
  by (simp add: ids_unique_def select_candidate_def due_def sample_row_def)

text \<open>
  An expired claim is not exclusive: when two dispatchers select the same PROCESSING row whose
  lease ran out, both commits succeed, because the update is conditioned on the status only and not
  on the lease it was selected by.  Both then publish the envelope.
\<close>

theorem expired_row_claimed_by_both:
  assumes "ids_unique rows" and "select_candidate t1 rows = Some c"
    and "select_candidate t2 rows = Some c" and "io_status c = IO_PROCESSING"
    and "io_payload_json c = JText p"
  shows "\<exists>c1 c2. fst (commit_claim t1 k1 c rows) = Inr (Some c1)
       \<and> fst (commit_claim t2 k2 c (snd (commit_claim t1 k1 c rows))) = Inr (Some c2)
       \<and> cm_event_id c1 = cm_event_id c2 \<and> cm_payload c1 = cm_payload c2
       \<and> cm_token c1 = k1 \<and> cm_token c2 = k2"
  using commit_candidate [OF assms(1) select_candidate_in(1) [OF assms(2)] assms(5), of t1 k1]
    second_commit(2) [OF assms(1) select_candidate_in(1) [OF assms(2)] assms(5,4), of t2 k2 t1 k1]
  by simp

definition crashed_row :: incident_outbox where
  "crashed_row = sample_row\<lparr>io_status := IO_PROCESSING, io_claimed_at := Some 0,
     io_claim_token := Some ''dead'', io_attempts := 1\<rparr>"

theorem expired_row_claimed_by_both_witness:
  "\<exists>c1 c2. fst (commit_claim (seconds 300) ''a'' crashed_row [crashed_row]) = Inr (Some c1)
     \<and> fst (commit_claim (seconds 301) ''b'' crashed_row
          (snd (commit_claim (seconds 300) ''a'' crashed_row [crashed_row]))) = Inr (Some c2)"
  using expired_row_claimed_by_both
    [of "[crashed_row]" "seconds 300" crashed_row "seconds 301" "PDict []" "''a''" "''b''"]
  by (auto simp: ids_unique_def select_candidate_def due_def crashed_row_def sample_row_def
      claim_lease_seconds_def seconds_def)


section \<open>Failures and backoff\<close>

lemma backoff_seconds_small:
  "1 \<le> a \<Longrightarrow> a \<le> 10 \<Longrightarrow> backoff_seconds a = 5 * 2 ^ nat (a - 1)"
proof -
  assume a: "1 \<le> a" "a \<le> 10"
  then have "(2::int) ^ nat (a - 1) \<le> 2 ^ 9" by (intro power_increasing) auto
  with a show ?thesis by (simp add: backoff_seconds_def max_def)
qed

lemma backoff_seconds_bounds: "5 \<le> backoff_seconds a \<and> backoff_seconds a \<le> 3600"
  by (simp add: backoff_seconds_def)

lemma backoff_seconds_mono: "a \<le> b \<Longrightarrow> backoff_seconds a \<le> backoff_seconds b"
proof -
  assume "a \<le> b"
  then have "(2::int) ^ nat (max 0 (a - 1)) \<le> 2 ^ nat (max 0 (b - 1))"
    by (intro power_increasing) auto
  then show ?thesis by (simp add: backoff_seconds_def min_le_iff_disj)
qed

text \<open>
  A failed delivery by its owner is retried no earlier than five seconds and no later than one
  hour after the failure, each further attempt at least as late as the one before, and it is given
  up exactly when the row has made eight attempts; a stale owner's failure changes nothing.
\<close>

theorem failure_retry_schedule:
  assumes "ids_unique rows" and "find_id io_id i rows = Some r"
  shows "find_id io_id i (mark_failed now i k e rows) =
     (if io_status r = IO_PROCESSING \<and> io_claim_token r = Some k then Some (failed_row now e r)
      else Some r)
   \<and> io_status (failed_row now e r) = (if io_attempts r < 8 then IO_PENDING else IO_DEAD)
   \<and> now + seconds 5 \<le> io_next_attempt_at (failed_row now e r)
   \<and> io_next_attempt_at (failed_row now e r) \<le> now + seconds 3600
   \<and> (\<forall>r'. io_attempts r \<le> io_attempts r' \<longrightarrow>
        io_next_attempt_at (failed_row now e r) \<le> io_next_attempt_at (failed_row now e r'))"
  using find_id_Some [OF assms(2)] assms(2) backoff_seconds_bounds [of "io_attempts r"]
  by (auto simp: mark_failed_def find_id_update_where owned_def failed_row_def max_attempts_def
      intro: backoff_seconds_mono)

theorem failure_retry_schedule_witness:
  "\<exists>r'. find_id io_id ''r1'' (mark_failed 0 ''r1'' ''dead'' \<lparr>ex_type = ''E'', ex_message = ''m''\<rparr>
       [crashed_row]) = Some r' \<and> io_status r' = IO_PENDING"
  using failure_retry_schedule [of "[crashed_row]" "''r1''" crashed_row 0 "''dead''"
      "\<lparr>ex_type = ''E'', ex_message = ''m''\<rparr>"]
  by (simp add: ids_unique_def find_id_def crashed_row_def sample_row_def)

section \<open>Enqueue\<close>

text \<open>
  An event is enqueued once: a second enqueue of the same event, whatever its payload, returns
  the same event id and leaves the table as it is, so the stored envelope is the first one, every
  field of which reads back as it was enqueued; and no enqueue touches an earlier row.
\<close>

theorem enqueue_once:
  assumes "enqueue sha now uid incident payload event rows = (ev, rows1)"
  shows "enqueue sha now' uid' incident payload' event rows1 = (ev, rows1)
    \<and> (\<exists>new. rows1 = rows @ new \<and> length new \<le> 1)
    \<and> (ev \<notin> io_event_id ` set rows \<longrightarrow>
         (\<exists>r. find_id io_event_id ev rows1 = Some r \<and> io_payload_json r = JText (sort_keys payload)
            \<and> io_status r = IO_PENDING \<and> io_attempts r = 0 \<and> due now r))
    \<and> (distinct (map fst (items_of payload)) \<longrightarrow>
         dget (sort_keys payload) key = sort_keys (dget payload key))"
proof (cases "find_id io_event_id (if opt_truthy event then or_empty event
    else ''incident:'' @ incident @ '':diagnose'') rows")
  case None
  with assms show ?thesis
    by (auto simp: enqueue_def Let_def find_id_append_new due_def dget_sort_keys
        dest: find_id_Some)
next
  case (Some r)
  with assms have e: "ev = io_event_id r" "rows1 = rows"
    by (auto simp: enqueue_def Let_def)
  then have "ev \<in> io_event_id ` set rows" using find_id_Some [OF Some] by blast
  with assms Some e find_id_Some [OF Some] show ?thesis
    by (auto simp: enqueue_def Let_def dget_sort_keys)
qed

theorem enqueue_once_witness:
  "enqueue (\<lambda>_. []) 9 ''u2'' ''i1'' (PDict [(PStr ''k'', PInt 2)]) None
     (snd (enqueue (\<lambda>_. []) 5 ''u1'' ''i1'' (PDict [(PStr ''k'', PInt 1)]) None [])) =
   (''incident:i1:diagnose'',
    snd (enqueue (\<lambda>_. []) 5 ''u1'' ''i1'' (PDict [(PStr ''k'', PInt 1)]) None []))"
  using enqueue_once [of "\<lambda>_. []" 5 "''u1''" "''i1''" "PDict [(PStr ''k'', PInt 1)]" None "[]"
      "''incident:i1:diagnose''"
      "snd (enqueue (\<lambda>_. []) 5 ''u1'' ''i1'' (PDict [(PStr ''k'', PInt 1)]) None [])"
      9 "''u2''" "PDict [(PStr ''k'', PInt 2)]"]
  by (simp add: enqueue_def opt_truthy_def find_id_def Let_def)

section \<open>Draining the queue\<close>

lemma finish_delivery_published:
  assumes "\<And>v e. de_publisher env v e = None"
  shows "finish_delivery env c rows = mark_sent (de_finish_at env) (cm_row_id c) (cm_token c) rows"
  using assms by (simp add: finish_delivery_def publish_def)

definition delivered_row :: "dispatch_env \<Rightarrow> incident_outbox \<Rightarrow> incident_outbox" where
  "delivered_row env r =
     (claimed_row (de_claim_at env) (de_token env) r)
       \<lparr>io_status := IO_SENT, io_sent_at := Some (de_finish_at env),
        io_updated_at := de_finish_at env, io_last_error := None,
        io_publish_latency_ms := latency_ms (de_finish_at env) (Some (de_claim_at env))\<rparr>"

definition all_wellformed :: "incident_outbox list \<Rightarrow> bool" where
  "all_wellformed rows = (\<forall>r \<in> set rows. \<exists>p. io_payload_json r = JText p)"

lemma deliver_one:
  assumes u: "ids_unique rows" and w: "all_wellformed rows"
    and pub: "\<And>v e. de_publisher env v e = None"
    and sel: "select_candidate (de_claim_at env) rows = Some c"
  shows "\<exists>cm rows1. claim_one (de_claim_at env) (de_token env) rows = (Inr (Some cm), rows1)
     \<and> cm_event_id cm = io_event_id c
     \<and> finish_delivery env cm rows1 =
          map (\<lambda>r. if io_id r = io_id c then delivered_row env r else r) rows"
proof -
  note cin = select_candidate_in(1) [OF sel]
  obtain p where p: "io_payload_json c = JText p" using w cin by (auto simp: all_wellformed_def)
  let ?cm = "\<lparr>cm_row_id = io_id c, cm_token = de_token env, cm_event_id = io_event_id c, cm_payload = p\<rparr>"
  let ?rows1 = "map (\<lambda>r. if io_id r = io_id c
      then claimed_row (de_claim_at env) (de_token env) r else r) rows"
  have "finish_delivery env ?cm ?rows1 =
      map (\<lambda>r. if io_id r = io_id c then delivered_row env r else r) rows"
    unfolding finish_delivery_published [OF pub] mark_sent_def update_where_def
    by (auto simp: owned_def delivered_row_def claimed_row_def)
  with commit_candidate [OF u cin p, of "de_claim_at env" "de_token env"] show ?thesis
    by (auto simp: claim_one_def sel)
qed

lemma filter_due_delivered:
  "filter (due now) (map (\<lambda>r. if io_id r = i then delivered_row env r else r) rows) =
     filter (\<lambda>r. due now r \<and> io_id r \<noteq> i) rows"
  by (induction rows) (auto simp: due_def delivered_row_def)

lemma filter_other_length:
  assumes "ids_unique rows" and "c \<in> set rows" and "due now c"
  shows "length (filter (due now) rows) = Suc (length (filter (\<lambda>r. due now r \<and> io_id r \<noteq> io_id c) rows))"
  using assms
proof (induction rows)
  case Nil
  then show ?case by simp
next
  case (Cons a rows)
  show ?case
  proof (cases "io_id a = io_id c")
    case True
    with Cons.prems have "a = c" and "\<forall>r \<in> set rows. io_id r \<noteq> io_id c"
      by (auto simp: ids_unique_def image_iff)
    with Cons.prems show ?thesis
      by (auto intro: arg_cong [of _ _ length] filter_cong)
  next
    case False
    with Cons show ?thesis by (auto simp: ids_unique_def)
  qed
qed

lemma delivered_map_keeps:
  "map io_id (map (\<lambda>r. if io_id r = i then delivered_row env r else r) rows) = map io_id rows"
  "map io_event_id (map (\<lambda>r. if io_id r = i then delivered_row env r else r) rows) =
     map io_event_id rows"
  "map io_payload_json (map (\<lambda>r. if io_id r = i then delivered_row env r else r) rows) =
     map io_payload_json rows"
  by (auto simp: delivered_row_def claimed_row_def)

lemma delivered_ids_unique:
  "ids_unique (map (\<lambda>r. if io_id r = i then delivered_row env r else r) rows) = ids_unique rows"
  by (simp only: ids_unique_def delivered_map_keeps)

lemma delivered_wellformed:
  "all_wellformed rows \<Longrightarrow>
   all_wellformed (map (\<lambda>r. if io_id r = i then delivered_row env r else r) rows)"
  by (auto simp: all_wellformed_def delivered_row_def claimed_row_def)

lemma dispatch_rounds_drain:
  assumes "ids_unique rows" and "all_wellformed rows" and "distinct (map io_event_id rows)"
    and "\<And>i v e. de_publisher (envs i) v e = None" and "\<And>i. de_claim_at (envs i) = now"
  shows "\<exists>sent rows'. dispatch_rounds n envs p rows =
             (Inr (p + min n (length (filter (due now) rows))), sent, rows')
       \<and> length sent = min n (length (filter (due now) rows)) \<and> distinct sent
       \<and> set sent \<subseteq> io_event_id ` set (filter (due now) rows)
       \<and> length (filter (due now) rows') = length (filter (due now) rows) - n"
  using assms(1-3)
proof (induction n arbitrary: p rows)
  case 0
  then show ?case by simp
next
  case (Suc n)
  show ?case
  proof (cases "select_candidate now rows")
    case None
    then have "filter (due now) rows = []" by (simp add: select_candidate_def)
    with None show ?thesis by (simp add: Let_def claim_one_def assms(5))
  next
    case (Some c)
    let ?rows' = "map (\<lambda>r. if io_id r = io_id c then delivered_row (envs p) r else r) rows"
    note c = select_candidate_in [OF Some]
    obtain cm rows1 where one: "claim_one now (de_token (envs p)) rows = (Inr (Some cm), rows1)"
      "finish_delivery (envs p) cm rows1 = ?rows'" "cm_event_id cm = io_event_id c"
      using deliver_one [OF Suc.prems(1,2), of "envs p" c] Some assms(4,5) by auto
    have due': "filter (due now) ?rows' = filter (\<lambda>r. due now r \<and> io_id r \<noteq> io_id c) rows"
      by (rule filter_due_delivered)
    have len: "length (filter (due now) rows) = Suc (length (filter (due now) ?rows'))"
      unfolding due' by (rule filter_other_length [OF Suc.prems(1) c])
    have sub: "insert (io_event_id c) (io_event_id ` set (filter (due now) ?rows'))
        \<subseteq> io_event_id ` set (filter (due now) rows)"
      using c unfolding due' by auto
    have new: "io_event_id c \<notin> io_event_id ` set (filter (due now) ?rows')"
      using Suc.prems(3) c unfolding due' by (auto simp: distinct_map dest: inj_onD)
    obtain sent rows'' where ih: "dispatch_rounds n envs (p + 1) ?rows' =
        (Inr (p + 1 + min n (length (filter (due now) ?rows'))), sent, rows'')"
      "length sent = min n (length (filter (due now) ?rows'))" "distinct sent"
      "set sent \<subseteq> io_event_id ` set (filter (due now) ?rows')"
      "length (filter (due now) rows'') = length (filter (due now) ?rows') - n"
      using Suc.IH [of ?rows' "p + 1"] Suc.prems
      by (simp only: delivered_ids_unique delivered_wellformed delivered_map_keeps) blast
    have "dispatch_rounds (Suc n) envs p rows =
        (Inr (p + 1 + min n (length (filter (due now) ?rows'))), io_event_id c # sent, rows'')"
      using one ih(1) by (simp add: Let_def assms(5) del: filter.simps)
    moreover from ih new sub have "distinct (io_event_id c # sent)"
      "set (io_event_id c # sent) \<subseteq> io_event_id ` set (filter (due now) rows)" by auto
    ultimately show ?thesis
      using ih(2,5) len by (intro exI [of _ "io_event_id c # sent"] exI [of _ rows'']) simp
  qed
qed

text \<open>
  C33. With a broker that accepts every message, one call of the dispatcher publishes exactly the due
  rows, up to its limit: it reports their number, publishes that many envelopes, each of a due row
  and none twice, and leaves no due row behind when the limit covers them.
\<close>

theorem dispatch_drains_due_rows:
  assumes "ids_unique rows" and "all_wellformed rows" and "distinct (map io_event_id rows)"
    and "\<And>i v e. de_publisher (envs i) v e = None" and "\<And>i. de_claim_at (envs i) = now"
  shows "\<exists>sent rows'. dispatch_due limit envs rows =
             (Inr (min (nat limit) (length (filter (due now) rows))), sent, rows')
       \<and> length sent = min (nat limit) (length (filter (due now) rows)) \<and> distinct sent
       \<and> set sent \<subseteq> io_event_id ` set (filter (due now) rows)
       \<and> length (filter (due now) rows') = length (filter (due now) rows) - nat limit"
proof -
  have "nat (max 0 limit) = nat limit" by simp
  with dispatch_rounds_drain [OF assms, where n = "nat limit" and p = 0] show ?thesis
    by (simp add: dispatch_due_def)
qed

definition accepting_env :: "nat \<Rightarrow> dispatch_env" where
  "accepting_env i =
     \<lparr>de_claim_at = 1, de_token = ''t'', de_publisher = \<lambda>_ _. None, de_finish_at = 2\<rparr>"

theorem dispatch_drains_due_rows_witness:
  "\<exists>sent rows'. dispatch_due 20 accepting_env [sample_row] = (Inr 1, sent, rows')
     \<and> length sent = 1 \<and> set sent \<subseteq> {''incident:i1:diagnose''} \<and> filter (due 1) rows' = []"
  using dispatch_drains_due_rows [where rows = "[sample_row]" and envs = accepting_env and now = 1
      and limit = 20]
  by (auto simp: ids_unique_def all_wellformed_def sample_row_def accepting_env_def due_def)


section \<open>The consumer's claim\<close>

lemma consumer_claim_commits:
  assumes "ids_unique rows" and "find_id io_event_id ev rows = Some r"
    and "io_consumer_status r \<noteq> CONSUMER_DONE" and "\<not> consumer_busy t r"
  shows "claim_consumer t k ev rows = (CC_CLAIMED k,
    snd (update_where (\<lambda>x. io_id x = io_id r \<and> io_consumer_status x = io_consumer_status r)
      (\<lambda>x. x\<lparr>io_consumer_status := CONSUMER_PROCESSING, io_consumer_claimed_at := Some t,
            io_consumer_claim_token := Some k, io_updated_at := t\<rparr>) rows))"
proof -
  have "find_id io_id (io_id r) rows = Some r"
    using assms(1) find_id_Some [OF assms(2)] unfolding ids_unique_def by (blast intro: find_id_in)
  with update_where_key_count [OF assms(1) [unfolded ids_unique_def], of "io_id r"
      "\<lambda>x. io_consumer_status x = io_consumer_status r"]
  have "fst (update_where (\<lambda>x. io_id x = io_id r \<and> io_consumer_status x = io_consumer_status r)
      f rows) = 1" for f by simp
  with assms(2-4) show ?thesis
    by (simp add: claim_consumer_def commit_consumer_claim_def case_prod_unfold)
qed

lemma consumer_claimed_row:
  assumes "ids_unique rows" and "claim_consumer t k ev rows = (CC_CLAIMED k', rows')"
  shows "k' = k \<and> (\<exists>r. find_id io_event_id ev rows' = Some r
     \<and> io_consumer_status r = CONSUMER_PROCESSING \<and> io_consumer_claimed_at r = Some t
     \<and> io_consumer_claim_token r = Some k)"
proof -
  from assms(2) obtain r where r: "find_id io_event_id ev rows = Some r"
    "io_consumer_status r \<noteq> CONSUMER_DONE" "\<not> consumer_busy t r"
    by (auto simp: claim_consumer_def split: option.splits if_splits)
  from consumer_claim_commits [OF assms(1) r, of k] assms(2) r(1) show ?thesis
    by (auto simp: find_id_update_where)
qed

lemma claim_consumer_keeps_events:
  "map io_event_id (snd (claim_consumer t k ev rows)) = map io_event_id rows"
  by (simp add: claim_consumer_def commit_consumer_claim_def case_prod_unfold Let_def
      update_where_def split: option.split)

text \<open>
  A consumer's claim is a lease with one owner: while it is younger than 300 seconds every other
  delivery of the event is told BUSY and changes nothing; only the owner's token can finish or
  release it; and once the owner finished it, every later delivery is told DONE, so a diagnosis that
  completed is never run again.
\<close>

theorem consumer_claim_lease:
  assumes "ids_unique rows" and "distinct (map io_event_id rows)"
    and "claim_consumer t k ev rows = (CC_CLAIMED k', rows')"
  shows "k' = k
    \<and> (\<forall>t2 k2. t2 < t + seconds 300 \<longrightarrow> claim_consumer t2 k2 ev rows' = (CC_BUSY, rows'))
    \<and> (\<forall>t2 k2. k2 \<noteq> k \<longrightarrow> mark_consumer_done t2 ev k2 rows' = rows'
                       \<and> release_consumer t2 ev k2 rows' = rows')
    \<and> (\<forall>t2 t3 k3. claim_consumer t3 k3 ev (mark_consumer_done t2 ev k rows') =
                    (CC_DONE, mark_consumer_done t2 ev k rows'))"
proof -
  from consumer_claimed_row [OF assms(1,3)] obtain r where r: "k' = k"
    "find_id io_event_id ev rows' = Some r" "io_consumer_status r = CONSUMER_PROCESSING"
    "io_consumer_claimed_at r = Some t" "io_consumer_claim_token r = Some k" by blast
  have "map io_event_id rows' = map io_event_id (snd (claim_consumer t k ev rows))"
    using assms(3) by simp
  then have "distinct (map io_event_id rows')"
    using assms(2) by (simp add: claim_consumer_keeps_events)
  then have only: "\<And>x. x \<in> set rows' \<Longrightarrow> io_event_id x = ev \<Longrightarrow> x = r"
    using r(2) find_id_in [of io_event_id rows'] by fastforce
  have busy: "claim_consumer t2 k2 ev rows' = (CC_BUSY, rows')" if "t2 < t + seconds 300" for t2 k2
    using that r by (simp add: claim_consumer_def consumer_busy_def consumer_claim_lease_seconds_def)
  have stale: "\<not> consumer_owned ev k2 x" if "k2 \<noteq> k" "x \<in> set rows'" for k2 x
    using that r(5) only [of x] by (auto simp: consumer_owned_def)
  have "mark_consumer_done t2 ev k2 rows' = rows'" "release_consumer t2 ev k2 rows' = rows'"
    if "k2 \<noteq> k" for t2 k2
    using stale [OF that] by (auto simp: mark_consumer_done_def release_consumer_def update_where_none)
  moreover have "claim_consumer t3 k3 ev (mark_consumer_done t2 ev k rows') =
      (CC_DONE, mark_consumer_done t2 ev k rows')" for t2 t3 k3
    using r find_id_Some [OF r(2)]
    by (simp add: claim_consumer_def mark_consumer_done_def find_id_update_where consumer_owned_def)
  ultimately show ?thesis using r(1) busy by blast
qed

lemma sample_claim_commits:
  "claim_consumer 0 ''a'' ''incident:i1:diagnose'' [sample_row] =
     (CC_CLAIMED ''a'', snd (claim_consumer 0 ''a'' ''incident:i1:diagnose'' [sample_row]))"
  by (simp add: claim_consumer_def commit_consumer_claim_def sample_row_def find_id_def
      consumer_busy_def update_where_def)

theorem consumer_claim_lease_witness:
  "claim_consumer 5 ''b'' ''incident:i1:diagnose''
     (snd (claim_consumer 0 ''a'' ''incident:i1:diagnose'' [sample_row])) =
   (CC_BUSY, snd (claim_consumer 0 ''a'' ''incident:i1:diagnose'' [sample_row]))"
  using consumer_claim_lease [of "[sample_row]" 0 "''a''" "''incident:i1:diagnose''" "''a''"
      "snd (claim_consumer 0 ''a'' ''incident:i1:diagnose'' [sample_row])"]
    sample_claim_commits by (simp add: ids_unique_def seconds_def)

section \<open>Reconciliation\<close>

definition redrivable :: "time \<Rightarrow> incident_outbox \<Rightarrow> bool" where
  "redrivable now r = (io_status r = IO_DEAD \<and> io_updated_at r \<le> now - redrive_dead_after)"

definition deliveries :: "string \<Rightarrow> incident_outbox list \<Rightarrow> incident_outbox list" where
  "deliveries incident rows = filter (\<lambda>r. io_incident_id r = incident) rows"


definition redriven_for :: "time \<Rightarrow> string set \<Rightarrow> incident_outbox \<Rightarrow> incident_outbox" where
  "redriven_for now ids r =
     (if redrivable now r \<and> io_incident_id r \<in> ids then redriven_row now r else r)"

definition stale_incidents :: "time \<Rightarrow> int \<Rightarrow> incident list \<Rightarrow> incident list" where
  "stale_incidents now max_age incidents =
     filter (\<lambda>i. in_status i = IS_NEW \<and> in_created_at i \<le> now - seconds (max 1 max_age)) incidents"

lemma deliveries_map:
  "(\<And>r. io_incident_id (f r) = io_incident_id r) \<Longrightarrow>
   length (deliveries i (map f rows)) = length (deliveries i rows)"
  unfolding deliveries_def by (induction rows) auto

lemma one_or_none_simps:
  "one_or_none rs = Inl e \<longleftrightarrow> e = MultipleResultsFound \<and> \<not> length rs \<le> 1"
  "one_or_none rs = Inr None \<longleftrightarrow> rs = []"
  "one_or_none rs = Inr (Some r) \<longleftrightarrow> rs = [r]"
  by (auto simp: one_or_none_def split: list.splits)

lemma redriven_for_singleton:
  assumes "ids_unique rows" and "deliveries i rows = [row]"
  shows "map (redriven_for now (insert i ids)) rows =
    map (redriven_for now ids)
      (if redrivable now row then map (\<lambda>r. if io_id r = io_id row then redriven_row now r else r) rows
       else rows)"
proof -
  have row: "row \<in> set rows" "io_incident_id row = i"
    using assms(2) by (auto simp: deliveries_def filter_eq_Cons_iff)
  have only: "r = row" if "r \<in> set rows" "io_incident_id r = i" for r
  proof -
    from that have "r \<in> set (deliveries i rows)" by (simp add: deliveries_def)
    with assms(2) show ?thesis by simp
  qed
  have same: "r = row" if "r \<in> set rows" "io_id r = io_id row" for r
    using that row(1) assms(1) by (auto simp: ids_unique_def distinct_map dest: inj_onD)
  have "redriven_for now (insert i ids) r = redriven_for now ids
      (if redrivable now row \<and> io_id r = io_id row then redriven_row now r else r)"
    if "r \<in> set rows" for r
    using only [OF that] same [OF that] row(2)
    by (auto simp: redriven_for_def redrivable_def redriven_row_def)
  then show ?thesis by simp
qed

lemma redriven_for_no_delivery:
  "deliveries i rows = [] \<Longrightarrow> map (redriven_for now (insert i ids)) rows = map (redriven_for now ids) rows"
  by (auto simp: deliveries_def filter_empty_conv redriven_for_def)

lemma redrive_step_simps:
  "ids_unique (map (\<lambda>r. if io_id r = k then redriven_row now r else r) rows) = ids_unique rows"
  "length (deliveries i (map (\<lambda>r. if io_id r = k then redriven_row now r else r) rows)) =
     length (deliveries i rows)"
  by (simp add: ids_unique_def comp_def redriven_row_def if_distrib cong: if_cong)
    (rule deliveries_map, simp add: redriven_row_def)

lemma reconcile_incidents_redrives:
  assumes "ids_unique rows" and "\<And>i. i \<in> set is \<Longrightarrow> length (deliveries (in_id i) rows) \<le> 1"
  shows "\<exists>counts'. reconcile_incidents now cutoff is counts rows =
           Inr (counts', map (redriven_for now (in_id ` set is)) rows)"
  using assms
proof (induction "is" arbitrary: counts rows)
  case Nil
  then show ?case by (simp add: redriven_for_def)
next
  case (Cons i "is")
  let ?ds = "deliveries (in_id i) rows"
  have is1: "\<And>j. j \<in> set is \<Longrightarrow> length (deliveries (in_id j) rows) \<le> 1" using Cons.prems(2) by simp
  consider "?ds = []" | row where "?ds = [row]"
    using Cons.prems(2) [of i] by (cases ?ds; cases "tl ?ds") auto
  then show ?case
  proof cases
    case 1
    with Cons.IH [OF Cons.prems(1) is1] show ?thesis
      by (simp add: deliveries_def [symmetric] one_or_none_def redriven_for_no_delivery)
  next
    case (2 row)
    let ?rows' = "map (\<lambda>r. if io_id r = io_id row then redriven_row now r else r) rows"
    note step = redriven_for_singleton [OF Cons.prems(1) 2, of now "in_id ` set is"]
    have ih': "\<exists>c. reconcile_incidents now cutoff is counts' ?rows' =
        Inr (c, map (redriven_for now (in_id ` set is)) ?rows')" for counts'
      by (rule Cons.IH) (use Cons.prems(1) is1 in \<open>simp_all add: redrive_step_simps\<close>)
    from 2 step ih' Cons.IH [OF Cons.prems(1) is1] show ?thesis
      by (auto simp: deliveries_def [symmetric] one_or_none_def redrivable_def
          simp del: list.map)
  qed
qed

lemma reconcile_incidents_ambiguous:
  assumes "i \<in> set is" and "\<not> length (deliveries (in_id i) rows) \<le> 1"
  shows "reconcile_incidents now cutoff is counts rows = Inl MultipleResultsFound"
  using assms
proof (induction "is" arbitrary: counts rows)
  case Nil
  then show ?case by simp
next
  case (Cons j "is")
  let ?m = "one_or_none (filter (\<lambda>r. io_incident_id r = in_id j) rows)"
  show ?case
  proof (cases "length (deliveries (in_id j) rows) \<le> 1")
    case False
    then have "?m = Inl MultipleResultsFound" by (simp add: one_or_none_simps deliveries_def)
    then show ?thesis by simp
  next
    case True
    with Cons.prems have "i \<in> set is" by auto
    with Cons.IH Cons.prems(2) True show ?thesis
      by (auto simp: one_or_none_simps deliveries_def [symmetric] redrive_step_simps
          split: sum.split option.split)
  qed
qed

text \<open>
  Reconciliation rewrites exactly the dead deliveries of stale incidents: where no stale NEW
  incident has two rows, the table afterwards is the table before with every DEAD row at least an
  hour old of such an incident put back to PENDING with a fresh round of attempts, and every other
  row untouched.  Where one has two rows the call raises and the table stays as it was, the dead
  rows of every other incident included.
\<close>

theorem reconcile_redrives_dead_only:
  assumes "ids_unique rows"
  shows "if \<forall>i \<in> set (stale_incidents now max_age incidents). length (deliveries (in_id i) rows) \<le> 1
     then \<exists>counts. reconcile_stale now max_age incidents rows =
         (Inr counts,
          map (redriven_for now (in_id ` set (stale_incidents now max_age incidents))) rows)
     else reconcile_stale now max_age incidents rows = (Inl MultipleResultsFound, rows)"
proof -
  let ?stale = "stale_incidents now max_age incidents"
  let ?start = "\<lparr>sc_missing_delivery = 0, sc_stale_pending = 0, sc_redriven = 0\<rparr>"
  have u: "reconcile_stale now max_age incidents rows =
      (case reconcile_incidents now (now - seconds (max 1 max_age)) ?stale ?start rows of
         Inl e \<Rightarrow> (Inl e, rows) | Inr (counts, rows') \<Rightarrow> (Inr counts, rows'))"
    by (simp add: reconcile_stale_def stale_incidents_def Let_def)
  show ?thesis
  proof (cases "\<forall>i \<in> set ?stale. length (deliveries (in_id i) rows) \<le> 1")
    case True
    then have "\<exists>c. reconcile_incidents now (now - seconds (max 1 max_age)) ?stale ?start rows =
        Inr (c, map (redriven_for now (in_id ` set ?stale)) rows)"
      by (intro reconcile_incidents_redrives [OF assms]) blast
    with True show ?thesis unfolding u by auto
  next
    case False
    then obtain i where "i \<in> set ?stale" "\<not> length (deliveries (in_id i) rows) \<le> 1" by blast
    with reconcile_incidents_ambiguous [OF this] False show ?thesis unfolding u by auto
  qed
qed

definition sample_incident :: incident where
  "sample_incident =
     \<lparr>in_id = ''i1'', in_cluster_id = None, in_ceph_code = ''OSD_DOWN'', in_dedupe_key = None,
      in_status = IS_NEW, in_severity = None, in_log_excerpt = None, in_signal_evidence_json = None,
      in_group_root_incident_id = None, in_diagnosis_text = None, in_postmortem_json = None,
      in_postmortem_generated_at = None, in_postmortem_prompt_version = None,
      in_telegram_reminded_at = None, in_acknowledged_at = None, in_acknowledged_by = None,
      in_muted_until = None, in_muted_by = None, in_verify_after = None, in_verify_attempts = 0,
      in_detected_at = 0, in_created_at = 0, in_updated_at = 0, in_failed_at = None\<rparr>"

theorem reconcile_redrives_dead_only_witness:
  "\<exists>counts. reconcile_stale (seconds 4000) 300 [sample_incident]
       [sample_row\<lparr>io_status := IO_DEAD, io_attempts := 8\<rparr>] =
     (Inr counts, [redriven_row (seconds 4000) (sample_row\<lparr>io_status := IO_DEAD, io_attempts := 8\<rparr>)])"
  using reconcile_redrives_dead_only
    [of "[sample_row\<lparr>io_status := IO_DEAD, io_attempts := 8\<rparr>]" "seconds 4000" 300
        "[sample_incident]"]
  by (simp add: ids_unique_def stale_incidents_def sample_incident_def deliveries_def
      sample_row_def redriven_for_def redrivable_def redrive_dead_after_def seconds_def)

end
