(* ===== verification/TelegramOutbox.thy ===== *)
theory TelegramOutbox
  imports IncidentOutbox
begin

text \<open>
  The durable delivery of Telegram notifications (\<open>shared/telegram_outbox.py\<close>): the enqueue
  functions that build an immutable document per event, claims under a lease that are re-checked at
  commit, completion with a backoff, the resolution of a cluster's channel at delivery time, the
  dispatch of a document to its alert function, statistics and the replay of dead rows.  The alert
  functions are pure network I/O: a function from a name, positional and keyword arguments to what
  the call returns or raises is an argument of the model.
\<close>

section \<open>Enqueue\<close>

definition tg_max_attempts :: int where
  "tg_max_attempts = 8"

definition tg_claim_lease_seconds :: int where
  "tg_claim_lease_seconds = 300"

definition alert_calls :: "string list" where
  "alert_calls =
     [''send_ai_ops_digest_alert'', ''send_ai_unavailable_alert'', ''send_capacity_recovery_alert'',
      ''send_code_repair_alert'', ''send_capacity_threshold_alert'', ''send_log_finding_alert'',
      ''send_log_finding_recovery_pending_alert'', ''send_log_finding_resolved_alert'',
      ''send_node_forecast_alert'', ''send_performance_rca_alert'', ''send_periodic_health_status'',
      ''send_trash_capacity_alert'', ''send_vault_alert'', ''send_vitastor_alert'',
      ''send_volume_forecast_alert'']"

definition cluster_channel_alerts :: "string list" where
  "cluster_channel_alerts =
     [''send_ai_ops_digest_alert'', ''send_ai_unavailable_alert'', ''send_log_finding_alert'',
      ''send_log_finding_recovery_pending_alert'', ''send_log_finding_resolved_alert'',
      ''send_performance_rca_alert'', ''send_periodic_health_status'', ''send_trash_capacity_alert'']"

text \<open>What an enqueue reads besides its arguments: the hash, the clock and the fresh row id.\<close>

record enqueue_env =
  ee_sha :: "pyval \<Rightarrow> string"
  ee_now :: time
  ee_uid :: string

definition tg_enqueue ::
  "enqueue_env \<Rightarrow> string \<Rightarrow> string option \<Rightarrow> string \<Rightarrow> pyval \<Rightarrow> telegram_outbox list
     \<Rightarrow> string \<times> telegram_outbox list" where
  "tg_enqueue env event_id incident_id category payload rows =
     (case find_id to_event_id event_id rows of
        Some existing \<Rightarrow> (to_event_id existing, rows)
      | None \<Rightarrow>
          (event_id, rows @
            [\<lparr>to_id = ee_uid env, to_event_id = event_id, to_incident_id = incident_id,
              to_category = category, to_payload_json = JText (sort_keys payload),
              to_payload_hash = ee_sha env (sort_keys payload), to_status = TO_PENDING,
              to_attempts = 0, to_next_attempt_at = ee_now env, to_claimed_at = None,
              to_claim_token = None, to_sent_at = None, to_last_error = None,
              to_created_at = ee_now env, to_updated_at = ee_now env\<rparr>]))"

definition incident_event :: "string \<Rightarrow> string \<Rightarrow> string" where
  "incident_event incident_id kind = ''incident:'' @ incident_id @ '':'' @ kind"

definition clipped :: "string \<Rightarrow> pyval" where
  "clipped message = PStr (take 4000 message)"

definition node_payload :: "string \<Rightarrow> string \<Rightarrow> string \<Rightarrow> pyval" where
  "node_payload incident_id host message =
     doc [(''kind'', PStr ''node_alert''), (''incident_id'', PStr incident_id),
          (''host'', PStr host), (''message'', clipped message)]"

definition enqueue_node_alert ::
  "enqueue_env \<Rightarrow> string \<Rightarrow> string \<Rightarrow> string \<Rightarrow> telegram_outbox list
     \<Rightarrow> string \<times> telegram_outbox list" where
  "enqueue_node_alert env incident_id host message =
     tg_enqueue env (incident_event incident_id ''hardware_initial'') (Some incident_id)
       ''hardware'' (node_payload incident_id host message)"

definition enqueue_node_postmortem_alert ::
  "enqueue_env \<Rightarrow> string \<Rightarrow> string \<Rightarrow> string \<Rightarrow> telegram_outbox list
     \<Rightarrow> string \<times> telegram_outbox list" where
  "enqueue_node_postmortem_alert env incident_id host message =
     tg_enqueue env (incident_event incident_id ''hardware_postmortem'') (Some incident_id)
       ''hardware'' (node_payload incident_id host message)"

definition enqueue_node_flapping_alert ::
  "enqueue_env \<Rightarrow> string \<Rightarrow> string \<Rightarrow> string \<Rightarrow> telegram_outbox list
     \<Rightarrow> string \<times> telegram_outbox list" where
  "enqueue_node_flapping_alert env incident_id host message =
     tg_enqueue env (incident_event incident_id ''hardware_flapping'') (Some incident_id)
       ''hardware'' (node_payload incident_id host message)"

definition osd_latency_payload :: "string \<Rightarrow> string \<Rightarrow> string \<Rightarrow> string \<Rightarrow> pyval" where
  "osd_latency_payload incident_id osd_id host message =
     doc [(''kind'', PStr ''osd_latency_alert''), (''incident_id'', PStr incident_id),
          (''osd_id'', PStr osd_id), (''host'', PStr host), (''message'', clipped message)]"

definition crush_skew_payload :: "string \<Rightarrow> string \<Rightarrow> string \<Rightarrow> string \<Rightarrow> pyval" where
  "crush_skew_payload incident_id signal entity_label message =
     doc [(''kind'', PStr ''crush_skew_alert''), (''incident_id'', PStr incident_id),
          (''signal'', PStr signal), (''entity_label'', PStr entity_label),
          (''message'', clipped message)]"

definition database_size_payload :: "string \<Rightarrow> string \<Rightarrow> pyval" where
  "database_size_payload incident_id message =
     doc [(''kind'', PStr ''database_size_alert''), (''incident_id'', PStr incident_id),
          (''message'', clipped message)]"

definition enqueue_osd_latency_alert ::
  "enqueue_env \<Rightarrow> string \<Rightarrow> string \<Rightarrow> string \<Rightarrow> string \<Rightarrow> telegram_outbox list
     \<Rightarrow> string \<times> telegram_outbox list" where
  "enqueue_osd_latency_alert env incident_id osd_id host message =
     tg_enqueue env (incident_event incident_id ''hardware_osd_latency'') (Some incident_id)
       ''hardware''
       (osd_latency_payload incident_id osd_id host message)"

definition enqueue_crush_skew_alert ::
  "enqueue_env \<Rightarrow> string \<Rightarrow> string \<Rightarrow> string \<Rightarrow> string \<Rightarrow> telegram_outbox list
     \<Rightarrow> string \<times> telegram_outbox list" where
  "enqueue_crush_skew_alert env incident_id signal entity_label message =
     tg_enqueue env (incident_event incident_id ''hardware_crush_skew'') (Some incident_id)
       ''hardware''
       (crush_skew_payload incident_id signal entity_label message)"

definition enqueue_database_size_alert ::
  "enqueue_env \<Rightarrow> string \<Rightarrow> string \<Rightarrow> telegram_outbox list
     \<Rightarrow> string \<times> telegram_outbox list" where
  "enqueue_database_size_alert env incident_id message =
     tg_enqueue env (incident_event incident_id ''database_capacity'') (Some incident_id)
       ''incident''
       (database_size_payload incident_id message)"

text \<open>\<open>cluster.name if cluster else None\<close>, for a cluster id that is set.\<close>

definition cluster_name_of :: "cluster list \<Rightarrow> string option \<Rightarrow> pyval" where
  "cluster_name_of clusters cluster_id =
     (if opt_truthy cluster_id
      then (case find_id cl_id (or_empty cluster_id) clusters of
              None \<Rightarrow> PNone | Some c \<Rightarrow> PStr (cl_name c))
      else PNone)"

definition enqueue_incident_alert ::
  "enqueue_env \<Rightarrow> cluster list \<Rightarrow> incident \<Rightarrow> string \<Rightarrow> string option \<Rightarrow> telegram_outbox list
     \<Rightarrow> string \<times> telegram_outbox list" where
  "enqueue_incident_alert env clusters i event_kind rationale =
     (let is_reminder = starts_with event_kind ''reminder'' in
      tg_enqueue env (incident_event (in_id i) (''incident_'' @ event_kind)) (Some (in_id i))
        ''incident''
        (doc [(''kind'', PStr ''incident_alert''), (''incident_id'', PStr (in_id i)),
              (''ceph_code'', PStr (in_ceph_code i)), (''severity'', opt_py (in_severity i)),
              (''log_excerpt'', opt_py (in_log_excerpt i)),
              (''cluster_id'', opt_py (in_cluster_id i)),
              (''cluster_name'', cluster_name_of clusters (in_cluster_id i)),
              (''event_kind'', PStr event_kind),
              (''diagnosis_text'', if is_reminder then opt_py (in_diagnosis_text i) else PNone),
              (''rationale'', if is_reminder then opt_py rationale else PNone),
              (''reminder'', PBool is_reminder)]))"

definition enqueue_alert_call ::
  "enqueue_env \<Rightarrow> string \<Rightarrow> string \<Rightarrow> string \<Rightarrow> pyval list \<Rightarrow> pyval
     \<Rightarrow> string option \<Rightarrow> string option \<Rightarrow> string option \<Rightarrow> telegram_outbox list
     \<Rightarrow> (py_exn + string) \<times> telegram_outbox list" where
  "enqueue_alert_call env event_id category function args kwargs incident_id cluster_id
     cluster_name rows =
     (if function \<notin> set alert_calls then (Inl ValueError, rows)
      else
        (let (ev, rows') = tg_enqueue env event_id incident_id category
               (doc [(''kind'', PStr ''alert_call''), (''function'', PStr function),
                     (''args'', PList args), (''kwargs'', por kwargs (PDict [])),
                     (''cluster_id'', opt_py cluster_id),
                     (''cluster_name'', opt_py cluster_name)]) rows
         in (Inr ev, rows')))"

definition enqueue_backup_alert ::
  "enqueue_env \<Rightarrow> string \<Rightarrow> string \<Rightarrow> string \<Rightarrow> string option \<Rightarrow> string option
     \<Rightarrow> string option \<Rightarrow> telegram_outbox list \<Rightarrow> string \<times> telegram_outbox list" where
  "enqueue_backup_alert env event_id severity message backup_job_id cluster_id cluster_name =
     tg_enqueue env event_id None ''backup''
       (doc [(''kind'', PStr ''backup_alert''), (''severity'', PStr severity),
             (''message'', clipped message), (''backup_job_id'', opt_py backup_job_id),
             (''cluster_id'', opt_py cluster_id), (''cluster_name'', opt_py cluster_name)])"

definition enqueue_incident_verified_alert ::
  "enqueue_env \<Rightarrow> cluster list \<Rightarrow> incident list \<Rightarrow> string \<Rightarrow> string \<Rightarrow> string option
     \<Rightarrow> string option \<Rightarrow> telegram_outbox list \<Rightarrow> (py_exn + string) \<times> telegram_outbox list" where
  "enqueue_incident_verified_alert env clusters incidents incident_id ceph_code
     attempted_command display_name rows =
     (case find_id in_id incident_id incidents of
        None \<Rightarrow> (Inl ValueError, rows)
      | Some i \<Rightarrow>
          (let (ev, rows') = tg_enqueue env (incident_event incident_id ''verified'')
                 (Some incident_id) ''incident''
                 (doc [(''kind'', PStr ''incident_verified_alert''),
                       (''incident_id'', PStr incident_id),
                       (''cluster_id'', opt_py (in_cluster_id i)),
                       (''cluster_name'', cluster_name_of clusters (in_cluster_id i)),
                       (''ceph_code'', PStr ceph_code),
                       (''attempted_command'', opt_py attempted_command),
                       (''display_name'', opt_py display_name)]) rows
           in (Inr ev, rows')))"

definition enqueue_incident_verify_exhausted_alert ::
  "enqueue_env \<Rightarrow> cluster list \<Rightarrow> incident list \<Rightarrow> string \<Rightarrow> string \<Rightarrow> int
     \<Rightarrow> telegram_outbox list \<Rightarrow> (py_exn + string) \<times> telegram_outbox list" where
  "enqueue_incident_verify_exhausted_alert env clusters incidents incident_id ceph_code attempts
     rows =
     (case find_id in_id incident_id incidents of
        None \<Rightarrow> (Inl ValueError, rows)
      | Some i \<Rightarrow>
          (let (ev, rows') = tg_enqueue env (incident_event incident_id ''verify_exhausted'')
                 (Some incident_id) ''incident''
                 (doc [(''kind'', PStr ''incident_verify_exhausted_alert''),
                       (''incident_id'', PStr incident_id),
                       (''cluster_id'', opt_py (in_cluster_id i)),
                       (''cluster_name'', cluster_name_of clusters (in_cluster_id i)),
                       (''ceph_code'', PStr ceph_code), (''attempts'', PInt attempts)]) rows
           in (Inr ev, rows')))"

section \<open>Claim and completion\<close>

definition tg_lease_run_out :: "time \<Rightarrow> telegram_outbox \<Rightarrow> bool" where
  "tg_lease_run_out now r =
     (case to_claimed_at r of None \<Rightarrow> False
      | Some c \<Rightarrow> c \<le> now - seconds tg_claim_lease_seconds)"

definition tg_due :: "time \<Rightarrow> telegram_outbox \<Rightarrow> bool" where
  "tg_due now r =
     (to_status r = TO_PENDING \<and> to_next_attempt_at r \<le> now
      \<or> to_status r = TO_PROCESSING \<and> tg_lease_run_out now r)"

text \<open>\<open>None\<close> asks for every event, \<open>Some ids\<close> for the listed ones.\<close>

definition requested :: "string list option \<Rightarrow> telegram_outbox \<Rightarrow> bool" where
  "requested event_ids r =
     (case event_ids of None \<Rightarrow> True | Some ids \<Rightarrow> to_event_id r \<in> set ids)"

definition tg_select_candidate ::
  "string list option \<Rightarrow> time \<Rightarrow> telegram_outbox list \<Rightarrow> telegram_outbox option" where
  "tg_select_candidate event_ids now rows =
     first_by (\<lambda>r. (to_next_attempt_at r, to_created_at r))
       (filter (\<lambda>r. tg_due now r \<and> requested event_ids r) rows)"

record tg_claimed =
  tc_row_id :: string
  tc_token :: string
  tc_payload :: pyval

definition tg_claimed_row :: "time \<Rightarrow> string \<Rightarrow> telegram_outbox \<Rightarrow> telegram_outbox" where
  "tg_claimed_row now token r =
     r\<lparr>to_status := TO_PROCESSING, to_claimed_at := Some now, to_claim_token := Some token,
       to_attempts := to_attempts r + 1, to_updated_at := now\<rparr>"

definition tg_commit_claim ::
  "time \<Rightarrow> string \<Rightarrow> telegram_outbox \<Rightarrow> telegram_outbox list
     \<Rightarrow> (py_exn + tg_claimed option) \<times> telegram_outbox list" where
  "tg_commit_claim now token cand rows =
     (let (updated, rows') = update_where
            (\<lambda>r. to_id r = to_id cand
               \<and> (to_status r = to_status cand
                  \<and> (to_status cand \<noteq> TO_PROCESSING \<or> tg_lease_run_out now r)))
            (tg_claimed_row now token) rows
      in if updated \<noteq> 1 then (Inr None, rows)
         else case to_payload_json cand of
                JMalformed \<Rightarrow> (Inl ValueError, rows)
              | JText payload \<Rightarrow>
                  (Inr (Some \<lparr>tc_row_id = to_id cand, tc_token = token, tc_payload = payload\<rparr>),
                   rows'))"

definition tg_claim_one ::
  "string list option \<Rightarrow> time \<Rightarrow> string \<Rightarrow> telegram_outbox list
     \<Rightarrow> (py_exn + tg_claimed option) \<times> telegram_outbox list" where
  "tg_claim_one event_ids now token rows =
     (case tg_select_candidate event_ids now rows of
        None \<Rightarrow> (Inr None, rows)
      | Some cand \<Rightarrow> tg_commit_claim now token cand rows)"

definition tg_owned :: "string \<Rightarrow> string \<Rightarrow> telegram_outbox \<Rightarrow> bool" where
  "tg_owned row_id token r =
     (to_id r = row_id \<and> to_claim_token r = Some token \<and> to_status r = TO_PROCESSING)"

definition tg_mark_sent ::
  "time \<Rightarrow> string \<Rightarrow> string \<Rightarrow> telegram_outbox list \<Rightarrow> telegram_outbox list" where
  "tg_mark_sent now row_id token rows =
     snd (update_where (tg_owned row_id token)
       (\<lambda>r. r\<lparr>to_status := TO_SENT, to_sent_at := Some now, to_updated_at := now,
             to_last_error := None\<rparr>) rows)"

definition tg_failed_row :: "time \<Rightarrow> py_exception \<Rightarrow> telegram_outbox \<Rightarrow> telegram_outbox" where
  "tg_failed_row now e r =
     r\<lparr>to_status := (if to_attempts r \<ge> tg_max_attempts then TO_DEAD else TO_PENDING),
       to_next_attempt_at := now + seconds (min 3600 (5 * 2 ^ nat (max 0 (to_attempts r - 1)))),
       to_last_error := Some (safe_error e), to_updated_at := now\<rparr>"

definition tg_mark_failed ::
  "time \<Rightarrow> string \<Rightarrow> string \<Rightarrow> py_exception \<Rightarrow> telegram_outbox list \<Rightarrow> telegram_outbox list" where
  "tg_mark_failed now row_id token e rows =
     snd (update_where (tg_owned row_id token) (tg_failed_row now e) rows)"

section \<open>Channels\<close>

text \<open>The settings of the managed backup channel.\<close>

record telegram_settings =
  ts_cluster_name :: string
  ts_backup_bot_token :: string
  ts_backup_chat_id :: string
  ts_backup_enabled :: bool

type_synonym kwargs = "(string \<times> pyval) list"

definition session_get_cluster :: "cluster list \<Rightarrow> pyval \<Rightarrow> cluster option" where
  "session_get_cluster clusters v =
     (case v of PStr k \<Rightarrow> find_id cl_id k clusters | _ \<Rightarrow> None)"

definition payload_cluster :: "cluster list \<Rightarrow> pyval \<Rightarrow> cluster option" where
  "payload_cluster clusters payload =
     (if truthy (dget payload ''cluster_id'')
      then session_get_cluster clusters (dget payload ''cluster_id'') else None)"

definition has_cluster_channel :: "cluster option \<Rightarrow> bool" where
  "has_cluster_channel c =
     (case c of None \<Rightarrow> False
      | Some cl \<Rightarrow> cl_telegram_bot_token cl \<noteq> [] \<and> cl_telegram_chat_id cl \<noteq> [])"

definition own_channel :: "cluster option \<Rightarrow> kwargs" where
  "own_channel c =
     (case c of
        Some cl \<Rightarrow>
          if has_cluster_channel (Some cl)
          then [(''bot_token'', PStr (cl_telegram_bot_token cl)),
                (''chat_id'', PStr (cl_telegram_chat_id cl)),
                (''enabled'', PBool (cl_telegram_enabled cl))]
          else [(''bot_token'', PNone), (''chat_id'', PNone), (''enabled'', PNone)]
      | None \<Rightarrow> [(''bot_token'', PNone), (''chat_id'', PNone), (''enabled'', PNone)])"

definition cluster_channel_kwargs :: "cluster list \<Rightarrow> pyval \<Rightarrow> kwargs" where
  "cluster_channel_kwargs clusters payload =
     (''cluster_name'', dget payload ''cluster_name'')
       # own_channel (payload_cluster clusters payload)"

definition backup_channel_kwargs :: "telegram_settings \<Rightarrow> cluster list \<Rightarrow> pyval \<Rightarrow> kwargs" where
  "backup_channel_kwargs settings clusters payload =
     (if truthy (dget payload ''cluster_id'')
      then (case session_get_cluster clusters (dget payload ''cluster_id'') of
              None \<Rightarrow>
                [(''cluster_name'', dget payload ''cluster_name''), (''bot_token'', PNone),
                 (''chat_id'', PNone), (''enabled'', PBool False), (''managed_channel'', PBool False)]
            | Some cl \<Rightarrow>
                [(''cluster_name'', PStr (cl_name cl)),
                 (''bot_token'', PStr (cl_telegram_bot_token cl)),
                 (''chat_id'', PStr (cl_telegram_chat_id cl)),
                 (''enabled'', PBool (cl_telegram_enabled cl)), (''managed_channel'', PBool False)])
      else [(''cluster_name'', por (dget payload ''cluster_name'') (PStr (ts_cluster_name settings))),
            (''bot_token'', PStr (ts_backup_bot_token settings)),
            (''chat_id'', PStr (ts_backup_chat_id settings)),
            (''enabled'', PBool (ts_backup_enabled settings)), (''managed_channel'', PBool True)])"

section \<open>Delivery\<close>

text \<open>What a call of an alert function does.\<close>

datatype send_result = Returned pyval | Raised py_exception

type_synonym alert_sender = "pyval list \<Rightarrow> kwargs \<Rightarrow> send_result"

definition exn :: "string \<Rightarrow> string \<Rightarrow> py_exception" where
  "exn ty msg = \<lparr>ex_type = ty, ex_message = msg\<rparr>"

text \<open>\<open>repr\<close> of a value, for the texts of the errors.\<close>

definition py_repr :: "pyval \<Rightarrow> string" where
  "py_repr v = (case v of PStr s \<Rightarrow> [CHR 0x27] @ s @ [CHR 0x27] | _ \<Rightarrow> py_str v)"

definition kw_put :: "string \<Rightarrow> pyval \<Rightarrow> kwargs \<Rightarrow> kwargs" where
  "kw_put k v kws =
     (if k \<in> fst ` set kws then map (\<lambda>(k', w). if k' = k then (k', v) else (k', w)) kws
      else kws @ [(k, v)])"

definition kw_update :: "kwargs \<Rightarrow> kwargs \<Rightarrow> kwargs" where
  "kw_update kws new = fold (\<lambda>(k, v). kw_put k v) new kws"

definition kw_setdefault :: "string \<Rightarrow> pyval \<Rightarrow> kwargs \<Rightarrow> kwargs" where
  "kw_setdefault k v kws = (if k \<in> fst ` set kws then kws else kws @ [(k, v)])"

text \<open>The subscript \<open>payload[key]\<close> of every listed key, or the \<open>KeyError\<close> of the first missing one.\<close>

fun subscripts :: "pyval \<Rightarrow> string list \<Rightarrow> py_exception + pyval list" where
  "subscripts d [] = Inr []"
| "subscripts d (k # ks) =
     (case map_of (items_of d) (PStr k) of
        None \<Rightarrow> Inl (exn ''KeyError'' (py_repr (PStr k)))
      | Some v \<Rightarrow> (case subscripts d ks of Inl e \<Rightarrow> Inl e | Inr vs \<Rightarrow> Inr (v # vs)))"

text \<open>A call whose result is ignored, and a call that must not return \<open>False\<close>.\<close>

definition call_ignoring_result :: "alert_sender \<Rightarrow> pyval list \<Rightarrow> kwargs \<Rightarrow> py_exception option" where
  "call_ignoring_result f args kws =
     (case f args kws of Returned v \<Rightarrow> None | Raised e \<Rightarrow> Some e)"

definition call_checked ::
  "alert_sender \<Rightarrow> pyval list \<Rightarrow> kwargs \<Rightarrow> string \<Rightarrow> py_exception option" where
  "call_checked f args kws msg =
     (case f args kws of
        Raised e \<Rightarrow> Some e
      | Returned v \<Rightarrow> if v = PBool False then Some (exn ''RuntimeError'' msg) else None)"

text \<open>
  What a delivery reads: the cluster table, the settings, \<open>datetime.fromisoformat\<close> (nothing where it
  raises), the alert functions by name and the \<open>sender\<close> that replaces them.
\<close>

record delivery_world =
  dw_clusters :: "cluster list"
  dw_settings :: telegram_settings
  dw_fromisoformat :: "string \<Rightarrow> pyval option"
  dw_alerts :: "string \<Rightarrow> alert_sender"
  dw_sender :: "alert_sender option"

definition callback :: "delivery_world \<Rightarrow> string \<Rightarrow> alert_sender" where
  "callback w name = (case dw_sender w of Some s \<Rightarrow> s | None \<Rightarrow> dw_alerts w name)"

text \<open>A stored \<open>kwargs\<close> is a dictionary and \<open>args\<close> a list; anything else raises in the call.\<close>

definition kwargs_of :: "pyval \<Rightarrow> py_exception + kwargs" where
  "kwargs_of v =
     (case por v (PDict []) of
        PDict kvs \<Rightarrow> Inr (map (\<lambda>(k, w). (py_str k, w)) kvs)
      | _ \<Rightarrow> Inl (exn ''TypeError'' ''kwargs''))"

definition parse_target_at ::
  "(string \<Rightarrow> pyval option) \<Rightarrow> string \<Rightarrow> kwargs \<Rightarrow> py_exception + kwargs" where
  "parse_target_at from_iso function kws =
     (case (function = ''send_volume_forecast_alert'', map_of kws ''target_at'') of
        (True, Some (PStr s)) \<Rightarrow>
          (case from_iso s of
             None \<Rightarrow> Inl (exn ''ValueError'' (''Invalid isoformat string: '' @ py_repr (PStr s)))
           | Some t \<Rightarrow> Inr (kw_put ''target_at'' t kws))
      | _ \<Rightarrow> Inr kws)"

definition deliver_alert_call :: "delivery_world \<Rightarrow> pyval \<Rightarrow> py_exception option" where
  "deliver_alert_call w payload =
     (case in_strings (dget payload ''function'') alert_calls of
        Inl _ \<Rightarrow> Some (exn ''TypeError'' ''unhashable type'')
      | Inr False \<Rightarrow>
          Some (exn ''ValueError''
            (''unsupported Telegram alert function: '' @ py_repr (dget payload ''function'')))
      | Inr True \<Rightarrow>
          (let function = py_str (dget payload ''function'') in
           case kwargs_of (dget payload ''kwargs'') of
             Inl e \<Rightarrow> Some e
           | Inr kws0 \<Rightarrow>
          (case parse_target_at (dw_fromisoformat w) function kws0 of
             Inl e \<Rightarrow> Some e
           | Inr kws1 \<Rightarrow>
               (let kws2 =
                  (if function \<in> set cluster_channel_alerts
                   then kw_update kws1 (cluster_channel_kwargs (dw_clusters w) payload)
                   else if dget payload ''cluster_name'' \<noteq> PNone
                   then kw_setdefault ''cluster_name'' (dget payload ''cluster_name'') kws1
                   else kws1)
                in case dget_default payload ''args'' (PList []) of
                     PList args \<Rightarrow>
                       call_checked (callback w function) args kws2
                         (''Telegram alert delivery returned false for '' @ function)
                   | _ \<Rightarrow> Some (exn ''TypeError'' ''args'')))))"

definition call_subscripts ::
  "pyval \<Rightarrow> string list \<Rightarrow> (pyval list \<Rightarrow> py_exception option) \<Rightarrow> py_exception option" where
  "call_subscripts payload keys call =
     (case subscripts payload keys of Inl e \<Rightarrow> Some e | Inr args \<Rightarrow> call args)"

definition deliver_incident_alert :: "delivery_world \<Rightarrow> pyval \<Rightarrow> py_exception option" where
  "deliver_incident_alert w payload =
     (let kws0 = [(''background'', PBool False)];
          kws1 = (if truthy (dget payload ''cluster_id'')
                  then kw_update kws0 (cluster_channel_kwargs (dw_clusters w) payload) else kws0);
          kws2 = (if truthy (dget payload ''reminder'')
                  then kw_update kws1
                         [(''reminder'', PBool True),
                          (''diagnosis_text'', dget payload ''diagnosis_text''),
                          (''rationale'', dget payload ''rationale'')]
                  else kws1)
      in call_subscripts payload [''ceph_code'']
           (\<lambda>args. call_checked (dw_alerts w ''send_incident_alert'')
              (args @ [dget payload ''severity'', dget payload ''log_excerpt'']) kws2
              ''Telegram alert delivery returned false''))"

definition deliver :: "delivery_world \<Rightarrow> pyval \<Rightarrow> py_exception option" where
  "deliver w payload =
     (if \<not> is_dict payload then Some (exn ''AttributeError'' ''get'')
      else
        (let kind = dget payload ''kind'' in
         if kind = PStr ''alert_call'' then deliver_alert_call w payload
         else if kind = PStr ''node_alert'' then
           call_subscripts payload [''host'', ''message'']
             (\<lambda>args. call_ignoring_result (callback w ''send_node_alert'') args [])
         else if kind = PStr ''osd_latency_alert'' then
           call_subscripts payload [''osd_id'', ''host'', ''message'']
             (\<lambda>args. call_ignoring_result (callback w ''send_osd_latency_alert'') args [])
         else if kind = PStr ''crush_skew_alert'' then
           call_subscripts payload [''signal'', ''entity_label'', ''message'']
             (\<lambda>args. call_ignoring_result (callback w ''send_crush_skew_alert'') args [])
         else if kind = PStr ''database_size_alert'' then
           call_subscripts payload [''message'']
             (\<lambda>args. call_ignoring_result (callback w ''send_database_size_alert'') args [])
         else if kind = PStr ''incident_verified_alert'' then
           (let kws0 = cluster_channel_kwargs (dw_clusters w) payload;
                kws1 = (if dget payload ''attempted_command'' \<noteq> PNone
                        then kw_put ''attempted_command'' (dget payload ''attempted_command'') kws0
                        else kws0);
                kws2 = (if dget payload ''display_name'' \<noteq> PNone
                        then kw_put ''display_name'' (dget payload ''display_name'') kws1
                        else kws1)
            in call_subscripts payload [''ceph_code'']
                 (\<lambda>args. call_checked (callback w ''send_incident_verified_alert'') args kws2
                    ''Telegram verified alert delivery returned false''))
         else if kind = PStr ''incident_verify_exhausted_alert'' then
           call_subscripts payload [''ceph_code'', ''attempts'']
             (\<lambda>args. call_checked (callback w ''send_incident_verify_exhausted_alert'') args
                (cluster_channel_kwargs (dw_clusters w) payload)
                ''Telegram exhausted alert delivery returned false'')
         else if kind = PStr ''backup_alert'' then
           call_subscripts payload [''severity'', ''message'']
             (\<lambda>args. call_checked (dw_alerts w ''send_backup_alert'')
                (args @ [dget payload ''backup_job_id''])
                (backup_channel_kwargs (dw_settings w) (dw_clusters w) payload)
                ''Telegram backup alert delivery returned false'')
         else if kind = PStr ''incident_alert'' then deliver_incident_alert w payload
         else Some (exn ''ValueError''
                (''unsupported telegram outbox payload kind: '' @ py_repr kind))))"

section \<open>Dispatch\<close>

record tg_dispatch_env =
  te_claim_at :: time
  te_token :: string
  te_world :: delivery_world
  te_finish_at :: time

definition tg_finish_delivery ::
  "tg_dispatch_env \<Rightarrow> tg_claimed \<Rightarrow> telegram_outbox list \<Rightarrow> telegram_outbox list" where
  "tg_finish_delivery env c rows =
     (case deliver (te_world env) (tc_payload c) of
        Some e \<Rightarrow> tg_mark_failed (te_finish_at env) (tc_row_id c) (tc_token c) e rows
      | None \<Rightarrow> tg_mark_sent (te_finish_at env) (tc_row_id c) (tc_token c) rows)"

fun tg_dispatch_rounds ::
  "string list option \<Rightarrow> nat \<Rightarrow> (nat \<Rightarrow> tg_dispatch_env) \<Rightarrow> nat \<Rightarrow> telegram_outbox list
     \<Rightarrow> (py_exn + nat) \<times> telegram_outbox list" where
  "tg_dispatch_rounds ids 0 envs processed rows = (Inr processed, rows)"
| "tg_dispatch_rounds ids (Suc n) envs processed rows =
     (let env = envs processed in
      case tg_claim_one ids (te_claim_at env) (te_token env) rows of
        (Inl e, rows') \<Rightarrow> (Inl e, rows')
      | (Inr None, rows') \<Rightarrow> (Inr processed, rows')
      | (Inr (Some c), rows') \<Rightarrow>
          tg_dispatch_rounds ids n envs (processed + 1) (tg_finish_delivery env c rows'))"

definition tg_dispatch_due ::
  "int \<Rightarrow> string list option \<Rightarrow> (nat \<Rightarrow> tg_dispatch_env) \<Rightarrow> telegram_outbox list
     \<Rightarrow> (py_exn + nat) \<times> telegram_outbox list" where
  "tg_dispatch_due limit ids envs rows = tg_dispatch_rounds ids (nat (max 0 limit)) envs 0 rows"

definition delivered_now :: "string \<Rightarrow> telegram_outbox list \<Rightarrow> bool" where
  "delivered_now event_id rows =
     (case find_id to_event_id event_id rows of None \<Rightarrow> False | Some r \<Rightarrow> to_status r = TO_SENT)"

definition enqueue_alert_call_and_dispatch ::
  "enqueue_env \<Rightarrow> (nat \<Rightarrow> tg_dispatch_env) \<Rightarrow> string \<Rightarrow> string \<Rightarrow> string \<Rightarrow> pyval list \<Rightarrow> pyval
     \<Rightarrow> string option \<Rightarrow> string option \<Rightarrow> string option \<Rightarrow> telegram_outbox list
     \<Rightarrow> (py_exn + bool) \<times> telegram_outbox list" where
  "enqueue_alert_call_and_dispatch env envs event_id category function args kwargs incident_id
     cluster_id cluster_name rows =
     (case enqueue_alert_call env event_id category function args kwargs incident_id cluster_id
             cluster_name rows of
        (Inl e, rows1) \<Rightarrow> (Inl e, rows1)
      | (Inr ev, rows1) \<Rightarrow>
          (case tg_dispatch_due 20 (Some [ev]) envs rows1 of
             (Inl e, rows2) \<Rightarrow> (Inl e, rows2)
           | (Inr n, rows2) \<Rightarrow> (Inr (delivered_now ev rows2), rows2)))"

definition enqueue_backup_alert_and_dispatch ::
  "enqueue_env \<Rightarrow> (nat \<Rightarrow> tg_dispatch_env) \<Rightarrow> string \<Rightarrow> string \<Rightarrow> string \<Rightarrow> string option
     \<Rightarrow> string option \<Rightarrow> string option \<Rightarrow> telegram_outbox list
     \<Rightarrow> (py_exn + bool) \<times> telegram_outbox list" where
  "enqueue_backup_alert_and_dispatch env envs event_id severity message backup_job_id cluster_id
     cluster_name rows =
     (let (ev, rows1) = enqueue_backup_alert env event_id severity message backup_job_id cluster_id
            cluster_name rows
      in case tg_dispatch_due 20 (Some [ev]) envs rows1 of
           (Inl e, rows2) \<Rightarrow> (Inl e, rows2)
         | (Inr n, rows2) \<Rightarrow> (Inr (delivered_now ev rows2), rows2))"

section \<open>Statistics and replay\<close>

record telegram_stats =
  tt_pending :: nat
  tt_processing :: nat
  tt_sent :: nat
  tt_dead :: nat
  tt_due :: nat

definition tg_count :: "telegram_outbox_status \<Rightarrow> telegram_outbox list \<Rightarrow> nat" where
  "tg_count s rows = length (filter (\<lambda>r. to_status r = s) rows)"

definition tg_delivery_stats :: "time \<Rightarrow> telegram_outbox list \<Rightarrow> telegram_stats" where
  "tg_delivery_stats now rows =
     \<lparr>tt_pending = tg_count TO_PENDING rows, tt_processing = tg_count TO_PROCESSING rows,
      tt_sent = tg_count TO_SENT rows, tt_dead = tg_count TO_DEAD rows,
      tt_due = length (filter (\<lambda>r. to_status r = TO_PENDING \<and> to_next_attempt_at r \<le> now) rows)\<rparr>"

definition replayed_row :: "time \<Rightarrow> telegram_outbox \<Rightarrow> telegram_outbox" where
  "replayed_row now r =
     r\<lparr>to_status := TO_PENDING, to_attempts := 0, to_next_attempt_at := now, to_claimed_at := None,
       to_claim_token := None, to_sent_at := None, to_last_error := None, to_updated_at := now\<rparr>"

definition replay_candidates :: "string list option \<Rightarrow> int \<Rightarrow> telegram_outbox list \<Rightarrow> telegram_outbox list" where
  "replay_candidates ids limit rows =
     take (nat (max 0 limit))
       (sort_by to_created_at (filter (\<lambda>r. to_status r = TO_DEAD \<and> requested ids r) rows))"

definition replay_dead ::
  "time \<Rightarrow> string list option \<Rightarrow> int \<Rightarrow> telegram_outbox list \<Rightarrow> nat \<times> telegram_outbox list" where
  "replay_dead now ids limit rows =
     (let chosen = replay_candidates ids limit rows in
      (length chosen,
       map (\<lambda>r. if to_id r \<in> set (map to_id chosen) then replayed_row now r else r) rows))"

section \<open>The queue contract\<close>

fun to_queue_status :: "telegram_outbox_status \<Rightarrow> queue_status" where
  "to_queue_status TO_PENDING = QPending"
| "to_queue_status TO_PROCESSING = QProcessing"
| "to_queue_status TO_SENT = QSent"
| "to_queue_status TO_DEAD = QDead"

lemma to_queue_status_simps [simp]:
  "to_queue_status s = QPending \<longleftrightarrow> s = TO_PENDING"
  "to_queue_status s = QProcessing \<longleftrightarrow> s = TO_PROCESSING"
  "to_queue_status s = QSent \<longleftrightarrow> s = TO_SENT"
  "to_queue_status s = QDead \<longleftrightarrow> s = TO_DEAD"
  by (cases s; simp)+

definition tg_view_row :: "telegram_outbox \<Rightarrow> envelope row_view" where
  "tg_view_row r =
     \<lparr>rv_status = to_queue_status (to_status r), rv_token = to_claim_token r,
      rv_attempts = to_attempts r,
      rv_payload = (to_event_id r, to_category r, to_payload_json r, to_payload_hash r)\<rparr>"

definition tg_view :: "telegram_outbox list \<Rightarrow> string \<Rightarrow> envelope row_view option" where
  "tg_view rows i = (case find_id to_id i rows of None \<Rightarrow> None | Some r \<Rightarrow> Some (tg_view_row r))"

definition tg_ids_unique :: "telegram_outbox list \<Rightarrow> bool" where
  "tg_ids_unique rows = distinct (map to_id rows)"

definition claimed_id ::
  "(py_exn + tg_claimed option) \<times> telegram_outbox list \<Rightarrow> string option \<times> telegram_outbox list" where
  "claimed_id res = (case res of (Inr (Some c), rows) \<Rightarrow> (Some (tc_row_id c), rows)
                     | (_, rows) \<Rightarrow> (None, rows))"

definition tg_claim_id ::
  "string list option \<Rightarrow> time \<Rightarrow> string \<Rightarrow> telegram_outbox list \<Rightarrow> string option \<times> telegram_outbox list" where
  "tg_claim_id ids now token rows = claimed_id (tg_claim_one ids now token rows)"

definition tg_commit_id ::
  "time \<Rightarrow> string \<Rightarrow> telegram_outbox \<Rightarrow> telegram_outbox list \<Rightarrow> string option \<times> telegram_outbox list" where
  "tg_commit_id now token cand rows = claimed_id (tg_commit_claim now token cand rows)"

text \<open>The condition of the commit, at one row.\<close>

definition tg_takes :: "time \<Rightarrow> telegram_outbox \<Rightarrow> telegram_outbox \<Rightarrow> bool" where
  "tg_takes now cand r =
     (to_status r = to_status cand \<and> (to_status cand \<noteq> TO_PROCESSING \<or> tg_lease_run_out now r))"

lemma tg_claimed_row_id [simp]: "to_id (tg_claimed_row now token r) = to_id r"
  by (simp add: tg_claimed_row_def)

lemma tg_select_candidate_in:
  assumes "tg_select_candidate ids now rows = Some c"
  shows "c \<in> set rows" and "tg_due now c"
  using first_by_in [OF assms [unfolded tg_select_candidate_def]] by auto

lemma tg_due_takes: "tg_due now c \<Longrightarrow> tg_takes now c c"
  by (auto simp: tg_due_def tg_takes_def)

lemma tg_commit_id_eq:
  assumes "tg_ids_unique rows"
  shows "tg_commit_id now token cand rows =
    (case find_id to_id (to_id cand) rows of
       None \<Rightarrow> (None, rows)
     | Some r \<Rightarrow>
         if tg_takes now cand r \<and> to_payload_json cand \<noteq> JMalformed
         then (Some (to_id cand),
               snd (update_where (\<lambda>r. to_id r = to_id cand \<and> tg_takes now cand r)
                      (tg_claimed_row now token) rows))
         else (None, rows))"
proof -
  have n: "fst (update_where (\<lambda>r. to_id r = to_id cand \<and> tg_takes now cand r)
        (tg_claimed_row now token) rows) =
      (case find_id to_id (to_id cand) rows of None \<Rightarrow> 0
       | Some r \<Rightarrow> if tg_takes now cand r then 1 else 0)"
    using assms unfolding tg_ids_unique_def by (rule update_where_key_count)
  show ?thesis
    unfolding tg_commit_id_def tg_commit_claim_def claimed_id_def tg_takes_def [symmetric]
    by (simp add: case_prod_unfold n split: option.split json_text.split)
qed

lemma tg_claim_id_eq:
  assumes "tg_ids_unique rows" and "tg_select_candidate ids now rows = Some c"
  shows "find_id to_id (to_id c) rows = Some c"
    and "tg_claim_id ids now token rows =
      (if to_payload_json c \<noteq> JMalformed
       then (Some (to_id c),
             snd (update_where (\<lambda>r. to_id r = to_id c \<and> tg_takes now c r)
                    (tg_claimed_row now token) rows))
       else (None, rows))"
proof -
  show f: "find_id to_id (to_id c) rows = Some c"
    using find_id_in [OF assms(1) [unfolded tg_ids_unique_def] tg_select_candidate_in(1) [OF assms(2)]] .
  have "tg_claim_id ids now token rows = tg_commit_id now token c rows"
    using assms(2) by (simp add: tg_claim_id_def tg_claim_one_def tg_commit_id_def)
  with tg_commit_id_eq [OF assms(1), of now token c] f
    tg_due_takes [OF tg_select_candidate_in(2) [OF assms(2)]]
  show "tg_claim_id ids now token rows =
      (if to_payload_json c \<noteq> JMalformed
       then (Some (to_id c),
             snd (update_where (\<lambda>r. to_id r = to_id c \<and> tg_takes now c r)
                    (tg_claimed_row now token) rows))
       else (None, rows))" by simp
qed

lemma claimed_id_commit_None:
  "fst (claimed_id (tg_commit_claim now token c rows)) = None \<Longrightarrow>
   snd (claimed_id (tg_commit_claim now token c rows)) = rows"
  by (auto simp: claimed_id_def tg_commit_claim_def Let_def case_prod_unfold
      split: if_splits json_text.splits)

lemma claimed_id_None [simp]: "claimed_id (Inr None, rows) = (None, rows)"
  by (simp add: claimed_id_def)

lemma tg_claim_id_none_selected:
  "tg_select_candidate ids now rows = None \<Longrightarrow> tg_claim_id ids now token rows = (None, rows)"
  by (simp add: tg_claim_id_def tg_claim_one_def claimed_id_def)

lemma tg_claim_id_None:
  "fst (tg_claim_id ids now token rows) = None \<Longrightarrow> snd (tg_claim_id ids now token rows) = rows"
  by (cases "tg_select_candidate ids now rows")
    (auto simp: tg_claim_id_none_selected tg_claim_id_def tg_claim_one_def claimed_id_commit_None)

lemma tg_claim_id_Some:
  assumes "tg_ids_unique rows" and "fst (tg_claim_id ids now token rows) = Some i"
  obtains r where "tg_select_candidate ids now rows = Some r" "to_id r = i"
    "find_id to_id i rows = Some r" "tg_due now r"
    "snd (tg_claim_id ids now token rows) =
       snd (update_where (\<lambda>s. to_id s = i \<and> tg_takes now r s) (tg_claimed_row now token) rows)"
proof (cases "tg_select_candidate ids now rows")
  case None
  with assms(2) show ?thesis by (simp add: tg_claim_id_none_selected)
next
  case (Some r)
  with tg_claim_id_eq [OF assms(1) Some] assms(2) tg_select_candidate_in(2) [OF Some]
  show ?thesis by (intro that [of r]) (auto split: if_splits)
qed

lemma tg_ids_unique_update_where:
  "(\<And>r. to_id (f r) = to_id r) \<Longrightarrow> tg_ids_unique (snd (update_where P f rows)) = tg_ids_unique rows"
  by (simp add: tg_ids_unique_def map_key_update_where)

lemma tg_claim_id_inv:
  assumes "tg_ids_unique rows"
  shows "tg_ids_unique (snd (tg_claim_id ids t k rows))"
proof (cases "fst (tg_claim_id ids t k rows)")
  case None
  then show ?thesis using assms tg_claim_id_None by simp
next
  case (Some i)
  with assms show ?thesis
    by (elim tg_claim_id_Some [OF assms]) (simp add: tg_ids_unique_update_where)
qed

lemma tg_mark_sent_view:
  "tg_view (tg_mark_sent t i k rows) j =
     map_option (\<lambda>v. if j = i \<and> rv_status v = QProcessing \<and> rv_token v = Some k
                     then v\<lparr>rv_status := QSent\<rparr> else v) (tg_view rows j)"
proof (cases "find_id to_id j rows")
  case None
  then show ?thesis by (simp add: tg_mark_sent_def tg_view_def find_id_update_where)
next
  case (Some r)
  with find_id_Some [OF Some] show ?thesis
    by (cases "tg_owned i k r")
      (auto simp: tg_mark_sent_def tg_view_def find_id_update_where tg_owned_def tg_view_row_def)
qed

lemma tg_mark_failed_view:
  "tg_view (tg_mark_failed t i k e rows) j =
     map_option (\<lambda>v. if j = i \<and> rv_status v = QProcessing \<and> rv_token v = Some k
                     then v\<lparr>rv_status := (if rv_attempts v \<ge> tg_max_attempts then QDead else QPending)\<rparr>
                     else v) (tg_view rows j)"
proof (cases "find_id to_id j rows")
  case None
  then show ?thesis
    by (simp add: tg_mark_failed_def tg_view_def find_id_update_where tg_failed_row_def)
next
  case (Some r)
  with find_id_Some [OF Some] show ?thesis
    by (cases "tg_owned i k r")
      (auto simp: tg_mark_failed_def tg_view_def find_id_update_where tg_owned_def tg_failed_row_def
         tg_view_row_def)
qed

lemma tg_claim_view_taken:
  assumes "tg_ids_unique rows" and "fst (tg_claim_id ids t k rows) = Some i"
  shows "\<exists>v. tg_view rows i = Some v \<and> rv_status v \<in> {QPending, QProcessing}
      \<and> tg_view (snd (tg_claim_id ids t k rows)) i =
          Some (v\<lparr>rv_status := QProcessing, rv_token := Some k, rv_attempts := rv_attempts v + 1\<rparr>)"
  by (rule tg_claim_id_Some [OF assms])
    (auto simp: tg_view_def find_id_update_where tg_due_takes tg_view_row_def tg_claimed_row_def tg_due_def)

lemma tg_claim_view_frame:
  assumes "tg_ids_unique rows" and "fst (tg_claim_id ids t k rows) = Some i" and "j \<noteq> i"
  shows "tg_view (snd (tg_claim_id ids t k rows)) j = tg_view rows j"
  by (rule tg_claim_id_Some [OF assms(1,2)])
    (use assms(3) in \<open>auto simp: tg_view_def find_id_update_where split: option.splits dest: find_id_Some\<close>)

lemma tg_commit_again:
  assumes u: "tg_ids_unique rows" and c: "tg_select_candidate ids t1 rows = Some c"
    and one: "fst (tg_commit_id t1 k1 c rows) = Some i" and t: "t2 - seconds 300 < t1"
  shows "tg_commit_id t2 k2 c (snd (tg_commit_id t1 k1 c rows)) =
           (None, snd (tg_commit_id t1 k1 c rows))"
proof -
  let ?rows' = "snd (update_where (\<lambda>r. to_id r = to_id c \<and> tg_takes t1 c r)
                  (tg_claimed_row t1 k1) rows)"
  have f: "find_id to_id (to_id c) rows = Some c"
    by (rule tg_claim_id_eq(1) [OF u c])
  have tk: "tg_takes t1 c c" using tg_due_takes [OF tg_select_candidate_in(2) [OF c]] .
  have "tg_commit_id t1 k1 c rows = (Some (to_id c), ?rows')"
    using tg_commit_id_eq [OF u, of t1 k1 c] f tk one by (auto split: if_splits)
  moreover have "tg_ids_unique ?rows'" using u by (simp add: tg_ids_unique_update_where)
  moreover have "find_id to_id (to_id c) ?rows' = Some (tg_claimed_row t1 k1 c)"
    using f tk by (simp add: find_id_update_where)
  moreover have "\<not> tg_takes t2 c (tg_claimed_row t1 k1 c)"
    using t by (auto simp: tg_takes_def tg_claimed_row_def tg_lease_run_out_def tg_claim_lease_seconds_def)
  ultimately show ?thesis by (simp add: tg_commit_id_eq)
qed

interpretation tg_queue: exclusive_lease_queue tg_view tg_ids_unique "tg_claim_id ids"
    tg_mark_sent tg_mark_failed tg_max_attempts "tg_select_candidate ids" tg_commit_id "seconds 300"
  for ids
proof unfold_locales
  fix q t k i and e :: py_exception and j
  show "tg_ids_unique q \<Longrightarrow> tg_ids_unique (snd (tg_claim_id ids t k q))"
    by (rule tg_claim_id_inv)
  show "tg_ids_unique q \<Longrightarrow> tg_ids_unique (tg_mark_sent t i k q)"
    by (simp add: tg_mark_sent_def tg_ids_unique_update_where)
  show "tg_ids_unique q \<Longrightarrow> tg_ids_unique (tg_mark_failed t i k e q)"
    by (simp add: tg_mark_failed_def tg_ids_unique_update_where tg_failed_row_def)
  show "fst (tg_claim_id ids t k q) = None \<Longrightarrow> snd (tg_claim_id ids t k q) = q"
    by (rule tg_claim_id_None)
  show "tg_claim_id ids t k q =
      (case tg_select_candidate ids t q of None \<Rightarrow> (None, q) | Some c \<Rightarrow> tg_commit_id t k c q)"
    by (simp add: tg_claim_id_def tg_claim_one_def tg_commit_id_def claimed_id_def split: option.split)
qed (rule tg_claim_view_taken tg_claim_view_frame tg_mark_sent_view tg_mark_failed_view
       tg_commit_again; assumption)+

section \<open>Properties\<close>

definition sample_notice :: telegram_outbox where
  "sample_notice =
     \<lparr>to_id = ''r1'', to_event_id = ''incident:i1:hardware_initial'', to_incident_id = Some ''i1'',
      to_category = ''hardware'', to_payload_json = JText (PDict []), to_payload_hash = [],
      to_status = TO_PENDING, to_attempts = 0, to_next_attempt_at = 0, to_claimed_at = None,
      to_claim_token = None, to_sent_at = None, to_last_error = None, to_created_at = 0,
      to_updated_at = 0\<rparr>"



text \<open>
  A dispatcher that lost its lease cannot close the new owner's delivery: completing or failing
  a row under a token that is not the row's changes no row, and a row that is SENT or DEAD keeps its
  status, attempts and document through every later run of claims and completions.
\<close>

theorem telegram_stale_owner_and_closed_rows:
  assumes "tg_ids_unique q" and "find_id to_id i q = Some r"
  shows "(to_claim_token r \<noteq> Some k \<longrightarrow>
        tg_view (tg_mark_sent t i k q) j = tg_view q j \<and> tg_view (tg_mark_failed t i k e q) j = tg_view q j)
    \<and> (to_status r \<in> {TO_SENT, TO_DEAD} \<longrightarrow>
        tg_view (run_queue (\<lambda>t k q. snd (tg_claim_id ids t k q)) tg_mark_sent tg_mark_failed es q) i
          = Some (tg_view_row r))"
proof -
  have v: "tg_view q i = Some (tg_view_row r)" using assms(2) by (simp add: tg_view_def)
  have tok: "rv_token (tg_view_row r) = to_claim_token r" by (simp add: tg_view_row_def)
  have st: "to_status r \<in> {TO_SENT, TO_DEAD} \<Longrightarrow> rv_status (tg_view_row r) \<in> {QSent, QDead}"
    by (auto simp: tg_view_row_def)
  show ?thesis
    using tg_queue.stale_owner_harmless [OF assms(1) v] tg_queue.closed_row_final [OF assms(1) v st]
    by (simp add: tok)
qed

theorem telegram_stale_owner_and_closed_rows_witness:
  "tg_view (tg_mark_sent 5 ''r1'' ''old'' [sample_notice\<lparr>to_status := TO_PROCESSING,
       to_claim_token := Some ''new''\<rparr>]) ''r1'' =
   tg_view [sample_notice\<lparr>to_status := TO_PROCESSING, to_claim_token := Some ''new''\<rparr>] ''r1''"
  using telegram_stale_owner_and_closed_rows
    [of "[sample_notice\<lparr>to_status := TO_PROCESSING, to_claim_token := Some ''new''\<rparr>]" "''r1''"
        "sample_notice\<lparr>to_status := TO_PROCESSING, to_claim_token := Some ''new''\<rparr>" "''old''"]
  by (simp add: tg_ids_unique_def find_id_def sample_notice_def)

lemma doc_items [simp]: "items_of (doc kvs) = map (\<lambda>(k, v). (PStr k, v)) kvs"
  by (simp add: doc_def)

lemma doc_is_dict [simp]: "is_dict (doc kvs)"
  by (simp add: doc_def)

lemma deliver_other_kind:
  assumes "is_dict d" and "dget d ''kind'' \<notin> PStr ` {''node_alert'', ''osd_latency_alert'',
      ''crush_skew_alert'', ''database_size_alert''}"
    and "\<And>name args kws. callback w name args kws = Returned (PBool False)"
    and "\<And>name args kws. dw_alerts w name args kws = Returned (PBool False)"
  shows "deliver w d \<noteq> None"
  using assms
  by (auto simp: deliver_def deliver_alert_call_def deliver_incident_alert_def call_subscripts_def
      call_checked_def Let_def split: sum.split bool.split pyval.split)

lemma deliver_hardware:
  assumes "\<And>name args kws. \<exists>v. callback w name args kws = Returned v"
  shows "deliver w (sort_keys (node_payload i h m)) = None"
    and "deliver w (sort_keys (osd_latency_payload i osd h m)) = None"
    and "deliver w (sort_keys (crush_skew_payload i sg l m)) = None"
    and "deliver w (sort_keys (database_size_payload i m)) = None"
proof -
  have r: "call_ignoring_result (callback w name) args kws = None" for name args kws
    using assms [of name args kws] by (auto simp: call_ignoring_result_def)
  show "deliver w (sort_keys (node_payload i h m)) = None"
    by (simp add: deliver_def Let_def dget_sort_keys node_payload_def call_subscripts_def r
        map_of_items_sort_keys dget_def)
  show "deliver w (sort_keys (osd_latency_payload i osd h m)) = None"
    by (simp add: deliver_def Let_def dget_sort_keys osd_latency_payload_def call_subscripts_def r
        map_of_items_sort_keys dget_def)
  show "deliver w (sort_keys (crush_skew_payload i sg l m)) = None"
    by (simp add: deliver_def Let_def dget_sort_keys crush_skew_payload_def call_subscripts_def r
        map_of_items_sort_keys dget_def)
  show "deliver w (sort_keys (database_size_payload i m)) = None"
    by (simp add: deliver_def Let_def dget_sort_keys database_size_payload_def call_subscripts_def r
        map_of_items_sort_keys dget_def)
qed

text \<open>
  Hardware notices are not retried: when every alert function reports failure by returning
  False, the documents of the node, OSD latency, CRUSH skew and database alerts count as delivered
  (their rows become SENT), while a document of any other kind counts as failed and is retried.
\<close>

theorem failed_hardware_notice_marked_sent:
  assumes "dw_sender w = None"
    and "\<And>name args kws. dw_alerts w name args kws = Returned (PBool False)"
  shows "deliver w (sort_keys (node_payload i h m)) = None
    \<and> deliver w (sort_keys (osd_latency_payload i osd h m)) = None
    \<and> deliver w (sort_keys (crush_skew_payload i sg l m)) = None
    \<and> deliver w (sort_keys (database_size_payload i m)) = None
    \<and> (is_dict d \<and> dget d ''kind'' \<notin> PStr ` {''node_alert'', ''osd_latency_alert'',
          ''crush_skew_alert'', ''database_size_alert''} \<longrightarrow> deliver w d \<noteq> None)"
proof -
  have cb: "callback w name args kws = Returned (PBool False)" for name args kws
    using assms by (simp add: callback_def)
  then have "\<exists>v. callback w name args kws = Returned v" for name args kws by blast
  note hw = deliver_hardware [OF this]
  show ?thesis using hw deliver_other_kind [OF _ _ cb assms(2)] by blast
qed

definition failing_world :: delivery_world where
  "failing_world =
     \<lparr>dw_clusters = [], dw_settings = \<lparr>ts_cluster_name = ''c'', ts_backup_bot_token = [],
        ts_backup_chat_id = [], ts_backup_enabled = False\<rparr>,
      dw_fromisoformat = \<lambda>_. None, dw_alerts = \<lambda>_ _ _. Returned (PBool False), dw_sender = None\<rparr>"

theorem failed_hardware_notice_marked_sent_witness:
  "deliver failing_world (sort_keys (node_payload ''i1'' ''h1'' ''m'')) = None
   \<and> deliver failing_world (doc [(''kind'', PStr ''incident_alert''), (''ceph_code'', PStr ''OSD_DOWN'')]) \<noteq> None"
  using failed_hardware_notice_marked_sent [of failing_world "''i1''" "''h1''" "''m''" "''0''" "''s''"
      "''l''" "doc [(''kind'', PStr ''incident_alert''), (''ceph_code'', PStr ''OSD_DOWN'')]"]
  by (simp add: failing_world_def dget_def)

lemma cluster_name_of_cong:
  "list_all2 (\<lambda>c c'. cl_id c = cl_id c' \<and> cl_name c = cl_name c') cs cs' \<Longrightarrow>
   cluster_name_of cs k = cluster_name_of cs' k"
proof (induction cs cs' rule: list_all2_induct)
  case Nil
  then show ?case by simp
next
  case (Cons c cs c' cs')
  then show ?case by (auto simp: cluster_name_of_def find_id_def split: if_splits)
qed

text \<open>
  C35. Credentials never enter a stored document: two deployments whose clusters have the same ids
  and names, and differ in anything else (bot tokens, chat ids, keys), queue byte for byte the same
  rows for every incident, verification and exhaustion notice.
\<close>

theorem stored_documents_hold_no_credentials:
  assumes "list_all2 (\<lambda>c c'. cl_id c = cl_id c' \<and> cl_name c = cl_name c') cs cs'"
  shows "enqueue_incident_alert env cs i kind why rows = enqueue_incident_alert env cs' i kind why rows
    \<and> enqueue_incident_verified_alert env cs is iid code cmd name rows =
        enqueue_incident_verified_alert env cs' is iid code cmd name rows
    \<and> enqueue_incident_verify_exhausted_alert env cs is iid code n rows =
        enqueue_incident_verify_exhausted_alert env cs' is iid code n rows"
proof -
  have names: "cluster_name_of cs = cluster_name_of cs'"
    by (rule ext) (rule cluster_name_of_cong [OF assms])
  show ?thesis
    unfolding enqueue_incident_alert_def enqueue_incident_verified_alert_def
      enqueue_incident_verify_exhausted_alert_def names by (intro conjI refl)
qed

definition sample_env :: enqueue_env where
  "sample_env = \<lparr>ee_sha = \<lambda>_. [], ee_now = 5, ee_uid = ''u1''\<rparr>"

theorem stored_documents_hold_no_credentials_witness:
  "enqueue_incident_alert sample_env [sample_cluster\<lparr>cl_telegram_bot_token := ''secret''\<rparr>]
     (sample_incident\<lparr>in_cluster_id := Some ''c1''\<rparr>) ''initial'' None [] =
   enqueue_incident_alert sample_env [sample_cluster] (sample_incident\<lparr>in_cluster_id := Some ''c1''\<rparr>)
     ''initial'' None []"
  using stored_documents_hold_no_credentials
    [of "[sample_cluster\<lparr>cl_telegram_bot_token := ''secret''\<rparr>]" "[sample_cluster]" sample_env
        "sample_incident\<lparr>in_cluster_id := Some ''c1''\<rparr>" "''initial''" None "[]"]
  by simp

lemma take_sort_by_least:
  assumes "r \<in> set (take n (sort_by key xs))" and "s \<in> set xs" and "s \<notin> set (take n (sort_by key xs))"
  shows "key r \<le> key s"
proof -
  have s: "s \<in> set (drop n (sort_by key xs))"
    using assms(2,3) set_append [of "take n (sort_by key xs)" "drop n (sort_by key xs)"]
    by (simp add: sort_by_def)
  have "sorted (map key (take n (sort_by key xs) @ drop n (sort_by key xs)))"
    by (simp add: sort_by_def)
  then have "\<forall>x \<in> set (take n (sort_by key xs)). \<forall>y \<in> set (drop n (sort_by key xs)). key x \<le> key y"
    by (simp only: map_append sorted_append) simp
  with assms(1) s show ?thesis by blast
qed

text \<open>
  A replay reopens dead rows only: it changes exactly the chosen rows, at most the limit, each of
  them DEAD and asked for, the oldest first; every other row stays as it was.
\<close>

theorem replay_reopens_dead_only:
  assumes "tg_ids_unique rows" and "replay_dead now ids limit rows = (n, rows')"
  shows "n \<le> nat limit
    \<and> (\<forall>r \<in> set (replay_candidates ids limit rows). to_status r = TO_DEAD \<and> requested ids r)
    \<and> (\<forall>r \<in> set (replay_candidates ids limit rows). \<forall>s \<in> set rows.
          to_status s = TO_DEAD \<and> requested ids s \<and> s \<notin> set (replay_candidates ids limit rows)
          \<longrightarrow> to_created_at r \<le> to_created_at s)
    \<and> rows' = map (\<lambda>r. if r \<in> set (replay_candidates ids limit rows) then replayed_row now r else r) rows"
proof -
  let ?chosen = "replay_candidates ids limit rows"
  have sub: "set ?chosen \<subseteq> {r \<in> set rows. to_status r = TO_DEAD \<and> requested ids r}"
    by (auto simp: replay_candidates_def sort_by_def dest!: in_set_takeD)
  have least: "to_created_at r \<le> to_created_at s"
    if "r \<in> set ?chosen" "s \<in> set rows" "to_status s = TO_DEAD" "requested ids s" "s \<notin> set ?chosen"
    for r s
    using take_sort_by_least [of r "nat (max 0 limit)" to_created_at
        "filter (\<lambda>r. to_status r = TO_DEAD \<and> requested ids r) rows" s] that
    by (simp add: replay_candidates_def)
  have mem: "to_id r \<in> set (map to_id ?chosen) \<longleftrightarrow> r \<in> set ?chosen" if "r \<in> set rows" for r
    using that sub assms(1) by (auto simp: tg_ids_unique_def distinct_map dest: inj_onD)
  have "rows' = map (\<lambda>r. if to_id r \<in> set (map to_id ?chosen) then replayed_row now r else r) rows"
    and "n = length ?chosen"
    using assms(2) by (simp_all add: replay_dead_def Let_def)
  moreover have "length ?chosen \<le> nat limit" by (simp add: replay_candidates_def)
  ultimately show ?thesis using sub least mem by auto
qed

theorem replay_reopens_dead_only_witness:
  "snd (replay_dead 9 None 1 [sample_notice\<lparr>to_status := TO_DEAD\<rparr>]) =
     [replayed_row 9 (sample_notice\<lparr>to_status := TO_DEAD\<rparr>)]"
  using replay_reopens_dead_only [of "[sample_notice\<lparr>to_status := TO_DEAD\<rparr>]" 9 None 1
      "fst (replay_dead 9 None 1 [sample_notice\<lparr>to_status := TO_DEAD\<rparr>])"
      "snd (replay_dead 9 None 1 [sample_notice\<lparr>to_status := TO_DEAD\<rparr>])"]
  by (simp add: tg_ids_unique_def replay_candidates_def sort_by_def requested_def sample_notice_def)

end
