(* ===== verification/Delegation.thy ===== *)
theory Delegation
  imports Models
begin

text \<open>
  Delegated AI investigations (\<open>shared/ai_delegation.py\<close>, and the admission and cancellation of
  \<open>dashboard/routes/chat.py\<close>): a task is claimed by one worker under a lease, split into at most four
  read-only subtasks, each tried at most twice, with a budget of provider calls that is counted in
  the database.  An operation takes the two tables and the clock; the AI provider is an argument.
  A text is its UTF-8 bytes.
\<close>

section \<open>Tables\<close>

datatype task_status =
    TK_QUEUED | TK_PLANNING | TK_RUNNING | TK_AGGREGATING | TK_COMPLETED | TK_FAILED | TK_CANCELLED

datatype subtask_status = SK_QUEUED | SK_RUNNING | SK_COMPLETED | SK_FAILED | SK_CANCELLED

record delegated_task =
  dt_id :: string
  dt_actor :: string
  dt_cluster_id :: string
  dt_session_id :: string
  dt_assistant_message_id :: string
  dt_prompt :: string
  dt_status :: task_status
  dt_provider_call_count :: int
  dt_execution_owner :: "string option"
  dt_lease_until :: "time option"
  dt_dispatch_claimed_at :: "time option"
  dt_result_text :: "string option"
  dt_error :: "string option"
  dt_created_at :: time
  dt_started_at :: "time option"
  dt_finished_at :: "time option"
  dt_updated_at :: time

record delegated_subtask =
  ds_id :: string
  ds_task_id :: string
  ds_role :: string
  ds_objective :: string
  ds_allowed_tools :: "string list"
  ds_status :: subtask_status
  ds_execution_owner :: "string option"
  ds_lease_until :: "time option"
  ds_result_text :: "string option"
  ds_tools_used :: "pyval option"
  ds_error :: "string option"
  ds_attempt :: int
  ds_started_at :: "time option"
  ds_finished_at :: "time option"
  ds_updated_at :: time

text \<open>The tables an operation works on; \<open>db_messages\<close> maps a chat message to its content.\<close>

record tables =
  db_tasks :: "delegated_task list"
  db_subtasks :: "delegated_subtask list"
  db_clusters :: "cluster list"
  db_messages :: "(string \<times> string) list"

text \<open>The settings read by this module, within the bounds \<open>config/settings.py\<close> enforces.\<close>

record delegation_settings =
  se_task_timeout_seconds :: int
  se_max_subtasks :: nat
  se_max_provider_calls :: int
  se_max_result_chars :: nat
  se_max_active_tasks :: nat
  se_max_active_tasks_per_actor :: nat
  se_submit_cooldown_seconds :: int

definition max_subtasks :: nat where
  "max_subtasks = 4"

definition max_result_chars :: nat where
  "max_result_chars = 12000"

definition task_lease_seconds :: "delegation_settings \<Rightarrow> int" where
  "task_lease_seconds s = max 30 (min 300 (se_task_timeout_seconds s div 3))"

definition subtask_lease_seconds :: int where
  "subtask_lease_seconds = 1800"

definition max_subtask_attempts :: int where
  "max_subtask_attempts = 2"

definition dispatch_retry_seconds :: int where
  "dispatch_retry_seconds = 60"

definition active_statuses :: "task_status set" where
  "active_statuses = {TK_PLANNING, TK_RUNNING, TK_AGGREGATING}"

definition lease_lapsed :: "time \<Rightarrow> time option \<Rightarrow> bool" where
  "lease_lapsed now lease = (case lease of None \<Rightarrow> True | Some t \<Rightarrow> t < now)"

section \<open>The provider-call budget\<close>

record call_budget =
  cb_limit :: int
  cb_remaining :: int
  cb_task_id :: "string option"
  cb_owner :: "string option"

definition new_budget :: "int \<Rightarrow> string option \<Rightarrow> string option \<Rightarrow> call_budget" where
  "new_budget limit task_id owner =
     \<lparr>cb_limit = max 1 limit, cb_remaining = max 1 limit, cb_task_id = task_id, cb_owner = owner\<rparr>"

text \<open>
  \<open>_reserve\<close>: whether the call may be made.  With a task the counter of its row decides, by one
  conditional update; without one the counter in memory does.
\<close>

definition reservable :: "string \<Rightarrow> string option \<Rightarrow> int \<Rightarrow> delegated_task \<Rightarrow> bool" where
  "reservable task_id owner call_limit r =
     (dt_id r = task_id \<and> (dt_execution_owner r = owner
        \<and> dt_status r \<in> active_statuses \<and> dt_provider_call_count r < call_limit))"

definition reserve_slots ::
  "time \<Rightarrow> int \<Rightarrow> call_budget \<Rightarrow> delegated_task list
     \<Rightarrow> bool \<times> call_budget \<times> delegated_task list" where
  "reserve_slots now keep_slots b tasks =
     (case cb_task_id b of
        Some task_id \<Rightarrow>
          (let (n, tasks') = update_where
                 (reservable task_id (cb_owner b) (max 0 (cb_limit b - keep_slots)))
                 (\<lambda>r. r\<lparr>dt_provider_call_count := dt_provider_call_count r + 1, dt_updated_at := now\<rparr>)
                 tasks
           in if n \<noteq> 1 then (False, b, tasks')
              else (True, b\<lparr>cb_remaining := max 0 (cb_remaining b - 1)\<rparr>, tasks'))
      | None \<Rightarrow>
          if cb_remaining b \<le> keep_slots then (False, b, tasks)
          else (True, b\<lparr>cb_remaining := cb_remaining b - 1\<rparr>, tasks))"

definition reserve :: "time \<Rightarrow> call_budget \<Rightarrow> delegated_task list \<Rightarrow> bool \<times> call_budget \<times> delegated_task list" where
  "reserve now b tasks = reserve_slots now 1 b tasks"

definition reserve_aggregate ::
  "time \<Rightarrow> call_budget \<Rightarrow> delegated_task list \<Rightarrow> bool \<times> call_budget \<times> delegated_task list" where
  "reserve_aggregate now b tasks = reserve_slots now 0 b tasks"

section \<open>Claims\<close>

definition task_claimable :: "time \<Rightarrow> delegated_task \<Rightarrow> bool" where
  "task_claimable now r =
     (dt_status r = TK_QUEUED
      \<or> dt_status r \<in> active_statuses \<and> lease_lapsed now (dt_lease_until r))"

text \<open>What a claim returns: prompt, actor, cluster and the owner.\<close>

type_synonym claimed_task = "string \<times> string \<times> string \<times> string"

definition planning_row ::
  "delegation_settings \<Rightarrow> time \<Rightarrow> string \<Rightarrow> delegated_task \<Rightarrow> delegated_task" where
  "planning_row s now worker r =
     r\<lparr>dt_status := TK_PLANNING, dt_execution_owner := Some worker,
       dt_lease_until := Some (now + seconds (task_lease_seconds s)),
       dt_dispatch_claimed_at := None, dt_started_at := Some now, dt_updated_at := now\<rparr>"

definition claim_task ::
  "delegation_settings \<Rightarrow> time \<Rightarrow> string \<Rightarrow> string \<Rightarrow> delegated_task list
     \<Rightarrow> claimed_task option \<times> delegated_task list" where
  "claim_task s now worker task_id tasks =
     (let (n, tasks') = update_where (\<lambda>r. dt_id r = task_id \<and> task_claimable now r)
            (planning_row s now worker) tasks
      in if n \<noteq> 1 then (None, tasks)
         else case find_id dt_id task_id tasks' of
                None \<Rightarrow> (None, tasks)
              | Some t \<Rightarrow> (Some (dt_prompt t, dt_actor t, dt_cluster_id t, worker), tasks'))"

text \<open>\<open>_set_task_owned\<close>; the keyword values are the update \<open>f\<close>.\<close>

definition set_task_owned ::
  "time \<Rightarrow> string \<Rightarrow> string \<Rightarrow> task_status set option \<Rightarrow> (delegated_task \<Rightarrow> delegated_task)
     \<Rightarrow> delegated_task list \<Rightarrow> bool \<times> delegated_task list" where
  "set_task_owned now task_id owner expected f tasks =
     (let (n, tasks') = update_where
            (\<lambda>r. dt_id r = task_id \<and> (dt_execution_owner r = Some owner
               \<and> (case expected of None \<Rightarrow> True | Some S \<Rightarrow> dt_status r \<in> S)))
            (\<lambda>r. (f r)\<lparr>dt_updated_at := now\<rparr>) tasks
      in (n = 1, tasks'))"

text \<open>One round of \<open>_renew_task_lease\<close>; the loop ends when it answers \<open>False\<close>.\<close>

definition renew_task_lease ::
  "delegation_settings \<Rightarrow> time \<Rightarrow> string \<Rightarrow> string \<Rightarrow> delegated_task list
     \<Rightarrow> bool \<times> delegated_task list" where
  "renew_task_lease s now task_id owner tasks =
     set_task_owned now task_id owner (Some active_statuses)
       (\<lambda>r. r\<lparr>dt_lease_until := Some (now + seconds (task_lease_seconds s))\<rparr>) tasks"

definition parent_live :: "time \<Rightarrow> string \<Rightarrow> string \<Rightarrow> delegated_task list \<Rightarrow> bool" where
  "parent_live now task_id owner tasks =
     list_ex (\<lambda>t. dt_id t = task_id \<and> dt_execution_owner t = Some owner
                \<and> dt_status t \<in> active_statuses
                \<and> (case dt_lease_until t of None \<Rightarrow> False | Some l \<Rightarrow> l > now)) tasks"

definition subtask_claimable :: "time \<Rightarrow> delegated_subtask \<Rightarrow> bool" where
  "subtask_claimable now r =
     (ds_status r \<in> {SK_QUEUED, SK_FAILED} \<and> ds_attempt r < max_subtask_attempts
      \<or> ds_status r = SK_RUNNING \<and> lease_lapsed now (ds_lease_until r)
        \<and> ds_attempt r < max_subtask_attempts)"

text \<open>What a subtask claim returns: role, objective, tools, cluster snapshot and the owner.\<close>

type_synonym claimed_subtask = "string \<times> string \<times> string list \<times> cluster \<times> string"

definition claim_subtask ::
  "time \<Rightarrow> string \<Rightarrow> string \<Rightarrow> string \<Rightarrow> string \<Rightarrow> tables \<Rightarrow> claimed_subtask option \<times> tables" where
  "claim_subtask now task_id subtask_id cluster_id owner db =
     (let (n, subs') = update_where
            (\<lambda>r. ds_id r = subtask_id \<and> (ds_task_id r = task_id
               \<and> parent_live now task_id owner (db_tasks db) \<and> subtask_claimable now r))
            (\<lambda>r. r\<lparr>ds_status := SK_RUNNING, ds_execution_owner := Some owner,
                  ds_lease_until := Some (now + seconds subtask_lease_seconds),
                  ds_attempt := ds_attempt r + 1, ds_started_at := Some now,
                  ds_finished_at := None, ds_result_text := None, ds_tools_used := None,
                  ds_error := None, ds_updated_at := now\<rparr>) (db_subtasks db)
      in if n \<noteq> 1 then (None, db)
         else case (find_id ds_id subtask_id subs', find_id cl_id cluster_id (db_clusters db)) of
                (Some s, Some c) \<Rightarrow>
                  (Some (ds_role s, ds_objective s, ds_allowed_tools s, c, owner),
                   db\<lparr>db_subtasks := subs'\<rparr>)
              | _ \<Rightarrow> (None, db))"

definition set_subtask_owned ::
  "time \<Rightarrow> string \<Rightarrow> string \<Rightarrow> (delegated_subtask \<Rightarrow> delegated_subtask) \<Rightarrow> tables
     \<Rightarrow> bool \<times> tables" where
  "set_subtask_owned now subtask_id owner f db =
     (let (n, subs') = update_where
            (\<lambda>r. ds_id r = subtask_id \<and> (ds_execution_owner r = Some owner
               \<and> list_ex (\<lambda>t. dt_id t = ds_task_id r \<and> dt_status t \<in> active_statuses) (db_tasks db)))
            (\<lambda>r. (f r)\<lparr>ds_updated_at := now\<rparr>) (db_subtasks db)
      in (n = 1, db\<lparr>db_subtasks := subs'\<rparr>))"

definition task_is_cancelled :: "string \<Rightarrow> string \<Rightarrow> delegated_task list \<Rightarrow> bool" where
  "task_is_cancelled task_id owner tasks =
     list_ex (\<lambda>t. dt_id t = task_id \<and> dt_execution_owner t = Some owner
                \<and> dt_status t = TK_CANCELLED) tasks"

section \<open>Dispatch to the queue\<close>

definition dispatch_window_open :: "time \<Rightarrow> delegated_task \<Rightarrow> bool" where
  "dispatch_window_open now r =
     (case dt_dispatch_claimed_at r of None \<Rightarrow> True
      | Some t \<Rightarrow> t < now - seconds dispatch_retry_seconds)"

definition requeued_task :: "time \<Rightarrow> task_status \<Rightarrow> delegated_task \<Rightarrow> delegated_task" where
  "requeued_task now seen r =
     (if seen \<noteq> TK_QUEUED
      then r\<lparr>dt_status := TK_QUEUED, dt_execution_owner := None, dt_lease_until := None,
             dt_dispatch_claimed_at := Some now, dt_updated_at := now\<rparr>
      else r\<lparr>dt_status := TK_QUEUED, dt_dispatch_claimed_at := Some now, dt_updated_at := now\<rparr>)"

definition requeued_subtask :: "time \<Rightarrow> string \<Rightarrow> delegated_subtask \<Rightarrow> delegated_subtask" where
  "requeued_subtask now lost_error r =
     (if ds_attempt r \<ge> max_subtask_attempts
      then r\<lparr>ds_status := SK_FAILED, ds_execution_owner := None, ds_lease_until := None,
             ds_finished_at := Some now, ds_error := Some lost_error, ds_updated_at := now\<rparr>
      else r\<lparr>ds_status := SK_QUEUED, ds_execution_owner := None, ds_lease_until := None,
             ds_updated_at := now\<rparr>)"

definition attempts_spent_error :: string where
  "attempts_spent_error =
     ''Worker m'' @ [CHR 0xE1, CHR 0xBA, CHR 0xA5] @ ''t lease sau khi sub-agent '' @
     [CHR 0xC4, CHR 0x91, CHR 0xC3, CHR 0xA3] @ '' h'' @ [CHR 0xE1, CHR 0xBA, CHR 0xBF] @ ''t s'' @
     [CHR 0xE1, CHR 0xBB, CHR 0x91] @ '' l'' @ [CHR 0xE1, CHR 0xBA, CHR 0xA7] @ ''n th'' @
     [CHR 0xE1, CHR 0xBB, CHR 0xAD]"

fun dispatch_candidates ::
  "time \<Rightarrow> (string \<times> task_status) list \<Rightarrow> tables \<Rightarrow> string list \<times> tables" where
  "dispatch_candidates now [] db = ([], db)"
| "dispatch_candidates now ((task_id, seen) # cs) db =
     (let (n, tasks') = update_where
            (\<lambda>r. dt_id r = task_id \<and> (task_claimable now r \<and> dispatch_window_open now r))
            (requeued_task now seen) (db_tasks db)
      in if n \<noteq> 1 then dispatch_candidates now cs (db\<lparr>db_tasks := tasks'\<rparr>)
         else
           (let subs' = (if seen \<noteq> TK_QUEUED
                         then map (\<lambda>r. if ds_task_id r = task_id
                                        \<and> ds_status r \<notin> {SK_COMPLETED, SK_CANCELLED}
                                     then requeued_subtask now attempts_spent_error r else r)
                                (db_subtasks db)
                         else db_subtasks db);
                (ids, db') = dispatch_candidates now cs
                  (db\<lparr>db_tasks := tasks', db_subtasks := subs'\<rparr>)
            in (task_id # ids, db')))"

definition claim_tasks_for_dispatch :: "time \<Rightarrow> int \<Rightarrow> tables \<Rightarrow> string list \<times> tables" where
  "claim_tasks_for_dispatch now limit db =
     dispatch_candidates now
       (map (\<lambda>r. (dt_id r, dt_status r))
          (take (nat (max 1 (min limit 100)))
             (sort_by dt_created_at
                (filter (\<lambda>r. task_claimable now r \<and> dispatch_window_open now r) (db_tasks db)))))
       db"

section \<open>Planning\<close>

text \<open>\<open>str.lower\<close> on ASCII letters and on the letters of the Vietnamese alphabet, over UTF-8 bytes.\<close>

fun utf8_lower :: "string \<Rightarrow> string" where
  "utf8_lower (a # b # c # s) =
     (if a = CHR 0xE1 \<and> b \<in> {CHR 0xBA, CHR 0xBB} \<and> (b = CHR 0xBB \<or> char_code c \<ge> 160)
      then a # b # (if even (char_code c) then char_of (char_code c + 1) else c) # utf8_lower s
      else if a = CHR 0xC3 \<and> 128 \<le> char_code b \<and> char_code b \<le> 158 \<and> b \<noteq> CHR 0x97
      then a # char_of (char_code b + 32) # utf8_lower (c # s)
      else if (a, b) \<in> {(CHR 0xC4, CHR 0x82), (CHR 0xC4, CHR 0x90), (CHR 0xC4, CHR 0xA8),
                        (CHR 0xC5, CHR 0xA8), (CHR 0xC6, CHR 0xA0), (CHR 0xC6, CHR 0xAF)}
      then (if b = CHR 0xAF then CHR 0xC6 # CHR 0xB0 # utf8_lower (c # s)
            else a # char_of (char_code b + 1) # utf8_lower (c # s))
      else lower_char a # utf8_lower (b # c # s))"
| "utf8_lower [a, b] =
     (if a = CHR 0xC3 \<and> 128 \<le> char_code b \<and> char_code b \<le> 158 \<and> b \<noteq> CHR 0x97
      then [a, char_of (char_code b + 32)]
      else if (a, b) \<in> {(CHR 0xC4, CHR 0x82), (CHR 0xC4, CHR 0x90), (CHR 0xC4, CHR 0xA8),
                        (CHR 0xC5, CHR 0xA8), (CHR 0xC6, CHR 0xA0), (CHR 0xC6, CHR 0xAF)}
      then (if b = CHR 0xAF then [CHR 0xC6, CHR 0xB0] else [a, char_of (char_code b + 1)])
      else [lower_char a, lower_char b])"
| "utf8_lower s = map lower_char s"

record plan_item =
  pi_role :: string
  pi_objective :: string
  pi_tools :: "string list"

definition any_word :: "string list \<Rightarrow> string \<Rightarrow> bool" where
  "any_word ws text = list_ex (\<lambda>w. contains_str w text) ws"

definition ceph_terms :: "string list" where
  "ceph_terms =
     [''ceph'', ''osd'', ''pg'', ''pool'', ''rbd'', ''mon'', ''cluster'', ''node'', ''host'',
      ''cpu'', ''ram'', ''memory'', ''process'', ''load'', ''iops'', ''latency'', ''throughput'',
      ''volume'', ''snapshot'', ''performance'', ''ch'' @ [CHR 0xE1, CHR 0xBA, CHR 0xAD] @ ''m'',
      ''l'' @ [CHR 0xE1, CHR 0xBB, CHR 0x97] @ ''i'',
      ''s'' @ [CHR 0xE1, CHR 0xBB, CHR 0xB1] @ '' c'' @ [CHR 0xE1, CHR 0xBB, CHR 0x91],
      ''incident'', ''log'', ''journal'', ''history'',
      ''nguy'' @ [CHR 0xC3, CHR 0xAA] @ ''n nh'' @ [CHR 0xC3, CHR 0xA2] @ ''n'',
      ''dung l'' @ [CHR 0xC6, CHR 0xB0, CHR 0xE1, CHR 0xBB, CHR 0xA3] @ ''ng'']"

definition node_terms :: "string list" where
  "node_terms =
     [''node'', ''host'', ''cpu'', ''ram'', ''memory'', ''process'', ''load'', ''99%'', ''99.3'']"

definition storage_terms :: "string list" where
  "storage_terms =
     [''pool'', ''rbd'', ''iops'', ''latency'', ''throughput'', ''osd'', ''volume'',
      ''snapshot'', ''performance'', ''ch'' @ [CHR 0xE1, CHR 0xBA, CHR 0xAD] @ ''m'']"

definition history_terms :: "string list" where
  "history_terms =
     [''l'' @ [CHR 0xE1, CHR 0xBB, CHR 0x97] @ ''i'',
      ''s'' @ [CHR 0xE1, CHR 0xBB, CHR 0xB1] @ '' c'' @ [CHR 0xE1, CHR 0xBB, CHR 0x91],
      ''incident'', ''log'', ''journal'', ''history'',
      ''nguy'' @ [CHR 0xC3, CHR 0xAA] @ ''n nh'' @ [CHR 0xC3, CHR 0xA2] @ ''n'', ''ceph'']"

definition general_analysis_item :: plan_item where
  "general_analysis_item =
     \<lparr>pi_role = ''general_analysis'',
      pi_objective =
        ''Ph'' @ [CHR 0xC3, CHR 0xA2] @ ''n t'' @ [CHR 0xC3, CHR 0xAD] @ ''ch y'' @
        [CHR 0xC3, CHR 0xAA] @ ''u c'' @ [CHR 0xE1, CHR 0xBA, CHR 0xA7] @ ''u g'' @
        [CHR 0xE1, CHR 0xBB, CHR 0x91] @ ''c, gi'' @ [CHR 0xE1, CHR 0xBA, CHR 0xA3] @ ''i quy'' @
        [CHR 0xE1, CHR 0xBA, CHR 0xBF] @ ''t b'' @ [CHR 0xE1, CHR 0xBA, CHR 0xB1] @ ''ng ki'' @
        [CHR 0xE1, CHR 0xBA, CHR 0xBF] @ ''n th'' @ [CHR 0xE1, CHR 0xBB, CHR 0xA9] @ ''c v'' @
        [CHR 0xC3, CHR 0xA0] @ '' suy lu'' @ [CHR 0xE1, CHR 0xBA, CHR 0xAD] @ ''n ph'' @
        [CHR 0xC3, CHR 0xB9] @ '' h'' @ [CHR 0xE1, CHR 0xBB, CHR 0xA3] @ ''p; n'' @
        [CHR 0xC3, CHR 0xAA] @ ''u r'' @ [CHR 0xC3, CHR 0xB5] @ '' gi'' @
        [CHR 0xE1, CHR 0xBA, CHR 0xA3] @ '' '' @
        [CHR 0xC4, CHR 0x91, CHR 0xE1, CHR 0xBB, CHR 0x8B] @ ''nh v'' @ [CHR 0xC3, CHR 0xA0] @
        '' ph'' @ [CHR 0xE1, CHR 0xBA, CHR 0xA7] @ ''n c'' @ [CHR 0xC3, CHR 0xB2] @ ''n thi'' @
        [CHR 0xE1, CHR 0xBA, CHR 0xBF] @ ''u.'',
      pi_tools =
        []\<rparr>"

definition cluster_health_item :: plan_item where
  "cluster_health_item =
     \<lparr>pi_role = ''cluster_health'',
      pi_objective =
        [CHR 0xC4, CHR 0x90, CHR 0xE1, CHR 0xBB, CHR 0x8D] @ ''c s'' @
        [CHR 0xE1, CHR 0xBB, CHR 0xA9] @ ''c kh'' @ [CHR 0xE1, CHR 0xBB, CHR 0x8F] @ ''e t'' @
        [CHR 0xE1, CHR 0xBB, CHR 0x95] @ ''ng th'' @ [CHR 0xE1, CHR 0xBB, CHR 0x83] @
        '', OSD, PG v'' @ [CHR 0xC3, CHR 0xA0] @ '' dung l'' @
        [CHR 0xC6, CHR 0xB0, CHR 0xE1, CHR 0xBB, CHR 0xA3] @ ''ng; ch'' @
        [CHR 0xE1, CHR 0xBB, CHR 0x89] @ '' ra t'' @ [CHR 0xC3, CHR 0xAD] @ ''n hi'' @
        [CHR 0xE1, CHR 0xBB, CHR 0x87] @ ''u b'' @ [CHR 0xE1, CHR 0xBA, CHR 0xA5] @ ''t th'' @
        [CHR 0xC6, CHR 0xB0, CHR 0xE1, CHR 0xBB, CHR 0x9D] @ ''ng c'' @ [CHR 0xC3, CHR 0xB3] @
        '' s'' @ [CHR 0xE1, CHR 0xBB, CHR 0x91] @ '' li'' @ [CHR 0xE1, CHR 0xBB, CHR 0x87] @ ''u.'',
      pi_tools =
        [''get_health_detail'', ''get_osd_stat'', ''get_pg_stat'', ''get_df'']\<rparr>"

definition node_resources_item :: plan_item where
  "node_resources_item =
     \<lparr>pi_role = ''node_resources'',
      pi_objective =
        ''Ki'' @ [CHR 0xE1, CHR 0xBB, CHR 0x83] @ ''m tra CPU/RAM v'' @ [CHR 0xC3, CHR 0xA0] @
        '' t'' @ [CHR 0xC3, CHR 0xAC] @ ''nh tr'' @ [CHR 0xE1, CHR 0xBA, CHR 0xA1] @
        ''ng node; x'' @ [CHR 0xC3, CHR 0xA1] @ ''c '' @
        [CHR 0xC4, CHR 0x91, CHR 0xE1, CHR 0xBB, CHR 0x8B] @ ''nh node ho'' @
        [CHR 0xE1, CHR 0xBA, CHR 0xB7] @ ''c ti'' @ [CHR 0xE1, CHR 0xBA, CHR 0xBF] @ ''n tr'' @
        [CHR 0xC3, CHR 0xAC] @ ''nh c'' @ [CHR 0xC3, CHR 0xB3] @ '' d'' @
        [CHR 0xE1, CHR 0xBA, CHR 0xA5] @ ''u hi'' @ [CHR 0xE1, CHR 0xBB, CHR 0x87] @ ''u qu'' @
        [CHR 0xC3, CHR 0xA1] @ '' t'' @ [CHR 0xE1, CHR 0xBA, CHR 0xA3] @ ''i.'',
      pi_tools =
        [''list_nodes'', ''get_node_metrics'', ''get_node_journal'']\<rparr>"

definition storage_performance_item :: plan_item where
  "storage_performance_item =
     \<lparr>pi_role = ''storage_performance'',
      pi_objective =
        ''Ph'' @ [CHR 0xC3, CHR 0xA2] @ ''n t'' @ [CHR 0xC3, CHR 0xAD] @ ''ch pool/RBD/OSD v'' @
        [CHR 0xC3, CHR 0xA0] @ '' hi'' @ [CHR 0xE1, CHR 0xBB, CHR 0x87] @ ''u n'' @
        [CHR 0xC4, CHR 0x83] @ ''ng; t'' @ [CHR 0xC3, CHR 0xA1] @ ''ch s'' @
        [CHR 0xE1, CHR 0xBB, CHR 0x91] @ '' li'' @ [CHR 0xE1, CHR 0xBB, CHR 0x87] @ ''u quan s'' @
        [CHR 0xC3, CHR 0xA1] @ ''t '' @
        [CHR 0xC4, CHR 0x91, CHR 0xC6, CHR 0xB0, CHR 0xE1, CHR 0xBB, CHR 0xA3] @ ''c kh'' @
        [CHR 0xE1, CHR 0xBB, CHR 0x8F] @ ''i gi'' @ [CHR 0xE1, CHR 0xBA, CHR 0xA3] @ '' thuy'' @
        [CHR 0xE1, CHR 0xBA, CHR 0xBF] @ ''t.'',
      pi_tools =
        [''get_pool_list'', ''get_osd_tree'', ''get_df'', ''get_pg_stat'',
         ''get_capacity_forecast'']\<rparr>"

definition incident_history_item :: plan_item where
  "incident_history_item =
     \<lparr>pi_role = ''incident_history'',
      pi_objective =
        [CHR 0xC4, CHR 0x90, CHR 0xE1, CHR 0xBB, CHR 0x91] @ ''i chi'' @
        [CHR 0xE1, CHR 0xBA, CHR 0xBF] @ ''u incident v'' @ [CHR 0xC3, CHR 0xA0] @
        '' timeline g'' @ [CHR 0xE1, CHR 0xBA, CHR 0xA7] @ ''n '' @
        [CHR 0xC4, CHR 0x91, CHR 0xC3, CHR 0xA2] @ ''y '' @
        [CHR 0xC4, CHR 0x91, CHR 0xE1, CHR 0xBB, CHR 0x83] @ '' t'' @ [CHR 0xC3, CHR 0xAC] @
        ''m t'' @ [CHR 0xC6, CHR 0xB0, CHR 0xC6, CHR 0xA1] @ ''ng quan th'' @
        [CHR 0xE1, CHR 0xBB, CHR 0x9D] @ ''i gian, nguy'' @ [CHR 0xC3, CHR 0xAA] @ ''n nh'' @
        [CHR 0xC3, CHR 0xA2] @ ''n l'' @ [CHR 0xE1, CHR 0xBA, CHR 0xB7] @ ''p l'' @
        [CHR 0xE1, CHR 0xBA, CHR 0xA1] @ ''i v'' @ [CHR 0xC3, CHR 0xA0] @ '' k'' @
        [CHR 0xE1, CHR 0xBA, CHR 0xBF] @ ''t qu'' @ [CHR 0xE1, CHR 0xBA, CHR 0xA3] @ '' x'' @
        [CHR 0xE1, CHR 0xBB, CHR 0xAD] @ '' l'' @ [CHR 0xC3, CHR 0xBD] @ ''.'',
      pi_tools =
        [''get_recent_incidents'', ''get_incident_timeline'', ''get_disk_failure_risk'']\<rparr>"

definition ceph_topology_item :: plan_item where
  "ceph_topology_item =
     \<lparr>pi_role = ''ceph_topology'',
      pi_objective =
        [CHR 0xC4, CHR 0x90, CHR 0xE1, CHR 0xBB, CHR 0x8D] @ ''c topology OSD/pool '' @
        [CHR 0xC4, CHR 0x91, CHR 0xE1, CHR 0xBB, CHR 0x83] @ '' x'' @ [CHR 0xC3, CHR 0xA1] @
        ''c '' @ [CHR 0xC4, CHR 0x91, CHR 0xE1, CHR 0xBB, CHR 0x8B] @ ''nh ph'' @
        [CHR 0xE1, CHR 0xBA, CHR 0xA1] @ ''m vi '' @ [CHR 0xE1, CHR 0xBA, CHR 0xA3] @ ''nh h'' @
        [CHR 0xC6, CHR 0xB0, CHR 0xE1, CHR 0xBB, CHR 0x9F] @ ''ng v'' @ [CHR 0xC3, CHR 0xA0] @
        '' c'' @ [CHR 0xC3, CHR 0xA1] @ ''c '' @ [CHR 0xC4, CHR 0x91] @ ''i'' @
        [CHR 0xE1, CHR 0xBB, CHR 0x83] @ ''m c'' @ [CHR 0xE1, CHR 0xBA, CHR 0xA7] @ ''n ki'' @
        [CHR 0xE1, CHR 0xBB, CHR 0x83] @ ''m tra ti'' @ [CHR 0xE1, CHR 0xBA, CHR 0xBF] @ ''p.'',
      pi_tools =
        [''get_osd_tree'', ''get_pool_list'', ''get_pg_stat'']\<rparr>"

definition build_plan :: "delegation_settings \<Rightarrow> string \<Rightarrow> plan_item list" where
  "build_plan s prompt =
     (let text = utf8_lower prompt in
      if \<not> any_word ceph_terms text then [general_analysis_item]
      else
        (let plan1 = [cluster_health_item];
             plan2 = (if any_word node_terms text then plan1 @ [node_resources_item] else plan1);
             plan3 = (if any_word storage_terms text then plan2 @ [storage_performance_item] else plan2);
             plan4 = (if any_word history_terms text then plan3 @ [incident_history_item] else plan3);
             plan5 = (if length plan4 = 1 then plan4 @ [ceph_topology_item] else plan4)
         in take (min max_subtasks (se_max_subtasks s)) plan5))"

text \<open>\<open>_make_subtasks\<close>; \<open>uid\<close> is the fresh id of the n-th inserted row.\<close>

definition planned_row :: "time \<Rightarrow> string \<Rightarrow> string \<Rightarrow> plan_item \<Rightarrow> delegated_subtask" where
  "planned_row now uid task_id item =
     \<lparr>ds_id = uid, ds_task_id = task_id, ds_role = pi_role item, ds_objective = pi_objective item,
      ds_allowed_tools = pi_tools item, ds_status = SK_QUEUED, ds_execution_owner = None,
      ds_lease_until = None, ds_result_text = None, ds_tools_used = None, ds_error = None,
      ds_attempt = 0, ds_started_at = None, ds_finished_at = None, ds_updated_at = now\<rparr>"

definition make_subtasks ::
  "time \<Rightarrow> (nat \<Rightarrow> string) \<Rightarrow> string \<Rightarrow> plan_item list \<Rightarrow> tables \<Rightarrow> string list \<times> tables" where
  "make_subtasks now uid task_id plan db =
     (case find_id dt_id task_id (db_tasks db) of
        None \<Rightarrow> ([], db)
      | Some parent \<Rightarrow>
          if dt_status parent = TK_CANCELLED then ([], db)
          else
            (let existing = filter (\<lambda>r. ds_task_id r = task_id) (db_subtasks db) in
             if existing \<noteq> [] then (map ds_id existing, db)
             else
               (let rows = map (\<lambda>(i, item). planned_row now (uid i) task_id item)
                             (zip [0..<length plan] plan)
                in (map ds_id rows, db\<lparr>db_subtasks := db_subtasks db @ rows\<rparr>))))"

section \<open>Execution\<close>

text \<open>
  A chat turn of a sub-agent: the number of provider calls it makes (each reserved first) and how it
  ends.  The turn is an argument, a function of what the subtask claim returned and the prompt.
\<close>

datatype agent_result =
    AgentReply string pyval
  | AgentError string
  | AgentCancelled

record agent_run =
  ar_calls :: nat
  ar_result :: agent_result

definition budget_error :: string where
  "budget_error =
     ''Delegated task '' @ [CHR 0xC4, CHR 0x91, CHR 0xC3, CHR 0xA3] @ '' '' @
     [CHR 0xC4, CHR 0x91, CHR 0xE1, CHR 0xBA, CHR 0xA1] @ ''t gi'' @
     [CHR 0xE1, CHR 0xBB, CHR 0x9B] @ ''i h'' @ [CHR 0xE1, CHR 0xBA, CHR 0xA1] @ ''n t'' @
     [CHR 0xE1, CHR 0xBB, CHR 0x95] @ ''ng s'' @ [CHR 0xE1, CHR 0xBB, CHR 0x91] @ '' l'' @
     [CHR 0xC6, CHR 0xB0, CHR 0xE1, CHR 0xBB, CHR 0xA3] @ ''t g'' @
     [CHR 0xE1, CHR 0xBB, CHR 0x8D] @ ''i AI ho'' @ [CHR 0xE1, CHR 0xBA, CHR 0xB7] @ ''c m'' @
     [CHR 0xE1, CHR 0xBA, CHR 0xA5] @ ''t quy'' @ [CHR 0xE1, CHR 0xBB, CHR 0x81] @ ''n s'' @
     [CHR 0xE1, CHR 0xBB, CHR 0x9F] @ '' h'' @ [CHR 0xE1, CHR 0xBB, CHR 0xAF] @ ''u''"

definition no_reply_text :: string where
  "no_reply_text = ''(agent kh'' @ [CHR 0xC3, CHR 0xB4] @ ''ng tr'' @ [CHR 0xE1, CHR 0xBA, CHR 0xA3] @
     '' k'' @ [CHR 0xE1, CHR 0xBA, CHR 0xBF] @ ''t qu'' @ [CHR 0xE1, CHR 0xBA, CHR 0xA3] @ '')''"

definition cancelled_error :: string where
  "cancelled_error =
     ''Sub-agent b'' @ [CHR 0xE1, CHR 0xBB, CHR 0x8B] @ '' h'' @
     [CHR 0xE1, CHR 0xBB, CHR 0xA7] @ ''y do delegated task timeout/shutdown''"

fun reserve_calls ::
  "time \<Rightarrow> int \<Rightarrow> nat \<Rightarrow> call_budget \<Rightarrow> delegated_task list
     \<Rightarrow> bool \<times> call_budget \<times> delegated_task list" where
  "reserve_calls now keep 0 b tasks = (True, b, tasks)"
| "reserve_calls now keep (Suc n) b tasks =
     (case reserve_slots now keep b tasks of
        (False, b', tasks') \<Rightarrow> (False, b', tasks')
      | (True, b', tasks') \<Rightarrow> reserve_calls now keep n b' tasks')"

definition result_limit :: "delegation_settings \<Rightarrow> nat" where
  "result_limit s = min max_result_chars (se_max_result_chars s)"

definition completed_subtask ::
  "delegation_settings \<Rightarrow> time \<Rightarrow> string \<Rightarrow> pyval \<Rightarrow> delegated_subtask \<Rightarrow> delegated_subtask" where
  "completed_subtask s now reply used r =
     r\<lparr>ds_status := SK_COMPLETED,
       ds_result_text := Some (take (result_limit s) (if reply = [] then no_reply_text else reply)),
       ds_tools_used := Some (por used (PList [])), ds_error := None, ds_lease_until := None,
       ds_finished_at := Some now\<rparr>"

definition failed_subtask :: "time \<Rightarrow> string \<Rightarrow> delegated_subtask \<Rightarrow> delegated_subtask" where
  "failed_subtask now e r =
     r\<lparr>ds_status := SK_FAILED, ds_error := Some e, ds_lease_until := None,
       ds_finished_at := Some now\<rparr>"

type_synonym agent = "string \<Rightarrow> string \<Rightarrow> string list \<Rightarrow> cluster \<Rightarrow> string \<Rightarrow> agent_run"

text \<open>\<open>_run_subtask\<close>: claim at the first clock, finish at the second; whether it was cancelled.\<close>

definition run_subtask ::
  "delegation_settings \<Rightarrow> agent \<Rightarrow> time \<times> time \<Rightarrow> string \<Rightarrow> string \<Rightarrow> string \<Rightarrow> string \<Rightarrow> string
     \<Rightarrow> call_budget \<Rightarrow> tables \<Rightarrow> bool \<times> call_budget \<times> tables" where
  "run_subtask s agent clocks subtask_id task_id prompt cluster_id owner b db =
     (case claim_subtask (fst clocks) task_id subtask_id cluster_id owner db of
        (None, db1) \<Rightarrow> (False, b, db1)
      | (Some (role, objective, tools, cluster, own), db1) \<Rightarrow>
          (let run = agent role objective tools cluster prompt;
               (ok, b', tasks') = reserve_calls (fst clocks) 1 (ar_calls run) b (db_tasks db1);
               db2 = db1\<lparr>db_tasks := tasks'\<rparr>;
               finish = (\<lambda>f. snd (set_subtask_owned (snd clocks) subtask_id own f db2))
           in if \<not> ok then (False, b', finish (failed_subtask (snd clocks) (take 2000 budget_error)))
              else case ar_result run of
                     AgentReply reply used \<Rightarrow>
                       (False, b', finish (completed_subtask s (snd clocks) reply used))
                   | AgentError e \<Rightarrow> (False, b', finish (failed_subtask (snd clocks) (take 2000 e)))
                   | AgentCancelled \<Rightarrow>
                       (True, b', finish (failed_subtask (snd clocks) cancelled_error))))"

text \<open>A round runs the pending subtasks one after the other and ends early when one is cancelled.\<close>

fun run_round ::
  "delegation_settings \<Rightarrow> agent \<Rightarrow> time \<times> time \<Rightarrow> string list \<Rightarrow> string \<Rightarrow> string \<Rightarrow> string \<Rightarrow> string
     \<Rightarrow> call_budget \<Rightarrow> tables \<Rightarrow> bool \<times> call_budget \<times> tables" where
  "run_round s agent clocks [] task_id prompt cluster_id owner b db = (False, b, db)"
| "run_round s agent clocks (i # is) task_id prompt cluster_id owner b db =
     (case run_subtask s agent clocks i task_id prompt cluster_id owner b db of
        (True, b', db') \<Rightarrow> (True, b', db')
      | (False, b', db') \<Rightarrow> run_round s agent clocks is task_id prompt cluster_id owner b' db')"

definition retryable_subtasks :: "string \<Rightarrow> tables \<Rightarrow> string list" where
  "retryable_subtasks task_id db =
     map ds_id (filter (\<lambda>r. ds_task_id r = task_id
        \<and> (ds_status r \<in> {SK_QUEUED, SK_FAILED} \<and> ds_attempt r < max_subtask_attempts))
       (db_subtasks db))"

text \<open>The rounds of attempts; round \<open>n\<close> reads the clocks \<open>clocks n\<close>.\<close>

fun run_rounds ::
  "delegation_settings \<Rightarrow> agent \<Rightarrow> (nat \<Rightarrow> time \<times> time) \<Rightarrow> nat \<Rightarrow> nat \<Rightarrow> string list \<Rightarrow> string
     \<Rightarrow> string \<Rightarrow> string \<Rightarrow> string \<Rightarrow> call_budget \<Rightarrow> tables \<Rightarrow> bool \<times> call_budget \<times> tables" where
  "run_rounds s agent clocks 0 k pending task_id prompt cluster_id owner b db = (False, b, db)"
| "run_rounds s agent clocks (Suc n) k pending task_id prompt cluster_id owner b db =
     (if pending = [] then (False, b, db)
      else case run_round s agent (clocks k) pending task_id prompt cluster_id owner b db of
             (True, b', db') \<Rightarrow> (True, b', db')
           | (False, b', db') \<Rightarrow>
               run_rounds s agent clocks n (k + 1) (retryable_subtasks task_id db') task_id prompt
                 cluster_id owner b' db')"

text \<open>How an execution ends: it returns, raises a message, or is cancelled.\<close>

datatype execution = EX_Returned | EX_Raised string | EX_Cancelled

definition all_failed_error :: string where
  "all_failed_error = ''T'' @ [CHR 0xE1, CHR 0xBA, CHR 0xA5] @ ''t c'' @ [CHR 0xE1, CHR 0xBA, CHR 0xA3] @
     '' sub-agent '' @ [CHR 0xC4, CHR 0x91, CHR 0xE1, CHR 0xBB, CHR 0x81] @ ''u th'' @
     [CHR 0xE1, CHR 0xBA, CHR 0xA5] @ ''t b'' @ [CHR 0xE1, CHR 0xBA, CHR 0xA1] @ ''i''"

definition no_synthesis_text :: string where
  "no_synthesis_text = ''Kh'' @ [CHR 0xC3, CHR 0xB4] @ ''ng t'' @ [CHR 0xE1, CHR 0xBB, CHR 0x95] @ ''ng h'' @
     [CHR 0xE1, CHR 0xBB, CHR 0xA3] @ ''p '' @
     [CHR 0xC4, CHR 0x91, CHR 0xC6, CHR 0xB0, CHR 0xE1, CHR 0xBB, CHR 0xA3] @ ''c k'' @
     [CHR 0xE1, CHR 0xBA, CHR 0xBF] @ ''t qu'' @ [CHR 0xE1, CHR 0xBA, CHR 0xA3]"

definition failed_count_text :: "nat \<Rightarrow> string option" where
  "failed_count_text n =
     (if n = 0 then None else Some (nat_text n @ '' sub-agent th'' @ [CHR 0xE1, CHR 0xBA, CHR 0xA5] @ ''t b'' @ [CHR 0xE1, CHR 0xBA, CHR 0xA1] @ ''i''))"

text \<open>The reports the synthesis reads: role, status and clipped body, by role.\<close>

definition reports_of :: "delegation_settings \<Rightarrow> string \<Rightarrow> tables \<Rightarrow> (string \<times> subtask_status \<times> string option) list" where
  "reports_of s task_id db =
     map (\<lambda>r. (ds_role r, ds_status r,
               map_option (take (result_limit s))
                 (if opt_truthy (ds_result_text r) then ds_result_text r
                  else if opt_truthy (ds_error r) then ds_error r else None)))
       (sort_by ds_role (filter (\<lambda>r. ds_task_id r = task_id) (db_subtasks db)))"

type_synonym synthesizer = "string \<Rightarrow> (string \<times> subtask_status \<times> string option) list \<Rightarrow> agent_run"

definition put_message :: "string \<Rightarrow> string \<Rightarrow> (string \<times> string) list \<Rightarrow> (string \<times> string) list" where
  "put_message k v = map (\<lambda>(k', w). if k' = k then (k', v) else (k', w))"

definition completed_task :: "time \<Rightarrow> string \<Rightarrow> string option \<Rightarrow> delegated_task \<Rightarrow> delegated_task" where
  "completed_task now result err r =
     r\<lparr>dt_status := TK_COMPLETED, dt_result_text := Some result, dt_error := err,
       dt_lease_until := None, dt_finished_at := Some now\<rparr>"

definition finish_task ::
  "time \<Rightarrow> string \<Rightarrow> string \<Rightarrow> string \<Rightarrow> string option \<Rightarrow> tables \<Rightarrow> tables" where
  "finish_task now task_id owner result err db =
     (case set_task_owned now task_id owner (Some {TK_AGGREGATING}) (completed_task now result err)
             (db_tasks db) of
        (False, _) \<Rightarrow> db
      | (True, tasks') \<Rightarrow>
          (case find_id dt_id task_id tasks' of
             None \<Rightarrow> db\<lparr>db_tasks := tasks'\<rparr>
           | Some t \<Rightarrow>
               db\<lparr>db_tasks := tasks',
                  db_messages := put_message (dt_assistant_message_id t) result (db_messages db)\<rparr>))"

definition aggregate ::
  "delegation_settings \<Rightarrow> synthesizer \<Rightarrow> (nat \<Rightarrow> time \<times> time) \<Rightarrow> string \<Rightarrow> string \<Rightarrow> string
     \<Rightarrow> call_budget \<Rightarrow> tables \<Rightarrow> execution \<times> tables" where
  "aggregate s synth clocks task_id prompt owner b db =
     (let rows = filter (\<lambda>r. ds_task_id r = task_id) (db_subtasks db);
          failed = length (filter (\<lambda>r. ds_status r = SK_FAILED) rows);
          (own, tasks1) = set_task_owned (fst (clocks 3)) task_id owner (Some {TK_RUNNING})
            (\<lambda>r. r\<lparr>dt_status := TK_AGGREGATING\<rparr>) (db_tasks db);
          db1 = db\<lparr>db_tasks := tasks1\<rparr>
      in if \<not> own then (EX_Returned, db1)
         else
           (let run = synth prompt (reports_of s task_id db1);
                (ok, b', tasks2) = reserve_calls (fst (clocks 3)) 0 (ar_calls run) b (db_tasks db1);
                db2 = db1\<lparr>db_tasks := tasks2\<rparr>
            in if \<not> ok then (EX_Raised budget_error, db2)
               else case ar_result run of
                      AgentError e \<Rightarrow> (EX_Raised e, db2)
                    | AgentCancelled \<Rightarrow> (EX_Cancelled, db2)
                    | AgentReply reply _ \<Rightarrow>
                        (EX_Returned,
                         finish_task (snd (clocks 3)) task_id owner
                           (take (result_limit s) (if reply = [] then no_synthesis_text else reply))
                           (failed_count_text failed) db2)))"

definition execute_claimed_task ::
  "delegation_settings \<Rightarrow> agent \<Rightarrow> synthesizer \<Rightarrow> (nat \<Rightarrow> time \<times> time) \<Rightarrow> (nat \<Rightarrow> string)
     \<Rightarrow> string \<Rightarrow> string \<Rightarrow> string \<Rightarrow> string \<Rightarrow> tables \<Rightarrow> execution \<times> tables" where
  "execute_claimed_task s agent synth clocks uid task_id prompt cluster_id owner db =
     (let b = new_budget (se_max_provider_calls s) (Some task_id) (Some owner);
          (subtask_ids, db1) = make_subtasks (fst (clocks 0)) uid task_id (build_plan s prompt) db;
          (own, tasks2) = set_task_owned (fst (clocks 0)) task_id owner (Some {TK_PLANNING})
            (\<lambda>r. r\<lparr>dt_status := TK_RUNNING\<rparr>) (db_tasks db1);
          db2 = db1\<lparr>db_tasks := tasks2\<rparr>
      in if \<not> own then (EX_Returned, db2)
         else
           (let (cancelled, b', db3) = run_rounds s agent (\<lambda>n. clocks (n + 1))
                  (nat max_subtask_attempts) 0 subtask_ids task_id prompt cluster_id owner b db2
            in if cancelled then (EX_Cancelled, db3)
               else if find_id dt_id task_id (db_tasks db3) = None
                     \<or> find_id cl_id cluster_id (db_clusters db3) = None then (EX_Returned, db3)
               else if list_all (\<lambda>r. ds_task_id r = task_id \<longrightarrow> ds_status r \<noteq> SK_COMPLETED)
                         (db_subtasks db3) then (EX_Raised all_failed_error, db3)
               else aggregate s synth clocks task_id prompt owner b' db3))"

definition failure_message :: "string \<Rightarrow> string" where
  "failure_message e = ''Delegated task th'' @ [CHR 0xE1, CHR 0xBA, CHR 0xA5] @ ''t b'' @ [CHR 0xE1, CHR 0xBA, CHR 0xA1] @ ''i: '' @ take 1000 e"

text \<open>The handler of an exception in \<open>execute_task\<close>; the check and the write are two statements.\<close>

definition record_task_failure :: "time \<Rightarrow> string \<Rightarrow> string \<Rightarrow> string \<Rightarrow> tables \<Rightarrow> tables" where
  "record_task_failure now task_id owner e db =
     (let (ok, tasks') = set_task_owned now task_id owner None
            (\<lambda>r. r\<lparr>dt_status := TK_FAILED, dt_error := Some (take 4000 e), dt_lease_until := None,
                  dt_finished_at := Some now\<rparr>) (db_tasks db);
          db1 = db\<lparr>db_tasks := tasks'\<rparr>
      in if \<not> ok then db1
         else case find_id dt_id task_id tasks' of
                None \<Rightarrow> db1
              | Some t \<Rightarrow>
                  db1\<lparr>db_messages := put_message (dt_assistant_message_id t) (failure_message e)
                        (db_messages db1)\<rparr>)"

definition execute_task ::
  "delegation_settings \<Rightarrow> agent \<Rightarrow> synthesizer \<Rightarrow> (nat \<Rightarrow> time \<times> time) \<Rightarrow> (nat \<Rightarrow> string)
     \<Rightarrow> string \<Rightarrow> string \<Rightarrow> tables \<Rightarrow> tables" where
  "execute_task s agent synth clocks uid worker task_id db =
     (case claim_task s (fst (clocks 0)) worker task_id (db_tasks db) of
        (None, tasks') \<Rightarrow> db\<lparr>db_tasks := tasks'\<rparr>
      | (Some (prompt, actor, cluster_id, owner), tasks') \<Rightarrow>
          (case execute_claimed_task s agent synth clocks uid task_id prompt cluster_id owner
                  (db\<lparr>db_tasks := tasks'\<rparr>) of
             (EX_Raised e, db') \<Rightarrow>
               (if task_is_cancelled task_id owner (db_tasks db') then db'
                else record_task_failure (snd (clocks 3)) task_id owner e db')
           | (_, db') \<Rightarrow> db'))"

section \<open>Admission and cancellation\<close>

definition delegated_active :: "task_status \<Rightarrow> bool" where
  "delegated_active st = (st \<in> {TK_QUEUED, TK_PLANNING, TK_RUNNING, TK_AGGREGATING})"

datatype admission_error = TooManyActive | ActorHasActive | CoolingDown

text \<open>\<open>_check_delegated_admission\<close>, under the advisory lock of its transaction.\<close>

definition check_delegated_admission ::
  "delegation_settings \<Rightarrow> time \<Rightarrow> string \<Rightarrow> delegated_task list \<Rightarrow> admission_error option" where
  "check_delegated_admission s now actor tasks =
     (let active = filter (\<lambda>t. delegated_active (dt_status t)) tasks;
          mine = filter (\<lambda>t. dt_actor t = actor) tasks;
          cooldown = se_submit_cooldown_seconds s
      in if length active \<ge> se_max_active_tasks s then Some TooManyActive
         else if length (filter (\<lambda>t. dt_actor t = actor) active) \<ge> se_max_active_tasks_per_actor s
         then Some ActorHasActive
         else case first_by (\<lambda>t. - dt_created_at t) mine of
                None \<Rightarrow> None
              | Some latest \<Rightarrow>
                  if cooldown > 0 \<and> dt_created_at latest > now - seconds cooldown
                  then Some CoolingDown else None)"

definition new_task ::
  "time \<Rightarrow> string \<Rightarrow> string \<Rightarrow> string \<Rightarrow> string \<Rightarrow> string \<Rightarrow> string \<Rightarrow> delegated_task" where
  "new_task now uid actor cluster_id session_id message_id text =
     \<lparr>dt_id = uid, dt_actor = actor, dt_cluster_id = cluster_id, dt_session_id = session_id,
      dt_assistant_message_id = message_id, dt_prompt = text, dt_status = TK_QUEUED,
      dt_provider_call_count = 0, dt_execution_owner = None, dt_lease_until = None,
      dt_dispatch_claimed_at = None, dt_result_text = None, dt_error = None, dt_created_at = now,
      dt_started_at = None, dt_finished_at = None, dt_updated_at = now\<rparr>"

definition submit_task ::
  "delegation_settings \<Rightarrow> time \<Rightarrow> delegated_task \<Rightarrow> delegated_task list
     \<Rightarrow> admission_error option \<times> delegated_task list" where
  "submit_task s now t tasks =
     (case check_delegated_admission s now (dt_actor t) tasks of
        Some e \<Rightarrow> (Some e, tasks)
      | None \<Rightarrow> (None, tasks @ [t]))"

datatype cancel_result = CX_NotFound | CX_AlreadyCancelled | CX_NotActive task_status | CX_Cancelled

definition operator_cancel_error :: string where
  "operator_cancel_error = [CHR 0xC4, CHR 0x90, CHR 0xC3, CHR 0xA3] @ '' h'' @ [CHR 0xE1, CHR 0xBB, CHR 0xA7] @ ''y b'' @ [CHR 0xE1, CHR 0xBB, CHR 0x9F] @ ''i operator''"

definition subtask_cancel_error :: string where
  "subtask_cancel_error = ''Sub-agent b'' @ [CHR 0xE1, CHR 0xBB, CHR 0x8B] @ '' h'' @ [CHR 0xE1, CHR 0xBB, CHR 0xA7] @ ''y theo delegated task''"

definition cancel_delegated_task ::
  "time \<Rightarrow> string \<Rightarrow> string \<Rightarrow> string \<Rightarrow> string \<Rightarrow> tables \<Rightarrow> cancel_result \<times> tables" where
  "cancel_delegated_task now notice task_id user cluster_id db =
     (case find (\<lambda>t. dt_id t = task_id \<and> dt_actor t = user \<and> dt_cluster_id t = cluster_id)
             (db_tasks db) of
        None \<Rightarrow> (CX_NotFound, db)
      | Some t \<Rightarrow>
          if dt_status t = TK_CANCELLED then (CX_AlreadyCancelled, db)
          else if \<not> delegated_active (dt_status t) then (CX_NotActive (dt_status t), db)
          else
            (CX_Cancelled,
             db\<lparr>db_tasks := map (\<lambda>r. if dt_id r = task_id
                  then r\<lparr>dt_status := TK_CANCELLED, dt_error := Some operator_cancel_error,
                         dt_lease_until := None, dt_finished_at := Some now, dt_updated_at := now\<rparr>
                  else r) (db_tasks db),
                db_subtasks := map (\<lambda>r. if ds_task_id r = task_id
                     \<and> ds_status r \<notin> {SK_COMPLETED, SK_FAILED, SK_CANCELLED}
                  then r\<lparr>ds_status := SK_CANCELLED, ds_error := Some subtask_cancel_error,
                         ds_lease_until := None, ds_finished_at := Some now, ds_updated_at := now\<rparr>
                  else r) (db_subtasks db),
                db_messages := put_message (dt_assistant_message_id t) notice (db_messages db)\<rparr>))"

section \<open>Frames\<close>

text \<open>What every operation keeps of a task row: its id and its call counter.\<close>

definition id_calls :: "delegated_task \<Rightarrow> string \<times> int" where
  "id_calls t = (dt_id t, dt_provider_call_count t)"

named_theorems frame_simps \<open>projections of the tables an operation leaves alone\<close>

lemma map_proj_update_where [frame_simps]:
  "(\<And>r. g (f r) = g r) \<Longrightarrow> map g (snd (update_where P f rows)) = map g rows"
  by (rule map_key_update_where)

lemma claim_task_frame [frame_simps]:
  "map id_calls (snd (claim_task s now w i tasks)) = map id_calls tasks"
  by (simp add: claim_task_def case_prod_unfold frame_simps id_calls_def planning_row_def Let_def
      split: option.split)

lemma set_task_owned_frame [frame_simps]:
  "(\<And>r. g ((f r)\<lparr>dt_updated_at := now\<rparr>) = g r) \<Longrightarrow>
   map g (snd (set_task_owned now i owner ex f tasks)) = map g tasks"
  by (simp add: set_task_owned_def case_prod_unfold Let_def frame_simps)

lemma renew_task_lease_frame [frame_simps]:
  "map id_calls (snd (renew_task_lease s now i owner tasks)) = map id_calls tasks"
  by (simp add: renew_task_lease_def frame_simps id_calls_def)

lemma requeued_task_frame [frame_simps]: "id_calls (requeued_task now seen r) = id_calls r"
  by (simp add: requeued_task_def id_calls_def)

lemma dispatch_candidates_frame:
  "map id_calls (db_tasks (snd (dispatch_candidates now cs db))) = map id_calls (db_tasks db)"
proof (induction cs arbitrary: db)
  case Nil
  then show ?case by simp
next
  case (Cons c cs)
  then show ?case by (cases c) (simp add: case_prod_unfold Let_def frame_simps)
qed

lemma dispatch_frame [frame_simps]:
  "map id_calls (db_tasks (snd (claim_tasks_for_dispatch now limit db))) = map id_calls (db_tasks db)"
  by (simp add: claim_tasks_for_dispatch_def dispatch_candidates_frame)

lemma cancel_frame [frame_simps]:
  "map id_calls (db_tasks (snd (cancel_delegated_task now notice i user cl db))) =
     map id_calls (db_tasks db)"
  by (simp add: cancel_delegated_task_def id_calls_def split: option.split)

lemma record_task_failure_frame [frame_simps]:
  "map id_calls (db_tasks (record_task_failure now i owner e db)) = map id_calls (db_tasks db)"
  by (simp add: record_task_failure_def case_prod_unfold Let_def frame_simps id_calls_def
      split: option.split)

section \<open>The budget survives every reclaim\<close>

definition task_ids_unique :: "delegated_task list \<Rightarrow> bool" where
  "task_ids_unique tasks = distinct (map dt_id tasks)"

definition calls_of :: "string \<Rightarrow> delegated_task list \<Rightarrow> int option" where
  "calls_of i tasks = map_of (map id_calls tasks) i"

lemma calls_of_find: "calls_of i tasks = map_option dt_provider_call_count (find_id dt_id i tasks)"
  by (induction tasks) (auto simp: calls_of_def find_id_def id_calls_def)

lemma task_ids_unique_frame:
  "map id_calls tasks' = map id_calls tasks \<Longrightarrow> task_ids_unique tasks' = task_ids_unique tasks"
proof -
  assume a: "map id_calls tasks' = map id_calls tasks"
  have ids: "map dt_id ts = map fst (map id_calls ts)" for ts by (simp add: id_calls_def)
  show ?thesis unfolding task_ids_unique_def ids a ..
qed

lemma reserve_slots_unique [simp]:
  "task_ids_unique (snd (snd (reserve_slots now keep b tasks))) = task_ids_unique tasks"
  by (simp add: reserve_slots_def task_ids_unique_def case_prod_unfold Let_def map_key_update_where
      split: option.split)

text \<open>A reservation of the task's budget either is granted below the limit and counted, or changes nothing.\<close>

lemma reserve_slots_calls:
  assumes "task_ids_unique tasks" and "cb_task_id b = Some i" and "calls_of i tasks = Some n"
    and "0 \<le> n"
  shows "if fst (reserve_slots now keep b tasks)
         then n < cb_limit b - keep
            \<and> calls_of i (snd (snd (reserve_slots now keep b tasks))) = Some (n + 1)
         else calls_of i (snd (snd (reserve_slots now keep b tasks))) = Some n"
proof -
  from assms(3) obtain t where t: "find_id dt_id i tasks = Some t" "dt_provider_call_count t = n"
    by (auto simp: calls_of_find)
  let ?L = "max 0 (cb_limit b - keep)"
  let ?Q = "\<lambda>r. dt_execution_owner r = cb_owner b
    \<and> dt_status r \<in> active_statuses \<and> dt_provider_call_count r < ?L"
  have P: "reservable i (cb_owner b) ?L = (\<lambda>r. dt_id r = i \<and> ?Q r)"
    by (simp add: reservable_def fun_eq_iff)
  have cnt: "fst (update_where (reservable i (cb_owner b) ?L) f tasks) = (if ?Q t then 1 else 0)" for f
    unfolding P using update_where_key_count [OF assms(1) [unfolded task_ids_unique_def], of i ?Q f] t
    by simp
  show ?thesis
    using t find_id_Some [OF t(1)] assms(4) cnt
    by (auto simp: reserve_slots_def assms(2) case_prod_unfold Let_def calls_of_find
        find_id_update_where reservable_def)
qed

lemma reserve_slots_other:
  assumes "cb_task_id b \<noteq> Some i"
  shows "calls_of i (snd (snd (reserve_slots now keep b tasks))) = calls_of i tasks"
proof (cases "cb_task_id b")
  case None
  then show ?thesis by (simp add: reserve_slots_def)
next
  case (Some j)
  with assms show ?thesis
    by (cases "find_id dt_id i tasks")
      (auto simp: reserve_slots_def case_prod_unfold Let_def calls_of_find find_id_update_where
        reservable_def dest: find_id_Some)
qed

text \<open>
  A history: what workers, the watchdog and the operator commit, in the order it commits.
  \<open>granted i\<close> counts the provider calls the history lets task \<open>i\<close> make.
\<close>

datatype delegation_event =
    EvReserve time int call_budget
  | EvClaim time string string
  | EvRenew time string string
  | EvDispatch time int
  | EvCancel time string string string string
  | EvFail time string string string

fun delegation_step :: "delegation_settings \<Rightarrow> delegation_event \<Rightarrow> tables \<Rightarrow> bool \<times> tables" where
  "delegation_step s (EvReserve now keep b) db =
     (case reserve_slots now keep b (db_tasks db) of
        (ok, _, tasks') \<Rightarrow> (ok, db\<lparr>db_tasks := tasks'\<rparr>))"
| "delegation_step s (EvClaim now w i) db = (False, db\<lparr>db_tasks := snd (claim_task s now w i (db_tasks db))\<rparr>)"
| "delegation_step s (EvRenew now i owner) db =
     (False, db\<lparr>db_tasks := snd (renew_task_lease s now i owner (db_tasks db))\<rparr>)"
| "delegation_step s (EvDispatch now limit) db = (False, snd (claim_tasks_for_dispatch now limit db))"
| "delegation_step s (EvCancel now notice i user cl) db =
     (False, snd (cancel_delegated_task now notice i user cl db))"
| "delegation_step s (EvFail now i owner e) db = (False, record_task_failure now i owner e db)"

fun budget_of :: "delegation_event \<Rightarrow> string option" where
  "budget_of (EvReserve now keep b) = cb_task_id b"
| "budget_of _ = None"

fun run_history ::
  "delegation_settings \<Rightarrow> string \<Rightarrow> delegation_event list \<Rightarrow> tables \<Rightarrow> nat \<times> tables" where
  "run_history s i [] db = (0, db)"
| "run_history s i (e # es) db =
     (let (ok, db1) = delegation_step s e db; (n, db2) = run_history s i es db1
      in ((if ok \<and> budget_of e = Some i then n + 1 else n), db2))"

text \<open>Every reservation of the history comes from a budget of the configured size.\<close>

fun configured :: "delegation_settings \<Rightarrow> delegation_event \<Rightarrow> bool" where
  "configured s (EvReserve now keep b) = (cb_limit b = max 1 (se_max_provider_calls s) \<and> 0 \<le> keep)"
| "configured s _ = True"

lemma delegation_step_frame:
  "\<nexists>now keep b. e = EvReserve now keep b \<Longrightarrow>
   map id_calls (db_tasks (snd (delegation_step s e db))) = map id_calls (db_tasks db)"
  by (cases e)
    (simp_all add: claim_task_frame renew_task_lease_frame dispatch_frame cancel_frame
       record_task_failure_frame)

lemma delegation_step_calls:
  assumes "task_ids_unique (db_tasks db)" and "calls_of i (db_tasks db) = Some n" and "0 \<le> n"
    and "configured s e"
  shows "task_ids_unique (db_tasks (snd (delegation_step s e db)))
    \<and> (if fst (delegation_step s e db) \<and> budget_of e = Some i
       then n < max 1 (se_max_provider_calls s)
          \<and> calls_of i (db_tasks (snd (delegation_step s e db))) = Some (n + 1)
       else calls_of i (db_tasks (snd (delegation_step s e db))) = Some n)"
proof (cases "\<exists>now keep b. e = EvReserve now keep b")
  case True
  then obtain now keep b where e: "e = EvReserve now keep b" by blast
  have step: "delegation_step s e db = (fst (reserve_slots now keep b (db_tasks db)),
      db\<lparr>db_tasks := snd (snd (reserve_slots now keep b (db_tasks db)))\<rparr>)"
    by (simp add: e case_prod_unfold)
  show ?thesis
  proof (cases "cb_task_id b = Some i")
    case True
    from reserve_slots_calls [OF assms(1) True assms(2,3), of now keep] assms(1,4) True
    show ?thesis unfolding step by (auto simp: e split: if_splits)
  next
    case False
    with reserve_slots_other [OF False, of now keep "db_tasks db"] assms(1,2)
    show ?thesis unfolding step by (simp add: e)
  qed
next
  case False
  note frame = delegation_step_frame [OF False, of s db]
  have "\<not> (fst (delegation_step s e db) \<and> budget_of e = Some i)" using False by (cases e) simp_all
  moreover have "calls_of i (db_tasks (snd (delegation_step s e db))) = Some n"
    using assms(2) unfolding calls_of_def frame .
  moreover have "task_ids_unique (db_tasks (snd (delegation_step s e db)))"
    using task_ids_unique_frame [OF frame] assms(1) by blast
  ultimately show ?thesis by argo
qed

text \<open>
  C29. A task never makes more provider calls than its budget, whoever runs it: over any history of
  claims, reclaims after a crash, renewals, redispatches, cancellations and failures, the calls
  granted are exactly the growth of the stored counter, and it never passes the configured limit.
\<close>

theorem provider_budget_never_exceeded:
  assumes "task_ids_unique (db_tasks db)" and "calls_of i (db_tasks db) = Some n" and "0 \<le> n"
    and "n \<le> max 1 (se_max_provider_calls s)" and "list_all (configured s) es"
  shows "calls_of i (db_tasks (snd (run_history s i es db))) = Some (n + int (fst (run_history s i es db)))
    \<and> n + int (fst (run_history s i es db)) \<le> max 1 (se_max_provider_calls s)"
  using assms
proof (induction es arbitrary: db n)
  case Nil
  then show ?case by simp
next
  case (Cons e es)
  let ?db' = "snd (delegation_step s e db)"
  from Cons.prems have st: "task_ids_unique (db_tasks ?db')"
    "if fst (delegation_step s e db) \<and> budget_of e = Some i
     then n < max 1 (se_max_provider_calls s) \<and> calls_of i (db_tasks ?db') = Some (n + 1)
     else calls_of i (db_tasks ?db') = Some n"
    using delegation_step_calls [of db i n s e] by simp_all
  show ?case
  proof (cases "fst (delegation_step s e db) \<and> budget_of e = Some i")
    case True
    with st have n1: "calls_of i (db_tasks ?db') = Some (n + 1)" "n + 1 \<le> max 1 (se_max_provider_calls s)"
      by simp_all
    from Cons.IH [OF st(1) n1(1) _ n1(2)] Cons.prems True show ?thesis
      by (simp add: case_prod_unfold Let_def)
  next
    case False
    then have "calls_of i (db_tasks ?db') = Some n" using st(2) by (simp split: if_splits)
    from Cons.IH [OF st(1) this] Cons.prems False show ?thesis
      by (simp add: case_prod_unfold Let_def)
  qed
qed

definition sample_task :: delegated_task where
  "sample_task = new_task 0 ''t1'' ''alice'' ''c1'' ''s1'' ''m1'' ''osd slow''"

definition sample_settings :: delegation_settings where
  "sample_settings =
     \<lparr>se_task_timeout_seconds = 900, se_max_subtasks = 4, se_max_provider_calls = 2,
      se_max_result_chars = 6000, se_max_active_tasks = 2, se_max_active_tasks_per_actor = 1,
      se_submit_cooldown_seconds = 10\<rparr>"

definition sample_tables :: tables where
  "sample_tables = \<lparr>db_tasks = [sample_task], db_subtasks = [], db_clusters = [], db_messages = []\<rparr>"

definition sample_cluster_tables :: tables where
  "sample_cluster_tables =
     sample_tables\<lparr>db_clusters := [sample_cluster]\<rparr>"

definition sample_budget :: "string \<Rightarrow> call_budget" where
  "sample_budget owner = new_budget 2 (Some ''t1'') (Some owner)"

text \<open>One worker reserves, crashes, another reclaims after the lease and reserves again.\<close>

definition sample_history :: "delegation_event list" where
  "sample_history =
     [EvClaim 0 ''w1'' ''t1'', EvReserve 1 1 (sample_budget ''w1''),
      EvClaim (seconds 1000) ''w2'' ''t1'', EvReserve (seconds 1001) 0 (sample_budget ''w2''),
      EvReserve (seconds 1002) 0 (sample_budget ''w2'')]"

theorem provider_budget_never_exceeded_witness:
  "calls_of ''t1'' (db_tasks (snd (run_history sample_settings ''t1'' sample_history sample_tables))) =
     Some (int (fst (run_history sample_settings ''t1'' sample_history sample_tables)))
   \<and> fst (run_history sample_settings ''t1'' sample_history sample_tables) \<le> 2"
  using provider_budget_never_exceeded [of sample_tables "''t1''" 0 sample_settings sample_history]
  by (simp add: sample_tables_def sample_task_def new_task_def task_ids_unique_def calls_of_def
      id_calls_def sample_settings_def sample_history_def sample_budget_def new_budget_def)

section \<open>One live owner\<close>

lemma update_where_no_match:
  "(\<And>r. r \<in> set rows \<Longrightarrow> \<not> P r) \<Longrightarrow> update_where P f rows = (0, rows)"
  by (auto simp: update_where_def filter_empty_conv intro: map_idI)

lemma claimed_task_row:
  assumes "task_ids_unique tasks" and "claim_task s now w i tasks = (Some c, tasks')"
  shows "task_ids_unique tasks' \<and> (\<exists>t. find_id dt_id i tasks' = Some t
     \<and> dt_execution_owner t = Some w \<and> dt_status t = TK_PLANNING
     \<and> dt_lease_until t = Some (now + seconds (task_lease_seconds s)))"
proof -
  let ?u = "update_where (\<lambda>r. dt_id r = i \<and> task_claimable now r) (planning_row s now w) tasks"
  have n: "fst ?u = 1"
    using assms(2) by (simp add: claim_task_def case_prod_unfold Let_def split: if_splits)
  have "claim_task s now w i tasks =
      (case find_id dt_id i (snd ?u) of None \<Rightarrow> (None, tasks)
       | Some t \<Rightarrow> (Some (dt_prompt t, dt_actor t, dt_cluster_id t, w), snd ?u))"
    unfolding claim_task_def case_prod_unfold Let_def n by simp
  then have u: "tasks' = snd ?u" using assms(2) by (cases "find_id dt_id i (snd ?u)") auto
  note cnt = update_where_key_count [OF assms(1) [unfolded task_ids_unique_def], of i "task_claimable now"
      "planning_row s now w"]
  have "\<exists>t. find_id dt_id i tasks = Some t \<and> task_claimable now t"
    using n unfolding cnt by (simp split: option.splits if_splits)
  then obtain t where t: "find_id dt_id i tasks = Some t" "task_claimable now t" by blast
  from t find_id_Some [OF t(1)] have "\<exists>t. find_id dt_id i tasks' = Some t
     \<and> dt_execution_owner t = Some w \<and> dt_status t = TK_PLANNING
     \<and> dt_lease_until t = Some (now + seconds (task_lease_seconds s))"
    unfolding u by (simp add: find_id_update_where planning_row_def)
  moreover have "task_ids_unique tasks'"
    using assms(1) unfolding u task_ids_unique_def
    by (simp add: map_key_update_where planning_row_def)
  ultimately show ?thesis by simp
qed

lemma unique_row:
  "task_ids_unique tasks \<Longrightarrow> find_id dt_id i tasks = Some t \<Longrightarrow> r \<in> set tasks \<Longrightarrow> dt_id r = i \<Longrightarrow> r = t"
  by (drule find_id_Some) (auto simp: task_ids_unique_def distinct_map dest: inj_onD)

text \<open>
  C31. A claimed task has one owner while its lease lives: until the deadline no worker can claim it
  again, and no other worker can renew it, move its status or claim one of its subtasks.
\<close>

theorem claimed_task_single_owner:
  assumes "task_ids_unique tasks" and "claim_task s now w i tasks = (Some c, tasks')"
    and "now' \<le> now + seconds (task_lease_seconds s)"
  shows "claim_task s now' w2 i tasks' = (None, tasks')
    \<and> (w2 \<noteq> w \<longrightarrow> renew_task_lease s now' i w2 tasks' = (False, tasks')
         \<and> set_task_owned now' i w2 ex f tasks' = (False, tasks')
         \<and> claim_subtask now' i sub cl w2 (db\<lparr>db_tasks := tasks'\<rparr>) = (None, db\<lparr>db_tasks := tasks'\<rparr>))"
proof -
  from claimed_task_row [OF assms(1,2)] obtain t where u: "task_ids_unique tasks'"
    and t: "find_id dt_id i tasks' = Some t" "dt_execution_owner t = Some w" "dt_status t = TK_PLANNING"
      "dt_lease_until t = Some (now + seconds (task_lease_seconds s))" by blast
  have only: "\<And>r. r \<in> set tasks' \<Longrightarrow> dt_id r = i \<Longrightarrow> r = t" using unique_row [OF u t(1)] .
  have "\<not> task_claimable now' t"
    using t assms(3) by (simp add: task_claimable_def lease_lapsed_def)
  then have "claim_task s now' w2 i tasks' = (None, tasks')"
    using only by (subst claim_task_def, subst update_where_no_match) auto
  moreover have own: "set_task_owned now' i w2 ex f tasks' = (False, tasks')" if "w2 \<noteq> w" for ex f
    using only t(2) that by (subst set_task_owned_def, subst update_where_no_match) auto
  moreover have "\<not> parent_live now' i w2 tasks'" if "w2 \<noteq> w"
    using only t(2) that by (auto simp: parent_live_def list_ex_iff)
  then have "claim_subtask now' i sub cl w2 (db\<lparr>db_tasks := tasks'\<rparr>) = (None, db\<lparr>db_tasks := tasks'\<rparr>)"
    if "w2 \<noteq> w" using that by (subst claim_subtask_def, subst update_where_no_match) auto
  ultimately show ?thesis by (simp add: renew_task_lease_def)
qed

theorem claimed_task_single_owner_witness:
  "claim_task sample_settings (seconds 200) ''w2'' ''t1''
     (snd (claim_task sample_settings 0 ''w1'' ''t1'' [sample_task])) =
   (None, snd (claim_task sample_settings 0 ''w1'' ''t1'' [sample_task]))"
  by (rule conjunct1, rule claimed_task_single_owner [where s = sample_settings and now = 0
        and w = "''w1''" and i = "''t1''" and tasks = "[sample_task]"
        and c = "(''osd slow'', ''alice'', ''c1'', ''w1'')"])
    (simp_all add: task_ids_unique_def claim_task_def sample_task_def new_task_def
      planning_row_def task_claimable_def update_where_def find_id_def Let_def
      task_lease_seconds_def sample_settings_def)

section \<open>Planning\<close>

lemma plan_roles_distinct:
  "distinct (map pi_role (build_plan s prompt)) \<and> length (build_plan s prompt) \<le> 4
   \<and> length (build_plan s prompt) \<le> max 1 (se_max_subtasks s)
   \<and> set (build_plan s prompt) \<subseteq> {general_analysis_item, cluster_health_item, node_resources_item,
        storage_performance_item, incident_history_item, ceph_topology_item}"
proof -
  let ?text = "utf8_lower prompt"
  let ?plan = "(let plan1 = [cluster_health_item];
       plan2 = (if any_word node_terms ?text then plan1 @ [node_resources_item] else plan1);
       plan3 = (if any_word storage_terms ?text then plan2 @ [storage_performance_item] else plan2);
       plan4 = (if any_word history_terms ?text then plan3 @ [incident_history_item] else plan3)
     in if length plan4 = 1 then plan4 @ [ceph_topology_item] else plan4)"
  have d: "distinct (map pi_role ?plan)"
    by (simp add: Let_def cluster_health_item_def node_resources_item_def
        storage_performance_item_def incident_history_item_def ceph_topology_item_def)
  have sub: "set ?plan \<subseteq> {general_analysis_item, cluster_health_item, node_resources_item,
        storage_performance_item, incident_history_item, ceph_topology_item}"
    by (auto simp: Let_def)
  have cut: "distinct (map pi_role (take n ?plan))" "set (take n ?plan) \<subseteq> set ?plan" for n
    using d by (simp_all add: take_map [symmetric] set_take_subset del: Let_def)
  have b: "build_plan s prompt = (if \<not> any_word ceph_terms ?text then [general_analysis_item]
      else take (min max_subtasks (se_max_subtasks s)) ?plan)"
    by (simp add: build_plan_def Let_def)
  show ?thesis
  proof (cases "any_word ceph_terms ?text")
    case False
    then show ?thesis unfolding b by simp
  next
    case True
    have "length (build_plan s prompt) \<le> min max_subtasks (se_max_subtasks s)"
      unfolding b using True by (simp only: not_True_eq_False if_False length_take min.cobounded2)
    moreover have "set (build_plan s prompt) \<subseteq> set ?plan"
      unfolding b using True cut(2) by simp
    moreover have "distinct (map pi_role (build_plan s prompt))"
      unfolding b using True cut(1) by simp
    ultimately show ?thesis using sub by (auto simp: max_subtasks_def)
  qed
qed

text \<open>
  Every request, whatever its text, is planned into at most four subtasks, and no more than the
  setting allows, with distinct roles (so the unique index on task and role never refuses a row),
  and every tool a plan grants is a reading one: its name starts with get or list.
\<close>

theorem plan_bounded_read_only:
  "length (build_plan s prompt) \<le> 4 \<and> length (build_plan s prompt) \<le> max 1 (se_max_subtasks s)
   \<and> distinct (map pi_role (build_plan s prompt))
   \<and> list_all (\<lambda>item. list_all (\<lambda>tool. starts_with tool ''get_'' \<or> starts_with tool ''list_'')
        (pi_tools item)) (build_plan s prompt)"
proof -
  have "list_all (\<lambda>tool. starts_with tool ''get_'' \<or> starts_with tool ''list_'') (pi_tools item)"
    if "item \<in> set (build_plan s prompt)" for item
  proof -
    have "item \<in> {general_analysis_item, cluster_health_item, node_resources_item,
        storage_performance_item, incident_history_item, ceph_topology_item}"
      using that plan_roles_distinct [of s prompt] by blast
    then show ?thesis
      by (elim insertE emptyE) (simp_all add: general_analysis_item_def cluster_health_item_def
          node_resources_item_def storage_performance_item_def incident_history_item_def
          ceph_topology_item_def)
  qed
  then show ?thesis using plan_roles_distinct [of s prompt] by (simp add: list_all_iff)
qed

section \<open>Attempts\<close>

definition attempts_ok :: "tables \<Rightarrow> bool" where
  "attempts_ok db = (\<forall>r \<in> set (db_subtasks db). ds_attempt r \<le> max_subtask_attempts)"

lemma attempts_ok_tasks [simp]: "attempts_ok (db\<lparr>db_tasks := ts\<rparr>) = attempts_ok db"
  by (simp add: attempts_ok_def)

lemma attempts_ok_messages [simp]: "attempts_ok (db\<lparr>db_messages := ms\<rparr>) = attempts_ok db"
  by (simp add: attempts_ok_def)

lemma attempts_ok_update:
  assumes "attempts_ok db" and "\<And>r. r \<in> set (db_subtasks db) \<Longrightarrow> P r \<Longrightarrow>
      ds_attempt r \<le> max_subtask_attempts \<Longrightarrow> ds_attempt (f r) \<le> max_subtask_attempts"
  shows "attempts_ok (db\<lparr>db_subtasks := snd (update_where P f (db_subtasks db))\<rparr>)"
  using assms by (auto simp: attempts_ok_def update_where_def)

lemma claim_subtask_attempts:
  assumes "attempts_ok db"
  shows "attempts_ok (snd (claim_subtask now i sub cl owner db))"
proof -
  let ?P = "\<lambda>r. ds_id r = sub \<and> (ds_task_id r = i
      \<and> parent_live now i owner (db_tasks db) \<and> subtask_claimable now r)"
  let ?f = "\<lambda>r. r\<lparr>ds_status := SK_RUNNING, ds_execution_owner := Some owner,
      ds_lease_until := Some (now + seconds subtask_lease_seconds),
      ds_attempt := ds_attempt r + 1, ds_started_at := Some now, ds_finished_at := None,
      ds_result_text := None, ds_tools_used := None, ds_error := None, ds_updated_at := now\<rparr>"
  have "attempts_ok (db\<lparr>db_subtasks := snd (update_where ?P ?f (db_subtasks db))\<rparr>)"
    by (rule attempts_ok_update [OF assms]) (auto simp: subtask_claimable_def max_subtask_attempts_def)
  with assms show ?thesis
    by (simp add: claim_subtask_def case_prod_unfold Let_def split: option.split)
qed

lemma set_subtask_owned_attempts:
  assumes "attempts_ok db" and "\<And>r. ds_attempt (f r) = ds_attempt r"
  shows "attempts_ok (snd (set_subtask_owned now sub owner f db))"
  using assms attempts_ok_update [OF assms(1)]
  by (simp add: set_subtask_owned_def case_prod_unfold Let_def)

lemma run_subtask_attempts:
  assumes "attempts_ok db"
  shows "attempts_ok (snd (snd (run_subtask s agent clocks sub i prompt cl owner b db)))"
proof (cases "fst (claim_subtask (fst clocks) i sub cl owner db)")
  case None
  with claim_subtask_attempts [OF assms, of "fst clocks" i sub cl owner] show ?thesis
    by (simp add: run_subtask_def case_prod_unfold)
next
  case (Some c)
  have f: "\<And>r. ds_attempt (failed_subtask t e r) = ds_attempt r"
    "\<And>r. ds_attempt (completed_subtask s t reply used r) = ds_attempt r" for t e reply used
    by (simp_all add: failed_subtask_def completed_subtask_def)
  from claim_subtask_attempts [OF assms, of "fst clocks" i sub cl owner] Some show ?thesis
    by (auto simp: run_subtask_def case_prod_unfold Let_def f intro!: set_subtask_owned_attempts
        split: agent_result.split)
qed

lemma run_round_attempts:
  "attempts_ok db \<Longrightarrow> attempts_ok (snd (snd (run_round s agent clocks is i prompt cl owner b db)))"
proof (induction "is" arbitrary: b db)
  case Nil
  then show ?case by simp
next
  case (Cons j js)
  from run_subtask_attempts [OF Cons.prems, of s agent clocks j i prompt cl owner b] Cons.IH
  show ?case by (auto split: prod.split bool.split)
qed

lemma run_rounds_attempts:
  "attempts_ok db \<Longrightarrow> attempts_ok (snd (snd (run_rounds s agent clocks n k pending i prompt cl owner b db)))"
proof (induction n arbitrary: k pending b db)
  case 0
  then show ?case by simp
next
  case (Suc n)
  from run_round_attempts [OF Suc.prems, of s agent "clocks k" pending i prompt cl owner b] Suc.IH Suc.prems
  show ?case by (auto split: prod.split bool.split)
qed

lemma make_subtasks_attempts:
  assumes "attempts_ok db"
  shows "attempts_ok (snd (make_subtasks now uid i plan db))"
proof -
  have "ds_attempt (planned_row now u i item) \<le> max_subtask_attempts" for u item
    by (simp add: planned_row_def max_subtask_attempts_def)
  with assms show ?thesis
    by (auto simp: make_subtasks_def Let_def attempts_ok_def split: option.split)
qed

lemma finish_task_attempts [simp]: "attempts_ok (finish_task now i owner res err db) = attempts_ok db"
  by (simp add: finish_task_def split: prod.split bool.split option.split)

lemma aggregate_attempts [simp]:
  "attempts_ok (snd (aggregate s synth clocks i prompt owner b db)) = attempts_ok db"
  by (simp add: aggregate_def Let_def case_prod_unfold split: agent_result.split)

lemma record_task_failure_attempts [simp]:
  "attempts_ok (record_task_failure now i owner e db) = attempts_ok db"
  by (simp add: record_task_failure_def Let_def case_prod_unfold split: option.split)

lemma execute_claimed_attempts:
  assumes "attempts_ok db"
  shows "attempts_ok (snd (execute_claimed_task s agent synth clocks uid i prompt cl owner db))"
  using make_subtasks_attempts [OF assms, of "fst (clocks 0)" uid i "build_plan s prompt"]
  by (auto simp: execute_claimed_task_def Let_def case_prod_unfold intro!: run_rounds_attempts)

lemma dispatch_candidates_attempts:
  "attempts_ok db \<Longrightarrow> attempts_ok (snd (dispatch_candidates now cs db))"
proof (induction cs arbitrary: db)
  case Nil
  then show ?case by simp
next
  case (Cons c cs)
  obtain j seen where c: "c = (j, seen)" by (cases c)
  have "attempts_ok (db\<lparr>db_tasks := ts, db_subtasks := map (\<lambda>r. if ds_task_id r = j
      \<and> ds_status r \<notin> {SK_COMPLETED, SK_CANCELLED}
      then requeued_subtask now attempts_spent_error r else r) (db_subtasks db)\<rparr>)" for ts
    using Cons.prems by (auto simp: attempts_ok_def requeued_subtask_def)
  with Cons.prems show ?case
    by (auto simp: c case_prod_unfold Let_def intro!: Cons.IH)
qed

text \<open>
  No subtask is tried more than twice: an execution of a task and a redispatch of stale tasks
  both keep every attempt counter within the ceiling, whatever the agents do.
\<close>

theorem attempts_bounded:
  assumes "\<forall>r \<in> set (db_subtasks db). ds_attempt r \<le> 2"
  shows "(\<forall>r \<in> set (db_subtasks (execute_task s agent synth clocks uid w i db)). ds_attempt r \<le> 2)
    \<and> (\<forall>r \<in> set (db_subtasks (snd (claim_tasks_for_dispatch now limit db))). ds_attempt r \<le> 2)"
proof -
  have ok: "attempts_ok db" using assms by (simp add: attempts_ok_def max_subtask_attempts_def)
  then have "attempts_ok (snd (claim_tasks_for_dispatch now limit db))"
    by (simp add: claim_tasks_for_dispatch_def dispatch_candidates_attempts)
  moreover have "attempts_ok (execute_task s agent synth clocks uid w i db)"
    using ok execute_claimed_attempts [of "db\<lparr>db_tasks := ts\<rparr>" for ts]
    by (auto simp: execute_task_def case_prod_unfold split: option.split execution.split)
  ultimately show ?thesis by (simp add: attempts_ok_def max_subtask_attempts_def)
qed

theorem attempts_bounded_witness:
  "list_all (\<lambda>r. ds_attempt r \<le> 2) (db_subtasks (execute_task sample_settings (\<lambda>_ _ _ _ _. \<lparr>ar_calls = 1,
       ar_result = AgentError ''x''\<rparr>) (\<lambda>_ _. \<lparr>ar_calls = 1, ar_result = AgentError ''x''\<rparr>)
       (\<lambda>n. (0, 1)) (\<lambda>n. nat_text n) ''w1'' ''t1'' sample_cluster_tables))"
  unfolding list_all_iff
  by (rule conjunct1, rule attempts_bounded) (simp add: sample_cluster_tables_def sample_tables_def)

section \<open>Cancellation\<close>

lemma dispatch_candidates_ids: "set (fst (dispatch_candidates now cs db)) \<subseteq> fst ` set cs"
proof (induction cs arbitrary: db)
  case Nil
  then show ?case by simp
next
  case (Cons c cs)
  then show ?case by (cases c) (auto simp: case_prod_unfold Let_def)
qed

lemma dispatch_only_claimable:
  "i \<in> set (fst (claim_tasks_for_dispatch now limit db)) \<Longrightarrow>
   \<exists>t \<in> set (db_tasks db). dt_id t = i \<and> task_claimable now t"
  unfolding claim_tasks_for_dispatch_def
  by (drule subsetD [OF dispatch_candidates_ids])
    (auto simp: sort_by_def dest!: in_set_takeD)

lemma cancelled_tasks:
  "fst (cancel_delegated_task now notice i user cl db) = CX_Cancelled \<Longrightarrow>
   db_tasks (snd (cancel_delegated_task now notice i user cl db)) = map (\<lambda>r. if dt_id r = i
      then r\<lparr>dt_status := TK_CANCELLED, dt_error := Some operator_cancel_error,
             dt_lease_until := None, dt_finished_at := Some now, dt_updated_at := now\<rparr>
      else r) (db_tasks db)"
  by (auto simp: cancel_delegated_task_def split: option.splits if_splits)

lemma cancelled_status:
  assumes "cancel_delegated_task now notice i user cl db = (CX_Cancelled, db')"
    and "r \<in> set (db_tasks db')" and "dt_id r = i"
  shows "dt_status r = TK_CANCELLED"
proof -
  have "db_tasks db' = map (\<lambda>r. if dt_id r = i
      then r\<lparr>dt_status := TK_CANCELLED, dt_error := Some operator_cancel_error,
             dt_lease_until := None, dt_finished_at := Some now, dt_updated_at := now\<rparr>
      else r) (db_tasks db)"
    using cancelled_tasks [of now notice i user cl db] assms(1) by simp
  with assms(2) obtain x where "r = (if dt_id x = i
      then x\<lparr>dt_status := TK_CANCELLED, dt_error := Some operator_cancel_error,
             dt_lease_until := None, dt_finished_at := Some now, dt_updated_at := now\<rparr>
      else x)" by (simp only: set_map image_iff) blast
  with assms(3) show ?thesis by (cases "dt_id x = i") simp_all
qed

text \<open>No operation of a worker matches a task whose rows are all cancelled.\<close>

definition cancelled_in :: "string \<Rightarrow> delegated_task list \<Rightarrow> bool" where
  "cancelled_in i tasks = (\<forall>r \<in> set tasks. dt_id r = i \<longrightarrow> dt_status r = TK_CANCELLED)"

lemma cancelled_not_claimable:
  "cancelled_in i tasks \<Longrightarrow> r \<in> set tasks \<Longrightarrow> dt_id r = i \<Longrightarrow> \<not> task_claimable t r"
  by (auto simp: cancelled_in_def task_claimable_def active_statuses_def)

lemma cancelled_claim_task: "cancelled_in i tasks \<Longrightarrow> fst (claim_task s t w i tasks) = None"
  by (subst claim_task_def, subst update_where_no_match) (auto dest: cancelled_not_claimable)

lemma cancelled_claim_subtask:
  assumes "cancelled_in i (db_tasks db)"
  shows "fst (claim_subtask t i sub c w db) = None"
proof -
  have "\<not> parent_live t i w (db_tasks db)"
    using assms by (auto simp: parent_live_def list_ex_iff active_statuses_def cancelled_in_def)
  then show ?thesis by (subst claim_subtask_def, subst update_where_no_match) auto
qed

lemma cancelled_set_subtask:
  assumes "cancelled_in i (db_tasks db)" and "find_id ds_id sub (db_subtasks db) = Some r"
    and "ds_task_id r = i" and "distinct (map ds_id (db_subtasks db))"
  shows "fst (set_subtask_owned t sub w f db) = False"
proof -
  have "x = r" if "x \<in> set (db_subtasks db)" "ds_id x = sub" for x
    using find_id_in [OF assms(4) that(1)] assms(2) that(2) by simp
  moreover have "\<not> list_ex (\<lambda>t. dt_id t = i \<and> dt_status t \<in> active_statuses) (db_tasks db)"
    using assms(1) by (auto simp: list_ex_iff active_statuses_def cancelled_in_def)
  ultimately show ?thesis
    using assms(3) by (subst set_subtask_owned_def, subst update_where_no_match) auto
qed

lemma cancelled_reserve:
  assumes "cancelled_in i tasks" and "cb_task_id b = Some i"
  shows "fst (reserve_slots t keep b tasks) = False"
proof -
  have "update_where (reservable i (cb_owner b) L) g tasks = (0, tasks)" for L g
    using assms(1)
    by (intro update_where_no_match) (auto simp: reservable_def active_statuses_def cancelled_in_def)
  then show ?thesis by (simp add: reserve_slots_def assms(2))
qed

text \<open>
  A cancelled task stops: after the operator's cancellation no worker can claim the task, no
  subtask of it can be claimed or finished, no provider call is granted to it under any budget, and
  the watchdog never dispatches it again.
\<close>

theorem cancelled_task_stops:
  assumes "cancel_delegated_task now notice i user cl db = (CX_Cancelled, db')"
  shows "fst (claim_task s t w i (db_tasks db')) = None
    \<and> fst (claim_subtask t i sub c w db') = None
    \<and> (find_id ds_id sub (db_subtasks db') = Some r \<and> ds_task_id r = i
          \<and> distinct (map ds_id (db_subtasks db')) \<longrightarrow> fst (set_subtask_owned t sub w f db') = False)
    \<and> (cb_task_id b = Some i \<longrightarrow> fst (reserve_slots t keep b (db_tasks db')) = False)
    \<and> i \<notin> set (fst (claim_tasks_for_dispatch t limit db'))"
proof -
  have ca: "cancelled_in i (db_tasks db')"
    using cancelled_status [OF assms] by (simp add: cancelled_in_def)
  then have "i \<notin> set (fst (claim_tasks_for_dispatch t limit db'))"
    using dispatch_only_claimable [of i t limit db'] cancelled_not_claimable by blast
  with ca show ?thesis
    using cancelled_claim_task [OF ca] cancelled_claim_subtask [OF ca]
      cancelled_set_subtask [OF ca, of sub r] cancelled_reserve [OF ca, of b]
    by (intro conjI impI) auto
qed

lemma sample_cancels:
  "cancel_delegated_task 5 [] ''t1'' ''alice'' ''c1'' sample_tables =
     (CX_Cancelled, snd (cancel_delegated_task 5 [] ''t1'' ''alice'' ''c1'' sample_tables))"
  by (simp add: cancel_delegated_task_def sample_tables_def sample_task_def new_task_def
      delegated_active_def)

theorem cancelled_task_stops_witness:
  "fst (claim_task sample_settings 9 ''w1'' ''t1''
     (db_tasks (snd (cancel_delegated_task 5 [] ''t1'' ''alice'' ''c1'' sample_tables)))) = None"
  by (rule conjunct1, rule cancelled_task_stops [OF sample_cancels])

lemma record_task_failure_tasks:
  "db_tasks (record_task_failure now i owner e db) =
     snd (set_task_owned now i owner None
       (\<lambda>r. r\<lparr>dt_status := TK_FAILED, dt_error := Some (take 4000 e), dt_lease_until := None,
             dt_finished_at := Some now\<rparr>) (db_tasks db))"
  by (simp add: record_task_failure_def case_prod_unfold Let_def split: option.split)

text \<open>
  The failure write can undo a cancellation: it is conditioned on the owner only, so a worker
  whose exception handler checked for a cancellation just before the operator cancelled turns the
  CANCELLED task into FAILED.
\<close>

theorem failure_overwrites_cancellation:
  assumes "task_ids_unique (db_tasks db)" and "find_id dt_id i (db_tasks db) = Some t"
    and "dt_status t = TK_CANCELLED" and "dt_execution_owner t = Some owner"
  shows "\<exists>t'. find_id dt_id i (db_tasks (record_task_failure now i owner e db)) = Some t'
     \<and> dt_status t' = TK_FAILED"
  using assms(2,4) find_id_Some [OF assms(2)]
  by (simp add: record_task_failure_tasks set_task_owned_def case_prod_unfold Let_def
      find_id_update_where)

theorem failure_overwrites_cancellation_witness:
  "\<exists>t'. find_id dt_id ''t1'' (db_tasks (record_task_failure 9 ''t1'' ''w1'' ''boom''
       (sample_tables\<lparr>db_tasks := [sample_task\<lparr>dt_status := TK_CANCELLED,
          dt_execution_owner := Some ''w1''\<rparr>]\<rparr>))) = Some t' \<and> dt_status t' = TK_FAILED"
  by (rule failure_overwrites_cancellation [where t = "sample_task\<lparr>dt_status := TK_CANCELLED,
        dt_execution_owner := Some ''w1''\<rparr>"])
    (simp_all add: sample_task_def new_task_def task_ids_unique_def find_id_def)

section \<open>Admission\<close>

definition active_tasks :: "delegated_task list \<Rightarrow> nat" where
  "active_tasks tasks = length (filter (\<lambda>t. delegated_active (dt_status t)) tasks)"

definition active_tasks_of :: "string \<Rightarrow> delegated_task list \<Rightarrow> nat" where
  "active_tasks_of actor tasks =
     length (filter (\<lambda>t. delegated_active (dt_status t) \<and> dt_actor t = actor) tasks)"

text \<open>
  Admission keeps the backlog bounded: a submission that is admitted leaves the number of active
  tasks, overall and of its actor, within the settings, and one that is refused adds nothing; and an
  admitted actor's newest task is older than the cooldown.
\<close>

theorem admission_bounds_backlog:
  assumes "submit_task s now t tasks = (res, tasks')"
  shows "(res = None \<longrightarrow> active_tasks tasks' \<le> se_max_active_tasks s
        \<and> active_tasks_of (dt_actor t) tasks' \<le> se_max_active_tasks_per_actor s
        \<and> (\<forall>u \<in> set tasks. dt_actor u = dt_actor t \<and> 0 < se_submit_cooldown_seconds s
             \<longrightarrow> dt_created_at u \<le> now - seconds (se_submit_cooldown_seconds s)))
    \<and> (res \<noteq> None \<longrightarrow> tasks' = tasks)"
proof (cases "check_delegated_admission s now (dt_actor t) tasks")
  case (Some e)
  with assms show ?thesis by (auto simp: submit_task_def)
next
  case None
  with assms have r: "res = None" "tasks' = tasks @ [t]" by (auto simp: submit_task_def)
  have counts: "active_tasks tasks < se_max_active_tasks s"
    "active_tasks_of (dt_actor t) tasks < se_max_active_tasks_per_actor s"
    using None by (auto simp: check_delegated_admission_def Let_def active_tasks_def
        active_tasks_of_def split: if_splits)
  have cool: "dt_created_at u \<le> now - seconds (se_submit_cooldown_seconds s)"
    if u: "u \<in> set tasks" "dt_actor u = dt_actor t" "0 < se_submit_cooldown_seconds s" for u
  proof -
    let ?mine = "filter (\<lambda>x. dt_actor x = dt_actor t) tasks"
    obtain l where l: "first_by (\<lambda>x. - dt_created_at x) ?mine = Some l"
      using u by (cases "first_by (\<lambda>x. - dt_created_at x) ?mine") (auto simp: filter_empty_conv)
    have "dt_created_at u \<le> dt_created_at l"
      using first_by_least [OF l, of u] u by simp
    moreover have "dt_created_at l \<le> now - seconds (se_submit_cooldown_seconds s)"
      using None l u by (auto simp: check_delegated_admission_def Let_def split: if_splits)
    ultimately show ?thesis by simp
  qed
  show ?thesis using r counts cool by (auto simp: active_tasks_def active_tasks_of_def)
qed

theorem admission_bounds_backlog_witness:
  "submit_task sample_settings (seconds 60) (sample_task\<lparr>dt_id := ''t2''\<rparr>)
     (snd (submit_task sample_settings 0 sample_task [])) =
   (Some ActorHasActive, snd (submit_task sample_settings 0 sample_task []))
   \<and> active_tasks (snd (submit_task sample_settings 0 sample_task [])) \<le> 2"
  using admission_bounds_backlog [of sample_settings 0 sample_task "[]" None "[sample_task]"]
  by (simp add: submit_task_def check_delegated_admission_def sample_settings_def sample_task_def
      new_task_def delegated_active_def active_tasks_def)

section \<open>Every execution ends\<close>





lemma claim_subtask_tables [simp]:
  "db_tasks (snd (claim_subtask now i sub c w db)) = db_tasks db"
  "db_clusters (snd (claim_subtask now i sub c w db)) = db_clusters db"
  by (simp_all add: claim_subtask_def case_prod_unfold Let_def split: option.split)

lemma set_subtask_owned_tables [simp]:
  "db_tasks (snd (set_subtask_owned now sub w f db)) = db_tasks db"
  "db_clusters (snd (set_subtask_owned now sub w f db)) = db_clusters db"
  by (simp_all add: set_subtask_owned_def case_prod_unfold Let_def)











end
