(* ===== verification/Ledger.thy ===== *)
theory Ledger
  imports Models
begin

text \<open>
  The database the services of the remediation cycle share, and the append-only audit ledger
  (\<open>shared/audit.py\<close>, \<open>shared/incident_events.py\<close>).  A \<open>store\<close> is the committed content of the
  tables plus the number of uuids drawn so far; an \<open>env\<close> is what an operation reads besides its
  arguments: the clock (one reading per operation), the uuid generator and the digest.  A row that an
  ORM session changed gets its \<open>updated_at\<close> stamped when it is written (\<open>onupdate\<close>); a row that is
  assigned the values it already had is not written.
\<close>

section \<open>Clock texts\<close>

text \<open>
  \<open>datetime.isoformat()\<close>: the civil date of a day number by the era computation on 400-year cycles.
\<close>

definition civil_date :: "int \<Rightarrow> int \<times> int \<times> int" where
  "civil_date days =
     (let z = days + 719468; era = z div 146097; doe = z mod 146097;
          yoe = (doe - doe div 1460 + doe div 36524 - doe div 146096) div 365;
          doy = doe - (365 * yoe + yoe div 4 - yoe div 100);
          mp = (5 * doy + 2) div 153;
          d = doy - (153 * mp + 2) div 5 + 1;
          m = (if mp < 10 then mp + 3 else mp - 9);
          y = yoe + era * 400
      in (if m \<le> 2 then y + 1 else y, m, d))"

definition padded :: "nat \<Rightarrow> int \<Rightarrow> string" where
  "padded n i = (let s = int_text i in replicate (n - length s) (CHR ''0'') @ s)"

definition isoformat :: "time \<Rightarrow> string" where
  "isoformat t =
     (let (y, m, d) = civil_date (t div 86400000000); r = t mod 86400000000;
          us = r mod 1000000; sec = r div 1000000
      in padded 4 y @ ''-'' @ padded 2 m @ ''-'' @ padded 2 d @ ''T'' @
         padded 2 (sec div 3600) @ '':'' @ padded 2 (sec div 60 mod 60) @ '':'' @
         padded 2 (sec mod 60) @ (if us = 0 then [] else ''.'' @ padded 6 us))"

section \<open>The database\<close>

record env =
  ev_now :: time
  ev_uuid :: "nat \<Rightarrow> string"
  ev_sha :: "pyval \<Rightarrow> string"

record store =
  st_draws :: nat
  st_clusters :: "cluster list"
  st_incidents :: "incident list"
  st_actions :: "action_row list"
  st_cases :: "remediation_case list"
  st_stats :: "playbook_stat list"
  st_leases :: "autopilot_lease list"
  st_assessments :: "change_risk_assessment list"
  st_audit :: "audit_entry list"
  st_events :: "timeline_event list"
  st_outbox :: "incident_outbox list"
  st_notices :: "telegram_outbox list"
  st_overrides :: "policy_override list"
  st_findings :: "log_finding list"
  st_gates :: "node_upgrade_gate list"
  st_gate_locks :: "node_upgrade_gate_lock list"
  st_chat :: "chat_message list"
  st_trash :: "rbd_trash_usage list"

definition draw :: "env \<Rightarrow> store \<Rightarrow> string \<times> store" where
  "draw e st = (ev_uuid e (st_draws st), st\<lparr>st_draws := st_draws st + 1\<rparr>)"

abbreviation get_incident :: "store \<Rightarrow> string \<Rightarrow> incident option" where
  "get_incident st i \<equiv> find_id in_id i (st_incidents st)"

abbreviation get_action :: "store \<Rightarrow> string \<Rightarrow> action_row option" where
  "get_action st i \<equiv> find_id ac_id i (st_actions st)"

abbreviation get_cluster :: "store \<Rightarrow> string \<Rightarrow> cluster option" where
  "get_cluster st i \<equiv> find_id cl_id i (st_clusters st)"

abbreviation get_case :: "store \<Rightarrow> string \<Rightarrow> remediation_case option" where
  "get_case st action_id \<equiv> find_id rc_action_id action_id (st_cases st)"

definition save_incident :: "time \<Rightarrow> (incident \<Rightarrow> incident) \<Rightarrow> incident \<Rightarrow> incident" where
  "save_incident now f r = (if f r = r then r else (f r)\<lparr>in_updated_at := now\<rparr>)"

definition save_action :: "time \<Rightarrow> (action_row \<Rightarrow> action_row) \<Rightarrow> action_row \<Rightarrow> action_row" where
  "save_action now f r = (if f r = r then r else (f r)\<lparr>ac_updated_at := now\<rparr>)"

definition save_case ::
  "time \<Rightarrow> (remediation_case \<Rightarrow> remediation_case) \<Rightarrow> remediation_case \<Rightarrow> remediation_case" where
  "save_case now f r = (if f r = r then r else (f r)\<lparr>rc_updated_at := now\<rparr>)"

definition edit_incident :: "env \<Rightarrow> string \<Rightarrow> (incident \<Rightarrow> incident) \<Rightarrow> store \<Rightarrow> store" where
  "edit_incident e i f st =
     st\<lparr>st_incidents := map (\<lambda>r. if in_id r = i then save_incident (ev_now e) f r else r)
                          (st_incidents st)\<rparr>"

definition edit_action :: "env \<Rightarrow> string \<Rightarrow> (action_row \<Rightarrow> action_row) \<Rightarrow> store \<Rightarrow> store" where
  "edit_action e i f st =
     st\<lparr>st_actions := map (\<lambda>r. if ac_id r = i then save_action (ev_now e) f r else r)
                        (st_actions st)\<rparr>"

definition edit_cases ::
  "env \<Rightarrow> (remediation_case \<Rightarrow> bool) \<Rightarrow> (remediation_case \<Rightarrow> remediation_case) \<Rightarrow> store \<Rightarrow> store" where
  "edit_cases e P f st =
     st\<lparr>st_cases := map (\<lambda>r. if P r then save_case (ev_now e) f r else r) (st_cases st)\<rparr>"

text \<open>Assigning a status to an incident goes through the listener that stamps a failure.\<close>

abbreviation incident_to :: "env \<Rightarrow> incident_status \<Rightarrow> incident \<Rightarrow> incident" where
  "incident_to e s \<equiv> set_incident_status (ev_now e) s"

section \<open>Audit\<close>

definition actor_system :: string where
  "actor_system = ''system''"

definition actor_max_chars :: nat where
  "actor_max_chars = 32"

text \<open>\<open>incident_events.record\<close>; the evidence is a dictionary or \<open>None\<close>.\<close>

definition record_event ::
  "env \<Rightarrow> string \<Rightarrow> string option \<Rightarrow> string \<Rightarrow> string \<Rightarrow> pyval option \<Rightarrow> string option
     \<Rightarrow> string option \<Rightarrow> store \<Rightarrow> store" where
  "record_event e incident_id action_id event_type actor evidence source_type source_id st =
     (let long = length actor > actor_max_chars;
          ev = (if long
                then Some (PDict (filter (\<lambda>kv. fst kv \<noteq> PStr ''actor_full'')
                       (case evidence of None \<Rightarrow> [] | Some d \<Rightarrow> items_of d)
                     @ [(PStr ''actor_full'', PStr actor)]))
                else evidence);
          (uid, st1) = draw e st
      in st1\<lparr>st_events := st_events st1 @
           [\<lparr>te_id = uid, te_incident_id = incident_id, te_action_id = action_id,
             te_event_type = event_type, te_actor = take actor_max_chars actor,
             te_evidence_json = map_option (\<lambda>d. JText (sort_keys d)) ev,
             te_source_type = source_type, te_source_id = source_id,
             te_created_at = ev_now e\<rparr>]\<rparr>)"

definition audit_record ::
  "env \<Rightarrow> string \<Rightarrow> string option \<Rightarrow> string \<Rightarrow> string \<Rightarrow> pyval option \<Rightarrow> store \<Rightarrow> store" where
  "audit_record e incident_id action_id event_type actor evidence st =
     (let (entry_id, st1) = draw e st;
          st2 = st1\<lparr>st_audit := st_audit st1 @
                  [\<lparr>ae_id = entry_id, ae_incident_id = incident_id, ae_action_id = action_id,
                    ae_event_type = event_type, ae_actor = take actor_max_chars actor,
                    ae_created_at = ev_now e\<rparr>]\<rparr>
      in record_event e incident_id action_id event_type actor evidence (Some ''audit'')
           (Some entry_id) st2)"

section \<open>Facts\<close>

lemma save_incident_eq:
  "save_incident now f r = (f r)\<lparr>in_updated_at := (if f r = r then in_updated_at (f r) else now)\<rparr>"
  by (simp add: save_incident_def)

lemma save_action_eq:
  "save_action now f r = (f r)\<lparr>ac_updated_at := (if f r = r then ac_updated_at (f r) else now)\<rparr>"
  by (simp add: save_action_def)

lemma save_case_eq:
  "save_case now f r = (f r)\<lparr>rc_updated_at := (if f r = r then rc_updated_at (f r) else now)\<rparr>"
  by (simp add: save_case_def)

lemma save_incident_simps [simp]:
  "in_id (save_incident now f r) = in_id (f r)"
  "in_status (save_incident now f r) = in_status (f r)"
  "in_cluster_id (save_incident now f r) = in_cluster_id (f r)"
  "in_ceph_code (save_incident now f r) = in_ceph_code (f r)"
  "in_verify_after (save_incident now f r) = in_verify_after (f r)"
  "in_verify_attempts (save_incident now f r) = in_verify_attempts (f r)"
  "in_detected_at (save_incident now f r) = in_detected_at (f r)"
  "in_failed_at (save_incident now f r) = in_failed_at (f r)"
  by (simp_all add: save_incident_eq)

lemma save_action_simps [simp]:
  "ac_id (save_action now f r) = ac_id (f r)"
  "ac_incident_id (save_action now f r) = ac_incident_id (f r)"
  "ac_action_id (save_action now f r) = ac_action_id (f r)"
  "ac_status (save_action now f r) = ac_status (f r)"
  "ac_classification (save_action now f r) = ac_classification (f r)"
  "ac_executed_at (save_action now f r) = ac_executed_at (f r)"
  "ac_expires_at (save_action now f r) = ac_expires_at (f r)"
  "ac_grace_until (save_action now f r) = ac_grace_until (f r)"
  "ac_target_nodes (save_action now f r) = ac_target_nodes (f r)"
  "ac_action_params (save_action now f r) = ac_action_params (f r)"
  "ac_created_at (save_action now f r) = ac_created_at (f r)"
  by (simp_all add: save_action_eq)

lemma save_case_simps [simp]:
  "rc_id (save_case now f r) = rc_id (f r)"
  "rc_incident_id (save_case now f r) = rc_incident_id (f r)"
  "rc_action_id (save_case now f r) = rc_action_id (f r)"
  "rc_cluster_id (save_case now f r) = rc_cluster_id (f r)"
  "rc_fault_family (save_case now f r) = rc_fault_family (f r)"
  "rc_entity_keys_json (save_case now f r) = rc_entity_keys_json (f r)"
  "rc_topology_snapshot_json (save_case now f r) = rc_topology_snapshot_json (f r)"
  "rc_preflight_snapshot_json (save_case now f r) = rc_preflight_snapshot_json (f r)"
  "rc_pre_state_json (save_case now f r) = rc_pre_state_json (f r)"
  "rc_post_state_json (save_case now f r) = rc_post_state_json (f r)"
  "rc_rollback_state_json (save_case now f r) = rc_rollback_state_json (f r)"
  "rc_side_effects_json (save_case now f r) = rc_side_effects_json (f r)"
  "rc_outcome (save_case now f r) = rc_outcome (f r)"
  "rc_executed_at (save_case now f r) = rc_executed_at (f r)"
  "rc_verified_at (save_case now f r) = rc_verified_at (f r)"
  "rc_regressed_1h (save_case now f r) = rc_regressed_1h (f r)"
  "rc_regressed_24h (save_case now f r) = rc_regressed_24h (f r)"
  "rc_regressed_7d (save_case now f r) = rc_regressed_7d (f r)"
  "rc_operator_verdict (save_case now f r) = rc_operator_verdict (f r)"
  by (simp_all add: save_case_eq)

named_theorems store_simps \<open>what an operation leaves of the tables it does not write\<close>

lemma edit_incident_tables [simp, store_simps]:
  "st_draws (edit_incident e i f st) = st_draws st"
  "st_clusters (edit_incident e i f st) = st_clusters st"
  "st_actions (edit_incident e i f st) = st_actions st"
  "st_cases (edit_incident e i f st) = st_cases st"
  "st_stats (edit_incident e i f st) = st_stats st"
  "st_leases (edit_incident e i f st) = st_leases st"
  "st_assessments (edit_incident e i f st) = st_assessments st"
  "st_audit (edit_incident e i f st) = st_audit st"
  "st_events (edit_incident e i f st) = st_events st"
  "st_outbox (edit_incident e i f st) = st_outbox st"
  "st_notices (edit_incident e i f st) = st_notices st"
  "st_overrides (edit_incident e i f st) = st_overrides st"
  "st_findings (edit_incident e i f st) = st_findings st"
  "st_gates (edit_incident e i f st) = st_gates st"
  "st_gate_locks (edit_incident e i f st) = st_gate_locks st"
  "st_chat (edit_incident e i f st) = st_chat st"
  "st_trash (edit_incident e i f st) = st_trash st"
  by (simp_all add: edit_incident_def)

lemma edit_action_tables [simp, store_simps]:
  "st_draws (edit_action e i g st) = st_draws st"
  "st_clusters (edit_action e i g st) = st_clusters st"
  "st_incidents (edit_action e i g st) = st_incidents st"
  "st_cases (edit_action e i g st) = st_cases st"
  "st_stats (edit_action e i g st) = st_stats st"
  "st_leases (edit_action e i g st) = st_leases st"
  "st_assessments (edit_action e i g st) = st_assessments st"
  "st_audit (edit_action e i g st) = st_audit st"
  "st_events (edit_action e i g st) = st_events st"
  "st_outbox (edit_action e i g st) = st_outbox st"
  "st_notices (edit_action e i g st) = st_notices st"
  "st_overrides (edit_action e i g st) = st_overrides st"
  "st_findings (edit_action e i g st) = st_findings st"
  "st_gates (edit_action e i g st) = st_gates st"
  "st_gate_locks (edit_action e i g st) = st_gate_locks st"
  "st_chat (edit_action e i g st) = st_chat st"
  "st_trash (edit_action e i g st) = st_trash st"
  by (simp_all add: edit_action_def)

lemma edit_cases_tables [simp, store_simps]:
  "st_draws (edit_cases e P h st) = st_draws st"
  "st_clusters (edit_cases e P h st) = st_clusters st"
  "st_incidents (edit_cases e P h st) = st_incidents st"
  "st_actions (edit_cases e P h st) = st_actions st"
  "st_stats (edit_cases e P h st) = st_stats st"
  "st_leases (edit_cases e P h st) = st_leases st"
  "st_assessments (edit_cases e P h st) = st_assessments st"
  "st_audit (edit_cases e P h st) = st_audit st"
  "st_events (edit_cases e P h st) = st_events st"
  "st_outbox (edit_cases e P h st) = st_outbox st"
  "st_notices (edit_cases e P h st) = st_notices st"
  "st_overrides (edit_cases e P h st) = st_overrides st"
  "st_findings (edit_cases e P h st) = st_findings st"
  "st_gates (edit_cases e P h st) = st_gates st"
  "st_gate_locks (edit_cases e P h st) = st_gate_locks st"
  "st_chat (edit_cases e P h st) = st_chat st"
  "st_trash (edit_cases e P h st) = st_trash st"
  by (simp_all add: edit_cases_def)

lemma record_event_tables [simp, store_simps]:
  "st_clusters (record_event e i a t w v x y st) = st_clusters st"
  "st_incidents (record_event e i a t w v x y st) = st_incidents st"
  "st_actions (record_event e i a t w v x y st) = st_actions st"
  "st_cases (record_event e i a t w v x y st) = st_cases st"
  "st_stats (record_event e i a t w v x y st) = st_stats st"
  "st_leases (record_event e i a t w v x y st) = st_leases st"
  "st_assessments (record_event e i a t w v x y st) = st_assessments st"
  "st_audit (record_event e i a t w v x y st) = st_audit st"
  "st_outbox (record_event e i a t w v x y st) = st_outbox st"
  "st_notices (record_event e i a t w v x y st) = st_notices st"
  "st_overrides (record_event e i a t w v x y st) = st_overrides st"
  "st_findings (record_event e i a t w v x y st) = st_findings st"
  "st_gates (record_event e i a t w v x y st) = st_gates st"
  "st_gate_locks (record_event e i a t w v x y st) = st_gate_locks st"
  "st_chat (record_event e i a t w v x y st) = st_chat st"
  "st_trash (record_event e i a t w v x y st) = st_trash st"
  by (simp_all add: record_event_def draw_def Let_def)

lemma audit_record_tables [simp, store_simps]:
  "st_clusters (audit_record e i a t w v st) = st_clusters st"
  "st_incidents (audit_record e i a t w v st) = st_incidents st"
  "st_actions (audit_record e i a t w v st) = st_actions st"
  "st_cases (audit_record e i a t w v st) = st_cases st"
  "st_stats (audit_record e i a t w v st) = st_stats st"
  "st_leases (audit_record e i a t w v st) = st_leases st"
  "st_assessments (audit_record e i a t w v st) = st_assessments st"
  "st_outbox (audit_record e i a t w v st) = st_outbox st"
  "st_notices (audit_record e i a t w v st) = st_notices st"
  "st_overrides (audit_record e i a t w v st) = st_overrides st"
  "st_findings (audit_record e i a t w v st) = st_findings st"
  "st_gates (audit_record e i a t w v st) = st_gates st"
  "st_gate_locks (audit_record e i a t w v st) = st_gate_locks st"
  "st_chat (audit_record e i a t w v st) = st_chat st"
  "st_trash (audit_record e i a t w v st) = st_trash st"
  by (simp_all add: audit_record_def draw_def Let_def)

lemma get_incident_edit:
  assumes "\<And>r. in_id (f r) = in_id r"
  shows "get_incident (edit_incident e i f st) j =
    (if j = i then map_option (save_incident (ev_now e) f) (get_incident st j) else get_incident st j)"
proof -
  have "find_id in_id j (map (\<lambda>r. if in_id r = i then save_incident (ev_now e) f r else r) rows) =
     (if j = i then map_option (save_incident (ev_now e) f) (find_id in_id j rows)
      else find_id in_id j rows)" for rows
    unfolding find_id_def using assms by (induction rows) auto
  then show ?thesis by (simp add: edit_incident_def)
qed

lemma get_action_edit:
  assumes "\<And>r. ac_id (f r) = ac_id r"
  shows "get_action (edit_action e i f st) j =
    (if j = i then map_option (save_action (ev_now e) f) (get_action st j) else get_action st j)"
proof -
  have "find_id ac_id j (map (\<lambda>r. if ac_id r = i then save_action (ev_now e) f r else r) rows) =
     (if j = i then map_option (save_action (ev_now e) f) (find_id ac_id j rows)
      else find_id ac_id j rows)" for rows
    unfolding find_id_def using assms by (induction rows) auto
  then show ?thesis by (simp add: edit_action_def)
qed

lemma get_case_edit:
  assumes "\<And>r. rc_action_id (f r) = rc_action_id r"
  shows "get_case (edit_cases e P f st) j =
    map_option (\<lambda>r. if P r then save_case (ev_now e) f r else r) (get_case st j)"
  unfolding edit_cases_def using assms by (simp add: find_id_map)

end
