(* ===== verification/CaseMemory.thy ===== *)
theory CaseMemory
  imports Ledger Playbooks
begin

text \<open>
  The remediation case memory (\<open>shared/remediation_cases.py\<close>): one case per proposed action, written
  in the transaction of the action and completed by the execution, verification, reconciliation and
  regression passes.  Every document a case stores goes through the redaction of sensitive keys.  An
  operation that a raise leaves without its commit returns the exception on the left.
\<close>

section \<open>Redaction and stored documents\<close>

definition redacted :: string where
  "redacted = ''[REDACTED]''"

text \<open>
  \<open>_SENSITIVE_KEY.search\<close>: the alternatives of the expression, ignoring case; \<open>api.?key\<close> allows one
  character other than a line feed in between.
\<close>

fun api_key_in :: "string \<Rightarrow> bool" where
  "api_key_in [] = False"
| "api_key_in (c # cs) =
     (starts_with (c # cs) ''apikey''
      \<or> starts_with (c # cs) ''api''
        \<and> (case drop 3 (c # cs) of [] \<Rightarrow> False
           | x # xs \<Rightarrow> x \<noteq> CHR 0x0A \<and> starts_with xs ''key'')
      \<or> api_key_in cs)"

definition sensitive_words :: "string list" where
  "sensitive_words = [''password'', ''secret'', ''token'', ''keyring'', ''credential'', ''ssh_key'']"

definition sensitive_key :: "string \<Rightarrow> bool" where
  "sensitive_key k =
     (let s = str_lower k in list_ex (\<lambda>w. contains_str w s) sensitive_words \<or> api_key_in s)"

fun scrub :: "pyval \<Rightarrow> pyval" where
  "scrub (PDict kvs) =
     PDict (map (\<lambda>kv. (fst kv, if sensitive_key (py_str (fst kv)) then PStr redacted
                               else scrub (snd kv))) kvs)"
| "scrub (PList xs) = PList (map scrub xs)"
| "scrub v = v"

text \<open>\<open>_json\<close>: \<open>None\<close> is NULL.\<close>

definition stored_json :: "pyval \<Rightarrow> json_text option" where
  "stored_json v = (if v = PNone then None else Some (JText (sort_keys (scrub v))))"

text \<open>A JSON value that a text column receives: a text, or NULL.\<close>

definition text_of :: "pyval \<Rightarrow> string option" where
  "text_of v = (case v of PStr s \<Rightarrow> Some s | _ \<Rightarrow> None)"

definition version_at :: "pyval \<Rightarrow> string \<Rightarrow> string option" where
  "version_at snapshot key =
     (case dget snapshot key of
        PStr s \<Rightarrow> if str_strip s \<noteq> [] then Some (str_strip s) else None
      | _ \<Rightarrow> None)"

definition ceph_version :: "pyval \<Rightarrow> string option" where
  "ceph_version snapshot =
     (case version_at snapshot ''ceph_version'' of
        Some v \<Rightarrow> Some v
      | None \<Rightarrow> version_at snapshot ''version'')"

definition safe_load :: "json_text option \<Rightarrow> pyval \<Rightarrow> pyval" where
  "safe_load raw fallback =
     (case raw of None \<Rightarrow> fallback
      | Some JMalformed \<Rightarrow> fallback
      | Some (JText v) \<Rightarrow> if v = PNone then fallback else v)"

text \<open>\<open>_fingerprint\<close>; \<open>.keys()\<close> on a value that is not a dictionary raises.\<close>

definition fingerprint ::
  "env \<Rightarrow> string \<Rightarrow> pyval \<Rightarrow> pyval \<Rightarrow> pyval \<Rightarrow> string option \<Rightarrow> py_exn + string" where
  "fingerprint e fault_family entities snapshot deployment_mode version =
     (let checks = por (dget snapshot ''checks'') (PDict []) in
      if \<not> is_dict checks then Inl AttributeError
      else Inr (ev_sha e (sort_keys (doc
        [(''fault_family'', PStr fault_family), (''entities'', scrub entities),
         (''health_codes'', PList (map PStr (sort (map (\<lambda>kv. key_text (fst kv)) (items_of checks))))),
         (''deployment_mode'', deployment_mode), (''ceph_version'', opt_py version)]))))"

section \<open>Creation\<close>

definition dict_or_empty :: "pyval \<Rightarrow> pyval" where
  "dict_or_empty v = (if is_dict v then v else PDict [])"

definition autonomy_decision :: "string \<Rightarrow> string" where
  "autonomy_decision classification =
     (if classification \<in> {''READ_ONLY'', ''SAFE''} then ''AUTO_EXECUTE'' else ''PENDING_APPROVAL'')"

definition frozen_contract :: "env \<Rightarrow> string \<Rightarrow> pyval" where
  "frozen_contract e action_id =
     (case get_contract action_id of
        None \<Rightarrow> doc [(''registry'', PNone), (''registered'', PBool False)]
      | Some c \<Rightarrow> doc [(''registry'', contract_snapshot (ev_sha e) c), (''registered'', PBool True)])"

definition case_entities :: "pyval \<Rightarrow> action_row \<Rightarrow> pyval" where
  "case_entities envelope a =
     scrub (doc
       [(''nodes'', if is_list (dget envelope ''nodes'') then dget envelope ''nodes'' else PList []),
        (''action_params'', safe_load (ac_action_params a) PNone)])"

definition new_case ::
  "env \<Rightarrow> string \<Rightarrow> incident \<Rightarrow> action_row \<Rightarrow> pyval \<Rightarrow> string option \<Rightarrow> string option
     \<Rightarrow> rat option \<Rightarrow> string \<Rightarrow> remediation_case" where
  "new_case e uid i a envelope diagnosis provider confidence fp =
     (let snapshot = scrub (dict_or_empty (dget envelope ''cluster_snapshot'')) in
      \<lparr>rc_id = uid, rc_incident_id = in_id i, rc_action_id = ac_id a,
       rc_cluster_id = in_cluster_id i, rc_fault_family = in_ceph_code i,
       rc_entity_keys_json = stored_json (case_entities envelope a),
       rc_evidence_fingerprint = fp, rc_ceph_version = ceph_version snapshot,
       rc_deployment_mode = text_of (dget envelope ''ceph_exec_mode''),
       rc_topology_snapshot_json = stored_json (por (dget snapshot ''osdmap'') (dget snapshot ''monmap'')),
       rc_diagnosis = diagnosis, rc_diagnosis_confidence = confidence,
       rc_prompt_version = ''incident-diagnosis-v1'', rc_model_provider = provider,
       rc_classification = ac_classification a,
       rc_autonomy_decision = autonomy_decision (ac_classification a),
       rc_playbook_version =
         (case get_contract (ac_action_id a) of None \<Rightarrow> ''unregistered'' | Some c \<Rightarrow> pc_version c),
       rc_preflight_snapshot_json = stored_json (frozen_contract e (ac_action_id a)),
       rc_command_preview_hash = None, rc_pre_state_json = stored_json snapshot,
       rc_post_state_json = None, rc_rollback_state_json = None, rc_outcome = CO_PROPOSED,
       rc_side_effects_json = None, rc_started_at = None, rc_executed_at = None,
       rc_verified_at = None, rc_recovery_seconds = None, rc_regressed_1h = None,
       rc_regressed_24h = None, rc_regressed_7d = None, rc_operator_verdict = None,
       rc_operator_note = None, rc_operator_verdict_by = None, rc_operator_verdict_at = None,
       rc_shadow_decision = None, rc_shadow_reason = None, rc_shadow_trust_score = None,
       rc_shadow_sample_count = None, rc_shadow_recorded_at = None,
       rc_created_at = ev_now e, rc_updated_at = ev_now e\<rparr>)"

definition create_for_action ::
  "env \<Rightarrow> incident \<Rightarrow> action_row \<Rightarrow> pyval \<Rightarrow> string option \<Rightarrow> string option \<Rightarrow> rat option
     \<Rightarrow> store \<Rightarrow> py_exn + remediation_case \<times> store" where
  "create_for_action e i a envelope diagnosis provider confidence st =
     (case get_case st (ac_id a) of
        Some existing \<Rightarrow> Inr (existing, st)
      | None \<Rightarrow>
          (let snapshot = scrub (dict_or_empty (dget envelope ''cluster_snapshot'')) in
           case fingerprint e (in_ceph_code i) (case_entities envelope a) snapshot
                  (dget envelope ''ceph_exec_mode'') (ceph_version snapshot) of
             Inl x \<Rightarrow> Inl x
           | Inr fp \<Rightarrow>
               (let (uid, st1) = draw e st;
                    row = new_case e uid i a envelope diagnosis provider confidence fp
                in Inr (row, st1\<lparr>st_cases := st_cases st1 @ [row]\<rparr>))))"

section \<open>Execution and verification results\<close>

definition executed_case :: "bool \<Rightarrow> time option \<Rightarrow> remediation_case \<Rightarrow> remediation_case" where
  "executed_case succeeded executed_at r =
     r\<lparr>rc_executed_at := executed_at,
       rc_started_at := (case rc_started_at r of None \<Rightarrow> executed_at | Some t \<Rightarrow> Some t),
       rc_outcome := (if succeeded then CO_EXECUTED_PENDING_VERIFY else CO_EXECUTION_FAILED)\<rparr>"

definition record_execution :: "env \<Rightarrow> string \<Rightarrow> bool \<Rightarrow> time option \<Rightarrow> store \<Rightarrow> store" where
  "record_execution e action_id succeeded executed_at st =
     edit_cases e (\<lambda>r. rc_action_id r = action_id) (executed_case succeeded executed_at) st"

definition verified_case ::
  "incident option \<Rightarrow> bool \<Rightarrow> time \<Rightarrow> pyval \<Rightarrow> remediation_case \<Rightarrow> remediation_case" where
  "verified_case inc succeeded verified_at post_state r =
     r\<lparr>rc_outcome := (if succeeded then CO_VERIFIED_SUCCESS else CO_VERIFIED_FAILED),
       rc_verified_at := Some verified_at,
       rc_post_state_json := stored_json (por post_state (PDict [])),
       rc_recovery_seconds :=
         (if succeeded
          then (case inc of None \<Rightarrow> rc_recovery_seconds r
                | Some i \<Rightarrow> Some (max 0 ((verified_at - in_detected_at i) div 1000000)))
          else rc_recovery_seconds r)\<rparr>"

definition record_verified ::
  "env \<Rightarrow> string \<Rightarrow> bool \<Rightarrow> time \<Rightarrow> pyval \<Rightarrow> store \<Rightarrow> store" where
  "record_verified e incident_id succeeded verified_at post_state st =
     edit_cases e
       (\<lambda>r. rc_incident_id r = incident_id
          \<and> rc_outcome r \<in> {CO_EXECUTED_PENDING_VERIFY, CO_PROPOSED})
       (verified_case (get_incident st incident_id) succeeded verified_at post_state) st"

definition record_inconclusive :: "env \<Rightarrow> string \<Rightarrow> time \<Rightarrow> string \<Rightarrow> store \<Rightarrow> store" where
  "record_inconclusive e action_id when reason st =
     edit_cases e (\<lambda>r. rc_action_id r = action_id)
       (\<lambda>r. r\<lparr>rc_outcome := CO_INCONCLUSIVE, rc_verified_at := Some when,
             rc_side_effects_json := stored_json
               (doc [(''reason'', PStr reason), (''auto_retry'', PBool False)])\<rparr>) st"

section \<open>Backfill\<close>

definition legacy_outcome :: "action_row \<Rightarrow> incident \<Rightarrow> case_outcome" where
  "legacy_outcome a i =
     (if ac_status a = AS_INCONCLUSIVE then CO_INCONCLUSIVE
      else if ac_status a = AS_FAILED then CO_EXECUTION_FAILED
      else if ac_status a = AS_REJECTED then CO_REJECTED
      else if ac_status a = AS_EXECUTING then CO_EXECUTING
      else if ac_status a \<in> {AS_AUTO_EXECUTED, AS_EXECUTED}
      then (if in_status i = IS_VERIFYING then CO_EXECUTED_PENDING_VERIFY
            else if in_status i = IS_RESOLVED then CO_LEGACY_RESOLVED_UNVERIFIED
            else CO_EXECUTED_UNVERIFIED)
      else CO_PROPOSED)"

definition backfill_envelope :: "store \<Rightarrow> incident \<Rightarrow> action_row \<Rightarrow> pyval" where
  "backfill_envelope st i a =
     (let cl = (if opt_truthy (in_cluster_id i) then get_cluster st (or_empty (in_cluster_id i)) else None);
          evidence = safe_load (in_signal_evidence_json i) (PDict [])
      in doc [(''nodes'', safe_load (ac_target_nodes a) (PList [])),
              (''ceph_exec_mode'', (case cl of None \<Rightarrow> PNone | Some c \<Rightarrow> PStr (cl_ceph_exec_mode c))),
              (''cluster_snapshot'',
                 if is_dict evidence then evidence else doc [(''signal'', evidence)])])"

definition backfilled_case :: "action_row \<Rightarrow> incident \<Rightarrow> remediation_case \<Rightarrow> remediation_case" where
  "backfilled_case a i r =
     r\<lparr>rc_prompt_version := ''legacy-backfill-v1'', rc_outcome := legacy_outcome a i,
       rc_executed_at := ac_executed_at a, rc_started_at := ac_executed_at a,
       rc_side_effects_json := stored_json (doc
         [(''backfilled'', PBool True), (''trust_eligible'', PBool False),
          (''reason'', PStr ''historical telemetry provenance is incomplete'')])\<rparr>"

fun backfill_rows ::
  "env \<Rightarrow> action_row list \<Rightarrow> nat \<Rightarrow> store \<Rightarrow> py_exn + nat \<times> store" where
  "backfill_rows e [] created st = Inr (created, st)"
| "backfill_rows e (a # as) created st =
     (case get_incident st (ac_incident_id a) of
        None \<Rightarrow> backfill_rows e as created st
      | Some i \<Rightarrow>
          (case create_for_action e i a (backfill_envelope st i a) (in_diagnosis_text i) None None st of
             Inl x \<Rightarrow> Inl x
           | Inr (row, st') \<Rightarrow>
               backfill_rows e as (created + 1)
                 (edit_cases e (\<lambda>r. rc_action_id r = ac_id a) (backfilled_case a i) st')))"

definition backfill_missing_cases :: "env \<Rightarrow> int \<Rightarrow> store \<Rightarrow> py_exn + nat \<times> store" where
  "backfill_missing_cases e limit st =
     backfill_rows e
       (take (nat (max 1 limit))
         (sort_by (\<lambda>a. (ac_created_at a, ac_id a))
           (filter (\<lambda>a. get_case st (ac_id a) = None) (st_actions st)))) 0 st"

section \<open>Closing proposals\<close>

definition executed_settle :: int where
  "executed_settle = seconds (24 * 3600)"

fun closed_action_outcome :: "action_status \<Rightarrow> case_outcome option" where
  "closed_action_outcome AS_REJECTED = Some CO_REJECTED"
| "closed_action_outcome AS_FAILED = Some CO_EXECUTION_FAILED"
| "closed_action_outcome AS_INCONCLUSIVE = Some CO_INCONCLUSIVE"
| "closed_action_outcome _ = None"

definition closed_outcome :: "action_row \<Rightarrow> incident option \<Rightarrow> time \<Rightarrow> case_outcome option" where
  "closed_outcome a inc now =
     (case closed_action_outcome (ac_status a) of
        Some c \<Rightarrow> Some c
      | None \<Rightarrow>
          if ac_status a \<in> {AS_AUTO_EXECUTED, AS_EXECUTED}
          then (let ran_at = (case ac_executed_at a of None \<Rightarrow> ac_created_at a | Some t \<Rightarrow> t) in
                if now - ran_at < executed_settle then None
                else if (case inc of None \<Rightarrow> False | Some i \<Rightarrow> in_status i = IS_VERIFYING)
                then Some CO_EXECUTED_PENDING_VERIFY
                else Some CO_EXECUTED_UNVERIFIED)
          else None)"

text \<open>The value of an action status, as the enumeration spells it.\<close>

fun action_status_value :: "action_status \<Rightarrow> string" where
  "action_status_value AS_PENDING = ''PENDING''"
| "action_status_value AS_AUTO_EXECUTED = ''AUTO_EXECUTED''"
| "action_status_value AS_PENDING_APPROVAL = ''PENDING_APPROVAL''"
| "action_status_value AS_APPROVED = ''APPROVED''"
| "action_status_value AS_EXECUTING = ''EXECUTING''"
| "action_status_value AS_GRACE_PENDING = ''GRACE_PENDING''"
| "action_status_value AS_INCONCLUSIVE = ''INCONCLUSIVE''"
| "action_status_value AS_REJECTED = ''REJECTED''"
| "action_status_value AS_EXECUTED = ''EXECUTED''"
| "action_status_value AS_FAILED = ''FAILED''"

definition put_key :: "string \<Rightarrow> pyval \<Rightarrow> pyval \<Rightarrow> pyval" where
  "put_key k v d = PDict (filter (\<lambda>kv. fst kv \<noteq> PStr k) (items_of d) @ [(PStr k, v)])"

definition reconciled_case ::
  "time \<Rightarrow> action_row \<Rightarrow> case_outcome \<Rightarrow> remediation_case \<Rightarrow> remediation_case" where
  "reconciled_case now a outcome r =
     r\<lparr>rc_outcome := outcome,
       rc_executed_at := (case rc_executed_at r of None \<Rightarrow> ac_executed_at a | Some t \<Rightarrow> Some t),
       rc_side_effects_json := stored_json
         (put_key ''reconciled''
            (doc [(''at'', PStr (isoformat now)),
                  (''action_status'', PStr (action_status_value (ac_status a)))])
            (dict_or_empty (safe_load (rc_side_effects_json r) (PDict []))))\<rparr>"

definition closable :: "action_status \<Rightarrow> bool" where
  "closable s = (s \<in> {AS_REJECTED, AS_FAILED, AS_INCONCLUSIVE, AS_AUTO_EXECUTED, AS_EXECUTED})"

definition closable_rows :: "store \<Rightarrow> (remediation_case \<times> action_row) list" where
  "closable_rows st =
     concat (map (\<lambda>c. map (\<lambda>a. (c, a))
         (filter (\<lambda>a. ac_id a = rc_action_id c \<and> closable (ac_status a)) (st_actions st)))
       (filter (\<lambda>c. rc_outcome c = CO_PROPOSED) (st_cases st)))"

fun close_proposals ::
  "env \<Rightarrow> time \<Rightarrow> (remediation_case \<times> action_row) list \<Rightarrow> nat \<Rightarrow> store \<Rightarrow> nat \<times> store" where
  "close_proposals e now [] done_n st = (done_n, st)"
| "close_proposals e now ((c, a) # rows) done_n st =
     (case closed_outcome a (get_incident st (rc_incident_id c)) now of
        None \<Rightarrow> close_proposals e now rows done_n st
      | Some outcome \<Rightarrow>
          close_proposals e now rows (done_n + 1)
            (edit_cases e (\<lambda>r. rc_id r = rc_id c) (reconciled_case now a outcome) st))"

definition reconcile_closed_proposals :: "env \<Rightarrow> time \<Rightarrow> int \<Rightarrow> store \<Rightarrow> nat \<times> store" where
  "reconcile_closed_proposals e now limit st =
     close_proposals e now
       (take (nat (max 1 limit))
         (sort_by (\<lambda>(c, a). (rc_created_at c, rc_id c)) (closable_rows st))) 0 st"

section \<open>Regressions\<close>

text \<open>\<open>_REGRESSION_WINDOWS\<close>: the column (its value and its assignment) and the length of the window.\<close>

type_synonym regression_window =
  "(remediation_case \<Rightarrow> bool option) \<times> (bool option \<Rightarrow> remediation_case \<Rightarrow> remediation_case) \<times> time"

definition regression_windows :: "regression_window list" where
  "regression_windows =
     [(rc_regressed_1h, \<lambda>b r. r\<lparr>rc_regressed_1h := b\<rparr>, seconds 3600),
      (rc_regressed_24h, \<lambda>b r. r\<lparr>rc_regressed_24h := b\<rparr>, seconds (24 * 3600)),
      (rc_regressed_7d, \<lambda>b r. r\<lparr>rc_regressed_7d := b\<rparr>, seconds (7 * 24 * 3600))]"

definition is_lab_fault_injection :: "remediation_case \<Rightarrow> bool" where
  "is_lab_fault_injection r =
     (let params = dget (safe_load (rc_entity_keys_json r) (PDict [])) ''action_params'' in
      rc_fault_family r = ''LARGE_OMAP_OBJECTS''
      \<and> (case dget params ''bucket_name'' of PStr b \<Rightarrow> starts_with b ''test-'' | _ \<Rightarrow> False))"

definition lab_case :: "remediation_case \<Rightarrow> remediation_case" where
  "lab_case r =
     fold (\<lambda>(get, put, w) x. if get x \<noteq> Some False then put (Some False) x else x) regression_windows r"

definition same_entity :: "remediation_case \<Rightarrow> remediation_case \<Rightarrow> bool" where
  "same_entity r c =
     (rc_id c \<noteq> rc_id r \<and> rc_fault_family c = rc_fault_family r
      \<and> rc_entity_keys_json c = rc_entity_keys_json r
      \<and> rc_cluster_id c = rc_cluster_id r)"

definition recurrences :: "store \<Rightarrow> remediation_case \<Rightarrow> time \<Rightarrow> time list" where
  "recurrences st r verified_at =
     filter (\<lambda>t. t > verified_at)
       (concat (map (\<lambda>c. map in_detected_at
            (filter (\<lambda>i. in_id i = rc_incident_id c) (st_incidents st)))
         (filter (same_entity r) (st_cases st))))"

definition recurrence_at :: "store \<Rightarrow> remediation_case \<Rightarrow> time \<Rightarrow> time option" where
  "recurrence_at st r verified_at = first_by id (recurrences st r verified_at)"

definition judge_window ::
  "time \<Rightarrow> time \<Rightarrow> time option \<Rightarrow> regression_window \<Rightarrow> remediation_case \<Rightarrow> remediation_case" where
  "judge_window now verified_at rec w r =
     (let (get, put, window) = w; window_end = verified_at + window in
      if get r \<noteq> None then r
      else if (case rec of None \<Rightarrow> False | Some t \<Rightarrow> t \<le> window_end) then put (Some True) r
      else if now \<ge> window_end then put (Some False) r
      else r)"

definition judged_case :: "time \<Rightarrow> store \<Rightarrow> remediation_case \<Rightarrow> remediation_case" where
  "judged_case now st r =
     (case rc_verified_at r of None \<Rightarrow> r
      | Some v \<Rightarrow> fold (judge_window now v (recurrence_at st r v)) regression_windows r)"

definition evaluated_case :: "time \<Rightarrow> store \<Rightarrow> remediation_case \<Rightarrow> remediation_case" where
  "evaluated_case now st r = (if is_lab_fault_injection r then lab_case r else judged_case now st r)"

definition pending_window :: "remediation_case \<Rightarrow> bool" where
  "pending_window r =
     (rc_regressed_1h r = None \<or> rc_regressed_24h r = None \<or> rc_regressed_7d r = None)"

text \<open>The candidates of the second pass, in the order and the number of the query.\<close>

definition regression_candidates :: "int \<Rightarrow> store \<Rightarrow> remediation_case list" where
  "regression_candidates limit st =
     take (nat (max 1 limit))
       (sort_by (\<lambda>r. (case rc_verified_at r of None \<Rightarrow> 0 | Some t \<Rightarrow> t, rc_id r))
         (filter (\<lambda>r. rc_outcome r = CO_VERIFIED_SUCCESS \<and> rc_verified_at r \<noteq> None
                    \<and> pending_window r) (st_cases st)))"

definition lab_pass :: "env \<Rightarrow> store \<Rightarrow> nat \<times> store" where
  "lab_pass e st =
     (let P = (\<lambda>r. rc_outcome r = CO_VERIFIED_SUCCESS \<and> is_lab_fault_injection r \<and> lab_case r \<noteq> r)
      in (length (filter P (st_cases st)), edit_cases e P lab_case st))"

definition evaluate_regressions :: "env \<Rightarrow> time \<Rightarrow> int \<Rightarrow> store \<Rightarrow> nat \<times> store" where
  "evaluate_regressions e now limit st =
     (let (n, st1) = lab_pass e st;
          cands = map rc_id (regression_candidates limit st1);
          P = (\<lambda>r. rc_id r \<in> set cands \<and> evaluated_case now st1 r \<noteq> r)
      in (n + length (filter P (st_cases st1)), edit_cases e P (evaluated_case now st1) st1))"

section \<open>Redaction of stored cases\<close>

text \<open>\<open>_CASE_JSON_FIELDS\<close>: the columns and their assignments.\<close>

type_synonym json_field =
  "(remediation_case \<Rightarrow> json_text option) \<times> (json_text option \<Rightarrow> remediation_case \<Rightarrow> remediation_case)"

definition case_json_fields :: "json_field list" where
  "case_json_fields =
     [(rc_entity_keys_json, \<lambda>v r. r\<lparr>rc_entity_keys_json := v\<rparr>),
      (rc_topology_snapshot_json, \<lambda>v r. r\<lparr>rc_topology_snapshot_json := v\<rparr>),
      (rc_preflight_snapshot_json, \<lambda>v r. r\<lparr>rc_preflight_snapshot_json := v\<rparr>),
      (rc_pre_state_json, \<lambda>v r. r\<lparr>rc_pre_state_json := v\<rparr>),
      (rc_post_state_json, \<lambda>v r. r\<lparr>rc_post_state_json := v\<rparr>),
      (rc_rollback_state_json, \<lambda>v r. r\<lparr>rc_rollback_state_json := v\<rparr>),
      (rc_side_effects_json, \<lambda>v r. r\<lparr>rc_side_effects_json := v\<rparr>)]"

definition scrubbed_field :: "json_text option \<Rightarrow> json_text option" where
  "scrubbed_field raw =
     (case raw of None \<Rightarrow> None | Some _ \<Rightarrow> stored_json (scrub (safe_load raw PNone)))"

definition scrub_field :: "json_field \<Rightarrow> remediation_case \<Rightarrow> remediation_case" where
  "scrub_field f r =
     (let (get, put) = f in
      if scrubbed_field (get r) \<noteq> get r then put (scrubbed_field (get r)) r else r)"

definition scrubbed_fields :: "remediation_case \<Rightarrow> remediation_case" where
  "scrubbed_fields r = fold scrub_field case_json_fields r"

text \<open>The decoded and redacted value of a column, as the repair of the fingerprint reads it.\<close>

definition decoded :: "json_text option \<Rightarrow> pyval" where
  "decoded raw = (case raw of None \<Rightarrow> PNone | Some _ \<Rightarrow> scrub (safe_load raw PNone))"

definition scrub_case :: "env \<Rightarrow> remediation_case \<Rightarrow> py_exn + bool \<times> remediation_case" where
  "scrub_case e r =
     (let r' = scrubbed_fields r in
      if r' = r then Inr (False, r)
      else
        (case fingerprint e (rc_fault_family r)
                (dict_or_empty (decoded (rc_entity_keys_json r)))
                (dict_or_empty (decoded (rc_pre_state_json r)))
                (opt_py (rc_deployment_mode r)) (rc_ceph_version r) of
           Inl x \<Rightarrow> Inl x
         | Inr fp \<Rightarrow> Inr (True, save_case (ev_now e) (\<lambda>_. r'\<lparr>rc_evidence_fingerprint := fp\<rparr>) r)))"

fun scrub_cases ::
  "env \<Rightarrow> remediation_case list \<Rightarrow> py_exn + nat \<times> remediation_case list" where
  "scrub_cases e [] = Inr (0, [])"
| "scrub_cases e (r # rs) =
     (case scrub_case e r of
        Inl x \<Rightarrow> Inl x
      | Inr (changed, r') \<Rightarrow>
          (case scrub_cases e rs of
             Inl x \<Rightarrow> Inl x
           | Inr (n, rs') \<Rightarrow> Inr ((if changed then 1 else 0) + n, r' # rs')))"

definition scrub_existing_case_memory :: "env \<Rightarrow> store \<Rightarrow> py_exn + nat \<times> store" where
  "scrub_existing_case_memory e st =
     (case scrub_cases e (st_cases st) of
        Inl x \<Rightarrow> Inl x
      | Inr (n, rows) \<Rightarrow> Inr (n, st\<lparr>st_cases := rows\<rparr>))"

section \<open>Operator verdicts\<close>

definition case_verdicts :: "string list" where
  "case_verdicts = [''CORRECT'', ''FALSE_POSITIVE'', ''UNSAFE'', ''INEFFECTIVE'', ''INCONCLUSIVE'']"

definition note_required_min_chars :: nat where
  "note_required_min_chars = 5"

definition note_max_chars :: nat where
  "note_max_chars = 2000"

datatype verdict_error = UnknownVerdict | NoteTooShort | NoteTooLong

definition record_verdict ::
  "env \<Rightarrow> remediation_case \<Rightarrow> string \<Rightarrow> string \<Rightarrow> string \<Rightarrow> store
     \<Rightarrow> (verdict_error + string option) \<times> store" where
  "record_verdict e c verdict note actor st =
     (let v = str_upper (str_strip verdict); n = str_strip note in
      if v \<notin> set case_verdicts then (Inl UnknownVerdict, st)
      else if v \<notin> {''CORRECT'', ''INCONCLUSIVE''} \<and> length n < note_required_min_chars
      then (Inl NoteTooShort, st)
      else if length n > note_max_chars then (Inl NoteTooLong, st)
      else
        (let note' = (if n = [] then None else Some n);
             previous = rc_operator_verdict c;
             st1 = edit_cases e (\<lambda>r. rc_id r = rc_id c)
               (\<lambda>r. r\<lparr>rc_operator_verdict := Some v, rc_operator_note := note',
                     rc_operator_verdict_by := Some (take 64 actor),
                     rc_operator_verdict_at := Some (ev_now e)\<rparr>) st
         in (Inr previous,
             audit_record e (rc_incident_id c) (Some (rc_action_id c))
               ''remediation_case_verdict_updated'' actor
               (Some (doc [(''verdict'', PStr v), (''previous_verdict'', opt_py previous),
                           (''note'', opt_py note')])) st1)))"

section \<open>Redacted documents\<close>

text \<open>No value under a sensitive key but the mark.\<close>

fun clean :: "pyval \<Rightarrow> bool" where
  "clean (PDict kvs) =
     (\<forall>kv \<in> set kvs. if sensitive_key (py_str (fst kv)) then snd kv = PStr redacted
                     else clean (snd kv))"
| "clean (PList xs) = (\<forall>x \<in> set xs. clean x)"
| "clean v = True"

definition clean_text :: "json_text option \<Rightarrow> bool" where
  "clean_text raw = (case raw of Some (JText v) \<Rightarrow> clean v | _ \<Rightarrow> True)"

definition clean_case :: "remediation_case \<Rightarrow> bool" where
  "clean_case r =
     (clean_text (rc_entity_keys_json r) \<and> clean_text (rc_topology_snapshot_json r)
      \<and> clean_text (rc_preflight_snapshot_json r) \<and> clean_text (rc_pre_state_json r)
      \<and> clean_text (rc_post_state_json r) \<and> clean_text (rc_rollback_state_json r)
      \<and> clean_text (rc_side_effects_json r))"

definition clean_cases :: "store \<Rightarrow> bool" where
  "clean_cases st = list_all clean_case (st_cases st)"

lemma clean_scrub: "clean (scrub v)"
  by (induction v rule: scrub.induct) auto

lemma scrub_clean: "clean v \<Longrightarrow> scrub v = v"
proof (induction v rule: scrub.induct)
  case (1 kvs)
  have "map (\<lambda>kv. (fst kv, if sensitive_key (py_str (fst kv)) then PStr redacted
                         else scrub (snd kv))) kvs = map (\<lambda>kv. kv) kvs"
    by (rule map_cong [OF refl]) (use 1 in \<open>auto split: if_splits\<close>)
  then show ?case by simp
next
  case (2 xs)
  then have "map scrub xs = map (\<lambda>x. x) xs" by (intro map_cong [OF refl]) auto
  then show ?case by simp
qed simp_all

lemma clean_sort_keys: "clean v \<Longrightarrow> clean (sort_keys v)"
  by (induction v rule: sort_keys.induct) (auto split: if_splits)

lemma sort_keys_idem: "sort_keys (sort_keys v) = sort_keys v"
proof (induction v rule: sort_keys.induct)
  case (1 kvs)
  let ?f = "\<lambda>kv :: pyval \<times> pyval. key_text (fst kv)" and ?g = "\<lambda>kv. (fst kv, sort_keys (snd kv))"
  let ?L = "sort_key ?f (map ?g kvs)"
  have "map ?g ?L = map (\<lambda>x. x) ?L"
    by (rule map_cong [OF refl]) (use 1 in auto)
  moreover have "sort_key ?f ?L = ?L" by (rule sort_key_id_if_sorted) simp
  ultimately show ?case by simp
next
  case (2 xs)
  then show ?case by simp
qed simp_all

lemma sort_keys_None [simp]: "sort_keys v = PNone \<longleftrightarrow> v = PNone"
  by (cases v) simp_all

lemma clean_stored_json [simp]: "clean_text (stored_json v)"
  by (simp add: stored_json_def clean_text_def clean_sort_keys clean_scrub)

lemma safe_load_stored: "safe_load (stored_json u) PNone = sort_keys (scrub u)"
  by (simp add: safe_load_def stored_json_def)

lemma stored_json_stored: "stored_json (scrub (sort_keys (scrub u))) = stored_json u"
proof -
  have "clean (sort_keys (scrub u))" by (rule clean_sort_keys [OF clean_scrub])
  then have "scrub (sort_keys (scrub u)) = sort_keys (scrub u)" by (rule scrub_clean)
  moreover have "scrub u = PNone \<longleftrightarrow> u = PNone" by (cases u) simp_all
  ultimately show ?thesis by (simp add: stored_json_def sort_keys_idem)
qed

lemma scrubbed_field_stored: "scrubbed_field (stored_json u) = stored_json u"
proof (cases "u = PNone")
  case True
  then show ?thesis by (simp add: scrubbed_field_def stored_json_def)
next
  case False
  then have "scrubbed_field (stored_json u) = stored_json (scrub (safe_load (stored_json u) PNone))"
    by (simp add: scrubbed_field_def stored_json_def)
  then show ?thesis by (simp add: safe_load_stored stored_json_stored)
qed

lemma scrubbed_field_cases: "scrubbed_field raw = None \<or> (\<exists>u. scrubbed_field raw = stored_json u)"
  by (cases raw) (auto simp: scrubbed_field_def)

lemma scrubbed_field_idem [simp]: "scrubbed_field (scrubbed_field raw) = scrubbed_field raw"
  using scrubbed_field_cases [of raw] scrubbed_field_stored
  by (auto simp: scrubbed_field_def [of None])

lemma clean_scrubbed_field [simp]: "clean_text (scrubbed_field raw)"
proof -
  have "clean_text None" by (simp add: clean_text_def)
  with scrubbed_field_cases [of raw] show ?thesis by auto
qed

lemma scrub_field_put: "put (get r) r = r \<Longrightarrow> scrub_field (get, put) r = put (scrubbed_field (get r)) r"
  by (auto simp: scrub_field_def)

lemmas scrub_field_columns =
  scrub_field_put [where get = rc_entity_keys_json and put = "\<lambda>v r. r\<lparr>rc_entity_keys_json := v\<rparr>"]
  scrub_field_put [where get = rc_topology_snapshot_json
    and put = "\<lambda>v r. r\<lparr>rc_topology_snapshot_json := v\<rparr>"]
  scrub_field_put [where get = rc_preflight_snapshot_json
    and put = "\<lambda>v r. r\<lparr>rc_preflight_snapshot_json := v\<rparr>"]
  scrub_field_put [where get = rc_pre_state_json and put = "\<lambda>v r. r\<lparr>rc_pre_state_json := v\<rparr>"]
  scrub_field_put [where get = rc_post_state_json and put = "\<lambda>v r. r\<lparr>rc_post_state_json := v\<rparr>"]
  scrub_field_put [where get = rc_rollback_state_json
    and put = "\<lambda>v r. r\<lparr>rc_rollback_state_json := v\<rparr>"]
  scrub_field_put [where get = rc_side_effects_json
    and put = "\<lambda>v r. r\<lparr>rc_side_effects_json := v\<rparr>"]

lemma scrubbed_fields_eq:
  "scrubbed_fields r =
     r\<lparr>rc_entity_keys_json := scrubbed_field (rc_entity_keys_json r),
       rc_topology_snapshot_json := scrubbed_field (rc_topology_snapshot_json r),
       rc_preflight_snapshot_json := scrubbed_field (rc_preflight_snapshot_json r),
       rc_pre_state_json := scrubbed_field (rc_pre_state_json r),
       rc_post_state_json := scrubbed_field (rc_post_state_json r),
       rc_rollback_state_json := scrubbed_field (rc_rollback_state_json r),
       rc_side_effects_json := scrubbed_field (rc_side_effects_json r)\<rparr>"
  by (simp add: scrubbed_fields_def case_json_fields_def scrub_field_columns)

lemma scrubbed_fields_idem:
  "scrubbed_fields (scrubbed_fields r\<lparr>rc_evidence_fingerprint := fp\<rparr>)
     = scrubbed_fields r\<lparr>rc_evidence_fingerprint := fp\<rparr>"
  by (simp add: scrubbed_fields_eq)

lemma clean_scrubbed_fields: "clean_case (scrubbed_fields r\<lparr>rc_evidence_fingerprint := fp\<rparr>)"
  by (simp add: scrubbed_fields_eq clean_case_def)

lemma clean_text_None [simp]: "clean_text None"
  by (simp add: clean_text_def)

lemma clean_case_save [simp]: "clean_case (save_case now f r) = clean_case (f r)"
  by (simp add: clean_case_def)

lemma clean_cases_edit:
  "clean_cases st \<Longrightarrow> (\<And>r. clean_case r \<Longrightarrow> clean_case (f r)) \<Longrightarrow> clean_cases (edit_cases e P f st)"
  by (auto simp: clean_cases_def edit_cases_def list_all_iff)

lemma clean_new_case: "clean_case (new_case e uid i a envelope d p c fp)"
  by (simp add: new_case_def clean_case_def Let_def)

lemma clean_create:
  "create_for_action e i a envelope d p c st = Inr (row, st') \<Longrightarrow> clean_cases st \<Longrightarrow>
   clean_case row \<and> clean_cases st'"
  by (auto simp: create_for_action_def Let_def draw_def clean_cases_def list_all_iff clean_new_case
      split: option.splits sum.splits dest!: find_id_Some)

lemma clean_record_execution: "clean_cases st \<Longrightarrow> clean_cases (record_execution e i b t st)"
  unfolding record_execution_def
  by (rule clean_cases_edit) (simp_all add: executed_case_def clean_case_def)

lemma clean_record_verified: "clean_cases st \<Longrightarrow> clean_cases (record_verified e i b t v st)"
  unfolding record_verified_def
  by (rule clean_cases_edit) (simp_all add: verified_case_def clean_case_def)

lemma clean_record_inconclusive: "clean_cases st \<Longrightarrow> clean_cases (record_inconclusive e i t why st)"
  unfolding record_inconclusive_def by (rule clean_cases_edit) (simp_all add: clean_case_def)

lemma clean_backfill:
  "backfill_rows e as n st = Inr (m, st') \<Longrightarrow> clean_cases st \<Longrightarrow> clean_cases st'"
proof (induction as arbitrary: n st)
  case Nil
  then show ?case by simp
next
  case (Cons a as)
  show ?case
  proof (cases "get_incident st (ac_incident_id a)")
    case None
    with Cons show ?thesis by simp
  next
    case (Some i)
    with Cons.prems obtain row st1 where c: "create_for_action e i a (backfill_envelope st i a)
        (in_diagnosis_text i) None None st = Inr (row, st1)"
      and r: "backfill_rows e as (n + 1)
        (edit_cases e (\<lambda>r. rc_action_id r = ac_id a) (backfilled_case a i) st1) = Inr (m, st')"
      by (auto split: sum.splits prod.splits)
    from c Cons.prems(2) have "clean_cases st1" by (auto dest: clean_create)
    then have "clean_cases (edit_cases e (\<lambda>r. rc_action_id r = ac_id a) (backfilled_case a i) st1)"
      by (rule clean_cases_edit) (simp add: backfilled_case_def clean_case_def)
    with Cons.IH r show ?thesis by blast
  qed
qed

lemma clean_close:
  "close_proposals e now rows n st = (m, st') \<Longrightarrow> clean_cases st \<Longrightarrow> clean_cases st'"
proof (induction e now rows n st rule: close_proposals.induct)
  case (1 e now n st)
  then show ?case by simp
next
  case (2 e now c a rows n st)
  show ?case
  proof (cases "closed_outcome a (get_incident st (rc_incident_id c)) now")
    case None
    with 2 show ?thesis by simp
  next
    case (Some oc)
    have "clean_cases (edit_cases e (\<lambda>r. rc_id r = rc_id c) (reconciled_case now a oc) st)"
      by (rule clean_cases_edit [OF 2(4)]) (simp add: reconciled_case_def clean_case_def)
    with 2(2) [OF Some] 2(3) Some show ?thesis by simp
  qed
qed

lemma lab_case_eq:
  "lab_case r = r\<lparr>rc_regressed_1h := Some False, rc_regressed_24h := Some False,
     rc_regressed_7d := Some False\<rparr>"
  by (simp add: lab_case_def regression_windows_def)

definition window_verdict :: "time \<Rightarrow> time option \<Rightarrow> time \<Rightarrow> bool option \<Rightarrow> bool option" where
  "window_verdict now rec window_end verdict =
     (if verdict \<noteq> None then verdict
      else if (case rec of None \<Rightarrow> False | Some t \<Rightarrow> t \<le> window_end) then Some True
      else if now \<ge> window_end then Some False else None)"

lemma judge_window_put:
  "put (get r) r = r \<Longrightarrow>
   judge_window now v rec (get, put, w) r = put (window_verdict now rec (v + w) (get r)) r"
  by (cases "get r") (simp_all add: judge_window_def window_verdict_def Let_def)

lemmas judge_columns =
  judge_window_put [where get = rc_regressed_1h and put = "\<lambda>b r. r\<lparr>rc_regressed_1h := b\<rparr>"]
  judge_window_put [where get = rc_regressed_24h and put = "\<lambda>b r. r\<lparr>rc_regressed_24h := b\<rparr>"]
  judge_window_put [where get = rc_regressed_7d and put = "\<lambda>b r. r\<lparr>rc_regressed_7d := b\<rparr>"]

lemma judged_case_eq:
  "rc_verified_at r = Some v \<Longrightarrow> judged_case now st r =
     r\<lparr>rc_regressed_1h := window_verdict now (recurrence_at st r v) (v + seconds 3600) (rc_regressed_1h r),
       rc_regressed_24h := window_verdict now (recurrence_at st r v) (v + seconds (24 * 3600))
         (rc_regressed_24h r),
       rc_regressed_7d := window_verdict now (recurrence_at st r v) (v + seconds (7 * 24 * 3600))
         (rc_regressed_7d r)\<rparr>"
  by (simp add: judged_case_def regression_windows_def judge_columns)

lemma evaluated_case_documents: "clean_case (evaluated_case now st r) = clean_case r"
proof (cases "rc_verified_at r")
  case None
  then show ?thesis by (simp add: evaluated_case_def judged_case_def lab_case_eq clean_case_def)
next
  case (Some v)
  then show ?thesis by (simp add: evaluated_case_def judged_case_eq lab_case_eq clean_case_def)
qed

lemma clean_evaluate: "clean_cases st \<Longrightarrow> clean_cases (snd (evaluate_regressions e now l st))"
proof -
  assume "clean_cases st"
  then have "clean_cases (snd (lab_pass e st))"
    unfolding lab_pass_def Let_def snd_conv
    by (rule clean_cases_edit) (simp add: lab_case_eq clean_case_def)
  then show ?thesis
    unfolding evaluate_regressions_def Let_def case_prod_unfold snd_conv
    by (rule clean_cases_edit) (simp add: evaluated_case_documents)
qed

lemma scrub_case_fields:
  fixes r r' :: remediation_case
  shows "scrub_case e r = Inr (b, r') \<Longrightarrow>
    clean_case r' \<and> (\<forall>e'. scrub_case e' r' = Inr (False, r'))"
proof (cases "scrubbed_fields r = r")
  case True
  assume "scrub_case e r = Inr (b, r')"
  with True have "r' = r" by (simp add: scrub_case_def)
  moreover have "clean_case (scrubbed_fields r)"
    using clean_scrubbed_fields [of "rc_evidence_fingerprint (scrubbed_fields r)" r] by simp
  ultimately show ?thesis using True by (simp add: scrub_case_def)
next
  case False
  assume "scrub_case e r = Inr (b, r')"
  with False obtain fp where "r' = save_case (ev_now e)
      (\<lambda>_. scrubbed_fields r\<lparr>rc_evidence_fingerprint := fp\<rparr>) r"
    by (auto simp: scrub_case_def Let_def split: sum.splits)
  then obtain t where r': "r' = scrubbed_fields r\<lparr>rc_evidence_fingerprint := fp, rc_updated_at := t\<rparr>"
    by (auto simp: save_case_eq)
  have "scrubbed_fields r' = r'" unfolding r' by (simp add: scrubbed_fields_eq)
  moreover have "clean_case r'" unfolding r' by (simp add: scrubbed_fields_eq clean_case_def)
  ultimately show ?thesis by (simp add: scrub_case_def)
qed

lemma scrub_cases_rows:
  "scrub_cases e rows = Inr (n, rows') \<Longrightarrow>
   list_all clean_case rows' \<and> (\<forall>e'. scrub_cases e' rows' = Inr (0, rows'))"
proof (induction rows arbitrary: n rows')
  case Nil
  then show ?case by simp
next
  case (Cons r rows)
  from Cons.prems obtain b r1 m rs1 where "scrub_case e r = Inr (b, r1)"
    "scrub_cases e rows = Inr (m, rs1)" "rows' = r1 # rs1"
    by (auto split: sum.splits prod.splits)
  with Cons.IH [of m rs1] scrub_case_fields [of e r b r1] show ?case by simp
qed

text \<open>
  C27. No operation of the case memory stores a secret: if every stored document of every case shows
  only the redaction mark under a sensitive key, then so it is after creating a case, after recording
  an execution, a verification or an inconclusive end, after the backfill, after the reconciliation of
  closed proposals and after the evaluation of regressions.
\<close>

theorem case_documents_stay_redacted:
  assumes "clean_cases st"
  shows "(create_for_action e i a envelope d p c st = Inr (row, st1) \<longrightarrow>
      clean_case row \<and> clean_cases st1)
    \<and> clean_cases (record_execution e aid ok at_time st)
    \<and> clean_cases (record_verified e iid ok t post st)
    \<and> clean_cases (record_inconclusive e aid t why st)
    \<and> (backfill_missing_cases e limit st = Inr (m, st2) \<longrightarrow> clean_cases st2)
    \<and> clean_cases (snd (reconcile_closed_proposals e now limit st))
    \<and> clean_cases (snd (evaluate_regressions e now limit st))"
  using assms clean_create clean_record_execution clean_record_verified clean_record_inconclusive
    clean_evaluate
  by (auto simp: backfill_missing_cases_def reconcile_closed_proposals_def
      intro: clean_backfill clean_close [OF surjective_pairing])

text \<open>
  The redaction pass leaves nothing to redact: whatever was stored before, a pass that ends
  stores only redacted documents, and a second pass changes no case.
\<close>

theorem scrub_pass_settles:
  assumes "scrub_existing_case_memory e st = Inr (n, st')"
  shows "clean_cases st' \<and> scrub_existing_case_memory e' st' = Inr (0, st')"
proof -
  from assms obtain rows where "scrub_cases e (st_cases st) = Inr (n, rows)"
    "st' = st\<lparr>st_cases := rows\<rparr>"
    by (auto simp: scrub_existing_case_memory_def split: sum.splits prod.splits)
  with scrub_cases_rows show ?thesis
    by (simp add: scrub_existing_case_memory_def clean_cases_def)
qed

section \<open>Regression verdicts\<close>










section \<open>Samples\<close>

definition lab_env :: env where
  "lab_env = \<lparr>ev_now = 0, ev_uuid = (\<lambda>n. ''u'' @ nat_text n), ev_sha = (\<lambda>_. ''digest'')\<rparr>"

definition lab_incident :: incident where
  "lab_incident =
     \<lparr>in_id = ''i1'', in_cluster_id = Some ''c1'', in_ceph_code = ''OSD_DOWN'', in_dedupe_key = None,
      in_status = IS_VERIFYING, in_severity = None, in_log_excerpt = None,
      in_signal_evidence_json = None, in_group_root_incident_id = None, in_diagnosis_text = None,
      in_postmortem_json = None, in_postmortem_generated_at = None,
      in_postmortem_prompt_version = None, in_telegram_reminded_at = None, in_acknowledged_at = None,
      in_acknowledged_by = None, in_muted_until = None, in_muted_by = None,
      in_verify_after = Some 0, in_verify_attempts = 0, in_detected_at = 0, in_created_at = 0,
      in_updated_at = 0, in_failed_at = None\<rparr>"

definition lab_action :: action_row where
  "lab_action =
     \<lparr>ac_id = ''a1'', ac_incident_id = ''i1'', ac_action_id = ''resync_ntp'',
      ac_classification = ''SAFE'', ac_status = AS_EXECUTED, ac_proposed_command = None,
      ac_rationale = None, ac_target_nodes = Some (JText (PList [PStr ''n1''])),
      ac_action_params = None, ac_execution_progress = None, ac_telegram_message_ids = None,
      ac_telegram_notified_at = None, ac_executed_at = Some 0, ac_expires_at = None,
      ac_grace_until = None, ac_cancelled_at = None, ac_cancelled_by = None,
      ac_idempotency_key = None, ac_created_at = 0, ac_updated_at = 0\<rparr>"

definition lab_case_row :: remediation_case where
  "lab_case_row = new_case lab_env ''k1'' lab_incident lab_action (PDict []) None None None ''digest''"

definition lab_store :: store where
  "lab_store =
     \<lparr>st_draws = 0, st_clusters = [sample_cluster], st_incidents = [lab_incident],
      st_actions = [lab_action], st_cases = [lab_case_row], st_stats = [], st_leases = [],
      st_assessments = [], st_audit = [], st_events = [], st_outbox = [], st_notices = [],
      st_overrides = [], st_findings = [], st_gates = [], st_gate_locks = [], st_chat = [],
      st_trash = []\<rparr>"

theorem case_documents_stay_redacted_witness:
  "clean_cases (record_execution lab_env ''a1'' True (Some 0) lab_store)"
proof -
  have "clean_cases lab_store"
    by (simp add: clean_cases_def lab_store_def lab_case_row_def clean_new_case)
  from case_documents_stay_redacted [OF this, of lab_env lab_incident lab_action "PDict []" None None None
      lab_case_row lab_store "''a1''" True "Some 0"] show ?thesis by blast
qed

definition leaked_case :: remediation_case where
  "leaked_case =
     lab_case_row\<lparr>rc_entity_keys_json := Some (JText (doc [(''token'', PStr ''hunter2'')])),
       rc_preflight_snapshot_json := None, rc_pre_state_json := None,
       rc_topology_snapshot_json := None\<rparr>"

theorem scrub_pass_settles_witness:
  "clean_cases (snd (projr (scrub_existing_case_memory lab_env (lab_store\<lparr>st_cases := [leaked_case]\<rparr>))))"
proof -
  have "scrub_existing_case_memory lab_env (lab_store\<lparr>st_cases := [leaked_case]\<rparr>)
    = Inr (1, snd (projr (scrub_existing_case_memory lab_env (lab_store\<lparr>st_cases := [leaked_case]\<rparr>))))"
    by (simp add: scrub_existing_case_memory_def scrub_case_def scrubbed_fields_eq leaked_case_def
        lab_store_def Let_def fingerprint_def decoded_def safe_load_def dict_or_empty_def doc_def
        scrubbed_field_def stored_json_def sensitive_key_def sensitive_words_def redacted_def
        lab_case_row_def new_case_def por_def str_lower_def lower_char_def char_code_def)
  from scrub_pass_settles [OF this] show ?thesis by blast
qed



end
