(* ===== verification/Runtime.thy ===== *)
theory Runtime
  imports CaseMemory Lifecycle
begin

text \<open>
  The runtime guards of autonomous execution (\<open>worker/autonomy_runtime.py\<close>): rate limits and
  cooldown, the cluster-wide execution lease, and the recovery of executions a stopped worker left
  behind; the change-risk gate over the case memory (\<open>shared/change_risk.py\<close>); and the closing of
  actions whose incident has ended (\<open>shared/incident_actions.py\<close>).
\<close>

section \<open>Rate limits and cooldown\<close>

datatype runtime_refusal =
    HourlyLimit int | DailyLimit int | CooldownActive int | LeaseHeld

text \<open>The stored text of a refusal.\<close>

fun refusal_text :: "runtime_refusal \<Rightarrow> string" where
  "refusal_text (HourlyLimit n) = ''cluster hourly auto-remediation limit ('' @ int_text n @ '') reached''"
| "refusal_text (DailyLimit n) = ''cluster daily auto-remediation limit ('' @ int_text n @ '') reached''"
| "refusal_text (CooldownActive n) = ''action+target cooldown ('' @ int_text n @ ''s) is active''"
| "refusal_text LeaseHeld = ''another autonomous write action holds the cluster lease''"

text \<open>
  The automatic executions of a cluster since a time: the join pairs an action with its incident.
  \<open>None\<close> is an allowed result.
\<close>

definition auto_executed_since :: "store \<Rightarrow> string \<Rightarrow> time \<Rightarrow> action_row list" where
  "auto_executed_since st cluster_id since =
     filter (\<lambda>a. ac_status a = AS_AUTO_EXECUTED
         \<and> (case ac_executed_at a of None \<Rightarrow> False | Some t \<Rightarrow> t \<ge> since)
         \<and> (case get_incident st (ac_incident_id a) of None \<Rightarrow> False
            | Some i \<Rightarrow> in_cluster_id i = Some cluster_id)) (st_actions st)"

definition check_limits ::
  "store \<Rightarrow> string \<Rightarrow> string \<Rightarrow> json_text option \<Rightarrow> time \<Rightarrow> int \<Rightarrow> int \<Rightarrow> int \<Rightarrow> runtime_refusal option" where
  "check_limits st cluster_id action_id target_nodes now max_hour max_day cooldown_seconds =
     (let unlimited = (action_id = ''restart_osd_daemon'');
          exempt = (action_id \<in> {''restart_osd_daemon'', ''enable_mon_msgr2''})
      in if \<not> unlimited \<and> max_hour > 0
            \<and> int (length (auto_executed_since st cluster_id (now - seconds 3600))) \<ge> max_hour
         then Some (HourlyLimit max_hour)
         else if \<not> unlimited \<and> max_day > 0
            \<and> int (length (auto_executed_since st cluster_id (now - seconds 86400))) \<ge> max_day
         then Some (DailyLimit max_day)
         else if \<not> exempt \<and> cooldown_seconds > 0
            \<and> list_ex (\<lambda>a. ac_action_id a = action_id \<and> ac_target_nodes a = target_nodes)
                (auto_executed_since st cluster_id (now - seconds cooldown_seconds))
         then Some (CooldownActive cooldown_seconds)
         else None)"

section \<open>The execution lease\<close>

text \<open>
  The expired leases are deleted and the new row inserted in one transaction; a row of the same
  cluster or of the same action makes the insertion fail, and the rollback restores the table.
\<close>

definition acquire_lease ::
  "string \<Rightarrow> string \<Rightarrow> time \<Rightarrow> int \<Rightarrow> autopilot_lease list \<Rightarrow> runtime_refusal option \<times> autopilot_lease list" where
  "acquire_lease cluster_id action_id now ttl_seconds rows =
     (let live = filter (\<lambda>l. \<not> al_expires_at l \<le> now) rows in
      if list_ex (\<lambda>l. al_cluster_id l = cluster_id \<or> al_action_id l = action_id) live
      then (Some LeaseHeld, rows)
      else (None, live @ [\<lparr>al_cluster_id = cluster_id, al_action_id = action_id,
              al_acquired_at = now, al_expires_at = now + seconds ttl_seconds\<rparr>]))"

definition release_lease :: "string \<Rightarrow> autopilot_lease list \<Rightarrow> autopilot_lease list" where
  "release_lease action_id rows = filter (\<lambda>l. al_action_id l \<noteq> action_id) rows"

section \<open>Recovery after a stop\<close>

definition interrupted_reason :: string where
  "interrupted_reason =
     (''Worker d'' @ [CHR 0xE1, CHR 0xBB, CHR 0xAB] @ ''ng gi'' @
       [CHR 0xE1, CHR 0xBB, CHR 0xAF] @ ''a l'' @ [CHR 0xC3, CHR 0xBA] @ ''c th'' @
       [CHR 0xE1, CHR 0xBB, CHR 0xB1] @ ''c thi; k'' @ [CHR 0xE1, CHR 0xBA, CHR 0xBF] @
       ''t qu'' @ [CHR 0xE1, CHR 0xBA, CHR 0xA3] @ '' kh'' @ [CHR 0xC3, CHR 0xB4] @
       ''ng x'' @ [CHR 0xC3, CHR 0xA1] @ ''c '' @
       [CHR 0xC4, CHR 0x91, CHR 0xE1, CHR 0xBB, CHR 0x8B] @ ''nh, kh'' @
       [CHR 0xC3, CHR 0xB4] @ ''ng t'' @ [CHR 0xE1, CHR 0xBB, CHR 0xB1] @ '' ch'' @
       [CHR 0xE1, CHR 0xBA, CHR 0xA1] @ ''y l'' @ [CHR 0xE1, CHR 0xBA, CHR 0xA1] @
       ''i '' @ [CHR 0xE2, CHR 0x80, CHR 0x94] @ '' h'' @ [CHR 0xC3, CHR 0xA3] @
       ''y ki'' @ [CHR 0xE1, CHR 0xBB, CHR 0x83] @ ''m tra c'' @
       [CHR 0xE1, CHR 0xBB, CHR 0xA5] @ ''m'')"

text \<open>\<open>f"{diagnosis_text or ''}\n\n{note}".strip()\<close>.\<close>

definition diagnosis_note :: "string \<Rightarrow> incident \<Rightarrow> incident" where
  "diagnosis_note note i =
     i\<lparr>in_diagnosis_text :=
         Some (str_strip (or_empty (in_diagnosis_text i) @ [CHR 0x0A, CHR 0x0A] @ note))\<rparr>"

definition appended_progress :: "pyval \<Rightarrow> json_text option \<Rightarrow> json_text option" where
  "appended_progress entry raw =
     Some (JText (PList (elems_of (safe_load raw (PList [])) @ [entry])))"

definition interrupted_action :: "time \<Rightarrow> action_row \<Rightarrow> action_row" where
  "interrupted_action now a =
     a\<lparr>ac_execution_progress := appended_progress (doc
           [(''step'', PStr ''worker_restart''), (''label'', PStr (''Worker kh'' @ [CHR 0xE1, CHR 0xBB, CHR 0x9F] @ ''i '' @
       [CHR 0xC4, CHR 0x91, CHR 0xE1, CHR 0xBB, CHR 0x99] @ ''ng l'' @
       [CHR 0xE1, CHR 0xBA, CHR 0xA1] @ ''i'')),
            (''pct'', PInt 100), (''status'', PStr ''failed''), (''message'', PStr interrupted_reason),
            (''finished_at'', PStr (isoformat now))]) (ac_execution_progress a),
       ac_status := AS_INCONCLUSIVE\<rparr>"

fun recover_interrupted :: "env \<Rightarrow> time \<Rightarrow> (action_row \<times> incident) list \<Rightarrow> store \<Rightarrow> store" where
  "recover_interrupted e now [] st = st"
| "recover_interrupted e now ((a, i) # rows) st =
     recover_interrupted e now rows
       (audit_record e (in_id i) (Some (ac_id a)) ''approved_execution_interrupted'' actor_system
          (Some (doc [(''action_id'', PStr (ac_action_id a)), (''auto_retry'', PBool False)]))
         (edit_incident e (in_id i)
            (\<lambda>r. diagnosis_note (''[Worker restart] '' @ interrupted_reason @ ''.'')
                   (incident_to e IS_FAILED r))
           (record_inconclusive e (ac_id a) now interrupted_reason
             (edit_action e (ac_id a) (interrupted_action now) st))))"

definition interrupted_rows :: "store \<Rightarrow> (action_row \<times> incident) list" where
  "interrupted_rows st =
     concat (map (\<lambda>a. map (\<lambda>i. (a, i))
         (filter (\<lambda>i. in_id i = ac_incident_id a \<and> in_status i = IS_EXECUTING) (st_incidents st)))
       (filter (\<lambda>a. ac_status a = AS_APPROVED) (st_actions st)))"

definition reconcile_interrupted_approved_executions ::
  "env \<Rightarrow> time \<Rightarrow> store \<Rightarrow> nat \<times> store" where
  "reconcile_interrupted_approved_executions e now st =
     (let rows = interrupted_rows st in (length rows, recover_interrupted e now rows st))"

definition lease_lost_reason :: "autopilot_lease option \<Rightarrow> string" where
  "lease_lost_reason l =
     (if l \<noteq> None then ''cluster execution lease expired'' else ''cluster execution lease is missing'')"

definition recovery_note :: "string \<Rightarrow> string" where
  "recovery_note reason =
     (''[Autopilot recovery] K'' @ [CHR 0xE1, CHR 0xBA, CHR 0xBF] @ ''t qu'' @
       [CHR 0xE1, CHR 0xBA, CHR 0xA3] @ '' kh'' @ [CHR 0xC3, CHR 0xB4] @ ''ng x'' @
       [CHR 0xC3, CHR 0xA1] @ ''c '' @
       [CHR 0xC4, CHR 0x91, CHR 0xE1, CHR 0xBB, CHR 0x8B] @ ''nh: '') @ reason @ (''; kh'' @ [CHR 0xC3, CHR 0xB4] @ ''ng t'' @ [CHR 0xE1, CHR 0xBB, CHR 0xB1] @
       '' ch'' @ [CHR 0xE1, CHR 0xBA, CHR 0xA1] @ ''y l'' @
       [CHR 0xE1, CHR 0xBA, CHR 0xA1] @ ''i.'')"

definition recover_expired :: "env \<Rightarrow> time \<Rightarrow> action_row \<Rightarrow> store \<Rightarrow> nat \<times> store" where
  "recover_expired e now a st =
     (let lease = find_id al_action_id (ac_id a) (st_leases st);
          active = (case lease of None \<Rightarrow> False | Some l \<Rightarrow> al_expires_at l > now) in
      case recover_after_worker_restart (Text (action_status_value (ac_status a))) active of
        Inl _ \<Rightarrow> (0, st)
      | Inr d \<Rightarrow>
          if \<not> td_allowed d then (0, st)
          else
            (let reason = lease_lost_reason lease;
                 st1 = (if lease \<noteq> None then st\<lparr>st_leases := release_lease (ac_id a) (st_leases st)\<rparr>
                        else st);
                 st2 = record_inconclusive e (ac_id a) now reason
                         (edit_action e (ac_id a) (\<lambda>r. r\<lparr>ac_status := AS_INCONCLUSIVE\<rparr>) st1)
             in case get_incident st2 (ac_incident_id a) of
                  None \<Rightarrow> (1, st2)
                | Some i \<Rightarrow>
                    (1, record_event e (in_id i) (Some (ac_id a)) ''autopilot_execution_recovery''
                          actor_system
                          (Some (doc [(''outcome'', PStr ''INCONCLUSIVE''), (''reason'', PStr reason),
                                      (''auto_retry'', PBool False)])) None None
                        (audit_record e (in_id i) (Some (ac_id a)) ''autopilot_execution_inconclusive''
                           actor_system None
                          (edit_incident e (in_id i)
                             (\<lambda>r. diagnosis_note (recovery_note reason) (incident_to e IS_FAILED r))
                             st2)))))"

fun recover_expired_rows :: "env \<Rightarrow> time \<Rightarrow> action_row list \<Rightarrow> store \<Rightarrow> nat \<times> store" where
  "recover_expired_rows e now [] st = (0, st)"
| "recover_expired_rows e now (a # as) st =
     (let (n, st1) = recover_expired e now a st; (m, st2) = recover_expired_rows e now as st1
      in (n + m, st2))"

definition reconcile_expired_executions :: "env \<Rightarrow> time \<Rightarrow> store \<Rightarrow> nat \<times> store" where
  "reconcile_expired_executions e now st =
     recover_expired_rows e now
       (filter (\<lambda>a. ac_status a = AS_EXECUTING \<and> ac_classification a = ''SAFE'') (st_actions st)) st"

section \<open>Change risk\<close>

record risk_result =
  rr_level :: string
  rr_summary :: string
  rr_sample_count :: int
  rr_success_count :: int
  rr_failure_count :: int
  rr_regression_count :: int
  rr_evidence :: pyval
  rr_fingerprint :: string

definition blocks_autopilot :: "risk_result \<Rightarrow> bool" where
  "blocks_autopilot r = (rr_level r = ''HIGH'')"

fun case_outcome_value :: "case_outcome \<Rightarrow> string" where
  "case_outcome_value CO_PROPOSED = ''PROPOSED''"
| "case_outcome_value CO_EXECUTING = ''EXECUTING''"
| "case_outcome_value CO_EXECUTED_PENDING_VERIFY = ''EXECUTED_PENDING_VERIFY''"
| "case_outcome_value CO_EXECUTED_UNVERIFIED = ''EXECUTED_UNVERIFIED''"
| "case_outcome_value CO_EXECUTION_FAILED = ''EXECUTION_FAILED''"
| "case_outcome_value CO_VERIFIED_SUCCESS = ''VERIFIED_SUCCESS''"
| "case_outcome_value CO_VERIFIED_FAILED = ''VERIFIED_FAILED''"
| "case_outcome_value CO_INCONCLUSIVE = ''INCONCLUSIVE''"
| "case_outcome_value CO_REJECTED = ''REJECTED''"
| "case_outcome_value CO_LEGACY_RESOLVED_UNVERIFIED = ''LEGACY_RESOLVED_UNVERIFIED''"

definition failure_outcomes :: "case_outcome list" where
  "failure_outcomes = [CO_EXECUTION_FAILED, CO_INCONCLUSIVE, CO_VERIFIED_FAILED]"

definition success_outcomes :: "case_outcome list" where
  "success_outcomes = [CO_VERIFIED_SUCCESS]"

definition has_regressed :: "remediation_case \<Rightarrow> bool" where
  "has_regressed c =
     (rc_regressed_1h c = Some True \<or> rc_regressed_24h c = Some True \<or> rc_regressed_7d c = Some True)"

text \<open>
  The newest hundred terminal cases of the same action.  Descending order puts the rows without a
  verification time first, as the production database does.
\<close>

definition newest_first :: "remediation_case \<Rightarrow> (bool \<times> int) \<times> int" where
  "newest_first c =
     (case rc_verified_at c of None \<Rightarrow> (False, 0) | Some t \<Rightarrow> (True, - t), - rc_created_at c)"

definition terminal_cases :: "store \<Rightarrow> action_row \<Rightarrow> remediation_case list" where
  "terminal_cases st a =
     take 100 (sort_by newest_first
       (filter (\<lambda>c. rc_outcome c \<in> set (success_outcomes @ failure_outcomes)
          \<and> list_ex (\<lambda>b. ac_id b = rc_action_id c \<and> ac_action_id b = ac_action_id a
                       \<and> ac_id b \<noteq> ac_id a) (st_actions st)) (st_cases st)))"

definition matches_or_unknown :: "string option \<Rightarrow> string option \<Rightarrow> bool" where
  "matches_or_unknown wanted found = (wanted = None \<or> found = None \<or> found = wanted)"

record risk_scope =
  rs_cluster_id :: "string option"
  rs_fault_family :: "string option"
  rs_ceph_version :: "string option"
  rs_deployment_mode :: "string option"

definition risk_scope_of :: "store \<Rightarrow> action_row \<Rightarrow> incident option \<Rightarrow> risk_scope" where
  "risk_scope_of st a inc =
     (let current = get_case st (ac_id a) in
      \<lparr>rs_cluster_id = (case inc of None \<Rightarrow> None | Some i \<Rightarrow> in_cluster_id i),
       rs_fault_family = (case current of Some c \<Rightarrow> Some (rc_fault_family c)
                          | None \<Rightarrow> map_option in_ceph_code inc),
       rs_ceph_version = (case current of Some c \<Rightarrow> rc_ceph_version c | None \<Rightarrow> None),
       rs_deployment_mode = (case current of Some c \<Rightarrow> rc_deployment_mode c | None \<Rightarrow> None)\<rparr>)"

definition in_scope :: "risk_scope \<Rightarrow> remediation_case \<Rightarrow> bool" where
  "in_scope s c =
     (rc_cluster_id c = rs_cluster_id s
      \<and> (rs_fault_family s = None \<or> rs_fault_family s = Some (rc_fault_family c))
      \<and> matches_or_unknown (rs_ceph_version s) (rc_ceph_version c)
      \<and> matches_or_unknown (rs_deployment_mode s) (rc_deployment_mode c))"

definition count_outcomes :: "case_outcome list \<Rightarrow> remediation_case list \<Rightarrow> nat" where
  "count_outcomes os cases = length (filter (\<lambda>c. rc_outcome c \<in> set os) cases)"

definition risk_level :: "nat \<Rightarrow> nat \<Rightarrow> nat \<Rightarrow> string" where
  "risk_level regressions failures successes =
     (if regressions > 0 then ''HIGH''
      else if failures \<ge> 2 \<and> failures \<ge> successes then ''HIGH''
      else if failures > 0 then ''MEDIUM''
      else if successes \<ge> 3 then ''LOW''
      else ''INSUFFICIENT_EVIDENCE'')"

definition risk_reason :: "nat \<Rightarrow> nat \<Rightarrow> nat \<Rightarrow> nat \<Rightarrow> string" where
  "risk_reason regressions failures successes n_cases =
     (if regressions > 0
      then ([CHR 0xC4, CHR 0x91, CHR 0xC3, CHR 0xA3] @ '' c'' @ [CHR 0xC3, CHR 0xB3] @ '' '') @ nat_text regressions @ ('' case verified b'' @ [CHR 0xE1, CHR 0xBB, CHR 0x8B] @ '' regression'')
      else if failures \<ge> 2 \<and> failures \<ge> successes
      then nat_text failures @ ''/'' @ nat_text n_cases @ ('' case k'' @ [CHR 0xE1, CHR 0xBA, CHR 0xBF] @ ''t th'' @ [CHR 0xC3, CHR 0xBA] @
       ''c th'' @ [CHR 0xE1, CHR 0xBA, CHR 0xA5] @ ''t b'' @
       [CHR 0xE1, CHR 0xBA, CHR 0xA1] @ ''i ho'' @ [CHR 0xE1, CHR 0xBA, CHR 0xB7] @
       ''c inconclusive'')
      else if failures > 0
      then ([CHR 0xC4, CHR 0x91, CHR 0xC3, CHR 0xA3] @ '' c'' @ [CHR 0xC3, CHR 0xB3] @ '' '') @ nat_text failures @ ('' case th'' @ [CHR 0xE1, CHR 0xBA, CHR 0xA5] @ ''t b'' @
       [CHR 0xE1, CHR 0xBA, CHR 0xA1] @ ''i, ch'' @ [CHR 0xC6, CHR 0xB0] @ ''a '' @
       [CHR 0xC4, CHR 0x91, CHR 0xE1, CHR 0xBB, CHR 0xA7] @ '' b'' @
       [CHR 0xE1, CHR 0xBA, CHR 0xB1] @ ''ng ch'' @ [CHR 0xE1, CHR 0xBB, CHR 0xA9] @
       ''ng '' @ [CHR 0xC4, CHR 0x91, CHR 0xE1, CHR 0xBB, CHR 0x83] @ '' t'' @
       [CHR 0xE1, CHR 0xBB, CHR 0xB1] @ '' '' @
       [CHR 0xC4, CHR 0x91, CHR 0xE1, CHR 0xBB, CHR 0x99] @ ''ng ch'' @
       [CHR 0xE1, CHR 0xBA, CHR 0xB7] @ ''n'')
      else if successes \<ge> 3
      then nat_text successes @ ('' case verified th'' @ [CHR 0xC3, CHR 0xA0] @ ''nh c'' @ [CHR 0xC3, CHR 0xB4] @
       ''ng v'' @ [CHR 0xC3, CHR 0xA0] @ '' ch'' @ [CHR 0xC6, CHR 0xB0] @ ''a th'' @
       [CHR 0xE1, CHR 0xBA, CHR 0xA5] @ ''y regression'')
      else (''ch'' @ [CHR 0xE1, CHR 0xBB, CHR 0x89] @ '' c'' @ [CHR 0xC3, CHR 0xB3] @ '' '') @ nat_text n_cases @ ('' case terminal c'' @ [CHR 0xC3, CHR 0xB9] @ ''ng action/cluster''))"

definition risk_evidence ::
  "action_row \<Rightarrow> risk_scope \<Rightarrow> remediation_case list \<Rightarrow> (string \<times> pyval) list" where
  "risk_evidence a s cases =
     [(''action_id'', PStr (ac_action_id a)), (''cluster_id'', opt_py (rs_cluster_id s)),
      (''fault_family'', opt_py (rs_fault_family s)), (''ceph_version'', opt_py (rs_ceph_version s)),
      (''deployment_mode'', opt_py (rs_deployment_mode s)),
      (''case_ids'', PList (map (\<lambda>c. PStr (rc_id c)) cases)),
      (''outcomes'', doc (map (\<lambda>k. (case_outcome_value k, PInt (int (count_outcomes [k] cases))))
         (failure_outcomes @ success_outcomes))),
      (''regression_case_ids'', PList (map (\<lambda>c. PStr (rc_id c)) (filter has_regressed cases)))]"

definition assess :: "env \<Rightarrow> store \<Rightarrow> action_row \<Rightarrow> incident option \<Rightarrow> risk_result" where
  "assess e st a given =
     (let inc = (case given of Some i \<Rightarrow> Some i | None \<Rightarrow> get_incident st (ac_incident_id a));
          all_cases = terminal_cases st a; s = risk_scope_of st a inc;
          cases = filter (in_scope s) all_cases;
          failures = count_outcomes failure_outcomes cases;
          successes = count_outcomes success_outcomes cases;
          regressions = length (filter has_regressed cases);
          level = risk_level regressions failures successes;
          core = risk_evidence a s cases;
          summary = (''R'' @ [CHR 0xE1, CHR 0xBB, CHR 0xA7] @ ''i ro thay '' @
       [CHR 0xC4, CHR 0x91, CHR 0xE1, CHR 0xBB, CHR 0x95] @ ''i '') @ level @ '': ''
            @ risk_reason regressions failures successes (length cases) @ ''. Evidence: ''
            @ nat_text (length cases)
            @ ('' RemediationCase c'' @ [CHR 0xC3, CHR 0xB9] @ ''ng action '' @
       [CHR 0xC4, CHR 0x91, CHR 0xC3, CHR 0xBA] @
       ''ng cluster/fault/version/deployment; to'' @ [CHR 0xC3, CHR 0xA0] @ ''n h'' @
       [CHR 0xE1, CHR 0xBB, CHR 0x87] @ '' th'' @ [CHR 0xE1, CHR 0xBB, CHR 0x91] @
       ''ng c'' @ [CHR 0xC3, CHR 0xB3] @ '' '')
            @ nat_text (length all_cases) @ ('' case c'' @ [CHR 0xC3, CHR 0xB9] @ ''ng action.'')
      in \<lparr>rr_level = level, rr_summary = summary, rr_sample_count = int (length cases),
          rr_success_count = int successes, rr_failure_count = int failures,
          rr_regression_count = int regressions,
          rr_evidence = doc ((''source'', PStr ''remediation_cases'') # core
            @ [(''global_case_count'', PInt (int (length all_cases))),
               (''global_regression_count'', PInt (int (length (filter has_regressed all_cases))))]),
          rr_fingerprint = ev_sha e (sort_keys (doc
            [(''level'', PStr level), (''evidence'', doc core)]))\<rparr>)"

definition assessed_row ::
  "env \<Rightarrow> risk_result \<Rightarrow> change_risk_assessment \<Rightarrow> change_risk_assessment" where
  "assessed_row e r row =
     row\<lparr>cr_cluster_id := text_of (dget (rr_evidence r) ''cluster_id''),
         cr_risk_level := rr_level r, cr_sample_count := rr_sample_count r,
         cr_success_count := rr_success_count r, cr_failure_count := rr_failure_count r,
         cr_regression_count := rr_regression_count r, cr_summary := rr_summary r,
         cr_evidence_json := JText (sort_keys (rr_evidence r)),
         cr_assessment_hash := rr_fingerprint r, cr_analyzed_at := ev_now e\<rparr>"

definition edit_assessment ::
  "string \<Rightarrow> (change_risk_assessment \<Rightarrow> change_risk_assessment) \<Rightarrow> store \<Rightarrow> store" where
  "edit_assessment action_id f st =
     st\<lparr>st_assessments := map (\<lambda>r. if cr_action_id r = action_id then f r else r) (st_assessments st)\<rparr>"

definition get_assessment :: "store \<Rightarrow> string \<Rightarrow> change_risk_assessment option" where
  "get_assessment st action_id = find_id cr_action_id action_id (st_assessments st)"

definition assess_and_record ::
  "env \<Rightarrow> action_row \<Rightarrow> incident option \<Rightarrow> store \<Rightarrow> risk_result \<times> store" where
  "assess_and_record e a inc st =
     (let r = assess e st a inc in
      case get_assessment st (ac_id a) of
        Some _ \<Rightarrow> (r, edit_assessment (ac_id a) (assessed_row e r) st)
      | None \<Rightarrow>
          (let (uid, st1) = draw e st in
           (r, st1\<lparr>st_assessments := st_assessments st1 @
             [assessed_row e r \<lparr>cr_id = uid, cr_action_id = ac_id a, cr_cluster_id = None,
                cr_risk_level = [], cr_sample_count = 0, cr_success_count = 0, cr_failure_count = 0,
                cr_regression_count = 0, cr_summary = [], cr_evidence_json = JMalformed,
                cr_assessment_hash = [], cr_acknowledged_hash = None,
                cr_analyzed_at = ev_now e\<rparr>]\<rparr>)))"

definition acknowledge :: "env \<Rightarrow> action_row \<Rightarrow> incident option \<Rightarrow> store \<Rightarrow> risk_result \<times> store" where
  "acknowledge e a inc st =
     (let (r, st1) = assess_and_record e a inc st in
      (r, edit_assessment (ac_id a) (\<lambda>row. row\<lparr>cr_acknowledged_hash := Some (rr_fingerprint r)\<rparr>) st1))"

fun text_before :: "string \<Rightarrow> string \<Rightarrow> string" where
  "text_before m [] = []"
| "text_before m (c # cs) = (if starts_with (c # cs) m then [] else c # text_before m cs)"

definition risk_marker :: string where
  "risk_marker = ''[Change-risk analyzer]''"

definition attach_summary :: "risk_result \<Rightarrow> action_row \<Rightarrow> action_row" where
  "attach_summary r a =
     (let base = rev (dropWhile space_char (rev (text_before risk_marker (or_empty (ac_rationale a)))))
      in a\<lparr>ac_rationale := Some (str_strip
             (base @ [CHR 0x0A, CHR 0x0A] @ risk_marker @ '' '' @ rr_summary r))\<rparr>)"

section \<open>Actions of an ended incident\<close>

definition system_actor :: string where
  "system_actor = ''system:watcher''"

definition cancellable :: "action_status \<Rightarrow> bool" where
  "cancellable s = (s \<in> {AS_PENDING, AS_PENDING_APPROVAL})"

definition terminal_incident :: "incident_status \<Rightarrow> bool" where
  "terminal_incident s = (s \<in> {IS_AUTO_FIXED, IS_RESOLVED, IS_REJECTED})"

fun cancel_rows :: "env \<Rightarrow> string \<Rightarrow> string \<Rightarrow> action_row list \<Rightarrow> store \<Rightarrow> store" where
  "cancel_rows e incident_id actor [] st = st"
| "cancel_rows e incident_id actor (a # as) st =
     cancel_rows e incident_id actor as
       (audit_record e incident_id (Some (ac_id a)) ''risky_action_auto_cancelled_incident_resolved''
          actor None
         (edit_action e (ac_id a) (\<lambda>r. r\<lparr>ac_status := AS_REJECTED\<rparr>) st))"

definition cancel_pending_actions :: "env \<Rightarrow> string \<Rightarrow> string \<Rightarrow> store \<Rightarrow> nat \<times> store" where
  "cancel_pending_actions e incident_id actor st =
     (let rows = filter (\<lambda>a. ac_incident_id a = incident_id \<and> cancellable (ac_status a)) (st_actions st)
      in (length rows, cancel_rows e incident_id actor rows st))"

fun cancel_incidents :: "env \<Rightarrow> string \<Rightarrow> string list \<Rightarrow> store \<Rightarrow> nat \<times> store" where
  "cancel_incidents e actor [] st = (0, st)"
| "cancel_incidents e actor (i # is) st =
     (let (n, st1) = cancel_pending_actions e i actor st; (m, st2) = cancel_incidents e actor is st1
      in (n + m, st2))"

definition reconcile_terminal_incident_actions :: "env \<Rightarrow> string \<Rightarrow> store \<Rightarrow> nat \<times> store" where
  "reconcile_terminal_incident_actions e actor st =
     cancel_incidents e actor
       (remdups (map ac_incident_id
         (filter (\<lambda>a. cancellable (ac_status a)
             \<and> (case get_incident st (ac_incident_id a) of None \<Rightarrow> False
                | Some i \<Rightarrow> terminal_incident (in_status i))) (st_actions st)))) st"

end
