(* ===== verification/ExecutionMutex.thy ===== *)
theory ExecutionMutex
  imports Runtime
begin

text \<open>
  What the execution lease promises.  \<open>expiring_mutex\<close> is the contract its users rely on: a live
  holder per cluster, a take that succeeds exactly when the cluster is free and the worker holds
  nothing, a give that frees what the worker holds.  The lease of \<open>worker/autonomy_runtime.py\<close>
  provides it, and refines a table of locks with expiry.
\<close>

datatype ('c, 'w) mutex_op = Take 'c 'w time int | Give 'w

fun mutex_run ::
  "('c \<Rightarrow> 'w \<Rightarrow> time \<Rightarrow> int \<Rightarrow> 's \<Rightarrow> bool \<times> 's) \<Rightarrow> ('w \<Rightarrow> 's \<Rightarrow> 's) \<Rightarrow> ('c, 'w) mutex_op list \<Rightarrow> 's
     \<Rightarrow> bool list \<times> 's" where
  "mutex_run get give [] s = ([], s)"
| "mutex_run get give (Take c w t ttl # ops) s =
     (let (b, s1) = get c w t ttl s; (bs, s2) = mutex_run get give ops s1 in (b # bs, s2))"
| "mutex_run get give (Give w # ops) s = mutex_run get give ops (give w s)"

text \<open>No take after a time; the takes in the order of their times; the takes of a cluster.\<close>

fun takes_until :: "time \<Rightarrow> ('c, 'w) mutex_op list \<Rightarrow> bool" where
  "takes_until T [] = True"
| "takes_until T (Take c w t ttl # ops) = (t \<le> T \<and> takes_until T ops)"
| "takes_until T (Give w # ops) = takes_until T ops"

fun takes_in_order :: "time \<Rightarrow> ('c, 'w) mutex_op list \<Rightarrow> bool" where
  "takes_in_order t0 [] = True"
| "takes_in_order t0 (Take c w t ttl # ops) = (t0 \<le> t \<and> takes_in_order t ops)"
| "takes_in_order t0 (Give w # ops) = takes_in_order t0 ops"

fun last_time :: "time \<Rightarrow> ('c, 'w) mutex_op list \<Rightarrow> time" where
  "last_time t0 [] = t0"
| "last_time t0 (Take c w t ttl # ops) = last_time t ops"
| "last_time t0 (Give w # ops) = last_time t0 ops"

fun takes_of :: "'c \<Rightarrow> ('c, 'w) mutex_op list \<Rightarrow> bool list" where
  "takes_of c [] = []"
| "takes_of c (Take d w t ttl # ops) = (d = c) # takes_of c ops"
| "takes_of c (Give w # ops) = takes_of c ops"

fun gives :: "'w \<Rightarrow> ('c, 'w) mutex_op list \<Rightarrow> bool" where
  "gives w [] = False"
| "gives w (Take c v t ttl # ops) = gives w ops"
| "gives w (Give v # ops) = (v = w \<or> gives w ops)"

section \<open>The abstract lock table\<close>

type_synonym ('c, 'w) locks = "'c \<rightharpoonup> 'w \<times> time"

definition expire :: "time \<Rightarrow> ('c, 'w) locks \<Rightarrow> ('c, 'w) locks" where
  "expire t m = (\<lambda>c. case m c of None \<Rightarrow> None | Some (w, x) \<Rightarrow> if t < x then Some (w, x) else None)"

definition lock_take ::
  "'c \<Rightarrow> 'w \<Rightarrow> time \<Rightarrow> int \<Rightarrow> ('c, 'w) locks \<Rightarrow> bool \<times> ('c, 'w) locks" where
  "lock_take c w t ttl m =
     (let live = expire t m in
      if c \<notin> dom live \<and> w \<notin> fst ` ran live then (True, live(c \<mapsto> (w, t + seconds ttl)))
      else (False, live))"

definition lock_give :: "'w \<Rightarrow> ('c, 'w) locks \<Rightarrow> ('c, 'w) locks" where
  "lock_give w m = (\<lambda>c. case m c of None \<Rightarrow> None | Some (v, x) \<Rightarrow> if v = w then None else Some (v, x))"

lemma expire_expire: "t \<le> T \<Longrightarrow> expire T (expire t m) = expire T m"
  by (auto simp: expire_def fun_eq_iff split: option.split)

lemma expire_give: "expire t (lock_give w m) = lock_give w (expire t m)"
  by (auto simp: expire_def lock_give_def fun_eq_iff split: option.split)

lemma expire_dom: "t \<le> T \<Longrightarrow> expire T m c = Some p \<Longrightarrow> expire t m c = Some p"
  by (auto simp: expire_def split: option.splits if_splits)

lemma expire_Some: "expire t m c = Some (w, x) \<longleftrightarrow> m c = Some (w, x) \<and> t < x"
  by (auto simp: expire_def split: option.split)

lemma lock_give_Some: "lock_give v m c = Some (w, x) \<longleftrightarrow> m c = Some (w, x) \<and> w \<noteq> v"
  by (auto simp: lock_give_def split: option.split)

section \<open>The contract\<close>

locale expiring_mutex =
  fixes holder :: "time \<Rightarrow> 's \<Rightarrow> ('c, 'w) locks"
    and inv :: "'s \<Rightarrow> bool"
    and get :: "'c \<Rightarrow> 'w \<Rightarrow> time \<Rightarrow> int \<Rightarrow> 's \<Rightarrow> bool \<times> 's"
    and give :: "'w \<Rightarrow> 's \<Rightarrow> 's"
  assumes get_inv: "inv s \<Longrightarrow> inv (snd (get c w t ttl s))"
    and give_inv: "inv s \<Longrightarrow> inv (give w s)"
    and get_answer: "inv s \<Longrightarrow>
          fst (get c w t ttl s) \<longleftrightarrow> c \<notin> dom (holder t s) \<and> w \<notin> fst ` ran (holder t s)"
    and get_holder: "inv s \<Longrightarrow> fst (get c w t ttl s) \<Longrightarrow> t \<le> T \<Longrightarrow>
          holder T (snd (get c w t ttl s)) = expire T ((holder T s)(c \<mapsto> (w, t + seconds ttl)))"
    and get_refused: "\<not> fst (get c w t ttl s) \<Longrightarrow> snd (get c w t ttl s) = s"
    and give_holder: "inv s \<Longrightarrow> holder t (give w s) = lock_give w (holder t s)"
    and holder_expires: "inv s \<Longrightarrow> t \<le> T \<Longrightarrow> holder T s = expire T (holder t s)"
begin

lemma run_inv: "inv s \<Longrightarrow> inv (snd (mutex_run get give ops s))"
proof (induction ops arbitrary: s)
  case Nil
  then show ?case by simp
next
  case (Cons op ops)
  then show ?case by (cases op) (simp_all add: Let_def case_prod_unfold get_inv give_inv)
qed

text \<open>Until its expiry a holder keeps the cluster, unless it gives it back itself.\<close>

lemma held_until_given:
  assumes "inv s" and "holder T s c = Some (w, x)" and "takes_until T ops" and "\<not> gives w ops"
  shows "holder T (snd (mutex_run get give ops s)) c = Some (w, x)
       \<and> (\<forall>(mine, won) \<in> set (zip (takes_of c ops) (fst (mutex_run get give ops s))). mine \<longrightarrow> \<not> won)"
  using assms
proof (induction ops arbitrary: s)
  case Nil
  then show ?case by simp
next
  case (Cons op ops)
  show ?case
  proof (cases op)
    case (Give v)
    with Cons.prems have "holder T (give v s) c = Some (w, x)"
      by (auto simp: give_holder lock_give_def)
    with Cons.IH [OF give_inv [OF Cons.prems(1)]] Cons.prems Give show ?thesis by simp
  next
    case (Take d v t ttl)
    define s1 where "s1 = snd (get d v t ttl s)"
    from Cons.prems Take have tT: "t \<le> T" by simp
    have held: "c \<in> dom (holder t s)"
      using holder_expires [OF Cons.prems(1) tT] Cons.prems(2) expire_dom [OF tT, of "holder t s" c]
      by (auto simp: expire_def split: option.splits if_splits)
    have lost: "\<not> fst (get d v t ttl s)" if "d = c"
      using that held by (simp add: get_answer [OF Cons.prems(1)])
    have step: "holder T s1 c = Some (w, x)"
    proof (cases "fst (get d v t ttl s)")
      case True
      with lost have "d \<noteq> c" by blast
      moreover have "expire T (holder T s) c = Some (w, x)"
        using holder_expires [OF Cons.prems(1), of T T] Cons.prems(2) by simp
      ultimately show ?thesis
        unfolding s1_def using get_holder [OF Cons.prems(1) True tT] by (simp add: expire_def)
    next
      case False
      with get_refused Cons.prems(2) show ?thesis by (simp add: s1_def)
    qed
    have rest: "takes_until T ops" "\<not> gives w ops" using Cons.prems Take by simp_all
    have "inv s1" using get_inv [OF Cons.prems(1)] by (simp add: s1_def)
    from Cons.IH [OF this step rest] lost Take show ?thesis
      by (auto simp: s1_def Let_def case_prod_unfold)
  qed
qed

text \<open>A run answers as the lock table does.\<close>

lemma run_refines:
  assumes "inv s" and "expire t0 m = holder t0 s" and "takes_in_order t0 ops" and "last_time t0 ops \<le> T"
  shows "fst (mutex_run get give ops s) = fst (mutex_run lock_take lock_give ops m)
       \<and> holder T (snd (mutex_run get give ops s))
           = expire T (snd (mutex_run lock_take lock_give ops m))"
  using assms
proof (induction ops arbitrary: s m t0)
  case Nil
  then show ?case using holder_expires [of s t0 T] expire_expire [of t0 T m] by simp
next
  case (Cons op ops)
  show ?case
  proof (cases op)
    case (Give v)
    have "expire t0 (lock_give v m) = holder t0 (give v s)"
      using Cons.prems by (simp add: expire_give give_holder)
    from Cons.IH [OF give_inv [OF Cons.prems(1)] this] Cons.prems Give show ?thesis by simp
  next
    case (Take d v t ttl)
    from Cons.prems Take have ord: "t0 \<le> t" "takes_in_order t ops" "last_time t ops \<le> T" by simp_all
    have live: "expire t m = holder t s"
      using expire_expire [OF ord(1), of m] Cons.prems(2) holder_expires [OF Cons.prems(1) ord(1)]
      by simp
    have answer: "fst (lock_take d v t ttl m) = fst (get d v t ttl s)"
      unfolding lock_take_def live using get_answer [OF Cons.prems(1), of d v t ttl]
      by (auto simp: Let_def)
    have "expire t (snd (lock_take d v t ttl m)) = holder t (snd (get d v t ttl s))"
    proof (cases "fst (get d v t ttl s)")
      case True
      then show ?thesis
        using answer get_holder [OF Cons.prems(1) True order_refl] live
        by (auto simp: lock_take_def Let_def split: if_splits)
    next
      case False
      then show ?thesis
        using answer get_refused [OF False] live expire_expire [of t t m]
        by (auto simp: lock_take_def Let_def split: if_splits)
    qed
    from Cons.IH [OF get_inv [OF Cons.prems(1)] this ord(2,3)] answer Take show ?thesis
      by (simp add: Let_def case_prod_unfold)
  qed
qed

end

section \<open>The lease table\<close>

definition lease_take ::
  "string \<Rightarrow> string \<Rightarrow> time \<Rightarrow> int \<Rightarrow> autopilot_lease list \<Rightarrow> bool \<times> autopilot_lease list" where
  "lease_take c a t ttl rows = (let (r, rows1) = acquire_lease c a t ttl rows in (r = None, rows1))"

definition live_leases :: "time \<Rightarrow> autopilot_lease list \<Rightarrow> autopilot_lease list" where
  "live_leases t rows = filter (\<lambda>l. \<not> al_expires_at l \<le> t) rows"

definition lease_entry :: "autopilot_lease \<Rightarrow> string \<times> string \<times> time" where
  "lease_entry l = (al_cluster_id l, al_action_id l, al_expires_at l)"

definition lease_holder :: "time \<Rightarrow> autopilot_lease list \<Rightarrow> (string, string) locks" where
  "lease_holder t rows = map_of (map lease_entry (live_leases t rows))"

lemma lease_holder_iff:
  assumes "leases_unique rows"
  shows "lease_holder t rows c = Some (a, x) \<longleftrightarrow>
    (\<exists>l \<in> set rows. al_cluster_id l = c \<and> al_action_id l = a \<and> al_expires_at l = x \<and> t < x)"
proof -
  have "distinct (map fst (map lease_entry (live_leases t rows)))"
    using assms unfolding leases_unique_def live_leases_def
    by (simp add: comp_def lease_entry_def distinct_map_filter)
  then show ?thesis
    unfolding lease_holder_def by (auto simp: live_leases_def lease_entry_def)
qed

lemma lease_holder_dom:
  "dom (lease_holder t rows) = al_cluster_id ` {l \<in> set rows. t < al_expires_at l}"
  unfolding lease_holder_def live_leases_def lease_entry_def
  by (force simp: dom_map_of_conv_image_fst)

lemma lease_holder_ran:
  assumes "leases_unique rows"
  shows "fst ` ran (lease_holder t rows) = al_action_id ` {l \<in> set rows. t < al_expires_at l}"
  using lease_holder_iff [OF assms, of t] by (force simp: ran_def image_iff)

lemma leases_unique_live: "leases_unique rows \<Longrightarrow> leases_unique (live_leases t rows)"
  by (simp add: leases_unique_def live_leases_def distinct_map_filter)

lemma acquire_lease_eq:
  "acquire_lease c a t ttl rows =
     (if c \<in> al_cluster_id ` set (live_leases t rows) \<or> a \<in> al_action_id ` set (live_leases t rows)
      then (Some LeaseHeld, rows)
      else (None, live_leases t rows @ [\<lparr>al_cluster_id = c, al_action_id = a,
              al_acquired_at = t, al_expires_at = t + seconds ttl\<rparr>]))"
  unfolding acquire_lease_def live_leases_def by (auto simp: Let_def list_ex_iff)

lemma holder_eqI:
  assumes "leases_unique rows"
    and "\<And>c a x. (\<exists>l \<in> set rows. al_cluster_id l = c \<and> al_action_id l = a \<and> al_expires_at l = x \<and> t < x)
           \<longleftrightarrow> m c = Some (a, x)"
  shows "lease_holder t rows = m"
proof
  fix c
  have same: "lease_holder t rows c = Some p \<longleftrightarrow> m c = Some p" for p
    using lease_holder_iff [OF assms(1), of t c] assms(2) [of c] by (cases p) simp
  show "lease_holder t rows c = m c"
  proof (cases "m c")
    case None
    with same [of "the (lease_holder t rows c)"] show ?thesis
      by (cases "lease_holder t rows c") simp_all
  qed (simp add: same)
qed

lemma acquire_lease_unique:
  assumes "leases_unique rows"
  shows "leases_unique (snd (acquire_lease c a t ttl rows))"
  using leases_unique_live [OF assms, of t] assms
  by (auto simp: acquire_lease_eq leases_unique_def)

lemma release_lease_unique: "leases_unique rows \<Longrightarrow> leases_unique (release_lease a rows)"
  by (simp add: leases_unique_def release_lease_def distinct_map_filter)

lemma lease_take_answer:
  assumes "leases_unique rows"
  shows "fst (lease_take c a t ttl rows) \<longleftrightarrow>
           c \<notin> dom (lease_holder t rows) \<and> a \<notin> fst ` ran (lease_holder t rows)"
  unfolding lease_holder_dom lease_holder_ran [OF assms]
  by (auto simp: lease_take_def acquire_lease_eq live_leases_def not_le)

lemma lease_take_holder:
  assumes "leases_unique rows" and "fst (lease_take c a t ttl rows)" and "t \<le> T"
  shows "lease_holder T (snd (lease_take c a t ttl rows)) =
           expire T ((lease_holder T rows)(c \<mapsto> (a, t + seconds ttl)))"
proof (rule holder_eqI)
  show "leases_unique (snd (lease_take c a t ttl rows))"
    using acquire_lease_unique [OF assms(1)] by (simp add: lease_take_def case_prod_unfold Let_def)
next
  fix d v x
  have free: "c \<notin> al_cluster_id ` set (live_leases t rows)"
    and rows1: "snd (lease_take c a t ttl rows) = live_leases t rows @
        [\<lparr>al_cluster_id = c, al_action_id = a, al_acquired_at = t, al_expires_at = t + seconds ttl\<rparr>]"
    using assms(2) by (auto simp: lease_take_def acquire_lease_eq split: if_splits)
  have old: "expire T (lease_holder T rows) d = Some (v, x) \<longleftrightarrow> lease_holder T rows d = Some (v, x)"
    using lease_holder_iff [OF assms(1), of T d] by (auto simp: expire_Some)
  show "(\<exists>l \<in> set (snd (lease_take c a t ttl rows)).
           al_cluster_id l = d \<and> al_action_id l = v \<and> al_expires_at l = x \<and> T < x)
        \<longleftrightarrow> expire T ((lease_holder T rows)(c \<mapsto> (a, t + seconds ttl))) d = Some (v, x)"
  proof (cases "d = c")
    case True
    with free show ?thesis unfolding rows1 by (auto simp: expire_def image_iff)
  next
    case False
    then have "expire T ((lease_holder T rows)(c \<mapsto> (a, t + seconds ttl))) d
               = expire T (lease_holder T rows) d"
      by (simp add: expire_def)
    with False old assms(3) lease_holder_iff [OF assms(1), of T d v x] show ?thesis
      unfolding rows1 by (auto simp: live_leases_def)
  qed
qed

lemma lease_give_holder:
  assumes "leases_unique rows"
  shows "lease_holder t (release_lease a rows) = lock_give a (lease_holder t rows)"
proof (rule holder_eqI)
  show "leases_unique (release_lease a rows)" by (rule release_lease_unique [OF assms])
next
  fix d v x
  show "(\<exists>l \<in> set (release_lease a rows).
           al_cluster_id l = d \<and> al_action_id l = v \<and> al_expires_at l = x \<and> t < x)
        \<longleftrightarrow> lock_give a (lease_holder t rows) d = Some (v, x)"
    unfolding lock_give_Some lease_holder_iff [OF assms] by (auto simp: release_lease_def)
qed

lemma lease_holder_expires:
  assumes "leases_unique rows" and "t \<le> T"
  shows "lease_holder T rows = expire T (lease_holder t rows)"
proof (rule holder_eqI [OF assms(1)])
  fix d v x
  show "(\<exists>l \<in> set rows. al_cluster_id l = d \<and> al_action_id l = v \<and> al_expires_at l = x \<and> T < x)
        \<longleftrightarrow> expire T (lease_holder t rows) d = Some (v, x)"
    unfolding expire_Some lease_holder_iff [OF assms(1)] using assms(2) by auto
qed

interpretation lease: expiring_mutex lease_holder leases_unique lease_take release_lease
proof (unfold_locales, goal_cases)
  case (1 s c w t ttl)
  then show ?case using acquire_lease_unique by (simp add: lease_take_def case_prod_unfold Let_def)
next
  case (2 s w)
  then show ?case by (rule release_lease_unique)
next
  case (3 s c w t ttl)
  then show ?case by (rule lease_take_answer)
next
  case (4 s c w t ttl T)
  then show ?case by (rule lease_take_holder)
next
  case (5 c w t ttl s)
  then show ?case by (auto simp: lease_take_def acquire_lease_eq split: if_splits)
next
  case (6 s t w)
  then show ?case by (rule lease_give_holder)
next
  case (7 s t T)
  then show ?case by (rule lease_holder_expires)
qed


text \<open>
  C24. A write action that takes the execution lease of its cluster at time \<open>t\<close> keeps it: whatever
  other workers do to the lease table before the lease runs out, in any order, every attempt to take
  the lease of that cluster is refused and the row of the holder stays, unless the holder itself
  releases it.\<close>

theorem execution_lease_exclusive:
  assumes "leases_unique rows"
    and "acquire_lease c a t ttl rows = (None, rows1)"
    and "t \<le> T" and "T < t + seconds ttl" and "takes_until T ops" and "\<not> gives a ops"
  shows "(\<exists>l \<in> set (snd (mutex_run lease_take release_lease ops rows1)).
             al_cluster_id l = c \<and> al_action_id l = a \<and> al_expires_at l = t + seconds ttl)
       \<and> list_all (\<lambda>(mine, won). mine \<longrightarrow> \<not> won)
           (zip (takes_of c ops) (fst (mutex_run lease_take release_lease ops rows1)))"
proof -
  have won: "fst (lease_take c a t ttl rows)" and rows1: "snd (lease_take c a t ttl rows) = rows1"
    using assms(2) by (simp_all add: lease_take_def)
  have inv1: "leases_unique rows1" using lease.get_inv [OF assms(1)] rows1 by metis
  have "lease_holder T rows1 c = Some (a, t + seconds ttl)"
    using lease.get_holder [OF assms(1) won assms(3)] assms(4) by (simp add: rows1 expire_Some)
  from lease.held_until_given [OF inv1 this assms(5,6)]
  show ?thesis
    unfolding list_all_iff lease_holder_iff [OF lease.run_inv [OF inv1]] by blast
qed

text \<open>
  C25. The lease table implements a lock table with expiry: for every sequence of acquisitions and
  releases whose times do not go back, \<open>acquire_lease\<close> and \<open>release_lease\<close> give the answers of the
  abstract lock table and end with the same live holders.\<close>

theorem execution_lease_refines_locks:
  assumes "leases_unique rows" and "expire t0 m = lease_holder t0 rows" and "takes_in_order t0 ops"
  shows "fst (mutex_run lease_take release_lease ops rows) = fst (mutex_run lock_take lock_give ops m)
       \<and> lease_holder (last_time t0 ops) (snd (mutex_run lease_take release_lease ops rows))
           = expire (last_time t0 ops) (snd (mutex_run lock_take lock_give ops m))"
  by (rule lease.run_refines [OF assms order_refl])

definition lease_script :: "(string, string) mutex_op list" where
  "lease_script =
     [Take ''c1'' ''a2'' (seconds 10) 300, Take ''c2'' ''a1'' (seconds 20) 300,
      Take ''c2'' ''a3'' (seconds 30) 300, Give ''a3'', Take ''c2'' ''a2'' (seconds 40) 300]"

definition first_lease :: "autopilot_lease" where
  "first_lease = \<lparr>al_cluster_id = ''c1'', al_action_id = ''a1'', al_acquired_at = 0,
     al_expires_at = seconds 300\<rparr>"

lemma execution_lease_exclusive_witness:
  "(\<exists>l \<in> set (snd (mutex_run lease_take release_lease lease_script [first_lease])).
      al_cluster_id l = ''c1'' \<and> al_action_id l = ''a1'' \<and> al_expires_at l = 0 + seconds 300)
   \<and> fst (mutex_run lease_take release_lease lease_script [first_lease])
       = [False, False, True, True]"
proof -
  have "acquire_lease ''c1'' ''a1'' 0 300 [] = (None, [first_lease])"
    by (simp add: acquire_lease_eq live_leases_def first_lease_def)
  moreover have "leases_unique []" "(0::int) \<le> seconds 40" "seconds 40 < 0 + seconds 300"
    "takes_until (seconds 40) lease_script" "\<not> gives ''a1'' lease_script"
    by (simp_all add: leases_unique_def lease_script_def seconds_def)
  ultimately have "\<exists>l \<in> set (snd (mutex_run lease_take release_lease lease_script [first_lease])).
      al_cluster_id l = ''c1'' \<and> al_action_id l = ''a1'' \<and> al_expires_at l = 0 + seconds 300"
    using execution_lease_exclusive by blast
  moreover have "fst (mutex_run lease_take release_lease lease_script [first_lease])
       = [False, False, True, True]"
    by code_simp
  ultimately show ?thesis by blast
qed

lemma execution_lease_refines_locks_witness:
  "fst (mutex_run lock_take lock_give lease_script (\<lambda>_. None)) = [True, True, False, False]
   \<and> fst (mutex_run lease_take release_lease lease_script []) = [True, True, False, False]"
proof -
  have "expire 0 (\<lambda>_. None) = lease_holder 0 []" "leases_unique []" "takes_in_order 0 lease_script"
    by (simp_all add: expire_def lease_holder_def live_leases_def leases_unique_def lease_script_def
          seconds_def)
  from execution_lease_refines_locks [OF this(2,1,3)]
  have "fst (mutex_run lease_take release_lease lease_script [])
          = fst (mutex_run lock_take lock_give lease_script (\<lambda>_. None))" by blast
  moreover have "fst (mutex_run lease_take release_lease lease_script []) = [True, True, False, False]"
    by code_simp
  ultimately show ?thesis by simp
qed

end
