(* ===== verification/Recovery.thy ===== *)
theory Recovery
  imports Runtime
begin

text \<open>
  What the recovery of expired executions (\<open>worker/autonomy_runtime.py\<close>,
  \<open>reconcile_expired_executions\<close>) does to the tables: a closed form of one row, of the pass over the
  selected rows, and the theorem that a stuck execution is closed once and never re-run.
\<close>

section \<open>What the recovery of expired executions does\<close>

definition orphaned :: "time \<Rightarrow> autopilot_lease list \<Rightarrow> action_row \<Rightarrow> bool" where
  "orphaned now leases a =
     (\<not> list_ex (\<lambda>l. al_action_id l = ac_id a \<and> now < al_expires_at l) leases)"

definition closed_action :: "env \<Rightarrow> action_row \<Rightarrow> action_row" where
  "closed_action e = save_action (ev_now e) (\<lambda>r. r\<lparr>ac_status := AS_INCONCLUSIVE\<rparr>)"

lemma closed_action_simps [simp]:
  "ac_id (closed_action e r) = ac_id r"
  "ac_incident_id (closed_action e r) = ac_incident_id r"
  "ac_classification (closed_action e r) = ac_classification r"
  "ac_status (closed_action e r) = AS_INCONCLUSIVE"
  by (simp_all add: closed_action_def)

lemma closed_action_idem: "closed_action e (closed_action e r) = closed_action e r"
  by (simp add: closed_action_def save_action_def)

lemma record_inconclusive_tables [simp, store_simps]:
  "st_clusters (record_inconclusive e i t why st) = st_clusters st"
  "st_incidents (record_inconclusive e i t why st) = st_incidents st"
  "st_actions (record_inconclusive e i t why st) = st_actions st"
  "st_leases (record_inconclusive e i t why st) = st_leases st"
  "st_assessments (record_inconclusive e i t why st) = st_assessments st"
  by (simp_all add: record_inconclusive_def)

lemma parse_executing: "parse_state (Text (action_status_value AS_EXECUTING)) = Inr EXECUTING"
  by code_simp

lemma executing_locked: "EXECUTING \<in> set locked_states"
  by code_simp

lemma recovery_executing:
  "\<exists>d. recover_after_worker_restart (Text (action_status_value AS_EXECUTING)) live = Inr d
     \<and> td_allowed d = (\<not> live)"
  unfolding recover_after_worker_restart_def parse_executing using executing_locked by simp

lemma orphaned_find:
  assumes "distinct (map al_action_id leases)"
  shows "orphaned now leases a \<longleftrightarrow>
     \<not> (case find_id al_action_id (ac_id a) leases of None \<Rightarrow> False | Some l \<Rightarrow> al_expires_at l > now)"
proof (cases "find_id al_action_id (ac_id a) leases")
  case None
  then have "al_action_id l \<noteq> ac_id a" if "l \<in> set leases" for l
    using that unfolding find_id_none by blast
  with None show ?thesis by (simp add: orphaned_def list_ex_iff)
next
  case (Some l)
  then have l: "l \<in> set leases" "al_action_id l = ac_id a" using find_id_Some by metis+
  have "k = l" if "k \<in> set leases" "al_action_id k = ac_id a" for k
    using find_id_in [OF assms that(1)] that(2) Some by simp
  with l have "(\<exists>k \<in> set leases. al_action_id k = ac_id a \<and> now < al_expires_at k)
      \<longleftrightarrow> now < al_expires_at l" by blast
  with Some show ?thesis by (simp add: orphaned_def list_ex_iff)
qed

definition failed_incident :: "env \<Rightarrow> string \<Rightarrow> incident \<Rightarrow> incident" where
  "failed_incident e note =
     save_incident (ev_now e) (\<lambda>r. diagnosis_note note (incident_to e IS_FAILED r))"

lemma diagnosis_note_simps [simp]:
  "in_id (diagnosis_note note i) = in_id i"
  "in_status (diagnosis_note note i) = in_status i"
  "in_cluster_id (diagnosis_note note i) = in_cluster_id i"
  "in_failed_at (diagnosis_note note i) = in_failed_at i"
  by (simp_all add: diagnosis_note_def)

lemma failed_incident_simps [simp]:
  "in_id (failed_incident e note i) = in_id i"
  "in_status (failed_incident e note i) = IS_FAILED"
  by (simp_all add: failed_incident_def)

lemma recover_expired_eq:
  assumes "ac_status a = AS_EXECUTING" and "distinct (map al_action_id (st_leases st))"
  shows "fst (recover_expired e now a st) = (if orphaned now (st_leases st) a then 1 else 0)"
    and "\<not> orphaned now (st_leases st) a \<Longrightarrow> snd (recover_expired e now a st) = st"
    and "orphaned now (st_leases st) a \<Longrightarrow> st_actions (snd (recover_expired e now a st)) =
           map (\<lambda>r. if ac_id r = ac_id a then closed_action e r else r) (st_actions st)"
    and "orphaned now (st_leases st) a \<Longrightarrow>
           st_leases (snd (recover_expired e now a st)) = release_lease (ac_id a) (st_leases st)"
    and "orphaned now (st_leases st) a \<Longrightarrow> \<exists>note. st_incidents (snd (recover_expired e now a st)) =
           map (\<lambda>i. if in_id i = ac_incident_id a then failed_incident e note i else i)
             (st_incidents st)"
proof -
  define lease where "lease = find_id al_action_id (ac_id a) (st_leases st)"
  define live where "live = (case lease of None \<Rightarrow> False | Some l \<Rightarrow> al_expires_at l > now)"
  have orph: "orphaned now (st_leases st) a \<longleftrightarrow> \<not> live"
    unfolding live_def lease_def by (rule orphaned_find [OF assms(2)])
  obtain d where d: "recover_after_worker_restart (Text (action_status_value AS_EXECUTING)) live = Inr d"
    "td_allowed d = (\<not> live)" using recovery_executing by blast
  define st1 where "st1 = (if lease \<noteq> None then st\<lparr>st_leases := release_lease (ac_id a) (st_leases st)\<rparr>
                           else st)"
  define st2 where "st2 = record_inconclusive e (ac_id a) now (lease_lost_reason lease)
      (edit_action e (ac_id a) (\<lambda>r. r\<lparr>ac_status := AS_INCONCLUSIVE\<rparr>) st1)"
  have leases1: "st_leases st1 = release_lease (ac_id a) (st_leases st)"
  proof (cases lease)
    case None
    then have "\<forall>l \<in> set (st_leases st). al_action_id l \<noteq> ac_id a"
      unfolding lease_def find_id_none by blast
    with None show ?thesis by (simp add: st1_def release_lease_def)
  qed (simp add: st1_def)
  have tables2: "st_leases st2 = release_lease (ac_id a) (st_leases st)"
    "st_actions st2 = map (\<lambda>r. if ac_id r = ac_id a then closed_action e r else r) (st_actions st)"
    "st_incidents st2 = st_incidents st"
    using leases1 by (simp_all add: st2_def edit_action_def closed_action_def st1_def)
  show "\<not> orphaned now (st_leases st) a \<Longrightarrow> snd (recover_expired e now a st) = st"
    unfolding recover_expired_def assms(1) using d orph
    by (simp add: Let_def lease_def [symmetric] live_def [symmetric])
  have run: "recover_expired e now a st =
      (case get_incident st2 (ac_incident_id a) of
         None \<Rightarrow> (1, st2)
       | Some i \<Rightarrow>
           (1, record_event e (in_id i) (Some (ac_id a)) ''autopilot_execution_recovery'' actor_system
                 (Some (doc [(''outcome'', PStr ''INCONCLUSIVE''),
                    (''reason'', PStr (lease_lost_reason lease)), (''auto_retry'', PBool False)]))
                 None None
               (audit_record e (in_id i) (Some (ac_id a)) ''autopilot_execution_inconclusive''
                  actor_system None
                 (edit_incident e (in_id i)
                    (\<lambda>r. diagnosis_note (recovery_note (lease_lost_reason lease))
                       (incident_to e IS_FAILED r)) st2))))"
    if "\<not> live"
    unfolding recover_expired_def assms(1) lease_def [symmetric] live_def [symmetric] d(1) Let_def
      sum.case st2_def st1_def
    using d(2) that by simp
  have missing: "st_incidents st = map (\<lambda>i. if in_id i = ac_incident_id a then failed_incident e n i else i)
             (st_incidents st)" if "get_incident st2 (ac_incident_id a) = None" for n
  proof -
    from that have "\<forall>i \<in> set (st_incidents st). in_id i \<noteq> ac_incident_id a"
      unfolding tables2 find_id_none by blast
    then show ?thesis by (simp add: map_idI)
  qed
  show "fst (recover_expired e now a st) = (if orphaned now (st_leases st) a then 1 else 0)"
  proof (cases live)
    case True
    with orph d show ?thesis
      unfolding recover_expired_def assms(1)
      by (simp add: Let_def lease_def [symmetric] live_def [symmetric])
  next
    case False
    with orph run [OF False] show ?thesis by (simp split: option.split)
  qed
  assume "orphaned now (st_leases st) a"
  with orph have gone: "\<not> live" by blast
  show "st_actions (snd (recover_expired e now a st)) =
           map (\<lambda>r. if ac_id r = ac_id a then closed_action e r else r) (st_actions st)"
    unfolding run [OF gone] using tables2 by (simp split: option.split)
  show "st_leases (snd (recover_expired e now a st)) = release_lease (ac_id a) (st_leases st)"
    unfolding run [OF gone] using tables2 by (simp split: option.split)
  show "\<exists>note. st_incidents (snd (recover_expired e now a st)) =
           map (\<lambda>i. if in_id i = ac_incident_id a then failed_incident e note i else i)
             (st_incidents st)"
  proof (cases "get_incident st2 (ac_incident_id a)")
    case None
    then show ?thesis unfolding run [OF gone] using missing [OF None] tables2 by auto
  next
    case (Some i)
    then have "in_id i = ac_incident_id a" using find_id_Some by metis
    with Some show ?thesis unfolding run [OF gone] using tables2
      by (auto simp: edit_incident_def failed_incident_def)
  qed
qed


text \<open>The pass over the selected actions.\<close>

lemma orphaned_release:
  "ac_id y \<noteq> ac_id x \<Longrightarrow> orphaned now (release_lease (ac_id x) leases) y = orphaned now leases y"
  by (auto simp: orphaned_def release_lease_def list_ex_iff)

definition closed_by :: "time \<Rightarrow> autopilot_lease list \<Rightarrow> action_row list \<Rightarrow> string \<Rightarrow> bool" where
  "closed_by now leases as i = list_ex (\<lambda>a. orphaned now leases a \<and> ac_id a = i) as"

definition failed_by :: "time \<Rightarrow> autopilot_lease list \<Rightarrow> action_row list \<Rightarrow> string \<Rightarrow> bool" where
  "failed_by now leases as i = list_ex (\<lambda>a. orphaned now leases a \<and> ac_incident_id a = i) as"

lemma closed_by_Cons:
  "closed_by now leases (a # as) i \<longleftrightarrow>
     orphaned now leases a \<and> ac_id a = i \<or> closed_by now leases as i"
  "failed_by now leases (a # as) i \<longleftrightarrow>
     orphaned now leases a \<and> ac_incident_id a = i \<or> failed_by now leases as i"
  by (simp_all add: closed_by_def failed_by_def)

lemma recover_expired_rows_eq:
  assumes "list_all (\<lambda>a. ac_status a = AS_EXECUTING) as" and "distinct (map ac_id as)"
    and "distinct (map al_action_id (st_leases st))"
  shows "fst (recover_expired_rows e now as st) = length (filter (orphaned now (st_leases st)) as)
    \<and> st_actions (snd (recover_expired_rows e now as st)) =
         map (\<lambda>r. if closed_by now (st_leases st) as (ac_id r) then closed_action e r else r)
           (st_actions st)
    \<and> st_leases (snd (recover_expired_rows e now as st)) =
         filter (\<lambda>l. \<not> closed_by now (st_leases st) as (al_action_id l)) (st_leases st)
    \<and> map (\<lambda>i. (in_id i, in_status i)) (st_incidents (snd (recover_expired_rows e now as st))) =
         map (\<lambda>i. (in_id i, if failed_by now (st_leases st) as (in_id i) then IS_FAILED
                            else in_status i)) (st_incidents st)"
  using assms
proof (induction as arbitrary: st)
  case Nil
  then show ?case by (simp add: closed_by_def failed_by_def)
next
  case (Cons a as)
  define st1 where "st1 = snd (recover_expired e now a st)"
  have a: "ac_status a = AS_EXECUTING" and ex: "list_all (\<lambda>a. ac_status a = AS_EXECUTING) as"
    and new: "ac_id a \<notin> ac_id ` set as" and ds: "distinct (map ac_id as)"
    and dl: "distinct (map al_action_id (st_leases st))"
    using Cons.prems by auto
  note one = recover_expired_eq [OF a dl, where e = e and now = now]
  have orph: "orphaned now (st_leases st1) b = orphaned now (st_leases st) b" if "b \<in> set as" for b
  proof -
    from that new have "ac_id b \<noteq> ac_id a" by (metis image_eqI)
    with one(2,4) orphaned_release [of b a now "st_leases st"] show ?thesis
      unfolding st1_def by (cases "orphaned now (st_leases st) a") auto
  qed
  have dl1: "distinct (map al_action_id (st_leases st1))"
    using dl one(2,4) unfolding st1_def
    by (cases "orphaned now (st_leases st) a") (simp_all add: release_lease_def distinct_map_filter)
  have by1: "closed_by now (st_leases st1) as = closed_by now (st_leases st) as"
    "failed_by now (st_leases st1) as = failed_by now (st_leases st) as"
    using orph unfolding closed_by_def failed_by_def list_ex_iff fun_eq_iff by blast+
  have count: "filter (orphaned now (st_leases st1)) as = filter (orphaned now (st_leases st)) as"
    using orph by (rule filter_cong [OF refl])
  note rest = Cons.IH [OF ex ds dl1, unfolded by1 count]
  have run: "fst (recover_expired_rows e now (a # as) st)
        = fst (recover_expired e now a st) + fst (recover_expired_rows e now as st1)"
    "snd (recover_expired_rows e now (a # as) st) = snd (recover_expired_rows e now as st1)"
    by (simp_all add: st1_def Let_def case_prod_unfold)
  show ?case
  proof (cases "orphaned now (st_leases st) a")
    case False
    have "st1 = st" unfolding st1_def by (rule one(2) [OF False])
    with rest False one(1) show ?thesis unfolding run by (simp add: closed_by_Cons)
  next
    case True
    obtain n where incs: "st_incidents st1 =
        map (\<lambda>i. if in_id i = ac_incident_id a then failed_incident e n i else i) (st_incidents st)"
      using one(5) [OF True] unfolding st1_def by blast
    have acts: "st_actions st1 =
        map (\<lambda>r. if ac_id r = ac_id a then closed_action e r else r) (st_actions st)"
      unfolding st1_def by (rule one(3) [OF True])
    have leases: "st_leases st1 = filter (\<lambda>l. al_action_id l \<noteq> ac_id a) (st_leases st)"
      unfolding st1_def one(4) [OF True] release_lease_def ..
    show ?thesis
      unfolding run
    proof (intro conjI)
      show "fst (recover_expired e now a st) + fst (recover_expired_rows e now as st1)
          = length (filter (orphaned now (st_leases st)) (a # as))"
        using rest one(1) True by simp
      show "st_actions (snd (recover_expired_rows e now as st1)) =
         map (\<lambda>r. if closed_by now (st_leases st) (a # as) (ac_id r) then closed_action e r else r)
           (st_actions st)"
        unfolding conjunct1 [OF conjunct2 [OF rest]] acts
        by (auto simp: closed_by_Cons True closed_action_idem)
      show "st_leases (snd (recover_expired_rows e now as st1)) =
         filter (\<lambda>l. \<not> closed_by now (st_leases st) (a # as) (al_action_id l)) (st_leases st)"
        unfolding conjunct1 [OF conjunct2 [OF conjunct2 [OF rest]]] leases filter_filter
        by (rule filter_cong) (auto simp: closed_by_Cons True)
      show "map (\<lambda>i. (in_id i, in_status i)) (st_incidents (snd (recover_expired_rows e now as st1))) =
         map (\<lambda>i. (in_id i, if failed_by now (st_leases st) (a # as) (in_id i) then IS_FAILED
                            else in_status i)) (st_incidents st)"
        unfolding conjunct2 [OF conjunct2 [OF conjunct2 [OF rest]]] incs
        by (auto simp: closed_by_Cons True)
    qed
  qed
qed


text \<open>An automatic execution that no live lease covers.\<close>

definition stuck_execution :: "time \<Rightarrow> store \<Rightarrow> action_row \<Rightarrow> bool" where
  "stuck_execution now st a =
     (ac_status a = AS_EXECUTING \<and> ac_classification a = ''SAFE'' \<and> orphaned now (st_leases st) a)"

lemma closed_by_selected:
  assumes "distinct (map ac_id (st_actions st))" and "r \<in> set (st_actions st)"
  shows "closed_by now (st_leases st)
           (filter (\<lambda>a. ac_status a = AS_EXECUTING \<and> ac_classification a = ''SAFE'') (st_actions st))
           (ac_id r) \<longleftrightarrow> stuck_execution now st r"
proof -
  have "a = r" if "a \<in> set (st_actions st)" "ac_id a = ac_id r" for a
    using assms that by (metis find_id_in option.inject)
  with assms(2) show ?thesis
    unfolding closed_by_def stuck_execution_def list_ex_iff set_filter by blast
qed

lemma recover_live_rows:
  assumes "list_all (\<lambda>a. ac_status a = AS_EXECUTING \<and> \<not> orphaned now (st_leases st) a) as"
    and "distinct (map al_action_id (st_leases st))"
  shows "recover_expired_rows e now as st = (0, st)"
  using assms
proof (induction as)
  case Nil
  then show ?case by simp
next
  case (Cons a as)
  then have "recover_expired e now a st = (0, st)"
    using recover_expired_eq(1,2) [of a st, where e = e and now = now] by (simp add: prod_eq_iff)
  with Cons show ?case by simp
qed

text \<open>
  C26. A stopped worker's automatic executions are closed and never run again: one pass moves exactly
  the \<open>SAFE\<close> actions in EXECUTING without a live lease to INCONCLUSIVE, their incidents to FAILED, and
  leaves every other action as it was; it deletes their leases only, counts them, and a second pass at
  the same time does nothing.\<close>

theorem expired_execution_closed_once:
  assumes "distinct (map ac_id (st_actions st))" and "distinct (map al_action_id (st_leases st))"
    and "reconcile_expired_executions e now st = (n, st')"
  shows "n = length (filter (stuck_execution now st) (st_actions st))
    \<and> st_actions st' = map (\<lambda>a. if stuck_execution now st a then closed_action e a else a)
        (st_actions st)
    \<and> map in_status (st_incidents st') = map (\<lambda>i.
        if list_ex (\<lambda>a. stuck_execution now st a \<and> ac_incident_id a = in_id i) (st_actions st)
        then IS_FAILED else in_status i) (st_incidents st)
    \<and> st_leases st' = filter (\<lambda>l. \<not> list_ex (\<lambda>a. stuck_execution now st a
        \<and> ac_id a = al_action_id l) (st_actions st)) (st_leases st)
    \<and> reconcile_expired_executions e now st' = (0, st')"
proof -
  let ?sel = "filter (\<lambda>a. ac_status a = AS_EXECUTING \<and> ac_classification a = ''SAFE'')"
  let ?as = "?sel (st_actions st)"
  have sel: "list_all (\<lambda>a. ac_status a = AS_EXECUTING) ?as" "distinct (map ac_id ?as)"
    using assms(1) by (simp_all add: list_all_iff distinct_map_filter)
  have pass: "recover_expired_rows e now ?as st = (n, st')"
    using assms(3) by (simp add: reconcile_expired_executions_def)
  note eqs = recover_expired_rows_eq [OF sel assms(2), where e = e and now = now, unfolded pass fst_conv snd_conv]
  have cnt: "filter (orphaned now (st_leases st)) ?as = filter (stuck_execution now st) (st_actions st)"
    by (auto simp: stuck_execution_def intro: filter_cong)
  have acts: "st_actions st' = map (\<lambda>a. if stuck_execution now st a then closed_action e a else a)
        (st_actions st)"
    using eqs closed_by_selected [OF assms(1)] by (auto cong: map_cong)
  have by_act: "closed_by now (st_leases st) ?as i
      = list_ex (\<lambda>a. stuck_execution now st a \<and> ac_id a = i) (st_actions st)" for i
    by (auto simp: closed_by_def stuck_execution_def list_ex_iff)
  have by_inc: "failed_by now (st_leases st) ?as i
      = list_ex (\<lambda>a. stuck_execution now st a \<and> ac_incident_id a = i) (st_actions st)" for i
    by (auto simp: failed_by_def stuck_execution_def list_ex_iff)
  have incs: "map in_status (st_incidents st') = map (\<lambda>i.
        if list_ex (\<lambda>a. stuck_execution now st a \<and> ac_incident_id a = in_id i) (st_actions st)
        then IS_FAILED else in_status i) (st_incidents st)"
    using arg_cong [of _ _ "map snd", OF conjunct2 [OF conjunct2 [OF conjunct2 [OF eqs]]]]
    by (simp add: comp_def by_inc)
  have leases: "st_leases st' = filter (\<lambda>l. \<not> list_ex (\<lambda>a. stuck_execution now st a
        \<and> ac_id a = al_action_id l) (st_actions st)) (st_leases st)"
    using eqs by (simp add: by_act)
  have "\<not> orphaned now (st_leases st') a" if a: "a \<in> set (?sel (st_actions st'))" for a
  proof -
    from a acts have a': "a \<in> set (st_actions st)" "\<not> stuck_execution now st a"
      "ac_status a = AS_EXECUTING" "ac_classification a = ''SAFE''"
      by (auto split: if_splits)
    then have "\<not> orphaned now (st_leases st) a" by (simp add: stuck_execution_def)
    then obtain l where l: "l \<in> set (st_leases st)" "al_action_id l = ac_id a" "now < al_expires_at l"
      by (auto simp: orphaned_def list_ex_iff)
    have "b = a" if "b \<in> set (st_actions st)" "ac_id b = ac_id a" for b
      using assms(1) that a'(1) by (metis find_id_in option.inject)
    with a'(2) l(1,2) have "l \<in> set (st_leases st')" unfolding leases by (auto simp: list_ex_iff)
    with l show ?thesis by (auto simp: orphaned_def list_ex_iff)
  qed
  then have "list_all (\<lambda>a. ac_status a = AS_EXECUTING \<and> \<not> orphaned now (st_leases st') a)
      (?sel (st_actions st'))" by (simp add: list_all_iff)
  moreover have "distinct (map al_action_id (st_leases st'))"
    using assms(2) by (simp add: leases distinct_map_filter)
  ultimately have "reconcile_expired_executions e now st' = (0, st')"
    unfolding reconcile_expired_executions_def by (rule recover_live_rows)
  with eqs acts incs leases cnt show ?thesis by simp
qed


definition stopped_worker_store :: store where
  "stopped_worker_store = lab_store\<lparr>
     st_actions := [lab_action\<lparr>ac_status := AS_EXECUTING\<rparr>,
                    lab_action\<lparr>ac_id := ''a2'', ac_incident_id := ''i2'', ac_status := AS_EXECUTING\<rparr>],
     st_leases := [\<lparr>al_cluster_id = ''c1'', al_action_id = ''a1'', al_acquired_at = 0, al_expires_at = 5\<rparr>,
                   \<lparr>al_cluster_id = ''c2'', al_action_id = ''a2'', al_acquired_at = 0, al_expires_at = 9\<rparr>]\<rparr>"

lemma expired_execution_closed_once_witness:
  "map ac_status (st_actions (snd (reconcile_expired_executions lab_env 5 stopped_worker_store)))
     = [AS_INCONCLUSIVE, AS_EXECUTING]
   \<and> map in_status (st_incidents (snd (reconcile_expired_executions lab_env 5 stopped_worker_store)))
     = [IS_FAILED]
   \<and> map al_action_id (st_leases (snd (reconcile_expired_executions lab_env 5 stopped_worker_store)))
     = [''a2'']"
proof -
  let ?st = stopped_worker_store
  have acts: "st_actions ?st = [lab_action\<lparr>ac_status := AS_EXECUTING\<rparr>,
      lab_action\<lparr>ac_id := ''a2'', ac_incident_id := ''i2'', ac_status := AS_EXECUTING\<rparr>]"
    and leases: "st_leases ?st =
     [\<lparr>al_cluster_id = ''c1'', al_action_id = ''a1'', al_acquired_at = 0, al_expires_at = 5\<rparr>,
      \<lparr>al_cluster_id = ''c2'', al_action_id = ''a2'', al_acquired_at = 0, al_expires_at = 9\<rparr>]"
    and incs: "st_incidents ?st = [lab_incident]"
    by (simp_all add: stopped_worker_store_def lab_store_def)
  have "distinct (map ac_id (st_actions ?st))" "distinct (map al_action_id (st_leases ?st))"
    unfolding acts leases by (simp_all add: lab_action_def)
  from expired_execution_closed_once [OF this, of lab_env 5] show ?thesis
    unfolding acts leases incs
    by (simp add: case_prod_unfold stuck_execution_def orphaned_def leases lab_action_def lab_incident_def
          prod_eq_iff)
qed

end
