(* ===== verification/Verification.thy ===== *)
theory Verification
  imports CaseMemory IncidentOutbox TelegramOutbox
begin

text \<open>
  Verification after a remediation (\<open>watcher/verify.py\<close>): one pass over the incidents whose
  verification is due, the post-check of their last executed action and the three ways out of
  VERIFYING; the families of codes a monitor owns (\<open>watcher/ceph_code_families.py\<close>), the quiet
  period before a generic check is resolved (\<open>watcher/resolve_grace.py\<close>) and the message of a new
  diagnosis (\<open>watcher/publisher.py\<close>).
\<close>

section \<open>Families of codes\<close>

definition exact_codes :: "string list" where
  "exact_codes =
     [''CHAT_REQUEST'', ''CLUSTER_UPGRADE'', ''DATABASE_SIZE_HIGH'', ''CRUSH_SKEW_USE'', ''CRUSH_SKEW_PG'']"

definition code_prefixes :: "string list" where
  "code_prefixes =
     [''VOLUME_SATURATED:'', ''DEVICE_HEALTH_EVACUATE:'', ''NODE_RESOURCE_HIGH:'',
      ''BLUESTORE_NO_PER_POOL_OMAP:'', ''OSD_LATENCY_HIGH:'', ''CRUSH_SKEW_USE:'', ''CRUSH_SKEW_PG:'']"

definition is_monitor_owned :: "string \<Rightarrow> bool" where
  "is_monitor_owned code =
     (code \<noteq> [] \<and> (code \<in> set exact_codes \<or> list_ex (starts_with code) code_prefixes))"

section \<open>The quiet period\<close>

datatype grace_verdict = GV_PRESENT | GV_HOLD | GV_RECURRED | GV_RESOLVE

type_synonym absent_since = "(string option \<times> string \<times> time) list"

definition absence :: "absent_since \<Rightarrow> string option \<Rightarrow> string \<Rightarrow> time option" where
  "absence since cluster code =
     map_option (\<lambda>e. snd (snd e)) (find (\<lambda>e. fst e = cluster \<and> fst (snd e) = code) since)"

definition forget :: "string option \<Rightarrow> string \<Rightarrow> absent_since \<Rightarrow> absent_since" where
  "forget cluster code since = filter (\<lambda>e. \<not> (fst e = cluster \<and> fst (snd e) = code)) since"

definition decide ::
  "int \<Rightarrow> string option \<Rightarrow> string \<Rightarrow> bool \<Rightarrow> time \<Rightarrow> absent_since \<Rightarrow> grace_verdict \<times> absent_since" where
  "decide grace_seconds cluster code present now since =
     (if present
      then (case absence since cluster code of
              Some _ \<Rightarrow> (GV_RECURRED, forget cluster code since)
            | None \<Rightarrow> (GV_PRESENT, since))
      else if grace_seconds \<le> 0 then (GV_RESOLVE, since)
      else
        (case absence since cluster code of
           None \<Rightarrow>
             (if 0 < seconds grace_seconds then (GV_HOLD, since @ [(cluster, code, now)])
              else (GV_RESOLVE, since))
         | Some t \<Rightarrow>
             (if now - t < seconds grace_seconds then (GV_HOLD, since)
              else (GV_RESOLVE, forget cluster code since))))"

section \<open>The message of a diagnosis\<close>

record ssh_creds =
  sc_user :: string
  sc_key_path :: string
  sc_exec_mode :: string
  sc_container_name :: string

definition build_envelope ::
  "string \<Rightarrow> string \<Rightarrow> string \<Rightarrow> string list \<Rightarrow> string \<Rightarrow> pyval \<Rightarrow> string option \<Rightarrow> ssh_creds
     \<Rightarrow> (string \<times> pyval) list \<Rightarrow> pyval list \<Rightarrow> pyval" where
  "build_envelope incident_id ceph_code detected_at nodes log_excerpt snapshot cluster_id creds
     osd_hosts previous_attempts =
     doc [(''schema_version'', PStr ''1.0''), (''incident_id'', PStr incident_id),
          (''ceph_code'', PStr ceph_code), (''detected_at'', PStr detected_at),
          (''nodes'', PList (map PStr nodes)), (''osd_hosts'', doc osd_hosts),
          (''previous_attempts'', PList previous_attempts), (''log_excerpt'', PStr log_excerpt),
          (''cluster_snapshot'', snapshot), (''cluster_id'', opt_py cluster_id),
          (''ssh_user'', PStr (sc_user creds)), (''ssh_key_path'', PStr (sc_key_path creds)),
          (''ceph_exec_mode'', PStr (sc_exec_mode creds)),
          (''ceph_container_name'', PStr (sc_container_name creds))]"

section \<open>What the pass reads\<close>

definition log_anomaly_prefix :: string where
  "log_anomaly_prefix = ''LOG_ANOMALY:''"

text \<open>SQL \<open>LIKE\<close> with its two wildcards.\<close>

fun sql_like :: "string \<Rightarrow> string \<Rightarrow> bool" where
  "sql_like [] s = (s = [])"
| "sql_like (p # ps) s =
     (if p = CHR ''%'' then list_ex (\<lambda>n. sql_like ps (drop n s)) [0..<Suc (length s)]
      else (case s of [] \<Rightarrow> False | c # cs \<Rightarrow> (p = CHR ''_'' \<or> p = c) \<and> sql_like ps cs))"

definition incident_display_name :: "store \<Rightarrow> incident \<Rightarrow> string option" where
  "incident_display_name st i =
     (if \<not> starts_with (in_ceph_code i) log_anomaly_prefix then None
      else
        (let short_key = drop (length log_anomaly_prefix) (in_ceph_code i) in
         case first_by (\<lambda>f. - lf_created_at f)
                (filter (\<lambda>f. in_cluster_id i = Some (lf_cluster_id f)
                           \<and> sql_like (short_key @ ''%'') (lf_dedupe_key f)) (st_findings st)) of
           Some f \<Rightarrow> Some (if opt_truthy (lf_title f) then or_empty (lf_title f)
                           else (''L'' @ [CHR 0xE1, CHR 0xBB, CHR 0x97] @ ''i '' @
       [CHR 0xC4, CHR 0x91, CHR 0xC6, CHR 0xB0, CHR 0xE1, CHR 0xBB, CHR 0xA3] @
       ''c ph'' @ [CHR 0xC3, CHR 0xA1] @ ''t hi'' @ [CHR 0xE1, CHR 0xBB, CHR 0x87] @
       ''n t'' @ [CHR 0xE1, CHR 0xBB, CHR 0xAB] @ '' log''))
         | None \<Rightarrow> Some (''L'' @ [CHR 0xE1, CHR 0xBB, CHR 0x97] @ ''i '' @
       [CHR 0xC4, CHR 0x91, CHR 0xC6, CHR 0xB0, CHR 0xE1, CHR 0xBB, CHR 0xA3] @
       ''c ph'' @ [CHR 0xC3, CHR 0xA1] @ ''t hi'' @ [CHR 0xE1, CHR 0xBB, CHR 0x87] @
       ''n t'' @ [CHR 0xE1, CHR 0xBB, CHR 0xAB] @ '' log'')))"

text \<open>The order \<open>executed_at DESC\<close> puts the rows without a time first; \<open>ASC\<close> puts them last.\<close>

definition executed_desc :: "action_row \<Rightarrow> bool \<times> int" where
  "executed_desc a = (case ac_executed_at a of None \<Rightarrow> (False, 0) | Some t \<Rightarrow> (True, - t))"

definition executed_asc :: "action_row \<Rightarrow> bool \<times> int" where
  "executed_asc a = (case ac_executed_at a of None \<Rightarrow> (True, 0) | Some t \<Rightarrow> (False, t))"

definition last_attempted_command :: "store \<Rightarrow> string \<Rightarrow> string option" where
  "last_attempted_command st incident_id =
     (case first_by executed_desc (filter (\<lambda>a. ac_incident_id a = incident_id
             \<and> ac_status a = AS_EXECUTED) (st_actions st)) of
        None \<Rightarrow> None
      | Some a \<Rightarrow> ac_proposed_command a)"

definition previous_attempts :: "store \<Rightarrow> string \<Rightarrow> pyval list" where
  "previous_attempts st incident_id =
     map (\<lambda>a. doc [(''action_id'', PStr (ac_action_id a)),
                   (''command'', opt_py (ac_proposed_command a)),
                   (''executed_at'', opt_py (map_option isoformat (ac_executed_at a)))])
       (sort_by executed_asc (filter (\<lambda>a. ac_incident_id a = incident_id
             \<and> ac_status a = AS_EXECUTED) (st_actions st)))"

definition nodes_from_last_action :: "store \<Rightarrow> string \<Rightarrow> string list" where
  "nodes_from_last_action st incident_id =
     (case first_by (\<lambda>a. - ac_created_at a)
             (filter (\<lambda>a. ac_incident_id a = incident_id) (st_actions st)) of
        None \<Rightarrow> []
      | Some a \<Rightarrow>
          (case ac_target_nodes a of
             Some (JText v) \<Rightarrow> [s. PStr s \<leftarrow> elems_of v]
           | _ \<Rightarrow> []))"

section \<open>The post-check of the last executed action\<close>

definition latest_executed :: "store \<Rightarrow> string \<Rightarrow> action_row option" where
  "latest_executed st incident_id =
     first_by executed_desc (filter (\<lambda>a. ac_incident_id a = incident_id
       \<and> ac_status a \<in> {AS_EXECUTED, AS_AUTO_EXECUTED}) (st_actions st))"

definition postcheck_contract_of :: "pyval \<Rightarrow> pyval" where
  "postcheck_contract_of snapshot =
     (if is_dict snapshot then dget snapshot ''postcheck_contract'' else PDict [])"

definition timed_out :: "int \<Rightarrow> time \<Rightarrow> time option \<Rightarrow> bool" where
  "timed_out timeout_seconds now executed_at =
     (timeout_seconds \<le> 0 \<or> timeout_seconds > 24 * 60 * 60
      \<or> (case executed_at of None \<Rightarrow> False | Some t \<Rightarrow> now \<ge> t + seconds timeout_seconds))"

definition evaluate_case_postcheck ::
  "action_row \<Rightarrow> remediation_case \<Rightarrow> bool \<Rightarrow> pyval \<Rightarrow> time \<Rightarrow> py_exn + postcheck_result" where
  "evaluate_case_postcheck a c fault_present health now =
     (let snapshot = (case rc_preflight_snapshot_json c of Some (JText v) \<Rightarrow> v | _ \<Rightarrow> PNone) in
      case resolve_case_postcheck (ac_action_id a) (rc_playbook_version c) snapshot of
        Inl x \<Rightarrow> Inl x
      | Inr (Inl err) \<Rightarrow> Inr (presult PC_INCONCLUSIVE (ContractError err) None)
      | Inr (Inr hook_id) \<Rightarrow>
          (let pc = postcheck_contract_of snapshot;
               health_floor = (if is_dict pc
                               then dget_default pc ''health_floor'' (PStr ''NO_NEW_CRITICAL'')
                               else PStr ''NO_NEW_CRITICAL'');
               timeout = (if is_dict pc then dget_default pc ''timeout_seconds'' (PInt 300)
                          else PInt 300)
           in case py_int timeout of
                None \<Rightarrow> Inr (presult PC_INCONCLUSIVE TimeoutMalformed None)
              | Some n \<Rightarrow>
                  (if timed_out n now (ac_executed_at a)
                   then Inr (presult PC_INCONCLUSIVE (TimeoutExceeded n) None)
                   else run_postcheck hook_id fault_present health health_floor)))"

definition evaluate_latest_postcheck ::
  "store \<Rightarrow> incident \<Rightarrow> string list \<Rightarrow> pyval \<Rightarrow> time
     \<Rightarrow> py_exn + postcheck_result \<times> action_row option" where
  "evaluate_latest_postcheck st i current_codes health now =
     (case latest_executed st (in_id i) of
        None \<Rightarrow> Inr (presult PC_INCONCLUSIVE NoExecutedAction None, None)
      | Some a \<Rightarrow>
          (let fault_present = (in_ceph_code i \<in> set current_codes) in
           case get_case st (ac_id a) of
             None \<Rightarrow>
               Inr (presult (if fault_present then PC_FAILED else PC_PASSED) LegacyFaultAbsence None,
                    Some a)
           | Some c \<Rightarrow>
               (if rc_preflight_snapshot_json c = None
                then Inr (presult (if fault_present then PC_FAILED else PC_PASSED)
                            LegacyFaultAbsence None, Some a)
                else
                  (case evaluate_case_postcheck a c fault_present health now of
                     Inl x \<Rightarrow> Inl x
                   | Inr r \<Rightarrow> Inr (r, Some a)))))"

fun resolve_error_text :: "resolve_error \<Rightarrow> string" where
  "resolve_error_text SnapshotMalformed = ''case contract snapshot is missing or malformed''"
| "resolve_error_text NoRegisteredContract = ''case has no registered playbook contract''"
| "resolve_error_text ActionIdMismatch = ''case contract action_id does not match executed action''"
| "resolve_error_text VersionMismatch =
     ''case contract version does not match frozen playbook_version''"
| "resolve_error_text (HookNotRegistered v) =
     ''case postcheck hook '' @ py_repr v @ '' is not registered''"
| "resolve_error_text NoInverseRegistered = ''no tested inverse action is registered''"
| "resolve_error_text RollbackNotRegistered = ''rollback action is not registered''"
| "resolve_error_text RollbackIsOriginal = ''rollback action cannot be the original action''"

fun postcheck_reason_text :: "postcheck_reason \<Rightarrow> string" where
  "postcheck_reason_text FaultStillPresent = ''fault family is still present in fresh telemetry''"
| "postcheck_reason_text FaultAbsent = ''fault family is absent from fresh telemetry''"
| "postcheck_reason_text (HookUnresolvable h) =
     ''postcheck hook '' @ py_repr (PStr h) @ '' cannot be resolved''"
| "postcheck_reason_text (FloorUnresolvable v) =
     ''health floor '' @ py_repr v @ '' cannot be resolved''"
| "postcheck_reason_text FloorViolated = ''health floor violated by critical fresh telemetry''"
| "postcheck_reason_text NoExecutedAction = ''no executed action exists for verification''"
| "postcheck_reason_text LegacyFaultAbsence = ''legacy action verified by fault absence''"
| "postcheck_reason_text (ContractError e) = resolve_error_text e"
| "postcheck_reason_text TimeoutMalformed = ''post-check timeout contract is malformed''"
| "postcheck_reason_text (TimeoutExceeded n) =
     ''post-check timeout exceeded ('' @ int_text n @ ''s); operator review required''"

section \<open>One incident\<close>

record verify_config =
  vc_max_attempts :: int
  vc_creds :: ssh_creds

text \<open>
  The counts of a pass, the notifications (event id and the alert function that sends it) and the
  envelopes it has queued, and the transaction's view of the tables.
\<close>

record verify_run =
  vr_verified :: nat
  vr_retried :: nat
  vr_exhausted :: nat
  vr_notices :: "(string \<times> string) list"
  vr_envelopes :: "(string \<times> pyval) list"
  vr_store :: store

definition outbox_env :: "env \<Rightarrow> string \<Rightarrow> enqueue_env" where
  "outbox_env e uid = \<lparr>ee_sha = ev_sha e, ee_now = ev_now e, ee_uid = uid\<rparr>"

definition cluster_creds :: "ssh_creds \<Rightarrow> cluster option \<Rightarrow> ssh_creds" where
  "cluster_creds fallback c =
     (case c of None \<Rightarrow> fallback
      | Some r \<Rightarrow> \<lparr>sc_user = cl_ssh_user r, sc_key_path = cl_ssh_key_path r,
                   sc_exec_mode = cl_ceph_exec_mode r, sc_container_name = cl_ceph_container_name r\<rparr>)"

definition leave_verifying :: "env \<Rightarrow> incident_status \<Rightarrow> incident \<Rightarrow> incident" where
  "leave_verifying e s r = (incident_to e s r)\<lparr>in_verify_after := None\<rparr>"

definition close_inconclusive ::
  "env \<Rightarrow> time \<Rightarrow> incident \<Rightarrow> postcheck_result \<Rightarrow> action_row option \<Rightarrow> store \<Rightarrow> store" where
  "close_inconclusive e now i r action st =
     audit_record e (in_id i) (map_option ac_id action) ''playbook_postcheck_inconclusive''
       actor_system None
       (case action of
          None \<Rightarrow> edit_incident e (in_id i) (leave_verifying e IS_FAILED) st
        | Some a \<Rightarrow> record_inconclusive e (ac_id a) now (postcheck_reason_text (pr_reason r))
                     (edit_incident e (in_id i) (leave_verifying e IS_FAILED) st))"

definition close_verified ::
  "env \<Rightarrow> time \<Rightarrow> pyval \<Rightarrow> incident \<Rightarrow> verify_run \<Rightarrow> py_exn + verify_run" where
  "close_verified e now health i v =
     (let st0 = edit_incident e (in_id i) (leave_verifying e IS_RESOLVED) (vr_store v);
          command = last_attempted_command st0 (in_id i);
          st1 = record_verified e (in_id i) True now health
                  (audit_record e (in_id i) None ''incident_fix_verified'' actor_system None st0);
          (uid, st2) = draw e st1
      in case enqueue_incident_verified_alert (outbox_env e uid) (st_clusters st2) (st_incidents st2)
                (in_id i) (in_ceph_code i) command (incident_display_name st2 i) (st_notices st2) of
           (Inl x, _) \<Rightarrow> Inl x
         | (Inr ev, rows) \<Rightarrow>
             Inr (v\<lparr>vr_verified := vr_verified v + 1,
                    vr_notices := vr_notices v @ [(ev, ''send_incident_verified_alert'')],
                    vr_store := st2\<lparr>st_notices := rows\<rparr>\<rparr>))"

definition give_up ::
  "env \<Rightarrow> time \<Rightarrow> pyval \<Rightarrow> incident \<Rightarrow> int \<Rightarrow> verify_run \<Rightarrow> py_exn + verify_run" where
  "give_up e now health i attempts v =
     (let st0 = edit_incident e (in_id i)
                  (\<lambda>r. leave_verifying e IS_FAILED (r\<lparr>in_verify_attempts := attempts\<rparr>)) (vr_store v);
          st1 = record_verified e (in_id i) False now health
                  (audit_record e (in_id i) None ''incident_fix_gave_up'' actor_system None st0);
          (uid, st2) = draw e st1
      in case enqueue_incident_verify_exhausted_alert (outbox_env e uid) (st_clusters st2)
                (st_incidents st2) (in_id i) (in_ceph_code i) attempts (st_notices st2) of
           (Inl x, _) \<Rightarrow> Inl x
         | (Inr ev, rows) \<Rightarrow>
             Inr (v\<lparr>vr_exhausted := vr_exhausted v + 1,
                    vr_notices := vr_notices v @ [(ev, ''send_incident_verify_exhausted_alert'')],
                    vr_store := st2\<lparr>st_notices := rows\<rparr>\<rparr>))"

definition retry_event_id :: "string \<Rightarrow> int \<Rightarrow> string" where
  "retry_event_id incident_id attempts =
     ''incident:'' @ incident_id @ '':diagnose:retry:'' @ int_text attempts"

definition diagnose_again ::
  "verify_config \<Rightarrow> env \<Rightarrow> time \<Rightarrow> pyval \<Rightarrow> cluster option \<Rightarrow> string option \<Rightarrow> incident \<Rightarrow> int
     \<Rightarrow> verify_run \<Rightarrow> verify_run" where
  "diagnose_again cfg e now health cluster cluster_id i attempts v =
     (let st0 = edit_incident e (in_id i)
                  (\<lambda>r. leave_verifying e IS_DIAGNOSING (r\<lparr>in_verify_attempts := attempts\<rparr>))
                  (vr_store v);
          st1 = audit_record e (in_id i) None ''incident_fix_not_effective'' actor_system None st0;
          envelope = build_envelope (in_id i) (in_ceph_code i) (isoformat now)
            (nodes_from_last_action st1 (in_id i)) (or_empty (in_log_excerpt i))
            (por health (PDict [])) cluster_id (cluster_creds (vc_creds cfg) cluster) []
            (previous_attempts st1 (in_id i));
          (uid, st2) = draw e st1;
          (ev, rows) = enqueue (ev_sha e) (ev_now e) uid (in_id i) envelope
            (Some (retry_event_id (in_id i) attempts)) (st_outbox st2)
      in v\<lparr>vr_retried := vr_retried v + 1, vr_envelopes := vr_envelopes v @ [(ev, envelope)],
           vr_store := st2\<lparr>st_outbox := rows\<rparr>\<rparr>)"

definition verify_incident ::
  "verify_config \<Rightarrow> env \<Rightarrow> time \<Rightarrow> string list \<Rightarrow> pyval \<Rightarrow> cluster option \<Rightarrow> string option \<Rightarrow> incident
     \<Rightarrow> verify_run \<Rightarrow> py_exn + verify_run" where
  "verify_incident cfg e now current_codes health cluster cluster_id i v =
     (if is_monitor_owned (in_ceph_code i) then Inr v
      else
        (case evaluate_latest_postcheck (vr_store v) i current_codes health now of
           Inl x \<Rightarrow> Inl x
         | Inr (r, action) \<Rightarrow>
             (case pr_outcome r of
                PC_INCONCLUSIVE \<Rightarrow>
                  Inr (v\<lparr>vr_exhausted := vr_exhausted v + 1,
                         vr_store := close_inconclusive e now i r action (vr_store v)\<rparr>)
              | PC_PASSED \<Rightarrow> close_verified e now health i v
              | PC_FAILED \<Rightarrow>
                  (let attempts = in_verify_attempts i + 1 in
                   if attempts \<ge> max 1 (vc_max_attempts cfg)
                   then give_up e now health i attempts v
                   else Inr (diagnose_again cfg e now health cluster cluster_id i attempts v)))))"

section \<open>The pass\<close>

text \<open>The rows another transaction holds are skipped.\<close>

definition verification_due ::
  "time \<Rightarrow> string option \<Rightarrow> string list \<Rightarrow> incident \<Rightarrow> bool" where
  "verification_due now cluster_id locked i =
     (in_status i = IS_VERIFYING
      \<and> (case in_verify_after i of None \<Rightarrow> False | Some t \<Rightarrow> t \<le> now)
      \<and> in_cluster_id i = cluster_id \<and> in_id i \<notin> set locked)"

fun verify_incidents ::
  "verify_config \<Rightarrow> env \<Rightarrow> time \<Rightarrow> string list \<Rightarrow> pyval \<Rightarrow> cluster option \<Rightarrow> string option
     \<Rightarrow> incident list \<Rightarrow> verify_run \<Rightarrow> py_exn + verify_run" where
  "verify_incidents cfg e now codes health cluster cluster_id [] v = Inr v"
| "verify_incidents cfg e now codes health cluster cluster_id (i # is) v =
     (case verify_incident cfg e now codes health cluster cluster_id i v of
        Inl x \<Rightarrow> Inl x
      | Inr v' \<Rightarrow> verify_incidents cfg e now codes health cluster cluster_id is v')"

text \<open>The transaction of a pass: an exception leaves the tables as they were.\<close>

definition verify_transaction ::
  "verify_config \<Rightarrow> env \<Rightarrow> time \<Rightarrow> string list \<Rightarrow> pyval \<Rightarrow> cluster option \<Rightarrow> string option
     \<Rightarrow> string list \<Rightarrow> store \<Rightarrow> py_exn + verify_run" where
  "verify_transaction cfg e now codes health cluster cluster_id locked st =
     verify_incidents cfg e now codes health cluster cluster_id
       (filter (verification_due now cluster_id locked) (st_incidents st))
       \<lparr>vr_verified = 0, vr_retried = 0, vr_exhausted = 0, vr_notices = [], vr_envelopes = [],
        vr_store = st\<rparr>"

text \<open>
  After the commit: each notification is dispatched with the sender of its kind, then the envelopes
  are published one after the other and marked; a failed publication ends the loop, its row stays
  pending and the failure is only logged.
\<close>

fun dispatch_notices ::
  "(string \<Rightarrow> string \<Rightarrow> nat \<Rightarrow> tg_dispatch_env) \<Rightarrow> (string \<times> string) list \<Rightarrow> telegram_outbox list
     \<Rightarrow> py_exn option \<times> telegram_outbox list" where
  "dispatch_notices envs [] rows = (None, rows)"
| "dispatch_notices envs ((ev, sender) # ns) rows =
     (case tg_dispatch_due 20 (Some [ev]) (envs ev sender) rows of
        (Inl x, rows') \<Rightarrow> (Some x, rows')
      | (Inr _, rows') \<Rightarrow> dispatch_notices envs ns rows')"

fun publish_all ::
  "(pyval \<Rightarrow> string option \<Rightarrow> py_exception option) \<Rightarrow> (string \<Rightarrow> time) \<Rightarrow> (string \<times> pyval) list
     \<Rightarrow> incident_outbox list \<Rightarrow> py_exception option \<times> incident_outbox list" where
  "publish_all pub clock [] rows = (None, rows)"
| "publish_all pub clock ((ev, envelope) # ds) rows =
     (case publish pub envelope ev of
        Some x \<Rightarrow> (Some x, rows)
      | None \<Rightarrow> publish_all pub clock ds (mark_published (clock ev) ev rows))"

definition verify_pending_incidents ::
  "verify_config \<Rightarrow> env \<Rightarrow> (string \<Rightarrow> string \<Rightarrow> nat \<Rightarrow> tg_dispatch_env)
     \<Rightarrow> (pyval \<Rightarrow> string option \<Rightarrow> py_exception option) \<Rightarrow> (string \<Rightarrow> time) \<Rightarrow> time \<Rightarrow> string list
     \<Rightarrow> pyval \<Rightarrow> cluster option \<Rightarrow> string option \<Rightarrow> string list \<Rightarrow> store
     \<Rightarrow> (py_exn + nat \<times> nat \<times> nat) \<times> store" where
  "verify_pending_incidents cfg e envs pub clock now codes health cluster cluster_id locked st =
     (case verify_transaction cfg e now codes health cluster cluster_id locked st of
        Inl x \<Rightarrow> (Inl x, st)
      | Inr v \<Rightarrow>
          (case dispatch_notices envs (vr_notices v) (st_notices (vr_store v)) of
             (Some x, notices) \<Rightarrow> (Inl x, (vr_store v)\<lparr>st_notices := notices\<rparr>)
           | (None, notices) \<Rightarrow>
               (let (_, outbox) = publish_all pub clock (vr_envelopes v) (st_outbox (vr_store v)) in
                (Inr (vr_verified v, vr_retried v, vr_exhausted v),
                 (vr_store v)\<lparr>st_notices := notices, st_outbox := outbox\<rparr>))))"

section \<open>The pass as a function of the rows\<close>

text \<open>What a post-check changes of its incident, and what the pass makes of a row.\<close>

definition verdict_edit ::
  "verify_config \<Rightarrow> env \<Rightarrow> incident \<Rightarrow> postcheck_outcome \<Rightarrow> incident \<Rightarrow> incident" where
  "verdict_edit cfg e i oc =
     (case oc of
        PC_INCONCLUSIVE \<Rightarrow> leave_verifying e IS_FAILED
      | PC_PASSED \<Rightarrow> leave_verifying e IS_RESOLVED
      | PC_FAILED \<Rightarrow>
          (let n = in_verify_attempts i + 1 in
           (\<lambda>r. leave_verifying e (if n \<ge> max 1 (vc_max_attempts cfg) then IS_FAILED else IS_DIAGNOSING)
                 (r\<lparr>in_verify_attempts := n\<rparr>))))"

definition settled_incident ::
  "verify_config \<Rightarrow> env \<Rightarrow> time \<Rightarrow> string list \<Rightarrow> pyval \<Rightarrow> store \<Rightarrow> incident \<Rightarrow> incident" where
  "settled_incident cfg e now codes health st r =
     (if is_monitor_owned (in_ceph_code r) then r
      else
        (case evaluate_latest_postcheck st r codes health now of
           Inl _ \<Rightarrow> r
         | Inr (p, _) \<Rightarrow> save_incident (ev_now e) (verdict_edit cfg e r (pr_outcome p)) r))"

lemma leave_verifying_simps [simp]:
  "in_id (leave_verifying e s r) = in_id r"
  "in_status (leave_verifying e s r) = s"
  "in_verify_after (leave_verifying e s r) = None"
  "in_verify_attempts (leave_verifying e s r) = in_verify_attempts r"
  "in_cluster_id (leave_verifying e s r) = in_cluster_id r"
  "in_ceph_code (leave_verifying e s r) = in_ceph_code r"
  by (simp_all add: leave_verifying_def set_incident_status_def)

lemma verdict_edit_simps [simp]:
  "in_id (verdict_edit cfg e i oc r) = in_id r"
  "in_verify_after (verdict_edit cfg e i oc r) = None"
  "in_ceph_code (verdict_edit cfg e i oc r) = in_ceph_code r"
  "in_cluster_id (verdict_edit cfg e i oc r) = in_cluster_id r"
  by (cases oc; simp add: verdict_edit_def Let_def)+

lemma settled_incident_id [simp]: "in_id (settled_incident cfg e now codes health st r) = in_id r"
  by (auto simp: settled_incident_def split: sum.split)

text \<open>The columns of the tables the post-check reads are not written by the pass.\<close>

definition same_evidence :: "store \<Rightarrow> store \<Rightarrow> bool" where
  "same_evidence st st' =
     (st_actions st' = st_actions st
      \<and> map (\<lambda>c. (rc_action_id c, rc_playbook_version c, rc_preflight_snapshot_json c)) (st_cases st')
        = map (\<lambda>c. (rc_action_id c, rc_playbook_version c, rc_preflight_snapshot_json c)) (st_cases st))"

lemma same_evidence_refl [simp]: "same_evidence st st"
  by (simp add: same_evidence_def)

lemma same_evidence_trans: "same_evidence a b \<Longrightarrow> same_evidence b c \<Longrightarrow> same_evidence a c"
  by (simp add: same_evidence_def)

lemma get_case_columns:
  assumes "map (\<lambda>c. (rc_action_id c, rc_playbook_version c, rc_preflight_snapshot_json c)) cs'
         = map (\<lambda>c. (rc_action_id c, rc_playbook_version c, rc_preflight_snapshot_json c)) cs"
  shows "map_option (\<lambda>c. (rc_playbook_version c, rc_preflight_snapshot_json c))
           (find_id rc_action_id a cs')
       = map_option (\<lambda>c. (rc_playbook_version c, rc_preflight_snapshot_json c))
           (find_id rc_action_id a cs)"
  using assms unfolding find_id_def
proof (induction cs' arbitrary: cs)
  case Nil
  then show ?case by simp
next
  case (Cons c' cs')
  then obtain c ds where "cs = c # ds" by (cases cs) auto
  with Cons show ?case by auto
qed

lemma evaluate_case_columns:
  assumes "rc_playbook_version c = rc_playbook_version d"
    and "rc_preflight_snapshot_json c = rc_preflight_snapshot_json d"
  shows "evaluate_case_postcheck a c = evaluate_case_postcheck a d"
  using assms by (simp add: evaluate_case_postcheck_def fun_eq_iff)

lemma evaluate_same_evidence:
  assumes "same_evidence st st'"
  shows "evaluate_latest_postcheck st' i codes health now
       = evaluate_latest_postcheck st i codes health now"
proof -
  have acts: "latest_executed st' (in_id i) = latest_executed st (in_id i)"
    using assms by (simp add: latest_executed_def same_evidence_def)
  show ?thesis
  proof (cases "latest_executed st (in_id i)")
    case None
    with acts show ?thesis by (simp add: evaluate_latest_postcheck_def)
  next
    case (Some a)
    have "map_option (\<lambda>c. (rc_playbook_version c, rc_preflight_snapshot_json c)) (get_case st' (ac_id a))
        = map_option (\<lambda>c. (rc_playbook_version c, rc_preflight_snapshot_json c)) (get_case st (ac_id a))"
      using assms get_case_columns unfolding same_evidence_def by blast
    then have "get_case st' (ac_id a) = None \<and> get_case st (ac_id a) = None
       \<or> (\<exists>c d. get_case st' (ac_id a) = Some c \<and> get_case st (ac_id a) = Some d
            \<and> rc_playbook_version c = rc_playbook_version d
            \<and> rc_preflight_snapshot_json c = rc_preflight_snapshot_json d)"
      by (cases "get_case st' (ac_id a)"; cases "get_case st (ac_id a)") auto
    then show ?thesis
    proof (elim disjE exE conjE)
      assume "get_case st' (ac_id a) = None" "get_case st (ac_id a) = None"
      with Some acts show ?thesis by (simp add: evaluate_latest_postcheck_def)
    next
      fix c d
      assume cd: "get_case st' (ac_id a) = Some c" "get_case st (ac_id a) = Some d"
        and ver: "rc_playbook_version c = rc_playbook_version d"
        and pre: "rc_preflight_snapshot_json c = rc_preflight_snapshot_json d"
      show ?thesis
        unfolding evaluate_latest_postcheck_def acts Some option.case cd
          evaluate_case_columns [OF ver pre] pre ..
    qed
  qed
qed

lemma same_evidence_edits [simp]:
  "same_evidence st (edit_incident e k f st') = same_evidence st st'"
  "same_evidence st (audit_record e k a t w x st') = same_evidence st st'"
  "same_evidence st (record_inconclusive e k u why st') = same_evidence st st'"
  "same_evidence st (record_verified e k b u post st') = same_evidence st st'"
  "same_evidence st (st'\<lparr>st_draws := n\<rparr>) = same_evidence st st'"
  "same_evidence st (st'\<lparr>st_notices := ns\<rparr>) = same_evidence st st'"
  "same_evidence st (st'\<lparr>st_outbox := os\<rparr>) = same_evidence st st'"
  by (simp_all add: same_evidence_def record_inconclusive_def record_verified_def edit_cases_def
        save_case_eq verified_case_def comp_def if_distrib cong: if_cong)

lemma draw_eq: "draw e st = (ev_uuid e (st_draws st), st\<lparr>st_draws := st_draws st + 1\<rparr>)"
  by (simp add: draw_def)

lemma record_verified_tables [simp, store_simps]:
  "st_incidents (record_verified e i b t p st) = st_incidents st"
  "st_actions (record_verified e i b t p st) = st_actions st"
  "st_clusters (record_verified e i b t p st) = st_clusters st"
  "st_leases (record_verified e i b t p st) = st_leases st"
  "st_notices (record_verified e i b t p st) = st_notices st"
  "st_outbox (record_verified e i b t p st) = st_outbox st"
  by (simp_all add: record_verified_def)

lemma record_inconclusive_tables' [simp, store_simps]:
  "st_incidents (record_inconclusive e i t why st) = st_incidents st"
  "st_actions (record_inconclusive e i t why st) = st_actions st"
  "st_notices (record_inconclusive e i t why st) = st_notices st"
  "st_outbox (record_inconclusive e i t why st) = st_outbox st"
  by (simp_all add: record_inconclusive_def)

text \<open>One incident: its row, and the evidence.\<close>

lemma close_inconclusive_effect:
  "st_incidents (close_inconclusive e now i p action st)
     = st_incidents (edit_incident e (in_id i) (verdict_edit cfg e i PC_INCONCLUSIVE) st)"
  "same_evidence st (close_inconclusive e now i p action st)"
  by (cases action; simp add: close_inconclusive_def verdict_edit_def)+

lemma close_verified_effect:
  assumes "close_verified e now health i v = Inr v'"
  shows "st_incidents (vr_store v')
     = st_incidents (edit_incident e (in_id i) (verdict_edit cfg e i PC_PASSED) (vr_store v))"
    "same_evidence (vr_store v) (vr_store v')"
    "vr_verified v' = vr_verified v + 1" "vr_retried v' = vr_retried v"
    "vr_exhausted v' = vr_exhausted v"
  using assms unfolding close_verified_def Let_def draw_eq prod.case
  by (auto simp: verdict_edit_def split: sum.splits prod.splits)

lemma give_up_effect:
  assumes "give_up e now health i (in_verify_attempts i + 1) v = Inr v'"
    and "in_verify_attempts i + 1 \<ge> max 1 (vc_max_attempts cfg)"
  shows "st_incidents (vr_store v')
     = st_incidents (edit_incident e (in_id i) (verdict_edit cfg e i PC_FAILED) (vr_store v))"
    "same_evidence (vr_store v) (vr_store v')"
    "vr_verified v' = vr_verified v" "vr_retried v' = vr_retried v"
    "vr_exhausted v' = vr_exhausted v + 1"
  using assms unfolding give_up_def Let_def draw_eq prod.case
  by (auto simp: verdict_edit_def split: sum.splits prod.splits)

lemma diagnose_again_effect:
  assumes "\<not> in_verify_attempts i + 1 \<ge> max 1 (vc_max_attempts cfg)"
  shows "st_incidents (vr_store (diagnose_again cfg e now health cluster cid i (in_verify_attempts i + 1) v))
     = st_incidents (edit_incident e (in_id i) (verdict_edit cfg e i PC_FAILED) (vr_store v))"
    "same_evidence (vr_store v)
       (vr_store (diagnose_again cfg e now health cluster cid i (in_verify_attempts i + 1) v))"
    "vr_verified (diagnose_again cfg e now health cluster cid i n v) = vr_verified v"
    "vr_retried (diagnose_again cfg e now health cluster cid i n v) = vr_retried v + 1"
    "vr_exhausted (diagnose_again cfg e now health cluster cid i n v) = vr_exhausted v"
  using assms unfolding diagnose_again_def Let_def draw_eq prod.case
  by (auto simp: verdict_edit_def split: prod.split)

text \<open>The verdicts of a pass and their count.\<close>

definition settles :: "incident \<Rightarrow> bool" where
  "settles i = (\<not> is_monitor_owned (in_ceph_code i))"

definition run_count :: "verify_run \<Rightarrow> nat" where
  "run_count v = vr_verified v + vr_retried v + vr_exhausted v"

lemma verify_incident_effect:
  assumes "verify_incident cfg e now codes health cluster cid i v = Inr v'" and "settles i"
  shows "\<exists>p a. evaluate_latest_postcheck (vr_store v) i codes health now = Inr (p, a)
     \<and> st_incidents (vr_store v')
         = st_incidents (edit_incident e (in_id i) (verdict_edit cfg e i (pr_outcome p)) (vr_store v))
     \<and> same_evidence (vr_store v) (vr_store v') \<and> run_count v' = run_count v + 1"
proof -
  obtain p a where p: "evaluate_latest_postcheck (vr_store v) i codes health now = Inr (p, a)"
    using assms by (cases "evaluate_latest_postcheck (vr_store v) i codes health now")
      (auto simp: verify_incident_def settles_def)
  note run = assms(1) [unfolded verify_incident_def p, simplified]
  have "st_incidents (vr_store v')
         = st_incidents (edit_incident e (in_id i) (verdict_edit cfg e i (pr_outcome p)) (vr_store v))
     \<and> same_evidence (vr_store v) (vr_store v') \<and> run_count v' = run_count v + 1"
  proof (cases "pr_outcome p")
    case PC_PASSED
    with run assms(2) have "close_verified e now health i v = Inr v'" by (simp add: settles_def)
    from close_verified_effect [OF this] PC_PASSED show ?thesis by (simp add: run_count_def)
  next
    case PC_INCONCLUSIVE
    with run assms(2) have v': "v' = v\<lparr>vr_exhausted := vr_exhausted v + 1,
        vr_store := close_inconclusive e now i p a (vr_store v)\<rparr>" by (simp add: settles_def)
    show ?thesis unfolding v' PC_INCONCLUSIVE
      using close_inconclusive_effect [where e = e and now = now and i = i and p = p and action = a and st = "vr_store v"] by (simp add: run_count_def)
  next
    case PC_FAILED
    show ?thesis
    proof (cases "in_verify_attempts i + 1 \<ge> max 1 (vc_max_attempts cfg)")
      case True
      with run assms(2) PC_FAILED have "give_up e now health i (in_verify_attempts i + 1) v = Inr v'"
        by (simp add: settles_def Let_def)
      from give_up_effect [OF this True] PC_FAILED show ?thesis by (simp add: run_count_def)
    next
      case False
      with run assms(2) PC_FAILED
      have v': "v' = diagnose_again cfg e now health cluster cid i (in_verify_attempts i + 1) v"
        by (auto simp: settles_def Let_def split: if_splits)
      show ?thesis unfolding v' PC_FAILED
        using diagnose_again_effect(1,2) [OF False, where e = e and now = now and health = health
              and cluster = cluster and cid = cid and v = v]
          diagnose_again_effect(3-5) [OF False, where e = e and now = now and health = health
              and cluster = cluster and cid = cid and v = v and n = "in_verify_attempts i + 1"]
        by (simp add: run_count_def)
    qed
  qed
  with p show ?thesis by blast
qed

lemma verify_incident_skips:
  "\<not> settles i \<Longrightarrow> verify_incident cfg e now codes health cluster cid i v = Inr v"
  by (simp add: verify_incident_def settles_def)

lemma verify_incidents_effect:
  assumes "verify_incidents cfg e now codes health cluster cid is v = Inr v'"
    and "distinct (map in_id is)"
    and "\<And>i. i \<in> set is \<Longrightarrow> find_id in_id (in_id i) (st_incidents (vr_store v)) = Some i"
    and "distinct (map in_id (st_incidents (vr_store v)))"
    and "same_evidence st (vr_store v)"
  shows "st_incidents (vr_store v') =
           map (\<lambda>r. if r \<in> set is then settled_incident cfg e now codes health st r else r)
             (st_incidents (vr_store v))
       \<and> run_count v' = run_count v + length (filter settles is)
       \<and> (\<forall>i \<in> set is. settles i \<longrightarrow>
             (\<exists>q. evaluate_latest_postcheck st i codes health now = Inr q))"
  using assms
proof (induction "is" arbitrary: v)
  case Nil
  then show ?case by simp
next
  case (Cons i "is")
  from Cons.prems(1) obtain v1 where v1: "verify_incident cfg e now codes health cluster cid i v = Inr v1"
    and rest: "verify_incidents cfg e now codes health cluster cid is v1 = Inr v'"
    by (auto split: sum.splits)
  let ?rows = "st_incidents (vr_store v)"
  have i_in: "i \<in> set ?rows" using Cons.prems(3) [of i] find_id_Some by fastforce
  have only_i: "r = i" if "r \<in> set ?rows" "in_id r = in_id i" for r
    using find_id_in [OF Cons.prems(4) that(1)] that(2) Cons.prems(3) [of i] by simp
  have eval: "evaluate_latest_postcheck (vr_store v) i codes health now
      = evaluate_latest_postcheck st i codes health now"
    by (rule evaluate_same_evidence [OF Cons.prems(5)])
  have rows1: "st_incidents (vr_store v1) =
      map (\<lambda>r. if r = i then settled_incident cfg e now codes health st r else r) ?rows"
    and ev1: "same_evidence st (vr_store v1)"
    and n1: "run_count v1 = run_count v + (if settles i then 1 else 0)"
  proof -
    have "st_incidents (vr_store v1) =
        map (\<lambda>r. if r = i then settled_incident cfg e now codes health st r else r) ?rows
      \<and> same_evidence st (vr_store v1)
      \<and> run_count v1 = run_count v + (if settles i then 1 else 0)"
    proof (cases "settles i")
      case False
      with v1 have "v1 = v" by (simp add: verify_incident_skips)
      moreover have "settled_incident cfg e now codes health st i = i"
        using False by (simp add: settled_incident_def settles_def)
      ultimately show ?thesis using False Cons.prems(5) by (simp add: map_idI)
    next
      case True
      from verify_incident_effect [OF v1 True] obtain p a where
        p: "evaluate_latest_postcheck st i codes health now = Inr (p, a)"
        and st1: "st_incidents (vr_store v1) =
          st_incidents (edit_incident e (in_id i) (verdict_edit cfg e i (pr_outcome p)) (vr_store v))"
        and ev: "same_evidence (vr_store v) (vr_store v1)" and n: "run_count v1 = run_count v + 1"
        unfolding eval by blast
      have "settled_incident cfg e now codes health st i
          = save_incident (ev_now e) (verdict_edit cfg e i (pr_outcome p)) i"
        using True p by (simp add: settled_incident_def settles_def)
      with st1 only_i have "st_incidents (vr_store v1) =
          map (\<lambda>r. if r = i then settled_incident cfg e now codes health st r else r) ?rows"
        by (auto simp: edit_incident_def intro!: map_cong)
      with n True same_evidence_trans [OF Cons.prems(5) ev] show ?thesis by simp
    qed
    then show "st_incidents (vr_store v1) =
        map (\<lambda>r. if r = i then settled_incident cfg e now codes health st r else r) ?rows"
      "same_evidence st (vr_store v1)"
      "run_count v1 = run_count v + (if settles i then 1 else 0)" by blast+
  qed
  have ids1: "map in_id (st_incidents (vr_store v1)) = map in_id ?rows"
    unfolding rows1 by auto
  have new: "in_id j \<noteq> in_id i" if "j \<in> set is" for j
    using Cons.prems(2) that by (metis distinct.simps(2) image_eqI list.set_map list.simps(9))
  have found: "find_id in_id (in_id j) (st_incidents (vr_store v1)) = Some j" if "j \<in> set is" for j
  proof -
    have "j \<in> set ?rows" using Cons.prems(3) [of j] that find_id_Some by fastforce
    with new [OF that] have "j \<in> set (st_incidents (vr_store v1))" unfolding rows1 by force
    with find_id_in [of in_id] ids1 Cons.prems(4) show ?thesis by metis
  qed
  have d1: "distinct (map in_id (st_incidents (vr_store v1)))" using ids1 Cons.prems(4) by simp
  have IH: "st_incidents (vr_store v') =
           map (\<lambda>r. if r \<in> set is then settled_incident cfg e now codes health st r else r)
             (st_incidents (vr_store v1))
       \<and> run_count v' = run_count v1 + length (filter settles is)
       \<and> (\<forall>i \<in> set is. settles i \<longrightarrow>
             (\<exists>q. evaluate_latest_postcheck st i codes health now = Inr q))"
    by (rule Cons.IH [OF rest _ found d1 ev1]) (use Cons.prems(2) in simp)
  have compose: "(if s \<in> set is then settled_incident cfg e now codes health st s else s)
      = (if r \<in> set (i # is) then settled_incident cfg e now codes health st r else r)"
    if r: "r \<in> set ?rows" and s: "s = (if r = i then settled_incident cfg e now codes health st r else r)"
    for r s
  proof (cases "r = i")
    case True
    have "s \<notin> set is" using new s True by force
    with s True show ?thesis by simp
  next
    case False
    with s show ?thesis by simp
  qed
  have "st_incidents (vr_store v') =
      map (\<lambda>r. if r \<in> set (i # is) then settled_incident cfg e now codes health st r else r) ?rows"
    unfolding conjunct1 [OF IH] rows1 map_map comp_def
    by (rule map_cong [OF refl]) (rule compose, assumption, rule refl)
  moreover have "settles i \<Longrightarrow> \<exists>q. evaluate_latest_postcheck st i codes health now = Inr q"
    using verify_incident_effect [OF v1] unfolding eval by blast
  ultimately show ?case using IH n1 by simp
qed


lemma verify_transaction_effect:
  assumes "verify_transaction cfg e now codes health cluster cid locked st = Inr v"
    and "distinct (map in_id (st_incidents st))"
  shows "st_incidents (vr_store v) =
           map (\<lambda>r. if verification_due now cid locked r
                    then settled_incident cfg e now codes health st r else r) (st_incidents st)
       \<and> run_count v = length (filter (\<lambda>r. verification_due now cid locked r \<and> settles r)
                         (st_incidents st))
       \<and> (\<forall>r \<in> set (st_incidents st). verification_due now cid locked r \<and> settles r \<longrightarrow>
             (\<exists>q. evaluate_latest_postcheck st r codes health now = Inr q))"
proof -
  let ?is = "filter (verification_due now cid locked) (st_incidents st)"
  let ?v0 = "\<lparr>vr_verified = 0, vr_retried = 0, vr_exhausted = 0, vr_notices = [], vr_envelopes = [],
        vr_store = st\<rparr>"
  have found: "find_id in_id (in_id i) (st_incidents (vr_store ?v0)) = Some i" if "i \<in> set ?is" for i
    using find_id_in [OF assms(2), of i] that by simp
  have d: "distinct (map in_id ?is)" using assms(2) by (simp add: distinct_map_filter)
  have run: "verify_incidents cfg e now codes health cluster cid ?is ?v0 = Inr v"
    using assms(1) unfolding verify_transaction_def .
  have d0: "distinct (map in_id (st_incidents (vr_store ?v0)))" using assms(2) by simp
  have ev0: "same_evidence st (vr_store ?v0)" by simp
  from verify_incidents_effect [OF run d found d0 ev0]
  show ?thesis by (auto simp: run_count_def filter_filter conj_commute cong: map_cong)
qed

lemma settled_incident_status:
  assumes "settles r" and "evaluate_latest_postcheck st r codes health now = Inr (p, a)"
  shows "in_verify_after (settled_incident cfg e now codes health st r) = None
       \<and> (case pr_outcome p of
            PC_PASSED \<Rightarrow> in_status (settled_incident cfg e now codes health st r) = IS_RESOLVED
          | PC_INCONCLUSIVE \<Rightarrow> in_status (settled_incident cfg e now codes health st r) = IS_FAILED
          | PC_FAILED \<Rightarrow>
              in_verify_attempts (settled_incident cfg e now codes health st r) = in_verify_attempts r + 1
              \<and> in_status (settled_incident cfg e now codes health st r) =
                  (if in_verify_attempts r + 1 \<ge> max 1 (vc_max_attempts cfg) then IS_FAILED
                   else IS_DIAGNOSING))"
  using assms by (cases "pr_outcome p")
    (simp_all add: settled_incident_def settles_def verdict_edit_def Let_def)

text \<open>
  C17. Verification always ends: a pass that commits takes every due incident of its cluster that it
  owns out of VERIFYING, to RESOLVED, FAILED or back to DIAGNOSING, and back only while the attempts,
  counted one more, are below the limit; every other incident row is untouched, and the pass reports
  exactly the incidents it settled.\<close>

theorem due_incidents_leave_verifying:
  assumes "verify_transaction cfg e now codes health cluster cluster_id locked st = Inr v"
    and "distinct (map in_id (st_incidents st))"
  shows "st_incidents (vr_store v) =
           map (\<lambda>r. if verification_due now cluster_id locked r
                    then settled_incident cfg e now codes health st r else r) (st_incidents st)
       \<and> list_all (\<lambda>r. verification_due now cluster_id locked r \<and> settles r \<longrightarrow>
           (let r' = settled_incident cfg e now codes health st r in
            in_verify_after r' = None
            \<and> (in_status r' \<in> {IS_RESOLVED, IS_FAILED}
               \<or> in_status r' = IS_DIAGNOSING \<and> in_verify_attempts r' = in_verify_attempts r + 1
                 \<and> in_verify_attempts r' < max 1 (vc_max_attempts cfg)))) (st_incidents st)
       \<and> vr_verified v + vr_retried v + vr_exhausted v =
           length (filter (\<lambda>r. verification_due now cluster_id locked r \<and> settles r) (st_incidents st))"
proof -
  note eff = verify_transaction_effect [OF assms]
  have ends: "let r' = settled_incident cfg e now codes health st r in
            in_verify_after r' = None
            \<and> (in_status r' \<in> {IS_RESOLVED, IS_FAILED}
               \<or> in_status r' = IS_DIAGNOSING \<and> in_verify_attempts r' = in_verify_attempts r + 1
                 \<and> in_verify_attempts r' < max 1 (vc_max_attempts cfg))"
    if "r \<in> set (st_incidents st)" "verification_due now cluster_id locked r" "settles r" for r
  proof -
    from eff that obtain p a where p: "evaluate_latest_postcheck st r codes health now = Inr (p, a)"
      by fastforce
    from settled_incident_status [OF that(3) p, of cfg e] show ?thesis
      by (cases "pr_outcome p") (auto simp: Let_def split: if_splits)
  qed
  show ?thesis
    using eff ends unfolding run_count_def list_all_iff by blast
qed





text \<open>
  A case as \<open>create_for_action\<close> stores it keeps the contract under the key \<open>registry\<close>; the pass looks
  for the post-check contract beside it, finds none and takes 300 seconds.
\<close>

lemma late_postcheck_inconclusive:
  assumes "evaluate_case_postcheck a c present health now = Inr p"
    and "rc_preflight_snapshot_json c = stored_json (frozen_contract e (ac_action_id a))"
    and "ac_executed_at a = Some t" and "now \<ge> t + seconds 300"
  shows "pr_outcome p = PC_INCONCLUSIVE"
proof -
  have keys: "dget (sort_keys (scrub (frozen_contract e k))) ''postcheck_contract'' = PNone"
    "is_dict (sort_keys (scrub (frozen_contract e k)))" "frozen_contract e k \<noteq> PNone" for k
    by (cases "get_contract k"; simp add: frozen_contract_def doc_def dget_sort_keys;
        simp add: dget_def)+
  have snapshot: "rc_preflight_snapshot_json c
      = Some (JText (sort_keys (scrub (frozen_contract e (ac_action_id a)))))"
    using assms(2) keys(3) by (simp add: stored_json_def)
  define res where "res = resolve_case_postcheck (ac_action_id a) (rc_playbook_version c)
      (sort_keys (scrub (frozen_contract e (ac_action_id a))))"
  have run: "evaluate_case_postcheck a c present health now =
      (case res of Inl x \<Rightarrow> Inl x
       | Inr (Inl err) \<Rightarrow> Inr (presult PC_INCONCLUSIVE (ContractError err) None)
       | Inr (Inr hook) \<Rightarrow> Inr (presult PC_INCONCLUSIVE (TimeoutExceeded 300) None))"
    using assms(3,4) keys
    by (simp add: evaluate_case_postcheck_def snapshot res_def Let_def postcheck_contract_of_def
          py_int_def timed_out_def split: sum.split)
  show ?thesis
    using assms(1) unfolding run by (auto split: sum.splits)
qed

section \<open>Samples\<close>

definition sample_verify_config :: verify_config where
  "sample_verify_config = \<lparr>vc_max_attempts = 2, vc_creds =
     \<lparr>sc_user = ''root'', sc_key_path = ''/key'', sc_exec_mode = ''docker'', sc_container_name = ''mon''\<rparr>\<rparr>"

definition verifying_store :: store where
  "verifying_store = lab_store\<lparr>st_cases := []\<rparr>"

definition sample_pass :: "py_exn + verify_run" where
  "sample_pass = verify_transaction sample_verify_config lab_env 1 [''MON_DOWN''] PNone None
     (Some ''c1'') [] verifying_store"

text \<open>The notice of a closed incident can always be enqueued.\<close>

lemma close_verified_total:
  assumes "in_id i \<in> in_id ` set (st_incidents (vr_store v))"
  shows "\<exists>v'. close_verified e now health i v = Inr v'"
proof -
  let ?st = "edit_incident e (in_id i) (leave_verifying e IS_RESOLVED) (vr_store v)"
  have "map in_id (st_incidents ?st) = map in_id (st_incidents (vr_store v))"
    by (simp add: edit_incident_def)
  then have "find_id in_id (in_id i) (st_incidents ?st) \<noteq> None"
    using assms unfolding find_id_None by (metis list.set_map)
  then show ?thesis
    unfolding close_verified_def Let_def draw_eq prod.case enqueue_incident_verified_alert_def
    by (auto split: option.splits prod.splits)
qed

lemma verifying_rows: "st_incidents verifying_store = [lab_incident]"
  by (simp add: verifying_store_def lab_store_def)

lemma sample_pass_outcome:
  "\<not> isl sample_pass
   \<and> get_incident (vr_store (projr sample_pass)) ''i1''
       = Some (lab_incident\<lparr>in_status := IS_RESOLVED, in_verify_after := None\<rparr>)"
proof -
  let ?v = "\<lparr>vr_verified = 0, vr_retried = 0, vr_exhausted = 0, vr_notices = [], vr_envelopes = [],
        vr_store = verifying_store\<rparr>"
  have due: "verification_due 1 (Some ''c1'') [] lab_incident"
    "\<not> is_monitor_owned (in_ceph_code lab_incident)" by code_simp+
  have "map_sum id (\<lambda>q. pr_outcome (fst q))
      (evaluate_latest_postcheck verifying_store lab_incident [''MON_DOWN''] PNone 1) = Inr PC_PASSED"
    by code_simp
  then obtain p a where passed: "evaluate_latest_postcheck verifying_store lab_incident [''MON_DOWN''] PNone 1
      = Inr (p, a)" "pr_outcome p = PC_PASSED"
    by (cases "evaluate_latest_postcheck verifying_store lab_incident [''MON_DOWN''] PNone 1") auto
  obtain v' where v': "close_verified lab_env 1 PNone lab_incident ?v = Inr v'"
    using close_verified_total [of lab_incident ?v lab_env 1 PNone] verifying_rows by auto
  have pass: "sample_pass = Inr v'"
    using v' by (simp add: sample_pass_def verify_transaction_def verifying_rows due verify_incident_def passed)
  have "st_incidents (vr_store v')
      = st_incidents (edit_incident lab_env (in_id lab_incident)
          (verdict_edit sample_verify_config lab_env lab_incident PC_PASSED) verifying_store)"
    using close_verified_effect(1) [OF v', of sample_verify_config] by simp
  then have "st_incidents (vr_store v') = [lab_incident\<lparr>in_status := IS_RESOLVED, in_verify_after := None\<rparr>]"
    by (simp add: edit_incident_def verifying_rows verdict_edit_def leave_verifying_def
        set_incident_status_def save_incident_eq lab_incident_def lab_env_def)
  then show ?thesis by (simp add: pass find_id_def lab_incident_def)
qed

lemma sample_pass_Inr:
  "verify_transaction sample_verify_config lab_env 1 [''MON_DOWN''] PNone None (Some ''c1'') []
     verifying_store = Inr (projr sample_pass)"
  using sample_pass_outcome by (cases sample_pass) (simp_all add: sample_pass_def [symmetric])

lemma due_incidents_leave_verifying_witness:
  "vr_verified (projr sample_pass) + vr_retried (projr sample_pass) + vr_exhausted (projr sample_pass) = 1
   \<and> verification_due 1 (Some ''c1'') [] lab_incident \<and> settles lab_incident"
proof -
  have due: "verification_due 1 (Some ''c1'') [] lab_incident" "settles lab_incident" by code_simp+
  have "distinct (map in_id (st_incidents verifying_store))" by (simp add: verifying_rows)
  from due_incidents_leave_verifying [OF sample_pass_Inr this] due show ?thesis
    by (simp add: verifying_rows)
qed


text \<open>
  Verification credits every open case of the incident: when a pass finds the fault gone, each
  case of the incident that is still PROPOSED or awaits verification becomes VERIFIED_SUCCESS, also
  that of an action which was never executed and that of an earlier attempt after which the fault was
  still there; the actions are not looked at.\<close>

theorem verification_credits_every_open_case:
  assumes "close_verified e now health i v = Inr v'"
    and "c \<in> set (st_cases (vr_store v))" and "rc_incident_id c = in_id i"
    and "rc_outcome c \<in> {CO_PROPOSED, CO_EXECUTED_PENDING_VERIFY}"
  shows "list_ex (\<lambda>c'. rc_id c' = rc_id c \<and> rc_action_id c' = rc_action_id c
             \<and> rc_outcome c' = CO_VERIFIED_SUCCESS \<and> rc_verified_at c' = Some now)
           (st_cases (vr_store v'))
       \<and> st_actions (vr_store v') = st_actions (vr_store v)"
proof -
  have "\<exists>post. st_cases (vr_store v') = map (\<lambda>r. if rc_incident_id r = in_id i
          \<and> rc_outcome r \<in> {CO_EXECUTED_PENDING_VERIFY, CO_PROPOSED}
        then save_case (ev_now e) (verified_case post True now health) r else r) (st_cases (vr_store v))"
    using assms(1) unfolding close_verified_def Let_def draw_eq prod.case
    by (auto simp: record_verified_def edit_cases_def split: sum.splits prod.splits)
  then obtain post where cases: "st_cases (vr_store v') = map (\<lambda>r. if rc_incident_id r = in_id i
          \<and> rc_outcome r \<in> {CO_EXECUTED_PENDING_VERIFY, CO_PROPOSED}
        then save_case (ev_now e) (verified_case post True now health) r else r) (st_cases (vr_store v))"
    by blast
  have "save_case (ev_now e) (verified_case post True now health) c \<in> set (st_cases (vr_store v'))"
    unfolding cases using assms(2-4) by force
  then have "list_ex (\<lambda>c'. rc_id c' = rc_id c \<and> rc_action_id c' = rc_action_id c
             \<and> rc_outcome c' = CO_VERIFIED_SUCCESS \<and> rc_verified_at c' = Some now)
           (st_cases (vr_store v'))"
    unfolding list_ex_iff by (rule bexI [rotated]) (simp add: verified_case_def)
  then show ?thesis
    using close_verified_effect(2) [OF assms(1)] by (simp add: same_evidence_def)
qed

definition unexecuted_case :: remediation_case where
  "unexecuted_case = lab_case_row\<lparr>rc_id := ''k2'', rc_action_id := ''a2''\<rparr>"

definition two_actions_store :: store where
  "two_actions_store = verifying_store\<lparr>st_cases := [unexecuted_case],
     st_actions := [lab_action, lab_action\<lparr>ac_id := ''a2'', ac_status := AS_PENDING_APPROVAL\<rparr>]\<rparr>"

definition two_actions_run :: verify_run where
  "two_actions_run = \<lparr>vr_verified = 0, vr_retried = 0, vr_exhausted = 0, vr_notices = [],
     vr_envelopes = [], vr_store = two_actions_store\<rparr>"

lemma verification_credits_every_open_case_witness:
  "list_ex (\<lambda>c. rc_action_id c = ''a2'' \<and> rc_outcome c = CO_VERIFIED_SUCCESS)
     (st_cases (vr_store (projr (close_verified lab_env 1 PNone lab_incident two_actions_run))))
   \<and> map ac_status (st_actions (vr_store (projr
        (close_verified lab_env 1 PNone lab_incident two_actions_run)))) = [AS_EXECUTED, AS_PENDING_APPROVAL]"
proof -
  have run: "close_verified lab_env 1 PNone lab_incident two_actions_run
      = Inr (projr (close_verified lab_env 1 PNone lab_incident two_actions_run))"
  proof -
    have "st_incidents (vr_store two_actions_run) = [lab_incident]"
      by (simp add: two_actions_run_def two_actions_store_def verifying_rows)
    then show ?thesis
      using close_verified_total [of lab_incident two_actions_run lab_env 1 PNone] by auto
  qed
  have c: "unexecuted_case \<in> set (st_cases (vr_store two_actions_run))"
    "rc_incident_id unexecuted_case = in_id lab_incident"
    "rc_outcome unexecuted_case \<in> {CO_PROPOSED, CO_EXECUTED_PENDING_VERIFY}"
    "rc_action_id unexecuted_case = ''a2''"
    by (simp_all add: two_actions_run_def two_actions_store_def unexecuted_case_def lab_case_row_def
        new_case_def lab_incident_def Let_def)
  have acts: "map ac_status (st_actions (vr_store two_actions_run)) = [AS_EXECUTED, AS_PENDING_APPROVAL]"
    by (simp add: two_actions_run_def two_actions_store_def lab_action_def)
  from verification_credits_every_open_case [OF run c(1-3)] c(4) acts show ?thesis
    by (auto simp: list_ex_iff)
qed

end
