(* ===== verification/HealthRecovery.thy ===== *)
theory HealthRecovery
  imports Verification Runtime
begin

text \<open>
  The generic recovery pass of the watcher (\<open>_resolve_recovered_incidents\<close> and
  \<open>_reconcile_terminal_actions\<close> in \<open>watcher/main.py\<close>): an open incident whose code the health check
  no longer reports is resolved after the quiet period, unless its code belongs to a monitor, to the
  verifier or to an operator's request.
\<close>

section \<open>Which incidents the pass owns\<close>

definition recoverable :: "incident_status \<Rightarrow> bool" where
  "recoverable s =
     (s \<in> {IS_NEW, IS_DIAGNOSING, IS_PENDING_APPROVAL, IS_APPROVED, IS_EXECUTING, IS_VERIFYING,
           IS_FAILED})"

definition operator_volume_codes :: "string list" where
  "operator_volume_codes =
     [''RBD_TRASH_REMOVE'', ''RBD_TRASH_PURGE_ALL'', ''RBD_VOLUME_CREATE'', ''RBD_VOLUME_RESIZE'',
      ''RBD_VOLUME_RENAME'', ''RBD_VOLUME_TRASH_MOVE'', ''RBD_VOLUME_TRASH_RESTORE'',
      ''CINDER_VOLUME_ATTACH'', ''CINDER_VOLUME_DETACH'', ''CINDER_SNAPSHOT_CREATE'',
      ''VOLUME_PERF_SWEEP'', ''VM_PERF_BENCHMARK'']"

definition operator_request_codes :: "string list" where
  "operator_request_codes =
     [''BACKUP_MANUAL'', ''BACKUP_SCHEDULED'', ''CHAT_REQUEST'', ''CINDER_SNAPSHOT_CREATE'',
      ''CINDER_SNAPSHOT_DELETE'', ''CINDER_SNAPSHOT_SCHEDULED'', ''CINDER_VOLUME_ATTACH'',
      ''CINDER_VOLUME_DETACH'', ''CLUSTER_DELETE'', ''CLUSTER_DEPLOY'', ''CLUSTER_NODE_ADD'',
      ''CLUSTER_NODE_REMOVE'', ''CLUSTER_UPGRADE'', ''CONVERT_CLUSTER_TO_CEPHADM'',
      ''NODE_MAINTENANCE'', ''NODE_OS_GATE'', ''OSD_REPLACE'', ''POOL_ACTION_REQUEST'',
      ''POOL_CREATE_REQUEST'', ''RBD_TRASH_PURGE_ALL'', ''RBD_TRASH_REMOVE'', ''RBD_VOLUME_CLONE'',
      ''RBD_VOLUME_COPY'', ''RBD_VOLUME_CREATE'', ''RBD_VOLUME_FLATTEN'', ''RBD_VOLUME_MOVE'',
      ''RBD_VOLUME_MOVE_CLEANUP'', ''RBD_VOLUME_QOS'', ''RBD_VOLUME_RENAME'', ''RBD_VOLUME_RESIZE'',
      ''RBD_VOLUME_TEMPLATE'', ''RBD_VOLUME_TRASH_MOVE'', ''RBD_VOLUME_TRASH_RESTORE'',
      ''RESTORE_CLUSTER_FROM_BACKUP'', ''RESTORE_RBD_IMAGE_AS_NEW'',
      ''RESTORE_RBD_IMAGE_TO_PRODUCTION'', ''VM_PERF_BENCHMARK'', ''VOLUME_PERF_SWEEP'']"

definition operator_request_prefixes :: "string list" where
  "operator_request_prefixes = [''FILE_SERVICE_CHANGE:'']"

definition is_operator_request :: "string \<Rightarrow> bool" where
  "is_operator_request code =
     (code \<in> set operator_request_codes \<or> list_ex (starts_with code) operator_request_prefixes)"

text \<open>\<open>json.loads(raw or "{}")\<close>; a document that does not parse is no evidence of an injection.\<close>

definition is_synthetic_evidence :: "json_text option \<Rightarrow> bool" where
  "is_synthetic_evidence raw =
     (case raw of Some (JText v) \<Rightarrow> is_dict v \<and> dget v ''synthetic_injection'' = PBool True
      | _ \<Rightarrow> False)"

definition is_crush_skew_code :: "string \<Rightarrow> bool" where
  "is_crush_skew_code code =
     (code \<in> {''CRUSH_SKEW_USE'', ''CRUSH_SKEW_PG''}
      \<or> starts_with code ''CRUSH_SKEW_USE:'' \<or> starts_with code ''CRUSH_SKEW_PG:'')"

text \<open>The guards the loop passes over in order.\<close>

definition owned_elsewhere :: "incident \<Rightarrow> bool" where
  "owned_elsewhere i =
     (let code = in_ceph_code i in
      is_synthetic_evidence (in_signal_evidence_json i)
      \<or> code \<in> set operator_volume_codes \<or> is_operator_request code
      \<or> starts_with code ''PERFORMANCE_RCA:''
      \<or> code \<in> {''CHAT_REQUEST'', ''CLUSTER_UPGRADE''}
      \<or> starts_with code ''VOLUME_SATURATED:''
      \<or> starts_with code ''DEVICE_HEALTH_EVACUATE:''
      \<or> starts_with code ''NODE_RESOURCE_HIGH:''
      \<or> starts_with code ''NODE_UNREACHABLE:''
      \<or> starts_with code ''BLUESTORE_NO_PER_POOL_OMAP:''
      \<or> starts_with code ''OSD_LATENCY_HIGH:''
      \<or> starts_with code log_anomaly_prefix
      \<or> is_crush_skew_code code
      \<or> code = ''DATABASE_SIZE_HIGH'')"

definition recovery_scope ::
  "string option \<Rightarrow> bool \<Rightarrow> string list \<Rightarrow> incident \<Rightarrow> bool" where
  "recovery_scope cluster_id include_legacy_null locked i =
     (recoverable (in_status i) \<and> in_status i \<noteq> IS_VERIFYING
      \<and> (in_cluster_id i = cluster_id \<or> include_legacy_null \<and> in_cluster_id i = None)
      \<and> in_id i \<notin> set locked)"

section \<open>The pass\<close>

type_synonym recovery_key = "string option \<times> string"

record recovery_run =
  hr_decisions :: "(recovery_key \<times> grace_verdict) list"
  hr_recovered :: "(recovery_key \<times> string) list"
  hr_absent :: absent_since
  hr_store :: store

definition key_decision ::
  "int \<Rightarrow> time \<Rightarrow> string list \<Rightarrow> incident \<Rightarrow> recovery_run \<Rightarrow> grace_verdict \<times> recovery_run" where
  "key_decision grace_seconds now codes i v =
     (let key = (in_cluster_id i, in_ceph_code i) in
      case map_of (hr_decisions v) key of
        Some d \<Rightarrow> (d, v)
      | None \<Rightarrow>
          (let (d, absent) = decide grace_seconds (in_cluster_id i) (in_ceph_code i)
                               (in_ceph_code i \<in> set codes) now (hr_absent v)
           in (d, v\<lparr>hr_decisions := hr_decisions v @ [(key, d)], hr_absent := absent\<rparr>)))"

definition resolve_recovered ::
  "env \<Rightarrow> incident \<Rightarrow> recovery_run \<Rightarrow> py_exn + recovery_run" where
  "resolve_recovered e i v =
     (let key = (in_cluster_id i, in_ceph_code i);
          st1 = snd (cancel_pending_actions e (in_id i) system_actor
                  (edit_incident e (in_id i) (incident_to e IS_RESOLVED) (hr_store v)))
      in if map_of (hr_recovered v) key \<noteq> None then Inr (v\<lparr>hr_store := st1\<rparr>)
         else
           (let (uid, st2) = draw e st1 in
            case enqueue_incident_verified_alert (outbox_env e uid) (st_clusters st2)
                   (st_incidents st2) (in_id i) (in_ceph_code i) None None (st_notices st2) of
              (Inl x, _) \<Rightarrow> Inl x
            | (Inr ev, rows) \<Rightarrow>
                Inr (v\<lparr>hr_recovered := hr_recovered v @ [(key, ev)],
                       hr_store := st2\<lparr>st_notices := rows\<rparr>\<rparr>)))"

definition recover_incident ::
  "int \<Rightarrow> env \<Rightarrow> string list \<Rightarrow> incident \<Rightarrow> recovery_run \<Rightarrow> py_exn + recovery_run" where
  "recover_incident grace_seconds e codes i v =
     (if owned_elsewhere i then Inr v
      else
        (let (d, v1) = key_decision grace_seconds (ev_now e) codes i v;
             v2 = (if d = GV_RECURRED
                   then v1\<lparr>hr_store := audit_record e (in_id i) None ''incident_recurred'' actor_system
                             None (hr_store v1)\<rparr>
                   else v1)
         in if d = GV_RESOLVE then resolve_recovered e i v2 else Inr v2))"

fun recover_incidents ::
  "int \<Rightarrow> env \<Rightarrow> string list \<Rightarrow> incident list \<Rightarrow> recovery_run \<Rightarrow> py_exn + recovery_run" where
  "recover_incidents grace_seconds e codes [] v = Inr v"
| "recover_incidents grace_seconds e codes (i # is) v =
     (case recover_incident grace_seconds e codes i v of
        Inl x \<Rightarrow> Inl x
      | Inr v' \<Rightarrow> recover_incidents grace_seconds e codes is v')"

definition recovery_transaction ::
  "int \<Rightarrow> env \<Rightarrow> string list \<Rightarrow> string option \<Rightarrow> bool \<Rightarrow> string list \<Rightarrow> absent_since \<Rightarrow> store
     \<Rightarrow> py_exn + recovery_run" where
  "recovery_transaction grace_seconds e codes cluster_id include_legacy_null locked absent st =
     recover_incidents grace_seconds e codes
       (filter (recovery_scope cluster_id include_legacy_null locked) (st_incidents st))
       \<lparr>hr_decisions = [], hr_recovered = [], hr_absent = absent, hr_store = st\<rparr>"

text \<open>After the commit every recovered key's notification is dispatched on its own.\<close>

fun dispatch_recovered ::
  "(string \<Rightarrow> nat \<Rightarrow> tg_dispatch_env) \<Rightarrow> (recovery_key \<times> string) list \<Rightarrow> telegram_outbox list
     \<Rightarrow> py_exn option \<times> telegram_outbox list" where
  "dispatch_recovered envs [] rows = (None, rows)"
| "dispatch_recovered envs ((k, ev) # ks) rows =
     (case tg_dispatch_due 1 (Some [ev]) (envs ev) rows of
        (Inl x, rows') \<Rightarrow> (Some x, rows')
      | (Inr _, rows') \<Rightarrow> dispatch_recovered envs ks rows')"

definition resolve_recovered_incidents ::
  "int \<Rightarrow> env \<Rightarrow> (string \<Rightarrow> nat \<Rightarrow> tg_dispatch_env) \<Rightarrow> string list \<Rightarrow> string option \<Rightarrow> bool
     \<Rightarrow> string list \<Rightarrow> absent_since \<Rightarrow> store \<Rightarrow> py_exn option \<times> absent_since \<times> store" where
  "resolve_recovered_incidents grace_seconds e envs codes cluster_id include_legacy_null locked
     absent st =
     (case recovery_transaction grace_seconds e codes cluster_id include_legacy_null locked absent st of
        Inl x \<Rightarrow> (Some x, absent, st)
      | Inr v \<Rightarrow>
          (let (x, rows) = dispatch_recovered envs (hr_recovered v) (st_notices (hr_store v))
           in (x, hr_absent v, (hr_store v)\<lparr>st_notices := rows\<rparr>)))"

section \<open>Incidents of disabled clusters\<close>

definition inactive_incidents :: "store \<Rightarrow> incident list" where
  "inactive_incidents st =
     filter (\<lambda>i. recoverable (in_status i)
       \<and> (case in_cluster_id i of None \<Rightarrow> False
          | Some c \<Rightarrow> (case get_cluster st c of None \<Rightarrow> False | Some r \<Rightarrow> \<not> cl_is_active r)))
       (st_incidents st)"

fun close_inactive :: "env \<Rightarrow> incident list \<Rightarrow> store \<Rightarrow> nat \<times> store" where
  "close_inactive e [] st = (0, st)"
| "close_inactive e (i # is) st =
     (let (n, st1) = cancel_pending_actions e (in_id i) system_actor
                       (edit_incident e (in_id i) (incident_to e IS_RESOLVED) st);
          (m, st2) = close_inactive e is st1
      in (n + m, st2))"

definition reconcile_terminal_actions :: "env \<Rightarrow> store \<Rightarrow> nat \<times> store" where
  "reconcile_terminal_actions e st =
     (let (n, st1) = close_inactive e (inactive_incidents st) st;
          (m, st2) = reconcile_terminal_incident_actions e system_actor st1
      in (n + m, st2))"

section \<open>What a pass does\<close>

definition rejected :: "env \<Rightarrow> action_row \<Rightarrow> action_row" where
  "rejected e = save_action (ev_now e) (\<lambda>r. r\<lparr>ac_status := AS_REJECTED\<rparr>)"

definition recovered_row :: "env \<Rightarrow> incident \<Rightarrow> incident" where
  "recovered_row e = save_incident (ev_now e) (incident_to e IS_RESOLVED)"

lemma rejected_simps [simp]:
  "ac_id (rejected e a) = ac_id a" "ac_incident_id (rejected e a) = ac_incident_id a"
  "ac_status (rejected e a) = AS_REJECTED" "rejected e (rejected e a) = rejected e a"
  by (simp_all add: rejected_def save_action_eq)

lemma recovered_row_simps [simp]:
  "in_id (recovered_row e r) = in_id r" "in_status (recovered_row e r) = IS_RESOLVED"
  "recovered_row e (recovered_row e r) = recovered_row e r"
  by (simp_all add: recovered_row_def set_incident_status_def save_incident_eq)

lemma cancel_rows_eq:
  "st_actions (cancel_rows e k actor rows st)
     = map (\<lambda>a. if ac_id a \<in> ac_id ` set rows then rejected e a else a) (st_actions st)
   \<and> st_incidents (cancel_rows e k actor rows st) = st_incidents st"
proof (induction rows arbitrary: st)
  case Nil
  then show ?case by simp
next
  case (Cons b rows)
  show ?case
    by (simp add: Cons.IH edit_action_def rejected_def [symmetric] comp_def)
qed

lemma cancel_pending_eq:
  assumes "distinct (map ac_id (st_actions st))"
  shows "st_actions (snd (cancel_pending_actions e k actor st))
     = map (\<lambda>a. if ac_incident_id a = k \<and> cancellable (ac_status a) then rejected e a else a)
         (st_actions st)
   \<and> st_incidents (snd (cancel_pending_actions e k actor st)) = st_incidents st"
proof -
  have "ac_id a \<in> ac_id ` set (filter P (st_actions st)) \<longleftrightarrow> P a"
    if "a \<in> set (st_actions st)" for a P
    using assms that by (auto simp: distinct_map inj_on_eq_iff)
  then show ?thesis
    unfolding cancel_pending_actions_def Let_def snd_conv
    by (simp add: cancel_rows_eq cong: map_cong)
qed

text \<open>The verdict of a key is decided once, from the clock the pass started with.\<close>

lemma absence_other:
  "(c, k) \<noteq> (c', k') \<Longrightarrow> absence (forget c' k' since) c k = absence since c k"
  "(c, k) \<noteq> (c', k') \<Longrightarrow> absence (since @ [(c', k', t)]) c k = absence since c k"
  unfolding absence_def forget_def by (induction since) auto

lemma decide_absence:
  "absence s c k = absence s' c k \<Longrightarrow> fst (decide g c k p now s) = fst (decide g c k p now s')"
  unfolding decide_def by (auto split: option.split)

lemma decide_other:
  "(c, k) \<noteq> (c', k') \<Longrightarrow> absence (snd (decide g c' k' p now s)) c k = absence s c k"
  unfolding decide_def by (auto simp: absence_other split: option.split)

lemma decide_RESOLVE:
  "fst (decide g c k p now s) = GV_RESOLVE \<longleftrightarrow>
     \<not> p \<and> (g \<le> 0 \<or> (\<exists>t. absence s c k = Some t \<and> seconds g \<le> now - t))"
  unfolding decide_def by (auto split: option.split)

definition key_verdict :: "int \<Rightarrow> time \<Rightarrow> string list \<Rightarrow> absent_since \<Rightarrow> recovery_key \<Rightarrow> grace_verdict" where
  "key_verdict g now codes absent k =
     fst (decide g (fst k) (snd k) (snd k \<in> set codes) now absent)"

definition clock_kept :: "int \<Rightarrow> time \<Rightarrow> string list \<Rightarrow> absent_since \<Rightarrow> recovery_run \<Rightarrow> bool" where
  "clock_kept g now codes absent v =
     (\<forall>k. case map_of (hr_decisions v) k of
            Some d \<Rightarrow> d = key_verdict g now codes absent k
          | None \<Rightarrow> absence (hr_absent v) (fst k) (snd k) = absence absent (fst k) (snd k))"

lemma clock_kept_same:
  "clock_kept g now codes absent v \<Longrightarrow> hr_decisions v' = hr_decisions v \<Longrightarrow> hr_absent v' = hr_absent v
     \<Longrightarrow> clock_kept g now codes absent v'"
  unfolding clock_kept_def by (simp only: simp_thms)

lemma key_decision_eq:
  assumes "clock_kept g now codes absent v" and "key_decision g now codes i v = (d, v')"
  shows "d = key_verdict g now codes absent (in_cluster_id i, in_ceph_code i)
    \<and> clock_kept g now codes absent v' \<and> hr_store v' = hr_store v \<and> hr_recovered v' = hr_recovered v"
proof (cases "map_of (hr_decisions v) (in_cluster_id i, in_ceph_code i)")
  case (Some x)
  with assms(2) have "d = x" "v' = v" by (simp_all add: key_decision_def Let_def)
  with assms(1) Some show ?thesis
    unfolding clock_kept_def by (metis (mono_tags, lifting) option.simps(5))
next
  case None
  let ?k = "(in_cluster_id i, in_ceph_code i)"
  obtain d0 ab where dec: "decide g (in_cluster_id i) (in_ceph_code i) (in_ceph_code i \<in> set codes) now
      (hr_absent v) = (d0, ab)" by fastforce
  with None assms(2) have d: "d = d0"
    and v': "v' = v\<lparr>hr_decisions := hr_decisions v @ [(?k, d0)], hr_absent := ab\<rparr>"
    by (auto simp add: key_decision_def Let_def)
  have ab0: "absence (hr_absent v) (in_cluster_id i) (in_ceph_code i)
      = absence absent (in_cluster_id i) (in_ceph_code i)"
    using assms(1) None unfolding clock_kept_def by (metis (mono_tags, lifting) option.simps(4) fst_conv snd_conv)
  have verdict: "d0 = key_verdict g now codes absent ?k"
    using decide_absence [OF ab0, of g "in_ceph_code i \<in> set codes" now] dec
    by (simp add: key_verdict_def)
  have other: "absence ab (fst k) (snd k) = absence (hr_absent v) (fst k) (snd k)" if "k \<noteq> ?k" for k
    using decide_other [of "fst k" "snd k" "in_cluster_id i" "in_ceph_code i"] that dec
    by (metis prod.collapse snd_conv)
  have "case map_of (hr_decisions v') k of
            Some d \<Rightarrow> d = key_verdict g now codes absent k
          | None \<Rightarrow> absence (hr_absent v') (fst k) (snd k) = absence absent (fst k) (snd k)" for k
  proof (cases "k = ?k")
    case True
    with None verdict show ?thesis by (simp add: v' map_add_def)
  next
    case False
    then have "map_of (hr_decisions v') k = map_of (hr_decisions v) k"
      by (auto simp: v' map_add_def split: option.split)
    moreover have "hr_absent v' = ab" by (simp add: v')
    moreover have "case map_of (hr_decisions v) k of
            Some d \<Rightarrow> d = key_verdict g now codes absent k
          | None \<Rightarrow> absence (hr_absent v) (fst k) (snd k) = absence absent (fst k) (snd k)"
      using assms(1) unfolding clock_kept_def by blast
    ultimately show ?thesis using other [OF False] by (simp split: option.splits)
  qed
  then have "clock_kept g now codes absent v'" unfolding clock_kept_def by blast
  with d verdict v' show ?thesis by simp
qed

lemma resolve_recovered_eq:
  assumes "resolve_recovered e i v = Inr v'" and "distinct (map ac_id (st_actions (hr_store v)))"
  shows "st_incidents (hr_store v') =
      map (\<lambda>r. if in_id r = in_id i then recovered_row e r else r) (st_incidents (hr_store v))
    \<and> st_actions (hr_store v') =
      map (\<lambda>a. if ac_incident_id a = in_id i \<and> cancellable (ac_status a) then rejected e a else a)
        (st_actions (hr_store v))
    \<and> hr_decisions v' = hr_decisions v \<and> hr_absent v' = hr_absent v
    \<and> map fst (hr_recovered v') =
        (let k = (in_cluster_id i, in_ceph_code i) in
         map fst (hr_recovered v) @ (if k \<in> fst ` set (hr_recovered v) then [] else [k]))"
proof -
  let ?st = "edit_incident e (in_id i) (incident_to e IS_RESOLVED) (hr_store v)"
  have d: "distinct (map ac_id (st_actions ?st))" using assms(2) by simp
  have rows: "st_incidents ?st =
      map (\<lambda>r. if in_id r = in_id i then recovered_row e r else r) (st_incidents (hr_store v))"
    by (simp add: edit_incident_def recovered_row_def)
  have known: "k \<in> fst ` set xs \<longleftrightarrow> map_of xs k \<noteq> None" for k :: recovery_key and xs :: "(recovery_key \<times> string) list"
    by (simp add: map_of_eq_None_iff)
  from assms(1) show ?thesis
    unfolding resolve_recovered_def Let_def draw_eq prod.case known
    using cancel_pending_eq [OF d, of e "in_id i" system_actor]
    by (auto simp: rows split: if_splits sum.splits prod.splits)
qed

text \<open>One incident.\<close>

definition resolves ::
  "int \<Rightarrow> env \<Rightarrow> string list \<Rightarrow> absent_since \<Rightarrow> incident \<Rightarrow> bool" where
  "resolves g e codes absent i =
     (\<not> owned_elsewhere i
      \<and> key_verdict g (ev_now e) codes absent (in_cluster_id i, in_ceph_code i) = GV_RESOLVE)"

lemma recover_incident_eq:
  assumes "recover_incident g e codes i v = Inr v'"
    and "distinct (map ac_id (st_actions (hr_store v)))"
    and "clock_kept g (ev_now e) codes absent v"
  shows "clock_kept g (ev_now e) codes absent v'
    \<and> st_incidents (hr_store v') =
        map (\<lambda>r. if resolves g e codes absent i \<and> in_id r = in_id i then recovered_row e r else r)
          (st_incidents (hr_store v))
    \<and> st_actions (hr_store v') =
        map (\<lambda>a. if resolves g e codes absent i \<and> ac_incident_id a = in_id i
                    \<and> cancellable (ac_status a) then rejected e a else a) (st_actions (hr_store v))
    \<and> (distinct (map fst (hr_recovered v)) \<longrightarrow> distinct (map fst (hr_recovered v')))
    \<and> fst ` set (hr_recovered v') = fst ` set (hr_recovered v)
        \<union> (if resolves g e codes absent i then {(in_cluster_id i, in_ceph_code i)} else {})"
proof (cases "owned_elsewhere i")
  case True
  with assms show ?thesis by (simp add: recover_incident_def resolves_def)
next
  case False
  obtain d v1 where kd: "key_decision g (ev_now e) codes i v = (d, v1)" by fastforce
  from key_decision_eq [OF assms(3) kd]
  have d: "d = key_verdict g (ev_now e) codes absent (in_cluster_id i, in_ceph_code i)"
    and v1: "clock_kept g (ev_now e) codes absent v1" "hr_store v1 = hr_store v"
      "hr_recovered v1 = hr_recovered v" by blast+
  show ?thesis
  proof (cases "d = GV_RESOLVE")
    case True
    with assms(1) False kd have res: "resolve_recovered e i v1 = Inr v'"
      by (simp add: recover_incident_def Let_def)
    have one: "resolves g e codes absent i" using False True d by (simp add: resolves_def)
    have dist: "distinct (map ac_id (st_actions (hr_store v1)))" using assms(2) v1 by simp
    note eq = resolve_recovered_eq [OF res dist]
    have fsts: "map fst (hr_recovered v') =
        map fst (hr_recovered v) @ (if (in_cluster_id i, in_ceph_code i) \<in> fst ` set (hr_recovered v)
                                    then [] else [(in_cluster_id i, in_ceph_code i)])"
      using eq v1 by (simp add: Let_def)
    have "fst ` set (hr_recovered v') = set (map fst (hr_recovered v'))" by simp
    also have "\<dots> = fst ` set (hr_recovered v) \<union> {(in_cluster_id i, in_ceph_code i)}"
      unfolding fsts by auto
    finally have sets: "fst ` set (hr_recovered v') = \<dots>" .
    have same: "hr_decisions v' = hr_decisions v1" "hr_absent v' = hr_absent v1" using eq by blast+
    have kept: "clock_kept g (ev_now e) codes absent v'"
      by (rule clock_kept_same [OF v1(1) same])
    have "st_incidents (hr_store v') =
        map (\<lambda>r. if in_id r = in_id i then recovered_row e r else r) (st_incidents (hr_store v))"
      "st_actions (hr_store v') =
        map (\<lambda>a. if ac_incident_id a = in_id i \<and> cancellable (ac_status a) then rejected e a else a)
          (st_actions (hr_store v))"
      using eq v1(2) by simp_all
    moreover have "distinct (map fst (hr_recovered v)) \<longrightarrow> distinct (map fst (hr_recovered v'))"
      unfolding fsts by simp
    ultimately show ?thesis using one sets kept by (simp only: simp_thms if_True)
  next
    case False
    with assms(1) \<open>\<not> owned_elsewhere i\<close> kd
    have v': "v' = v1\<lparr>hr_store := hr_store v'\<rparr>" "st_incidents (hr_store v') = st_incidents (hr_store v)"
      "st_actions (hr_store v') = st_actions (hr_store v)"
      using v1(2) by (auto simp: recover_incident_def Let_def)
    have not: "\<not> resolves g e codes absent i" using False d by (simp add: resolves_def)
    have "hr_recovered v' = hr_recovered v" "hr_decisions v' = hr_decisions v1" "hr_absent v' = hr_absent v1"
      using arg_cong [OF v'(1), of hr_recovered] arg_cong [OF v'(1), of hr_decisions]
        arg_cong [OF v'(1), of hr_absent] v1 by simp_all
    with v1 v' not clock_kept_same [OF v1(1)] show ?thesis by simp
  qed
qed

lemma recover_incidents_eq:
  assumes "recover_incidents g e codes is v = Inr v'"
    and "distinct (map ac_id (st_actions (hr_store v)))"
    and "clock_kept g (ev_now e) codes absent v"
  shows "st_incidents (hr_store v') =
        map (\<lambda>r. if in_id r \<in> in_id ` {i \<in> set is. resolves g e codes absent i}
                  then recovered_row e r else r) (st_incidents (hr_store v))
    \<and> st_actions (hr_store v') =
        map (\<lambda>a. if cancellable (ac_status a)
                    \<and> ac_incident_id a \<in> in_id ` {i \<in> set is. resolves g e codes absent i}
                  then rejected e a else a) (st_actions (hr_store v))
    \<and> (distinct (map fst (hr_recovered v)) \<longrightarrow> distinct (map fst (hr_recovered v')))
    \<and> fst ` set (hr_recovered v') = fst ` set (hr_recovered v)
        \<union> (\<lambda>i. (in_cluster_id i, in_ceph_code i)) ` {i \<in> set is. resolves g e codes absent i}"
  using assms
proof (induction "is" arbitrary: v)
  case Nil
  then show ?case by simp
next
  case (Cons i "is")
  from Cons.prems(1) obtain v1 where one: "recover_incident g e codes i v = Inr v1"
    and rest: "recover_incidents g e codes is v1 = Inr v'"
    by (auto split: sum.splits)
  note step = recover_incident_eq [OF one Cons.prems(2,3)]
  let ?R = "resolves g e codes absent"
  have inc: "st_incidents (hr_store v1) =
      map (\<lambda>r. if ?R i \<and> in_id r = in_id i then recovered_row e r else r) (st_incidents (hr_store v))"
    and act: "st_actions (hr_store v1) =
      map (\<lambda>a. if ?R i \<and> ac_incident_id a = in_id i \<and> cancellable (ac_status a)
                then rejected e a else a) (st_actions (hr_store v))"
    and keys: "fst ` set (hr_recovered v1) = fst ` set (hr_recovered v)
        \<union> (if ?R i then {(in_cluster_id i, in_ceph_code i)} else {})"
    using step by blast+
  have "map ac_id (st_actions (hr_store v1)) = map ac_id (st_actions (hr_store v))"
    unfolding act by auto
  then have dist: "distinct (map ac_id (st_actions (hr_store v1)))" using Cons.prems(2) by simp
  note IH = Cons.IH [OF rest dist conjunct1 [OF step]]
  have split: "{j \<in> set (i # is). ?R j} = (if ?R i then {i} else {}) \<union> {j \<in> set is. ?R j}" by auto
  have "st_incidents (hr_store v') =
      map (\<lambda>r. if in_id r \<in> in_id ` {j \<in> set (i # is). ?R j} then recovered_row e r else r)
        (st_incidents (hr_store v))"
    unfolding conjunct1 [OF IH] inc map_map comp_def split by (rule map_cong [OF refl]) auto
  moreover have "st_actions (hr_store v') =
      map (\<lambda>a. if cancellable (ac_status a) \<and> ac_incident_id a \<in> in_id ` {j \<in> set (i # is). ?R j}
                then rejected e a else a) (st_actions (hr_store v))"
    unfolding conjunct1 [OF conjunct2 [OF IH]] act map_map comp_def split
    by (rule map_cong [OF refl]) (auto simp: cancellable_def)
  moreover have "fst ` set (hr_recovered v') = fst ` set (hr_recovered v)
        \<union> (\<lambda>i. (in_cluster_id i, in_ceph_code i)) ` {j \<in> set (i # is). ?R j}"
    using IH keys unfolding split by auto
  moreover have "distinct (map fst (hr_recovered v)) \<longrightarrow> distinct (map fst (hr_recovered v'))"
    using IH step by blast
  ultimately show ?case by blast
qed

text \<open>The pass never fails: the incidents it notifies are in the table.\<close>

lemma resolve_recovered_total:
  assumes "in_id i \<in> in_id ` set (st_incidents (hr_store v))"
    and "distinct (map ac_id (st_actions (hr_store v)))"
  shows "\<exists>v'. resolve_recovered e i v = Inr v'"
proof -
  let ?st = "edit_incident e (in_id i) (incident_to e IS_RESOLVED) (hr_store v)"
  have "map in_id (st_incidents ?st) = map in_id (st_incidents (hr_store v))"
    by (simp add: edit_incident_def set_incident_status_def)
  then have "in_id ` set (st_incidents ?st) = in_id ` set (st_incidents (hr_store v))"
    by (metis list.set_map)
  then have "find_id in_id (in_id i) (st_incidents ?st) \<noteq> None"
    using assms(1) by (simp add: find_id_None)
  moreover have "distinct (map ac_id (st_actions ?st))" using assms(2) by simp
  ultimately show ?thesis
    using cancel_pending_eq [of ?st e "in_id i" system_actor]
    unfolding resolve_recovered_def Let_def draw_eq prod.case enqueue_incident_verified_alert_def
    by (auto split: option.splits prod.splits)
qed

lemma recover_incident_total:
  assumes "in_id i \<in> in_id ` set (st_incidents (hr_store v))"
    and "distinct (map ac_id (st_actions (hr_store v)))" and "clock_kept g (ev_now e) codes absent v"
  shows "\<exists>v'. recover_incident g e codes i v = Inr v'"
proof -
  obtain d v1 where kd: "key_decision g (ev_now e) codes i v = (d, v1)" by fastforce
  have "hr_store v1 = hr_store v" using key_decision_eq [OF assms(3) kd] by blast
  with assms resolve_recovered_total [of i v1 e] kd show ?thesis
    by (simp add: recover_incident_def Let_def)
qed

lemma recover_incidents_total:
  assumes "in_id ` set is \<subseteq> in_id ` set (st_incidents (hr_store v))"
    and "distinct (map ac_id (st_actions (hr_store v)))" and "clock_kept g (ev_now e) codes absent v"
  shows "\<exists>v'. recover_incidents g e codes is v = Inr v'"
  using assms
proof (induction "is" arbitrary: v)
  case Nil
  then show ?case by simp
next
  case (Cons i "is")
  from recover_incident_total [OF _ Cons.prems(2,3), of i] Cons.prems(1) obtain v1 where
    one: "recover_incident g e codes i v = Inr v1" by auto
  note step = recover_incident_eq [OF one Cons.prems(2,3)]
  have inc: "st_incidents (hr_store v1) =
        map (\<lambda>r. if resolves g e codes absent i \<and> in_id r = in_id i then recovered_row e r else r)
          (st_incidents (hr_store v))"
    and act: "st_actions (hr_store v1) =
        map (\<lambda>a. if resolves g e codes absent i \<and> ac_incident_id a = in_id i
                    \<and> cancellable (ac_status a) then rejected e a else a) (st_actions (hr_store v))"
    using step by blast+
  have "map in_id (st_incidents (hr_store v1)) = map in_id (st_incidents (hr_store v))"
    unfolding inc by simp
  then have "in_id ` set (st_incidents (hr_store v1)) = in_id ` set (st_incidents (hr_store v))"
    by (metis list.set_map)
  moreover have "map ac_id (st_actions (hr_store v1)) = map ac_id (st_actions (hr_store v))"
    unfolding act by simp
  ultimately have "\<exists>v'. recover_incidents g e codes is v1 = Inr v'"
    using Cons.IH [OF _ _ conjunct1 [OF step]] Cons.prems(1,2) by simp
  then show ?case using one by simp
qed

text \<open>
  C23. Recovery closes exactly what has recovered: a pass always completes, and it resolves the open
  incidents of its cluster that the health check owns, whose code is not reported and has been absent
  for the quiet period; it rejects their open proposals, announces each cluster and code once, and
  touches no other incident and no other action.
\<close>

theorem recovery_resolves_exactly:
  assumes "distinct (map in_id (st_incidents st))" and "distinct (map ac_id (st_actions st))"
    and quiet: "quiet = (\<lambda>r. recovery_scope cid legacy locked r \<and> \<not> owned_elsewhere r
          \<and> in_ceph_code r \<notin> set codes
          \<and> (g \<le> 0 \<or> (\<exists>t. absence absent (in_cluster_id r) (in_ceph_code r) = Some t
                          \<and> seconds g \<le> ev_now e - t)))"
  shows "\<exists>v. recovery_transaction g e codes cid legacy locked absent st = Inr v
    \<and> st_incidents (hr_store v) =
      map (\<lambda>r. if quiet r then save_incident (ev_now e) (incident_to e IS_RESOLVED) r else r)
        (st_incidents st)
    \<and> st_actions (hr_store v) =
      map (\<lambda>a. if cancellable (ac_status a)
                  \<and> ac_incident_id a \<in> in_id ` {r \<in> set (st_incidents st). quiet r}
                then save_action (ev_now e) (\<lambda>r. r\<lparr>ac_status := AS_REJECTED\<rparr>) a else a)
        (st_actions st)
    \<and> distinct (map fst (hr_recovered v))
    \<and> fst ` set (hr_recovered v) =
        (\<lambda>r. (in_cluster_id r, in_ceph_code r)) ` {r \<in> set (st_incidents st). quiet r}"
proof -
  let ?is = "filter (recovery_scope cid legacy locked) (st_incidents st)"
  let ?v0 = "\<lparr>hr_decisions = [], hr_recovered = [], hr_absent = absent, hr_store = st\<rparr>"
  have kept: "clock_kept g (ev_now e) codes absent ?v0" by (simp add: clock_kept_def)
  have dist: "distinct (map ac_id (st_actions (hr_store ?v0)))" using assms(2) by simp
  have sub: "in_id ` set ?is \<subseteq> in_id ` set (st_incidents (hr_store ?v0))" by auto
  obtain v where run: "recover_incidents g e codes ?is ?v0 = Inr v"
    using recover_incidents_total [OF sub dist kept] by blast
  have sel: "{i \<in> set ?is. resolves g e codes absent i} = {r \<in> set (st_incidents st). quiet r}"
    by (auto simp: quiet resolves_def key_verdict_def decide_RESOLVE)
  have row: "in_id r \<in> in_id ` {r \<in> set (st_incidents st). quiet r} \<longleftrightarrow> quiet r"
    if "r \<in> set (st_incidents st)" for r
    using assms(1) that by (auto simp: distinct_map inj_on_eq_iff)
  from recover_incidents_eq [OF run dist kept] run show ?thesis
    unfolding sel recovery_transaction_def
    by (simp add: recovered_row_def rejected_def row cong: map_cong)
qed

definition recovering_store :: store where
  "recovering_store =
     lab_store\<lparr>st_incidents := [lab_incident\<lparr>in_status := IS_PENDING_APPROVAL\<rparr>],
       st_actions := [lab_action\<lparr>ac_status := AS_PENDING_APPROVAL\<rparr>]\<rparr>"

lemma recovery_resolves_exactly_witness:
  "\<exists>v. recovery_transaction 1800 (lab_env\<lparr>ev_now := seconds 7200\<rparr>) [''MON_DOWN''] (Some ''c1'') False []
          [(Some ''c1'', ''OSD_DOWN'', 0)] recovering_store = Inr v
     \<and> map in_status (st_incidents (hr_store v)) = [IS_RESOLVED]
     \<and> map ac_status (st_actions (hr_store v)) = [AS_REJECTED]"
proof -
  let ?i = "lab_incident\<lparr>in_status := IS_PENDING_APPROVAL\<rparr>"
  let ?a = "lab_action\<lparr>ac_status := AS_PENDING_APPROVAL\<rparr>"
  let ?ab = "[(Some ''c1'', ''OSD_DOWN'', 0)]"
  have rows: "st_incidents recovering_store = [?i]" "st_actions recovering_store = [?a]"
    by (simp_all add: recovering_store_def)
  have q: "recovery_scope (Some ''c1'') False [] ?i" "\<not> owned_elsewhere ?i"
    "absence ?ab (in_cluster_id ?i) (in_ceph_code ?i) = Some 0" "in_ceph_code ?i \<notin> set [''MON_DOWN'']"
    "seconds 1800 \<le> seconds 7200" "cancellable (ac_status ?a)" "ac_incident_id ?a = in_id ?i"
    by code_simp+
  define quiet where "quiet = (\<lambda>r. recovery_scope (Some ''c1'') False [] r \<and> \<not> owned_elsewhere r
          \<and> in_ceph_code r \<notin> set [''MON_DOWN'']
          \<and> (1800 \<le> (0::int) \<or> (\<exists>t. absence ?ab (in_cluster_id r) (in_ceph_code r) = Some t
                          \<and> seconds 1800 \<le> ev_now (lab_env\<lparr>ev_now := seconds 7200\<rparr>) - t)))"
  have one: "quiet ?i" using q unfolding quiet_def by simp
  have "distinct (map in_id (st_incidents recovering_store))"
    "distinct (map ac_id (st_actions recovering_store))" by (simp_all add: rows)
  from recovery_resolves_exactly [OF this quiet_def] obtain v where
    "recovery_transaction 1800 (lab_env\<lparr>ev_now := seconds 7200\<rparr>) [''MON_DOWN''] (Some ''c1'') False []
          ?ab recovering_store = Inr v"
    "st_incidents (hr_store v) =
       map (\<lambda>r. if quiet r then save_incident (ev_now (lab_env\<lparr>ev_now := seconds 7200\<rparr>))
              (incident_to (lab_env\<lparr>ev_now := seconds 7200\<rparr>) IS_RESOLVED) r else r) [?i]"
    "st_actions (hr_store v) =
       map (\<lambda>a. if cancellable (ac_status a) \<and> ac_incident_id a \<in> in_id ` {r \<in> set [?i]. quiet r}
                then save_action (ev_now (lab_env\<lparr>ev_now := seconds 7200\<rparr>))
                       (\<lambda>r. r\<lparr>ac_status := AS_REJECTED\<rparr>) a else a) [?a]"
    unfolding rows by blast
  with one q(6,7) show ?thesis by (auto simp: set_incident_status_def)
qed

end
