(* ===== verification/Shell.thy ===== *)
theory Shell
  imports Prelude
begin

text \<open>
  The two sides of a command line: \<open>shlex.quote\<close> of the Python library, with which the command
  builders embed a value in a command, and the lexical analysis of a POSIX shell, which is what the
  command means on the node.  The lexer keeps words and operator characters apart; an unquoted
  \<open>$\<close> or backquote, also inside double quotes, is an operator here, since it makes the shell expand.
\<close>

section \<open>Quoting\<close>

text \<open>\<open>re.compile(r'[^\w@%+=:,./-]', re.ASCII)\<close>, negated.\<close>

definition shell_safe :: "char \<Rightarrow> bool" where
  "shell_safe c = (alnum_char c \<or> c \<in> set ''_@%+=:,./-'')"

definition single_quote :: char where
  "single_quote = CHR 0x27"

fun escape_quotes :: "string \<Rightarrow> string" where
  "escape_quotes [] = []"
| "escape_quotes (c # cs) =
     (if c = CHR 0x27 then [CHR 0x27, CHR 0x22, CHR 0x27, CHR 0x22, CHR 0x27] else [c])
     @ escape_quotes cs"

definition shlex_quote :: "string \<Rightarrow> string" where
  "shlex_quote s =
     (if s = [] then [CHR 0x27, CHR 0x27]
      else if list_all shell_safe s then s
      else [CHR 0x27] @ escape_quotes s @ [CHR 0x27])"

section \<open>What the shell reads\<close>

datatype shell_token = Word string | Oper char

definition blank_char :: "char \<Rightarrow> bool" where
  "blank_char c = (c = CHR '' '' \<or> c = CHR 0x09)"

definition oper_char :: "char \<Rightarrow> bool" where
  "oper_char c = (c \<in> {CHR '';'', CHR ''&'', CHR ''|'', CHR ''<'', CHR ''>'', CHR ''('', CHR '')'',
     CHR ''$'', CHR 0x60, CHR 0x0A, CHR ''*'', CHR ''?'', CHR ''['', CHR ''#'', CHR ''~'',
     CHR ''{'', CHR ''!''})"

definition flush :: "string option \<Rightarrow> shell_token list" where
  "flush w = (case w of None \<Rightarrow> [] | Some s \<Rightarrow> [Word s])"

definition more :: "string option \<Rightarrow> string \<Rightarrow> string option" where
  "more w s = Some (or_empty w @ s)"

text \<open>A backslash between double quotes is kept before a character that it does not escape.\<close>

definition unescaped :: "char \<Rightarrow> string" where
  "unescaped d = (if d \<in> {CHR 0x22, CHR 0x5C, CHR ''$'', CHR 0x60} then [d] else [CHR 0x5C, d])"

text \<open>\<open>None\<close> is an unterminated quotation.\<close>

datatype lex_mode = Bare | Single | Double

fun lex :: "lex_mode \<Rightarrow> string option \<Rightarrow> string \<Rightarrow> shell_token list option" where
  "lex Bare w [] = Some (flush w)"
| "lex Single w [] = None"
| "lex Double w [] = None"
| "lex Bare w (c # cs) =
     (if c = CHR 0x27 then lex Single (more w []) cs
      else if c = CHR 0x22 then lex Double (more w []) cs
      else if c = CHR 0x5C then
        (case cs of [] \<Rightarrow> None | d # ds \<Rightarrow> lex Bare (more w [d]) ds)
      else if blank_char c then map_option (append (flush w)) (lex Bare None cs)
      else if oper_char c then map_option (append (flush w @ [Oper c])) (lex Bare None cs)
      else lex Bare (more w [c]) cs)"
| "lex Single w (c # cs) =
     (if c = CHR 0x27 then lex Bare w cs else lex Single (more w [c]) cs)"
| "lex Double w (c # cs) =
     (if c = CHR 0x22 then lex Bare w cs
      else if c = CHR 0x5C then
        (case cs of [] \<Rightarrow> None
         | d # ds \<Rightarrow> lex Double (more w (unescaped d)) ds)
      else if c = CHR ''$'' \<or> c = CHR 0x60
      then map_option (append (flush w @ [Oper c])) (lex Double (Some []) cs)
      else lex Double (more w [c]) cs)"

definition shell_read :: "string \<Rightarrow> shell_token list option" where
  "shell_read s = lex Bare None s"

section \<open>A quoted value is one word\<close>

lemma more_more [simp]: "more (more w s) t = more w (s @ t)"
  by (simp add: more_def or_empty_def)

lemma more_Some [simp]: "more (Some s) t = Some (s @ t)" "more None t = Some t"
  by (simp_all add: more_def or_empty_def)

lemma flush_simps [simp]: "flush None = []" "flush (Some s) = [Word s]"
  by (simp_all add: flush_def)

lemma shell_safe_bare:
  "shell_safe c \<Longrightarrow> c \<noteq> CHR 0x27 \<and> c \<noteq> CHR 0x22 \<and> c \<noteq> CHR 0x5C \<and> \<not> blank_char c \<and> \<not> oper_char c"
  by (auto simp: shell_safe_def blank_char_def oper_char_def alnum_char_def digit_char_def
      alpha_char_def char_code_def)

lemma lex_safe: "list_all shell_safe s \<Longrightarrow> lex Bare (more w t) (s @ r) = lex Bare (more w (t @ s)) r"
proof (induction s arbitrary: t)
  case Nil
  then show ?case by simp
next
  case (Cons c s)
  with shell_safe_bare [of c] show ?case by simp
qed

lemma lex_escaped:
  "lex Single (more w t) (escape_quotes s @ r) = lex Single (more w (t @ s)) r"
  by (induction s arbitrary: t) simp_all

lemma lex_quote:
  "lex Bare w (shlex_quote s @ r) = lex Bare (more w s) r"
proof (cases "s = []")
  case True
  then show ?thesis by (simp add: shlex_quote_def)
next
  case False
  show ?thesis
  proof (cases "list_all shell_safe s")
    case True
    obtain c cs where s: "s = c # cs" using False by (cases s) auto
    with True shell_safe_bare [of c] lex_safe [of cs w "[c]" r] show ?thesis
      by (simp add: shlex_quote_def)
  next
    case False
    with \<open>s \<noteq> []\<close> lex_escaped [of w "[]" s "CHR 0x27 # r"] show ?thesis
      by (simp add: shlex_quote_def)
  qed
qed

lemma lex_quote_end: "lex Bare w (shlex_quote s) = Some (flush (more w s))"
  using lex_quote [of w s "[]"] by simp

lemma shell_safe_int: "list_all shell_safe (int_text n)"
proof -
  have "list_all shell_safe (nat_text m)" for m
    using nat_text_digits [of m] by (auto simp: list_all_iff shell_safe_def alnum_char_def)
  moreover have "shell_safe (CHR ''-'')" by (simp add: shell_safe_def)
  ultimately show ?thesis by (simp add: int_text_def)
qed

lemma int_text_nonempty [simp]: "int_text n \<noteq> []"
  by (simp add: int_text_def)

lemma lex_safe_word:
  assumes "list_all shell_safe s" and "s \<noteq> []"
  shows "lex Bare w (s @ r) = lex Bare (more w s) r"
proof -
  have "shlex_quote s = s" using assms by (simp add: shlex_quote_def)
  with lex_quote [of w s r] show ?thesis by simp
qed

lemma lex_int: "lex Bare w (int_text n @ r) = lex Bare (more w (int_text n)) r"
  by (rule lex_safe_word [OF shell_safe_int]) simp

lemma lex_int_end: "lex Bare w (int_text n) = Some (flush (more w (int_text n)))"
  using lex_int [of w n "[]"] by simp

lemmas shell_simps = shell_read_def lex_quote lex_quote_end lex_int lex_int_end
  blank_char_def oper_char_def

text \<open>
  Quoting is exact: whatever the value, the shell reads a quoted value as one word, the value
  itself, and a quoted value between other text leaves what the shell reads of that text unchanged.
\<close>

theorem quoted_value_is_one_word:
  "shell_read (shlex_quote s) = Some [Word s]
   \<and> lex Bare w (shlex_quote s @ r) = lex Bare (more w s) r"
  by (simp add: shell_read_def lex_quote_end lex_quote)

end
