(* ===== verification/Commands.thy ===== *)
theory Commands
  imports PyVal Shell
begin

text \<open>
  The commands of the executor (\<open>worker/executor/commands.py\<close>): each builder checks the parameters
  of its action and embeds them, quoted, in the command that runs on the node.  A parameter
  dictionary is a \<open>pyval\<close>.  Texts are UTF-8; the patterns of the module admit ASCII only, with \<open>\d\<close>
  and \<open>\s\<close> read as their ASCII members.  What a host answers to
  \<open>systemctl --all | grep ceph\<close> is an argument.
\<close>

section \<open>Results and patterns\<close>

datatype cmd_error = ExecutorError | Raises py_exn

definition bind_cmd ::
  "cmd_error + 'a \<Rightarrow> ('a \<Rightarrow> cmd_error + 'b) \<Rightarrow> cmd_error + 'b" where
  "bind_cmd m f = (case m of Inl x \<Rightarrow> Inl x | Inr a \<Rightarrow> f a)"

fun map_cmd :: "('a \<Rightarrow> cmd_error + 'b) \<Rightarrow> 'a list \<Rightarrow> cmd_error + 'b list" where
  "map_cmd f [] = Inr []"
| "map_cmd f (x # xs) = bind_cmd (f x) (\<lambda>y. bind_cmd (map_cmd f xs) (\<lambda>ys. Inr (y # ys)))"

text \<open>One character of a class, then at least \<open>lo\<close> and at most \<open>hi\<close> of another.\<close>

definition pattern ::
  "(char \<Rightarrow> bool) \<Rightarrow> (char \<Rightarrow> bool) \<Rightarrow> nat \<Rightarrow> nat \<Rightarrow> string \<Rightarrow> bool" where
  "pattern first rest lo hi s =
     (case s of [] \<Rightarrow> False
      | c # cs \<Rightarrow> first c \<and> list_all rest cs \<and> lo \<le> length cs \<and> length cs \<le> hi)"

text \<open>\<open>re.match\<close> with a pattern that ends in \<open>$\<close>: a final line feed may follow.\<close>

definition matches :: "(string \<Rightarrow> bool) \<Rightarrow> string \<Rightarrow> bool" where
  "matches P s = (P s \<or> s \<noteq> [] \<and> last s = CHR 0x0A \<and> P (butlast s))"

definition name_char :: "char \<Rightarrow> bool" where
  "name_char c = (alnum_char c \<or> c \<in> set ''_.-'')"

definition dash_char :: "char \<Rightarrow> bool" where
  "dash_char c = (alnum_char c \<or> c \<in> set ''_-'')"

definition word_start :: "char \<Rightarrow> bool" where
  "word_start c = (alnum_char c \<or> c = CHR ''_'')"

definition hex_char :: "char \<Rightarrow> bool" where
  "hex_char c = (c \<in> set ''0123456789abcdefABCDEF'')"

text \<open>\<open>len\<close> counts characters, not bytes.\<close>

definition text_length :: "string \<Rightarrow> nat" where
  "text_length s = length (filter (\<lambda>c. \<not> (128 \<le> char_code c \<and> char_code c < 192)) s)"

definition text_of :: "(string \<Rightarrow> bool) \<Rightarrow> pyval \<Rightarrow> cmd_error + string" where
  "text_of P v =
     (case v of PStr s \<Rightarrow> if P s then Inr s else Inl ExecutorError | _ \<Rightarrow> Inl ExecutorError)"

definition pool_name_re :: "string \<Rightarrow> bool" where
  "pool_name_re = pattern alnum_char name_char 0 127"

definition trash_id_re :: "string \<Rightarrow> bool" where
  "trash_id_re = pattern alnum_char dash_char 0 63"

definition rbd_image_re :: "string \<Rightarrow> bool" where
  "rbd_image_re = pattern word_start name_char 0 127"

definition rbd_snapshot_re :: "string \<Rightarrow> bool" where
  "rbd_snapshot_re = pattern word_start name_char 0 127"

definition rbd_move_token_re :: "string \<Rightarrow> bool" where
  "rbd_move_token_re = pattern alnum_char dash_char 15 63"

definition service_name_re :: "string \<Rightarrow> bool" where
  "service_name_re = pattern alpha_char dash_char 0 63"

definition hostname_re :: "string \<Rightarrow> bool" where
  "hostname_re = pattern alnum_char (\<lambda>c. alnum_char c \<or> c \<in> set ''.-'') 0 252"

definition export_path_re :: "string \<Rightarrow> bool" where
  "export_path_re = pattern (\<lambda>c. c = CHR ''/'') (\<lambda>c. alnum_char c \<or> c \<in> set ''/_.-'') 0 254"

definition app_name_re :: "string \<Rightarrow> bool" where
  "app_name_re = pattern alnum_char name_char 0 63"

definition ceph_release_re :: "string \<Rightarrow> bool" where
  "ceph_release_re =
     pattern (\<lambda>c. c \<in> set ''abcdefghijklmnopqrstuvwxyz'')
       (\<lambda>c. c \<in> set ''abcdefghijklmnopqrstuvwxyz0123456789-'') 1 31"

definition cinder_snapshot_name_re :: "string \<Rightarrow> bool" where
  "cinder_snapshot_name_re = pattern alnum_char name_char 0 127"

definition rgw_section_re :: "string \<Rightarrow> bool" where
  "rgw_section_re s =
     (starts_with s ''client.rgw.''
      \<and> pattern name_char name_char 0 179 (drop (length ''client.rgw.'') s))"

definition rgw_daemon_re :: "string \<Rightarrow> bool" where
  "rgw_daemon_re s =
     (starts_with s ''rgw.'' \<and> pattern name_char name_char 0 179 (drop (length ''rgw.'') s))"

text \<open>\<open>[0-9]+\.[0-9a-fA-F]+\<close>.\<close>

definition pg_id_re :: "string \<Rightarrow> bool" where
  "pg_id_re s =
     (let digits = takeWhile digit_char s; rest = dropWhile digit_char s in
      digits \<noteq> []
      \<and> (case rest of [] \<Rightarrow> False
         | c # hex \<Rightarrow> c = CHR ''.'' \<and> hex \<noteq> [] \<and> list_all hex_char hex))"

definition openstack_uuid_re :: "string \<Rightarrow> bool" where
  "openstack_uuid_re s =
     (length s = 36
      \<and> list_all (\<lambda>i. if i \<in> {8, 13, 18, 23} then s ! i = CHR ''-'' else hex_char (s ! i)) [0..<36]
      \<and> s ! 14 \<in> set ''12345'' \<and> s ! 19 \<in> set ''89abAB'')"

definition template_name_re :: "string \<Rightarrow> bool" where
  "template_name_re = pattern alnum_char name_char 0 63"

section \<open>Checked parameters\<close>

definition require_trash_id :: "pyval \<Rightarrow> cmd_error + string" where
  "require_trash_id params = text_of (matches trash_id_re) (dget params ''trash_id'')"

definition require_pool_name :: "pyval \<Rightarrow> cmd_error + string" where
  "require_pool_name params = text_of (matches pool_name_re) (dget params ''pool_name'')"

definition require_rbd_image :: "pyval \<Rightarrow> cmd_error + string" where
  "require_rbd_image params = text_of rbd_image_re (dget params ''image'')"

definition require_app_name :: "pyval \<Rightarrow> cmd_error + string" where
  "require_app_name params = text_of (matches app_name_re) (dget params ''app_name'')"

definition require_int :: "pyval \<Rightarrow> string \<Rightarrow> int \<times> int \<Rightarrow> cmd_error + int" where
  "require_int params key bounds =
     (case dget params key of
        PInt n \<Rightarrow> if fst bounds \<le> n \<and> n \<le> snd bounds then Inr n else Inl ExecutorError
      | _ \<Rightarrow> Inl ExecutorError)"

definition pg_num_range :: "int \<times> int" where "pg_num_range = (1, 65536)"
definition pool_size_range :: "int \<times> int" where "pool_size_range = (1, 10)"
definition osd_id_range :: "int \<times> int" where "osd_id_range = (0, 9999)"
definition rbd_size_mib_range :: "int \<times> int" where "rbd_size_mib_range = (1, 64 * 1024 * 1024)"
definition max_subvolume_gib :: int where "max_subvolume_gib = 1000000"

definition require_name :: "pyval \<Rightarrow> string \<Rightarrow> cmd_error + string" where
  "require_name params key = text_of (matches service_name_re) (dget params key)"

text \<open>\<open>set(hosts)\<close> raises for an element that cannot be hashed.\<close>

definition require_hosts :: "pyval \<Rightarrow> cmd_error + string list" where
  "require_hosts params =
     (case dget params ''hosts'' of
        PList hosts \<Rightarrow>
          (if hosts = [] \<or> length hosts > 16 then Inl ExecutorError
           else if \<not> list_all hashable hosts then Inl (Raises TypeError)
           else if \<not> distinct hosts then Inl ExecutorError
           else map_cmd (text_of (matches hostname_re)) hosts)
      | _ \<Rightarrow> Inl ExecutorError)"

definition require_export_path :: "pyval \<Rightarrow> string \<Rightarrow> cmd_error + string" where
  "require_export_path params key =
     text_of (\<lambda>s. matches export_path_re s \<and> \<not> contains_str ''/../'' (s @ ''/'')) (dget params key)"

section \<open>Pools and file services\<close>

definition create_pool_command :: "pyval \<Rightarrow> cmd_error + string" where
  "create_pool_command params =
     bind_cmd (require_pool_name params) (\<lambda>pool_name.
     bind_cmd (require_int params ''pg_num'' pg_num_range) (\<lambda>pg_num.
       (let command = ''ceph osd pool create '' @ shlex_quote pool_name @ '' '' @ int_text pg_num;
            app_name = dget params ''app_name'' in
        if app_name = PNone then Inr command
        else
          (case in_strings app_name [''rbd'', ''cephfs'', ''rgw''] of
             Inl x \<Rightarrow> Inl (Raises x)
           | Inr known \<Rightarrow>
               if \<not> known then Inl ExecutorError
               else Inr (command @ '' && ceph osd pool application enable '' @ shlex_quote pool_name
                         @ '' '' @ shlex_quote (py_str app_name))))))"

definition cephfs_create_volume_command :: "pyval \<Rightarrow> cmd_error + string" where
  "cephfs_create_volume_command params =
     bind_cmd (require_name params ''fs_name'') (\<lambda>fs_name.
       Inr (''ceph fs volume create '' @ shlex_quote fs_name))"

definition cephfs_create_subvolume_command :: "pyval \<Rightarrow> cmd_error + string" where
  "cephfs_create_subvolume_command params =
     bind_cmd (require_name params ''fs_name'') (\<lambda>fs_name.
     bind_cmd (require_name params ''subvolume'') (\<lambda>subvolume.
       (let command = ''ceph fs subvolume create '' @ shlex_quote fs_name @ '' '' @ shlex_quote subvolume in
        if dget params ''size_gib'' = PNone then Inr command
        else bind_cmd (require_int params ''size_gib'' (1, max_subvolume_gib)) (\<lambda>size.
               Inr (command @ '' --size '' @ int_text (size * 1024 ^ 3))))))"

definition placement :: "string list \<Rightarrow> string" where
  "placement hosts = shlex_quote (int_text (int (length hosts)) @ '' '' @ join '' '' hosts)"

definition nfs_create_cluster_command :: "pyval \<Rightarrow> cmd_error + string" where
  "nfs_create_cluster_command params =
     bind_cmd (require_name params ''nfs_id'') (\<lambda>nfs_id.
     bind_cmd (require_hosts params) (\<lambda>hosts.
       Inr (''ceph nfs cluster create '' @ shlex_quote nfs_id @ '' '' @ placement hosts)))"

definition nfs_create_export_command :: "pyval \<Rightarrow> cmd_error + string" where
  "nfs_create_export_command params =
     bind_cmd (require_name params ''fs_name'') (\<lambda>fs_name.
     bind_cmd (require_name params ''nfs_id'') (\<lambda>nfs_id.
     bind_cmd (require_export_path params ''pseudo_path'') (\<lambda>pseudo_path.
       (let command = ''ceph nfs export create cephfs --cluster-id '' @ shlex_quote nfs_id
              @ '' --pseudo-path '' @ shlex_quote pseudo_path @ '' --fsname '' @ shlex_quote fs_name;
            readonly = (if dget params ''readonly'' = PBool True then '' --readonly'' else [])
        in if truthy (dget params ''subvolume'')
           then bind_cmd (require_name params ''subvolume'') (\<lambda>subvolume.
                  Inr ((''subvolume_path='' @ [CHR 0x22] @ ''$(ceph fs subvolume getpath '') @ shlex_quote fs_name @ '' ''
                       @ shlex_quote subvolume @ ('')'' @ [CHR 0x22] @ '' && '') @ command
                       @ ('' --path '' @ [CHR 0x22] @ ''$subvolume_path'' @ [CHR 0x22]) @ readonly))
           else bind_cmd (require_export_path params ''path'') (\<lambda>path.
                  Inr (command @ '' --path '' @ shlex_quote path @ readonly))))))"

definition nfs_delete_export_command :: "pyval \<Rightarrow> cmd_error + string" where
  "nfs_delete_export_command params =
     bind_cmd (require_name params ''nfs_id'') (\<lambda>nfs_id.
     bind_cmd (require_export_path params ''pseudo_path'') (\<lambda>pseudo_path.
       Inr (''ceph nfs export rm '' @ shlex_quote nfs_id @ '' '' @ shlex_quote pseudo_path)))"

definition rgw_apply_service_command :: "pyval \<Rightarrow> cmd_error + string" where
  "rgw_apply_service_command params =
     bind_cmd (require_int params ''port'' (1, 65535)) (\<lambda>port.
     bind_cmd (require_name params ''service_id'') (\<lambda>service_id.
     bind_cmd (require_hosts params) (\<lambda>hosts.
       Inr (''ceph orch apply rgw '' @ shlex_quote service_id @ '' --placement='' @ placement hosts
            @ '' --port='' @ int_text port))))"

definition delete_pool_command :: "pyval \<Rightarrow> cmd_error + string" where
  "delete_pool_command params =
     bind_cmd (require_pool_name params) (\<lambda>pool_name.
       (let quoted = shlex_quote pool_name;
            delete_cmd = ''ceph osd pool delete '' @ quoted @ '' '' @ quoted
              @ '' --yes-i-really-really-mean-it'' in
        Inr (''ceph config set mon mon_allow_pool_delete true && ('' @ delete_cmd @
       ''; rc=$?; ceph config set mon mon_allow_pool_delete false || echo '' @ [CHR 0x27] @
       ''WARNING: failed to reset mon_allow_pool_delete to false'' @ [CHR 0x27] @
       '' >&2; exit $rc)'')))"

definition set_pool_size_command :: "pyval \<Rightarrow> cmd_error + string" where
  "set_pool_size_command params =
     bind_cmd (require_pool_name params) (\<lambda>pool_name.
     bind_cmd (require_int params ''size'' pool_size_range) (\<lambda>size.
       Inr (''ceph osd pool set '' @ shlex_quote pool_name @ '' size '' @ int_text size)))"

definition pool_pg_num :: "pyval \<Rightarrow> cmd_error + string" where
  "pool_pg_num params =
     bind_cmd (require_pool_name params) (\<lambda>pool_name.
     bind_cmd (require_int params ''pg_num'' pg_num_range) (\<lambda>pg_num.
       Inr (''ceph osd pool set '' @ shlex_quote pool_name @ '' pg_num '' @ int_text pg_num)))"

definition set_pool_pg_num_command :: "pyval \<Rightarrow> cmd_error + string" where
  "set_pool_pg_num_command params =
     (case dget params ''adjustments'' of
        PNone \<Rightarrow> pool_pg_num params
      | PList adjustments \<Rightarrow>
          (if adjustments = [] then Inl ExecutorError
           else bind_cmd (map_cmd (\<lambda>a. if is_dict a then pool_pg_num a else Inl ExecutorError) adjustments)
                  (\<lambda>commands. Inr (join '' && '' commands)))
      | _ \<Rightarrow> Inl ExecutorError)"

definition enable_pool_pg_autoscaler_command :: "pyval \<Rightarrow> cmd_error + string" where
  "enable_pool_pg_autoscaler_command params =
     (case dget params ''pools'' of
        PList pools \<Rightarrow>
          (if pools = [] then Inl ExecutorError
           else bind_cmd (map_cmd (\<lambda>v. require_pool_name (doc [(''pool_name'', v)])) pools) (\<lambda>names.
                  Inr (join '' && ''
                    (map (\<lambda>name. ''ceph osd pool set '' @ shlex_quote name @ '' pg_autoscale_mode on'')
                       names))))
      | _ \<Rightarrow> Inl ExecutorError)"

definition reshard_rgw_bucket_command :: "pyval \<Rightarrow> cmd_error + string" where
  "reshard_rgw_bucket_command params =
     bind_cmd (text_of (\<lambda>s. s \<noteq> [] \<and> text_length s \<le> 255 \<and> \<not> starts_with s ''-'')
                 (dget params ''bucket_name'')) (\<lambda>bucket.
     bind_cmd (require_int params ''num_shards'' (2, 19999)) (\<lambda>shards.
       (let command = ''radosgw-admin bucket reshard --bucket='' @ shlex_quote bucket
              @ '' --num-shards='' @ int_text shards in
        if dget params ''pg_id'' = PNone then Inr command
        else bind_cmd (text_of pg_id_re (dget params ''pg_id'')) (\<lambda>pg_id.
               Inr (command @ '' && ceph pg '' @ shlex_quote pg_id @ '' deep_scrub'')))))"

definition deep_scrub :: "pyval \<Rightarrow> cmd_error + string" where
  "deep_scrub v =
     bind_cmd (text_of pg_id_re v) (\<lambda>pg_id. Inr (''ceph pg '' @ shlex_quote pg_id @ '' deep_scrub''))"

definition deep_scrub_omap_pg_command :: "pyval \<Rightarrow> cmd_error + string" where
  "deep_scrub_omap_pg_command params =
     (case dget params ''pg_ids'' of
        PNone \<Rightarrow> deep_scrub (dget params ''pg_id'')
      | PList pg_ids \<Rightarrow>
          (if pg_ids = [] \<or> length pg_ids > 4 then Inl ExecutorError
           else bind_cmd (map_cmd deep_scrub pg_ids) (\<lambda>commands. Inr (join '' && '' commands)))
      | _ \<Rightarrow> Inl ExecutorError)"

definition edit_pool_command :: "pyval \<Rightarrow> cmd_error + string" where
  "edit_pool_command params =
     bind_cmd (require_pool_name params) (\<lambda>pool_name.
     bind_cmd (require_int params ''size'' pool_size_range) (\<lambda>size.
     bind_cmd (require_int params ''pg_num'' pg_num_range) (\<lambda>pg_num.
       Inr (''ceph osd pool set '' @ shlex_quote pool_name @ '' size '' @ int_text size
            @ '' && ceph osd pool set '' @ shlex_quote pool_name @ '' pg_num '' @ int_text pg_num))))"

definition scrub_pool_command :: "pyval \<Rightarrow> cmd_error + string" where
  "scrub_pool_command params =
     bind_cmd (require_pool_name params) (\<lambda>pool_name.
       Inr (''ceph osd pool scrub '' @ shlex_quote pool_name))"

definition set_pool_protection_command :: "pyval \<Rightarrow> cmd_error + string" where
  "set_pool_protection_command params =
     bind_cmd (require_pool_name params) (\<lambda>pool_name.
       (case dget params ''protected'' of
          PBool b \<Rightarrow> Inr (''ceph osd pool set '' @ shlex_quote pool_name @ '' nodelete ''
                         @ (if b then ''true'' else ''false''))
        | _ \<Rightarrow> Inl ExecutorError))"

definition mark_osd_command :: "string \<Rightarrow> pyval \<Rightarrow> cmd_error + string" where
  "mark_osd_command verb params =
     bind_cmd (require_int params ''osd_id'' osd_id_range) (\<lambda>osd_id.
       Inr (''ceph osd '' @ verb @ '' '' @ int_text osd_id))"

definition enable_pool_application_command :: "pyval \<Rightarrow> cmd_error + string" where
  "enable_pool_application_command params =
     bind_cmd (require_pool_name params) (\<lambda>pool_name.
     bind_cmd (require_app_name params) (\<lambda>app_name.
       Inr (''ceph osd pool application enable '' @ shlex_quote pool_name @ '' '' @ shlex_quote app_name
            @ '' --yes-i-really-mean-it'')))"

definition finalize_pacific_osd_release_command :: "pyval \<Rightarrow> cmd_error + string" where
  "finalize_pacific_osd_release_command params =
     Inr ''ceph osd require-osd-release pacific --yes-i-really-mean-it''"

definition finalize_osd_release_command :: "pyval \<Rightarrow> cmd_error + string" where
  "finalize_osd_release_command params =
     bind_cmd (text_of ceph_release_re (dget params ''release'')) (\<lambda>release.
       Inr (''ceph osd require-osd-release '' @ shlex_quote release))"

definition remove_invalid_rgw_default_key_command :: "pyval \<Rightarrow> cmd_error + string" where
  "remove_invalid_rgw_default_key_command params =
     (let section_text = py_str (por (dget params ''section'') (PStr [])) in
      if \<not> rgw_section_re section_text then Inl ExecutorError
      else
        (case dget params ''daemon_names'' of
           PList names \<Rightarrow>
             (if names = [] then Inl ExecutorError
              else bind_cmd (map_cmd (text_of rgw_daemon_re) names) (\<lambda>daemon_names.
                (let quoted_section = shlex_quote section_text;
                     checks = (''test '' @ [CHR 0x22] @ ''$(ceph config get '' @ quoted_section @
       '' rgw_crypt_sse_s3_backend)'' @ [CHR 0x22] @ '' = vault && ceph config rm '' @
       quoted_section @ '' rgw_crypt_default_encryption_key'');
                     restarts = join '' && ''
                       (map (\<lambda>name. ''ceph orch daemon restart '' @ shlex_quote name) daemon_names)
                 in Inr (checks @ '' && '' @ restarts))))
         | _ \<Rightarrow> Inl ExecutorError))"

section \<open>BlueStore\<close>

definition bluestore_slow_ops_mask :: "pyval \<Rightarrow> cmd_error + string" where
  "bluestore_slow_ops_mask params =
     (case in_strings (dget params ''device_class'') [''hdd'', ''ssd'', ''nvme''] of
        Inl x \<Rightarrow> Inl (Raises x)
      | Inr known \<Rightarrow>
          if known then Inr (''osd/class:'' @ py_str (dget params ''device_class''))
          else Inl ExecutorError)"

text \<open>The class is the part of the mask after its colon.\<close>

definition tune_bluestore_slow_ops_warn_command :: "pyval \<Rightarrow> cmd_error + string" where
  "tune_bluestore_slow_ops_warn_command params =
     bind_cmd (bluestore_slow_ops_mask params) (\<lambda>mask.
     bind_cmd (require_int params ''threshold'' (1, 1000)) (\<lambda>threshold.
     bind_cmd (require_int params ''lifetime_seconds'' (60, 86400)) (\<lambda>lifetime.
       (let device_class = drop (length ''osd/class:'') mask in
        Inr (''ceph config dump | grep -E '' @ [CHR 0x27] @
       ''bluestore_slow_ops_warn_(threshold|lifetime)'' @ [CHR 0x27] @
       '' || true; if ceph config dump | grep -E '' @ [CHR 0x27] @ ''class:'' @ device_class @
       ''[[:space:]].*bluestore_slow_ops_warn_'' @ [CHR 0x27] @ '' >/dev/null; then echo '' @
       [CHR 0x27] @ ''osd/class:'' @ device_class @
       '' already overrides bluestore_slow_ops_warn_*; refusing so rollback stays exact'' @
       [CHR 0x27] @ '' >&2; exit 3; fi; ceph config set '' @ mask @ '' '' @
       ''bluestore_slow_ops_warn_threshold'' @ '' '' @ int_text threshold @
       '' && ceph config set '' @ mask @ '' '' @ ''bluestore_slow_ops_warn_lifetime'' @
       '' '' @ int_text lifetime)))))"

definition tune_bluestore_slow_ops_warn_rollback_command :: "pyval \<Rightarrow> cmd_error + string" where
  "tune_bluestore_slow_ops_warn_rollback_command params =
     bind_cmd (bluestore_slow_ops_mask params) (\<lambda>mask.
       Inr (join '' && '' (map (\<lambda>opt. ''ceph config rm '' @ mask @ '' '' @ opt)
         [''bluestore_slow_ops_warn_threshold'', ''bluestore_slow_ops_warn_lifetime''])))"

definition bluestore_omap_quick_fix_command ::
  "string \<Rightarrow> string option \<Rightarrow> pyval \<Rightarrow> cmd_error + string" where
  "bluestore_omap_quick_fix_command exec_mode host params =
     (if host = None then Inl ExecutorError
      else bind_cmd (require_int params ''osd_id'' osd_id_range) (\<lambda>osd_id.
        (let quick_fix = ''ceph-bluestore-tool quick-fix --path ''
               @ shlex_quote (''/var/lib/ceph/osd/ceph-'' @ int_text osd_id);
             daemon_name = shlex_quote (''osd.'' @ int_text osd_id);
             unit = shlex_quote (''ceph-osd@'' @ int_text osd_id @ ''.service'') in
         if exec_mode = ''cephadm'' then
           Inr (join '' && ''
             [''cephadm unit --name '' @ daemon_name @ '' stop'',
              ''cephadm shell --name '' @ daemon_name @ '' -- '' @ quick_fix,
              ''cephadm unit --name '' @ daemon_name @ '' start''])
         else if exec_mode = ''none'' then
           Inr (join '' && '' [''systemctl stop '' @ unit, quick_fix, ''systemctl start '' @ unit])
         else Inl ExecutorError)))"

section \<open>RBD images\<close>

definition image_spec :: "string \<Rightarrow> string \<Rightarrow> string" where
  "image_spec pool img = shlex_quote (pool @ ''/'' @ img)"

definition rbd_trash_remove_command :: "pyval \<Rightarrow> cmd_error + string" where
  "rbd_trash_remove_command params =
     bind_cmd (require_pool_name params) (\<lambda>pool_name.
     bind_cmd (require_trash_id params) (\<lambda>trash_id.
       Inr (''rbd trash rm '' @ shlex_quote pool_name @ ''/'' @ shlex_quote trash_id)))"

definition rbd_create_volume_command :: "pyval \<Rightarrow> cmd_error + string" where
  "rbd_create_volume_command params =
     bind_cmd (require_pool_name params) (\<lambda>pool.
     bind_cmd (require_rbd_image params) (\<lambda>img.
     bind_cmd (require_int params ''size_mib'' rbd_size_mib_range) (\<lambda>size_mib.
       (let spec = image_spec pool img in
        Inr (''rbd create --size '' @ int_text size_mib @ '' '' @ spec @ '' && rbd info '' @ spec
             @ '' --format json'')))))"

definition rbd_resize_volume_command :: "pyval \<Rightarrow> cmd_error + string" where
  "rbd_resize_volume_command params =
     bind_cmd (require_pool_name params) (\<lambda>pool.
     bind_cmd (require_rbd_image params) (\<lambda>img.
     bind_cmd (require_int params ''size_mib'' rbd_size_mib_range) (\<lambda>size_mib.
       (let spec = image_spec pool img in
        Inr (''rbd resize --size '' @ int_text size_mib @ '' '' @ spec @ '' && rbd info '' @ spec
             @ '' --format json'')))))"

definition rbd_rename_volume_command :: "pyval \<Rightarrow> cmd_error + string" where
  "rbd_rename_volume_command params =
     bind_cmd (require_pool_name params) (\<lambda>pool.
     bind_cmd (require_rbd_image params) (\<lambda>img.
     bind_cmd (text_of rbd_image_re (dget params ''new_image'')) (\<lambda>new_image.
       if new_image = img then Inl ExecutorError
       else Inr (''rbd mv '' @ image_spec pool img @ '' '' @ image_spec pool new_image
                 @ '' && rbd info '' @ image_spec pool new_image @ '' --format json''))))"

definition rbd_clone_volume_command :: "pyval \<Rightarrow> cmd_error + string" where
  "rbd_clone_volume_command params =
     bind_cmd (require_pool_name params) (\<lambda>pool.
     bind_cmd (require_rbd_image params) (\<lambda>img.
     bind_cmd (text_of rbd_snapshot_re (dget params ''snapshot'')) (\<lambda>snapshot.
     bind_cmd (text_of pool_name_re (dget params ''dest_pool'')) (\<lambda>dest_pool.
     bind_cmd (text_of rbd_image_re (dget params ''dest_image'')) (\<lambda>dest_image.
       (let source = image_spec pool (img @ ''@'' @ snapshot);
            destination = image_spec dest_pool dest_image in
        Inr (''(rbd snap protect '' @ source @ '' 2>/dev/null || true) && rbd clone '' @ source @ '' ''
             @ destination @ '' && rbd info '' @ destination @ '' --format json'')))))))"

definition rbd_copy_volume_command :: "pyval \<Rightarrow> cmd_error + string" where
  "rbd_copy_volume_command params =
     bind_cmd (require_pool_name params) (\<lambda>pool.
     bind_cmd (require_rbd_image params) (\<lambda>img.
     bind_cmd (text_of rbd_snapshot_re (dget params ''snapshot'')) (\<lambda>snapshot.
     bind_cmd (text_of pool_name_re (dget params ''dest_pool'')) (\<lambda>dest_pool.
     bind_cmd (text_of rbd_image_re (dget params ''dest_image'')) (\<lambda>dest_image.
       if pool = dest_pool then Inl ExecutorError
       else
         (let source = image_spec pool (img @ ''@'' @ snapshot);
              destination = image_spec dest_pool dest_image in
          Inr (''rbd cp --no-progress '' @ source @ '' '' @ destination @ '' && rbd info '' @ destination
               @ '' --format json'')))))))"

definition positive_int :: "pyval \<Rightarrow> cmd_error + int" where
  "positive_int v =
     (case v of PInt n \<Rightarrow> if 0 < n then Inr n else Inl ExecutorError | _ \<Rightarrow> Inl ExecutorError)"

definition guard_cmd :: "bool \<Rightarrow> cmd_error + 'a \<Rightarrow> cmd_error + 'a" where
  "guard_cmd refused m = (if refused then Inl ExecutorError else m)"

definition rbd_move_script ::
  "string \<Rightarrow> string \<Rightarrow> string \<Rightarrow> string \<Rightarrow> string \<Rightarrow> string \<Rightarrow> int \<Rightarrow> string" where
  "rbd_move_script source destination token metadata_key dest_pool dest_image size_bytes =
     (''set -eu; source_info=$(rbd info '' @ source @
       '' --format json); actual_source_size=$(printf '' @ [CHR 0x27] @ ''%s'' @ [CHR 0x27] @
       '' '' @ [CHR 0x22] @ ''$source_info'' @ [CHR 0x22] @ '' | python3 -c '' @ [CHR 0x27] @
       ''import json,sys; print(int(json.load(sys.stdin)['' @ [CHR 0x22] @ ''size'' @
       [CHR 0x22] @ '']))'' @ [CHR 0x27] @ ''); if [ '' @ [CHR 0x22] @
       ''$actual_source_size'' @ [CHR 0x22] @ '' != '' @ [CHR 0x22] @ int_text size_bytes @
       [CHR 0x22] @ '' ]; then echo '' @ [CHR 0x27] @
       ''RBD move source size changed; source was preserved'' @ [CHR 0x27] @
       '' >&2; exit 1; fi; watcher_count=$(rbd status '' @ source @
       '' --format json | python3 -c '' @ [CHR 0x27] @
       ''import json,sys; p=json.load(sys.stdin); print(len(p.get('' @ [CHR 0x22] @
       ''watchers'' @ [CHR 0x22] @ '', [])) if isinstance(p,dict) else 0)'' @ [CHR 0x27] @
       ''); if [ '' @ [CHR 0x22] @ ''$watcher_count'' @ [CHR 0x22] @ '' != 0 ]; then echo '' @
       [CHR 0x27] @ ''RBD move source has active watchers; source was preserved'' @
       [CHR 0x27] @ '' >&2; exit 1; fi; snapshot_count=$(rbd snap ls '' @ source @
       '' --format json | python3 -c '' @ [CHR 0x27] @
       ''import json,sys; p=json.load(sys.stdin); print(len(p if isinstance(p,list) '' @
       ''else p.get('' @ [CHR 0x22] @ ''snapshots'' @ [CHR 0x22] @ '', [])))'' @ [CHR 0x27] @
       ''); if [ '' @ [CHR 0x22] @ ''$snapshot_count'' @ [CHR 0x22] @
       '' != 0 ]; then echo '' @ [CHR 0x27] @
       ''RBD move source has snapshots; source was preserved'' @ [CHR 0x27] @
       '' >&2; exit 1; fi; destination_exists=$(rbd ls '' @ shlex_quote dest_pool @
       '' --format json | python3 -c '' @ [CHR 0x27] @
       ''import json,sys; p=json.load(sys.stdin); names=[x if isinstance(x,str) else '' @
       ''x.get('' @ [CHR 0x22] @ ''name'' @ [CHR 0x22] @
       '') for x in (p if isinstance(p,list) else p.get('' @ [CHR 0x22] @ ''images'' @
       [CHR 0x22] @ '', []))]; print('' @ [CHR 0x22] @ ''1'' @ [CHR 0x22] @ '' if '' @
       [CHR 0x22] @ dest_image @ [CHR 0x22] @ '' in names else '' @ [CHR 0x22] @ ''0'' @
       [CHR 0x22] @ '')'' @ [CHR 0x27] @ ''); if [ '' @ [CHR 0x22] @ ''$destination_exists'' @
       [CHR 0x22] @ '' = 1 ]; then marker=$(rbd image-meta get '' @ destination @ '' '' @
       metadata_key @ '' 2>/dev/null || true); if [ '' @ [CHR 0x22] @ ''$marker'' @
       [CHR 0x22] @ '' != '' @ token @ '' ]; then echo '' @ [CHR 0x27] @
       ''RBD move destination exists without matching resume token; source was preserved'' @
       [CHR 0x27] @ '' >&2; exit 23; fi; else rbd cp --no-progress '' @ source @ '' '' @
       destination @ '' && rbd image-meta set '' @ destination @ '' '' @ metadata_key @
       '' '' @ token @ ''; fi; source_sha256=$(rbd export-diff '' @ source @
       '' - | sha256sum | cut -d '' @ [CHR 0x27] @ '' '' @ [CHR 0x27] @
       '' -f 1); dest_sha256=$(rbd export-diff '' @ destination @
       '' - | sha256sum | cut -d '' @ [CHR 0x27] @ '' '' @ [CHR 0x27] @ '' -f 1); if [ '' @
       [CHR 0x22] @ ''$source_sha256'' @ [CHR 0x22] @ '' != '' @ [CHR 0x22] @
       ''$dest_sha256'' @ [CHR 0x22] @ '' ]; then echo '' @ [CHR 0x27] @
       ''RBD move checksum mismatch; source was preserved'' @ [CHR 0x27] @
       '' >&2; exit 1; fi; dest_info=$(rbd info '' @ destination @
       '' --format json); actual_size=$(printf '' @ [CHR 0x27] @ ''%s'' @ [CHR 0x27] @ '' '' @
       [CHR 0x22] @ ''$dest_info'' @ [CHR 0x22] @ '' | python3 -c '' @ [CHR 0x27] @
       ''import json,sys; print(int(json.load(sys.stdin)['' @ [CHR 0x22] @ ''size'' @
       [CHR 0x22] @ '']))'' @ [CHR 0x27] @ ''); if [ '' @ [CHR 0x22] @ ''$actual_size'' @
       [CHR 0x22] @ '' != '' @ [CHR 0x22] @ int_text size_bytes @ [CHR 0x22] @
       '' ]; then echo '' @ [CHR 0x27] @
       ''RBD move destination size mismatch; source was preserved'' @ [CHR 0x27] @
       '' >&2; exit 1; fi; rbd rm '' @ source @ ''; printf '' @ [CHR 0x27] @ ''{'' @
       [CHR 0x22] @ ''name'' @ [CHR 0x22] @ '':'' @ [CHR 0x22] @ dest_image @ [CHR 0x22] @
       '','' @ [CHR 0x22] @ ''size'' @ [CHR 0x22] @ '':%s,'' @ [CHR 0x22] @
       ''source_deleted'' @ [CHR 0x22] @ '':true,'' @ [CHR 0x22] @ ''checksum_verified'' @
       [CHR 0x22] @ '':true,'' @ [CHR 0x22] @ ''source_sha256'' @ [CHR 0x22] @ '':'' @
       [CHR 0x22] @ ''%s'' @ [CHR 0x22] @ '','' @ [CHR 0x22] @ ''dest_sha256'' @ [CHR 0x22] @
       '':'' @ [CHR 0x22] @ ''%s'' @ [CHR 0x22] @ ''}'' @ [CHR 0x27] @ '' '' @ [CHR 0x22] @
       ''$actual_size'' @ [CHR 0x22] @ '' '' @ [CHR 0x22] @ ''$source_sha256'' @ [CHR 0x22] @
       '' '' @ [CHR 0x22] @ ''$dest_sha256'' @ [CHR 0x22])"

definition rbd_move_volume_command :: "pyval \<Rightarrow> cmd_error + string" where
  "rbd_move_volume_command params =
     bind_cmd (require_pool_name params) (\<lambda>pool.
     bind_cmd (require_rbd_image params) (\<lambda>img.
     bind_cmd (text_of pool_name_re (dget params ''dest_pool'')) (\<lambda>dest_pool.
     bind_cmd (text_of rbd_image_re (dget params ''dest_image'')) (\<lambda>dest_image.
     guard_cmd (pool = dest_pool)
     (guard_cmd (starts_with img ''volume-'' \<or> starts_with dest_image ''volume-'')
     (bind_cmd (positive_int (dget params ''size_bytes'')) (\<lambda>size_bytes.
     guard_cmd (dget params ''delete_source'' \<noteq> PBool True)
     (guard_cmd (dget params ''checksum'' \<noteq> PStr ''rbd-export-diff-sha256'')
     (bind_cmd (text_of rbd_move_token_re (dget params ''move_token'')) (\<lambda>move_token.
       Inr (''sh -c '' @ shlex_quote
         (rbd_move_script (image_spec pool img) (image_spec dest_pool dest_image)
            (shlex_quote move_token) (shlex_quote ''ceph.ai.move_token'') dest_pool dest_image
            size_bytes))))))))))))"

definition rbd_move_cleanup_script ::
  "string \<Rightarrow> string \<Rightarrow> string \<Rightarrow> string \<Rightarrow> string \<Rightarrow> int \<Rightarrow> string" where
  "rbd_move_cleanup_script source destination token metadata_key dest_image size_bytes =
     (''set -eu; source_info=$(rbd info '' @ source @
       '' --format json); actual_source_size=$(printf '' @ [CHR 0x27] @ ''%s'' @ [CHR 0x27] @
       '' '' @ [CHR 0x22] @ ''$source_info'' @ [CHR 0x22] @ '' | python3 -c '' @ [CHR 0x27] @
       ''import json,sys; print(int(json.load(sys.stdin)['' @ [CHR 0x22] @ ''size'' @
       [CHR 0x22] @ '']))'' @ [CHR 0x27] @ ''); if [ '' @ [CHR 0x22] @
       ''$actual_source_size'' @ [CHR 0x22] @ '' != '' @ [CHR 0x22] @ int_text size_bytes @
       [CHR 0x22] @ '' ]; then echo '' @ [CHR 0x27] @
       ''RBD partial cleanup source size changed; destination was preserved'' @ [CHR 0x27] @
       '' >&2; exit 1; fi; destination_info=$(rbd info '' @ destination @
       '' --format json); watcher_count=$(rbd status '' @ destination @
       '' --format json | python3 -c '' @ [CHR 0x27] @
       ''import json,sys; p=json.load(sys.stdin); print(len(p.get('' @ [CHR 0x22] @
       ''watchers'' @ [CHR 0x22] @ '', [])) if isinstance(p,dict) else 0)'' @ [CHR 0x27] @
       ''); if [ '' @ [CHR 0x22] @ ''$watcher_count'' @ [CHR 0x22] @ '' != 0 ]; then echo '' @
       [CHR 0x27] @
       ''RBD partial cleanup destination has active watchers; destination was preserved'' @
       [CHR 0x27] @ '' >&2; exit 1; fi; snapshot_count=$(rbd snap ls '' @ destination @
       '' --format json | python3 -c '' @ [CHR 0x27] @
       ''import json,sys; p=json.load(sys.stdin); print(len(p if isinstance(p,list) '' @
       ''else p.get('' @ [CHR 0x22] @ ''snapshots'' @ [CHR 0x22] @ '', [])))'' @ [CHR 0x27] @
       ''); if [ '' @ [CHR 0x22] @ ''$snapshot_count'' @ [CHR 0x22] @
       '' != 0 ]; then echo '' @ [CHR 0x27] @
       ''RBD partial cleanup destination has snapshots; destination was preserved'' @
       [CHR 0x27] @ '' >&2; exit 1; fi; marker=$(rbd image-meta get '' @ destination @ '' '' @
       metadata_key @ '' 2>/dev/null || true); if [ '' @ [CHR 0x22] @ ''$marker'' @
       [CHR 0x22] @ '' != '' @ token @ '' ]; then echo '' @ [CHR 0x27] @
       ''RBD partial cleanup destination token mismatch; destination was preserved'' @
       [CHR 0x27] @ '' >&2; exit 23; fi; actual_destination_size=$(printf '' @ [CHR 0x27] @
       ''%s'' @ [CHR 0x27] @ '' '' @ [CHR 0x22] @ ''$destination_info'' @ [CHR 0x22] @
       '' | python3 -c '' @ [CHR 0x27] @
       ''import json,sys; print(int(json.load(sys.stdin)['' @ [CHR 0x22] @ ''size'' @
       [CHR 0x22] @ '']))'' @ [CHR 0x27] @ ''); rbd rm '' @ destination @ ''; printf '' @
       [CHR 0x27] @ ''{'' @ [CHR 0x22] @ ''name'' @ [CHR 0x22] @ '':'' @ [CHR 0x22] @
       dest_image @ [CHR 0x22] @ '','' @ [CHR 0x22] @ ''size'' @ [CHR 0x22] @ '':%s,'' @
       [CHR 0x22] @ ''source_present'' @ [CHR 0x22] @ '':true,'' @
       [CHR 0x27, CHR 0x27, CHR 0x22] @ ''destination_deleted'' @ [CHR 0x22] @ '':true,'' @
       [CHR 0x22] @ ''marker_verified'' @ [CHR 0x22] @ '':true}'' @ [CHR 0x27] @ '' '' @
       [CHR 0x22] @ ''$actual_destination_size'' @ [CHR 0x22])"

definition rbd_move_cleanup_partial_command :: "pyval \<Rightarrow> cmd_error + string" where
  "rbd_move_cleanup_partial_command params =
     bind_cmd (require_pool_name params) (\<lambda>pool.
     bind_cmd (require_rbd_image params) (\<lambda>img.
     bind_cmd (text_of pool_name_re (dget params ''dest_pool'')) (\<lambda>dest_pool.
     bind_cmd (text_of rbd_image_re (dget params ''dest_image'')) (\<lambda>dest_image.
     guard_cmd (pool = dest_pool)
     (bind_cmd (positive_int (dget params ''size_bytes'')) (\<lambda>size_bytes.
     guard_cmd (dget params ''delete_destination'' \<noteq> PBool True)
     (guard_cmd (dget params ''checksum'' \<noteq> PStr ''rbd-export-diff-sha256'')
     (bind_cmd (text_of rbd_move_token_re (dget params ''move_token'')) (\<lambda>move_token.
       Inr (''sh -c '' @ shlex_quote
         (rbd_move_cleanup_script (image_spec pool img) (image_spec dest_pool dest_image)
            (shlex_quote move_token) (shlex_quote ''ceph.ai.move_token'') dest_image
            size_bytes)))))))))))"

definition rbd_flatten_volume_command :: "pyval \<Rightarrow> cmd_error + string" where
  "rbd_flatten_volume_command params =
     bind_cmd (require_pool_name params) (\<lambda>pool.
     bind_cmd (require_rbd_image params) (\<lambda>img.
       Inr (''rbd flatten '' @ image_spec pool img @ '' && rbd info '' @ image_spec pool img
            @ '' --format json'')))"

definition rbd_template_mark_command :: "pyval \<Rightarrow> cmd_error + string" where
  "rbd_template_mark_command params =
     bind_cmd (require_pool_name params) (\<lambda>pool.
     bind_cmd (require_rbd_image params) (\<lambda>img.
     bind_cmd (text_of rbd_snapshot_re (dget params ''snapshot'')) (\<lambda>snapshot.
     bind_cmd (text_of template_name_re (dget params ''template_name'')) (\<lambda>template_name.
     bind_cmd (text_of (\<lambda>s. text_length s \<le> 500 \<and> CHR 0x00 \<notin> set s)
                 (dget_default params ''description'' (PStr []))) (\<lambda>description.
       (let spec = image_spec pool img;
            snap_spec = image_spec pool (img @ ''@'' @ snapshot);
            metadata_key = shlex_quote (''ceph.ai.template.'' @ snapshot);
            metadata_value = shlex_quote (template_name @ ''|'' @ description) in
        Inr (''(rbd snap protect '' @ snap_spec @ '' 2>/dev/null || true) && rbd image-meta set '' @
       spec @ '' '' @ metadata_key @ '' '' @ metadata_value @ '' && rbd snap ls '' @ spec @
       '' --format json'')))))))"

definition rbd_qos_options :: "(string \<times> (int \<times> int)) list" where
  "rbd_qos_options =
     [(''rbd_qos_iops_limit'', (0, 1000000000)), (''rbd_qos_bps_limit'', (0, 10000000000000)),
      (''rbd_qos_iops_burst'', (0, 1000000000)), (''rbd_qos_bps_burst'', (0, 10000000000000)),
      (''rbd_qos_read_iops_limit'', (0, 1000000000)),
      (''rbd_qos_read_bps_limit'', (0, 10000000000000)),
      (''rbd_qos_write_iops_limit'', (0, 1000000000)),
      (''rbd_qos_write_bps_limit'', (0, 10000000000000))]"

definition rbd_qos_set_command :: "pyval \<Rightarrow> cmd_error + string" where
  "rbd_qos_set_command params =
     bind_cmd (require_pool_name params) (\<lambda>pool.
     bind_cmd (require_rbd_image params) (\<lambda>img.
     bind_cmd (map_cmd (\<lambda>(opt, low, high).
                 case dget_default params opt (PInt 0) of
                   PInt value \<Rightarrow>
                     if value < low \<or> value > high then Inl ExecutorError
                     else Inr (''rbd config image set '' @ image_spec pool img @ '' '' @ opt @ '' ''
                               @ int_text value)
                 | _ \<Rightarrow> Inl ExecutorError) rbd_qos_options) (\<lambda>commands.
       Inr (join '' && '' (commands
              @ [''rbd config image list '' @ image_spec pool img @ '' --format json''])))))"

definition rbd_trash_move_volume_command :: "pyval \<Rightarrow> cmd_error + string" where
  "rbd_trash_move_volume_command params =
     bind_cmd (require_pool_name params) (\<lambda>pool.
     bind_cmd (require_rbd_image params) (\<lambda>img.
       Inr (''rbd trash mv '' @ image_spec pool img @ '' && rbd trash ls '' @ shlex_quote pool
            @ '' --format json'')))"

definition rbd_trash_restore_volume_command :: "pyval \<Rightarrow> cmd_error + string" where
  "rbd_trash_restore_volume_command params =
     bind_cmd (require_pool_name params) (\<lambda>pool.
     bind_cmd (require_trash_id params) (\<lambda>trash_id.
     bind_cmd (require_rbd_image params) (\<lambda>img.
       Inr (''rbd trash restore '' @ image_spec pool trash_id @ '' --image '' @ shlex_quote img
            @ '' && rbd info '' @ image_spec pool img @ '' --format json''))))"

definition rbd_trash_purge_all_command :: "pyval \<Rightarrow> cmd_error + string" where
  "rbd_trash_purge_all_command params =
     bind_cmd (require_pool_name params) (\<lambda>pool.
       (case dget params ''trash_ids'' of
          PList trash_ids \<Rightarrow>
            (if trash_ids = [] \<or> length trash_ids > 500 then Inl ExecutorError
             else bind_cmd (map_cmd (\<lambda>v. require_trash_id (doc [(''trash_id'', v)])) trash_ids)
                    (\<lambda>validated.
                      if \<not> distinct validated then Inl ExecutorError
                      else Inr (join [CHR 0x0A] (map (\<lambda>trash_id.
                             ''rbd trash rm '' @ shlex_quote pool @ ''/'' @ shlex_quote trash_id)
                             validated))))
        | _ \<Rightarrow> Inl ExecutorError))"

section \<open>Cinder and the node command\<close>

definition openrc_path_of :: "pyval \<Rightarrow> cmd_error + string" where
  "openrc_path_of params =
     text_of (\<lambda>s. starts_with s ''/'' \<and> CHR 0x00 \<notin> set s) (dget params ''openrc_path'')"

definition cinder_attachment_command :: "pyval \<Rightarrow> string \<Rightarrow> cmd_error + string" where
  "cinder_attachment_command params operation =
     bind_cmd (text_of openstack_uuid_re (dget params ''volume_id'')) (\<lambda>volume_id.
     bind_cmd (text_of openstack_uuid_re (dget params ''server_id'')) (\<lambda>server_id.
     bind_cmd (openrc_path_of params) (\<lambda>openrc_path.
       (let verb = (if operation = ''attach'' then ''add'' else ''remove'');
            inner = (''. '' @ shlex_quote openrc_path @ '' >/dev/null 2>&1 && openstack server '' @ verb @
       '' volume '' @ shlex_quote server_id @ '' '' @ shlex_quote volume_id @
       '' && openstack volume show '' @ shlex_quote volume_id @ '' -f json'')
        in Inr (''sh -c '' @ shlex_quote inner)))))"

definition cinder_attach_volume_command :: "pyval \<Rightarrow> cmd_error + string" where
  "cinder_attach_volume_command params = cinder_attachment_command params ''attach''"

definition cinder_detach_volume_command :: "pyval \<Rightarrow> cmd_error + string" where
  "cinder_detach_volume_command params = cinder_attachment_command params ''detach''"

definition cinder_create_snapshot_command :: "pyval \<Rightarrow> cmd_error + string" where
  "cinder_create_snapshot_command params =
     bind_cmd (text_of openstack_uuid_re (dget params ''volume_id'')) (\<lambda>volume_id.
     bind_cmd (text_of cinder_snapshot_name_re (dget params ''snapshot_name'')) (\<lambda>snapshot_name.
     bind_cmd (openrc_path_of params) (\<lambda>openrc_path.
       (let force = (if dget params ''force'' = PBool True then '' --force'' else []);
            inner = (''. '' @ shlex_quote openrc_path @
       '' >/dev/null 2>&1 && openstack volume snapshot create --volume '' @
       shlex_quote volume_id @ force @ '' '' @ shlex_quote snapshot_name @
       '' -f json >/dev/null && openstack volume snapshot list --volume '' @
       shlex_quote volume_id @ '' -f json'')
        in Inr (''sh -c '' @ shlex_quote inner)))))"

definition cinder_delete_snapshot_command :: "pyval \<Rightarrow> cmd_error + string" where
  "cinder_delete_snapshot_command params =
     bind_cmd (text_of openstack_uuid_re (dget params ''volume_id'')) (\<lambda>volume_id.
     bind_cmd (text_of openstack_uuid_re (dget params ''snapshot_id'')) (\<lambda>snapshot_id.
     bind_cmd (openrc_path_of params) (\<lambda>openrc_path.
       (let inner = (''. '' @ shlex_quote openrc_path @
       '' >/dev/null 2>&1 && openstack volume snapshot delete '' @ shlex_quote snapshot_id @
       '' && for attempt in 1 2 3 4 5; do if ! openstack volume snapshot show '' @
       shlex_quote snapshot_id @ '' -f json >/dev/null 2>&1; then printf '' @ [CHR 0x27] @
       ''{'' @ [CHR 0x22] @ ''snapshot_id'' @ [CHR 0x22] @ '':'' @ [CHR 0x22] @ snapshot_id @
       [CHR 0x22] @ '','' @ [CHR 0x22] @ ''deleted'' @ [CHR 0x22] @ '':true}'' @ [CHR 0x27] @
       ''; exit 0; fi; sleep 2; done; openstack volume snapshot show '' @
       shlex_quote snapshot_id @ '' -f json'')
        in Inr (''sh -c '' @ shlex_quote inner)))))"

definition execute_node_command :: "pyval \<Rightarrow> cmd_error + string" where
  "execute_node_command params =
     bind_cmd (text_of (\<lambda>s. str_strip s \<noteq> [] \<and> text_length s \<le> 2000) (dget params ''command''))
       (\<lambda>command.
         if CHR 0x00 \<in> set command \<or> CHR 0x0A \<in> set command \<or> CHR 0x0D \<in> set command
         then Inl ExecutorError else Inr (str_strip command))"

section \<open>Running inside the Ceph runtime\<close>

definition wrap_ceph_runtime_command :: "string \<Rightarrow> string \<Rightarrow> string \<Rightarrow> cmd_error + string" where
  "wrap_ceph_runtime_command inner_command exec_mode container_name =
     (if exec_mode = ''none'' then Inr inner_command
      else if exec_mode = ''cephadm''
      then Inr (''cephadm shell -- bash -lc '' @ shlex_quote inner_command)
      else if exec_mode = ''docker'' \<or> exec_mode = ''podman''
      then (if container_name = [] then Inl ExecutorError
            else Inr (exec_mode @ '' exec '' @ shlex_quote container_name @ '' sh -lc ''
                      @ shlex_quote inner_command))
      else Inl ExecutorError)"

end
