(* ===== verification/Releases.thy ===== *)
theory Releases
  imports PyVal
begin

text \<open>
  The static release table of \<open>shared/ceph_releases.py\<close> and its queries: the code name and the
  repository path of a version, and the operating systems its packages exist for.
\<close>

record release =
  rl_codename :: string
  rl_next_min_version :: "string option"
  rl_versions :: "string list"
  rl_repo_path_uses_codename :: bool
  rl_el_history :: "(string \<times> int list) list"

definition points :: "string \<Rightarrow> nat list \<Rightarrow> string list" where
  "points line ps = map (\<lambda>p. line @ ''.'' @ nat_text p) ps"

definition releases :: "(int \<times> release) list" where
  "releases =
     [(13, \<lparr>rl_codename = ''mimic'', rl_next_min_version = Some ''14.2.0'',
            rl_versions = points ''13.2'' [0..<11], rl_repo_path_uses_codename = True,
            rl_el_history = [(''13.2.0'', [7])]\<rparr>),
      (14, \<lparr>rl_codename = ''nautilus'', rl_next_min_version = Some ''15.2.0'',
            rl_versions = points ''14.2'' [0..<23], rl_repo_path_uses_codename = True,
            rl_el_history = [(''14.2.0'', [7]), (''14.2.10'', [7, 8])]\<rparr>),
      (15, \<lparr>rl_codename = ''octopus'', rl_next_min_version = Some ''16.2.0'',
            rl_versions = points ''15.2'' [0..<18], rl_repo_path_uses_codename = False,
            rl_el_history = [(''15.2.0'', [7, 8])]\<rparr>),
      (16, \<lparr>rl_codename = ''pacific'', rl_next_min_version = Some ''17.2.0'',
            rl_versions = points ''16.2'' [0..<16], rl_repo_path_uses_codename = False,
            rl_el_history = [(''16.2.0'', [8])]\<rparr>),
      (17, \<lparr>rl_codename = ''quincy'', rl_next_min_version = Some ''18.2.0'',
            rl_versions = points ''17.2'' [0..<10], rl_repo_path_uses_codename = False,
            rl_el_history = [(''17.2.0'', [8]), (''17.2.4'', [8, 9]), (''17.2.8'', [9])]\<rparr>),
      (18, \<lparr>rl_codename = ''reef'', rl_next_min_version = Some ''19.2.0'',
            rl_versions = points ''18.2'' (filter (\<lambda>p. p \<noteq> 3) [0..<9]),
            rl_repo_path_uses_codename = False,
            rl_el_history = [(''18.2.0'', [8, 9]), (''18.2.4'', [9])]\<rparr>),
      (19, \<lparr>rl_codename = ''squid'', rl_next_min_version = Some ''20.2.0'',
            rl_versions = points ''19.2'' [0..<3], rl_repo_path_uses_codename = False,
            rl_el_history = [(''19.2.0'', [9])]\<rparr>),
      (20, \<lparr>rl_codename = ''tentacle'', rl_next_min_version = None,
            rl_versions = points ''20.2'' [0..<5], rl_repo_path_uses_codename = False,
            rl_el_history = [(''20.2.0'', [9])]\<rparr>)]"

definition el_family_os_ids :: "string list" where
  "el_family_os_ids = [''rhel'', ''centos'', ''rocky'', ''almalinux'']"

fun split_on :: "char \<Rightarrow> string \<Rightarrow> string list" where
  "split_on d [] = [[]]"
| "split_on d (c # cs) =
     (if c = d then [] # split_on d cs
      else (case split_on d cs of [] \<Rightarrow> [[c]] | w # ws \<Rightarrow> (c # w) # ws))"

definition capitalize :: "string \<Rightarrow> string" where
  "capitalize s = (case s of [] \<Rightarrow> [] | c # cs \<Rightarrow> upper_char c # str_lower cs)"

definition codenames_oldest_first :: "(string \<times> string) list" where
  "codenames_oldest_first =
     map (\<lambda>(major, r). (rl_codename r,
                         capitalize (rl_codename r) @ '' ('' @ int_text major @ ''.x)''))
       (sort_key fst releases)"

definition versions_by_codename :: "(string \<times> string list) list" where
  "versions_by_codename = map (\<lambda>(_, r). (rl_codename r, rl_versions r)) releases"

definition major_version :: "string \<Rightarrow> int option" where
  "major_version version = int_of_text (hd (split_on (CHR ''.'') version))"

definition version_tuple :: "string \<Rightarrow> int list" where
  "version_tuple version =
     map (\<lambda>p. case int_of_text p of Some n \<Rightarrow> n | None \<Rightarrow> -1) (split_on (CHR ''.'') version)"

definition release_of :: "string \<Rightarrow> release option" where
  "release_of version =
     (case major_version version of None \<Rightarrow> None | Some major \<Rightarrow> map_of releases major)"

fun walk_history :: "int list \<Rightarrow> int list \<Rightarrow> (string \<times> int list) list \<Rightarrow> int list" where
  "walk_history v result [] = result"
| "walk_history v result ((from_version, els) # rest) =
     (if version_tuple from_version \<le> v then walk_history v els rest else result)"

definition el_versions_for :: "string \<Rightarrow> int list option" where
  "el_versions_for version =
     (case release_of version of None \<Rightarrow> None
      | Some r \<Rightarrow>
          Some (walk_history (version_tuple version) (snd (hd (rl_el_history r))) (rl_el_history r)))"

definition next_min_version :: "string \<Rightarrow> string option" where
  "next_min_version version =
     (case release_of version of None \<Rightarrow> None | Some r \<Rightarrow> rl_next_min_version r)"

definition min_el_version_for :: "string \<Rightarrow> int option" where
  "min_el_version_for version =
     (case el_versions_for version of None \<Rightarrow> None
      | Some els \<Rightarrow> if els = [] then None else Some (Min (set els)))"

definition min_os_label_for :: "string \<Rightarrow> string option" where
  "min_os_label_for version =
     (case min_el_version_for version of None \<Rightarrow> None
      | Some n \<Rightarrow> Some (''CentOS/RHEL/Rocky Linux/AlmaLinux '' @ int_text n @ '' tr'' @
       [CHR 0xE1, CHR 0xBB, CHR 0x9F] @ '' l'' @ [CHR 0xC3, CHR 0xAA] @ ''n''))"

definition codename_for_version :: "string \<Rightarrow> string option" where
  "codename_for_version version = map_option rl_codename (release_of version)"

definition repo_path_version :: "string \<Rightarrow> string" where
  "repo_path_version version =
     (case release_of version of None \<Rightarrow> version
      | Some r \<Rightarrow> if rl_repo_path_uses_codename r then rl_codename r else version)"

definition os_too_old_text ::
  "string \<Rightarrow> string \<Rightarrow> string \<Rightarrow> int \<Rightarrow> int \<Rightarrow> string \<Rightarrow> string \<Rightarrow> string" where
  "os_too_old_text target_version os_id os_version_id os_major lowest label codename =
     (''h'' @ [CHR 0xE1, CHR 0xBB, CHR 0x87] @ '' '' @ [CHR 0xC4, CHR 0x91] @ ''i'' @
       [CHR 0xE1, CHR 0xBB, CHR 0x81] @ ''u h'' @ [CHR 0xC3, CHR 0xA0] @ ''nh hi'' @
       [CHR 0xE1, CHR 0xBB, CHR 0x87] @ ''n t'' @ [CHR 0xE1, CHR 0xBA, CHR 0xA1] @ ''i l'' @
       [CHR 0xC3, CHR 0xA0] @ '' '' @ os_id @ '' '' @ os_version_id @ '' (el'' @
       int_text os_major @ ''), nh'' @ [CHR 0xC6, CHR 0xB0] @ ''ng Ceph '' @ target_version @
       '' ('' @ codename @ '') y'' @ [CHR 0xC3, CHR 0xAA] @ ''u c'' @
       [CHR 0xE1, CHR 0xBA, CHR 0xA7] @ ''u t'' @ [CHR 0xE1, CHR 0xBB, CHR 0x91] @ ''i thi'' @
       [CHR 0xE1, CHR 0xBB, CHR 0x83] @ ''u el'' @ int_text lowest @ '' ('' @ label @ '') '' @
       [CHR 0xE2, CHR 0x80, CHR 0x94] @ '' download.ceph.com kh'' @ [CHR 0xC3, CHR 0xB4] @
       ''ng c'' @ [CHR 0xC3, CHR 0xB3] @ '' g'' @ [CHR 0xC3, CHR 0xB3] @ ''i cho phi'' @
       [CHR 0xC3, CHR 0xAA] @ ''n b'' @ [CHR 0xE1, CHR 0xBA, CHR 0xA3] @ ''n n'' @
       [CHR 0xC3, CHR 0xA0] @ ''y tr'' @ [CHR 0xC3, CHR 0xAA] @ ''n el'' @ int_text os_major @
       '', c'' @ [CHR 0xC3, CHR 0xA0] @ ''i '' @
       [CHR 0xC4, CHR 0x91, CHR 0xE1, CHR 0xBA, CHR 0xB7] @ ''t s'' @
       [CHR 0xE1, CHR 0xBA, CHR 0xBD] @ '' th'' @ [CHR 0xE1, CHR 0xBA, CHR 0xA5] @ ''t b'' @
       [CHR 0xE1, CHR 0xBA, CHR 0xA1] @ ''i. C'' @ [CHR 0xE1, CHR 0xBA, CHR 0xA7] @ ''n n'' @
       [CHR 0xC3, CHR 0xA2] @ ''ng c'' @ [CHR 0xE1, CHR 0xBA, CHR 0xA5] @ ''p h'' @
       [CHR 0xE1, CHR 0xBB, CHR 0x87] @ '' '' @ [CHR 0xC4, CHR 0x91] @ ''i'' @
       [CHR 0xE1, CHR 0xBB, CHR 0x81] @ ''u h'' @ [CHR 0xC3, CHR 0xA0] @ ''nh TR'' @
       [CHR 0xC6, CHR 0xAF, CHR 0xE1, CHR 0xBB, CHR 0x9A] @ ''C khi n'' @
       [CHR 0xC3, CHR 0xA2] @ ''ng c'' @ [CHR 0xE1, CHR 0xBA, CHR 0xA5] @ ''p Ceph.'')"

definition os_dropped_text ::
  "string \<Rightarrow> string \<Rightarrow> string \<Rightarrow> int \<Rightarrow> string \<Rightarrow> string \<Rightarrow> string" where
  "os_dropped_text target_version os_id os_version_id os_major supported_label codename =
     (''h'' @ [CHR 0xE1, CHR 0xBB, CHR 0x87] @ '' '' @ [CHR 0xC4, CHR 0x91] @ ''i'' @
       [CHR 0xE1, CHR 0xBB, CHR 0x81] @ ''u h'' @ [CHR 0xC3, CHR 0xA0] @ ''nh hi'' @
       [CHR 0xE1, CHR 0xBB, CHR 0x87] @ ''n t'' @ [CHR 0xE1, CHR 0xBA, CHR 0xA1] @ ''i l'' @
       [CHR 0xC3, CHR 0xA0] @ '' '' @ os_id @ '' '' @ os_version_id @ '' (el'' @
       int_text os_major @ ''), nh'' @ [CHR 0xC6, CHR 0xB0] @ ''ng Ceph '' @ target_version @
       '' ('' @ codename @ '') '' @ [CHR 0xC4, CHR 0x91, CHR 0xC3, CHR 0xA3] @ '' KH'' @
       [CHR 0xC3, CHR 0x94] @ ''NG C'' @ [CHR 0xC3, CHR 0x92] @ ''N g'' @
       [CHR 0xC3, CHR 0xB3] @ ''i cho el'' @ int_text os_major @ '' '' @
       [CHR 0xE1, CHR 0xBB, CHR 0x9F] @ '' '' @ [CHR 0xC4, CHR 0x91, CHR 0xC3, CHR 0xBA] @
       ''ng b'' @ [CHR 0xE1, CHR 0xBA, CHR 0xA3] @ ''n n'' @ [CHR 0xC3, CHR 0xA0] @ ''y '' @
       [CHR 0xE2, CHR 0x80, CHR 0x94] @ '' b'' @ [CHR 0xE1, CHR 0xBA, CHR 0xA3] @ ''n n'' @
       [CHR 0xC3, CHR 0xA0] @ ''y ch'' @ [CHR 0xE1, CHR 0xBB, CHR 0x89] @ '' c'' @
       [CHR 0xC3, CHR 0xB2] @ ''n g'' @ [CHR 0xC3, CHR 0xB3] @ ''i cho '' @ supported_label @
       '' (m'' @ [CHR 0xE1, CHR 0xBB, CHR 0x99] @ ''t b'' @ [CHR 0xE1, CHR 0xBA, CHR 0xA3] @
       ''n '' @ codename @ '' C'' @ [CHR 0xC5, CHR 0xA8] @ '' H'' @ [CHR 0xC6, CHR 0xA0] @
       ''N c'' @ [CHR 0xC3, CHR 0xB3] @ '' th'' @ [CHR 0xE1, CHR 0xBB, CHR 0x83] @ '' t'' @
       [CHR 0xE1, CHR 0xBB, CHR 0xAB] @ ''ng h'' @ [CHR 0xE1, CHR 0xBB, CHR 0x97] @ '' tr'' @
       [CHR 0xE1, CHR 0xBB, CHR 0xA3] @ '' el'' @ int_text os_major @ '', nh'' @
       [CHR 0xC6, CHR 0xB0] @ ''ng b'' @ [CHR 0xE1, CHR 0xBA, CHR 0xA3] @ ''n '' @
       target_version @ '' th'' @ [CHR 0xC3, CHR 0xAC] @ '' kh'' @ [CHR 0xC3, CHR 0xB4] @
       ''ng). download.ceph.com kh'' @ [CHR 0xC3, CHR 0xB4] @ ''ng c'' @
       [CHR 0xC3, CHR 0xB3] @ '' g'' @ [CHR 0xC3, CHR 0xB3] @ ''i cho phi'' @
       [CHR 0xC3, CHR 0xAA] @ ''n b'' @ [CHR 0xE1, CHR 0xBA, CHR 0xA3] @ ''n n'' @
       [CHR 0xC3, CHR 0xA0] @ ''y tr'' @ [CHR 0xC3, CHR 0xAA] @ ''n el'' @ int_text os_major @
       '', c'' @ [CHR 0xC3, CHR 0xA0] @ ''i '' @
       [CHR 0xC4, CHR 0x91, CHR 0xE1, CHR 0xBA, CHR 0xB7] @ ''t s'' @
       [CHR 0xE1, CHR 0xBA, CHR 0xBD] @ '' th'' @ [CHR 0xE1, CHR 0xBA, CHR 0xA5] @ ''t b'' @
       [CHR 0xE1, CHR 0xBA, CHR 0xA1] @ ''i. Ch'' @ [CHR 0xE1, CHR 0xBB, CHR 0x8D] @ ''n m'' @
       [CHR 0xE1, CHR 0xBB, CHR 0x99] @ ''t b'' @ [CHR 0xE1, CHR 0xBA, CHR 0xA3] @ ''n '' @
       codename @ '' kh'' @ [CHR 0xC3, CHR 0xA1] @ ''c '' @
       [CHR 0xC4, CHR 0x91, CHR 0xC3, CHR 0xA3] @ '' build cho el'' @ int_text os_major @
       '' (n'' @ [CHR 0xE1, CHR 0xBA, CHR 0xBF] @ ''u c'' @ [CHR 0xC3, CHR 0xB3] @ ''), ho'' @
       [CHR 0xE1, CHR 0xBA, CHR 0xB7] @ ''c n'' @ [CHR 0xC3, CHR 0xA2] @ ''ng c'' @
       [CHR 0xE1, CHR 0xBA, CHR 0xA5] @ ''p h'' @ [CHR 0xE1, CHR 0xBB, CHR 0x87] @ '' '' @
       [CHR 0xC4, CHR 0x91] @ ''i'' @ [CHR 0xE1, CHR 0xBB, CHR 0x81] @ ''u h'' @
       [CHR 0xC3, CHR 0xA0] @ ''nh l'' @ [CHR 0xC3, CHR 0xAA] @ ''n '' @ supported_label @
       '' tr'' @ [CHR 0xC6, CHR 0xB0, CHR 0xE1, CHR 0xBB, CHR 0x9B] @ ''c khi ti'' @
       [CHR 0xE1, CHR 0xBA, CHR 0xBF] @ ''p t'' @ [CHR 0xE1, CHR 0xBB, CHR 0xA5] @ ''c.'')"

text \<open>
  The release of \<open>target_version\<close> has a history where the text is made, so the label of its lowest
  system is there.
\<close>

definition os_upgrade_warning :: "string \<Rightarrow> string \<Rightarrow> string \<Rightarrow> string option" where
  "os_upgrade_warning target_version os_id os_version_id =
     (if os_id \<notin> set el_family_os_ids then None
      else
        (case int_of_text (hd (split_on (CHR ''.'') os_version_id)) of
           None \<Rightarrow> None
         | Some os_major \<Rightarrow>
             (case el_versions_for target_version of
                None \<Rightarrow> None
              | Some els \<Rightarrow>
                  if os_major \<in> set els then None
                  else
                    (let codename = capitalize (or_empty (codename_for_version target_version));
                         lowest = Min (set els);
                         label = or_empty (min_os_label_for target_version) in
                     if os_major < lowest
                     then Some (os_too_old_text target_version os_id os_version_id os_major lowest
                                  label codename)
                     else Some (os_dropped_text target_version os_id os_version_id os_major
                                  (join '', '' (map (\<lambda>n. ''el'' @ int_text n) els)) codename)))))"

section \<open>The table and its queries\<close>

text \<open>A breakpoint is in effect from its version on; the last one at or before the version holds.\<close>

definition in_effect :: "(string \<times> int list) list \<Rightarrow> int list \<Rightarrow> int list" where
  "in_effect history v =
     (case filter (\<lambda>(b, _). version_tuple b \<le> v) history of
        [] \<Rightarrow> snd (hd history)
      | bs \<Rightarrow> snd (last bs))"

lemma walk_history_filter:
  assumes "sorted (map (\<lambda>(b, _). version_tuple b) history)"
  shows "walk_history v result history =
     (case filter (\<lambda>(b, _). version_tuple b \<le> v) history of [] \<Rightarrow> result | bs \<Rightarrow> snd (last bs))"
  using assms
proof (induction history arbitrary: result)
  case Nil
  then show ?case by simp
next
  case (Cons h history)
  obtain b els where h: "h = (b, els)" by fastforce
  show ?case
  proof (cases "version_tuple b \<le> v")
    case True
    with Cons h show ?thesis by (auto split: list.split)
  next
    case False
    have "filter (\<lambda>(b, _). version_tuple b \<le> v) history = []"
      using Cons.prems h False by (fastforce simp: filter_empty_conv)
    with False h show ?thesis by simp
  qed
qed

definition well_kept :: "release \<Rightarrow> bool" where
  "well_kept r =
     (rl_el_history r \<noteq> []
      \<and> sorted (map (\<lambda>(b, _). version_tuple b) (rl_el_history r))
      \<and> list_all (\<lambda>(_, els). els \<noteq> []) (rl_el_history r))"

lemma releases_well_kept: "list_all (\<lambda>(_, r). well_kept r) releases"
  by code_simp

lemma release_well_kept: "release_of v = Some r \<Longrightarrow> well_kept r"
  using releases_well_kept unfolding release_of_def
  by (auto simp: list_all_iff split: option.splits dest!: map_of_SomeD)

text \<open>
  C37. The systems a version has packages for are those of the last breakpoint at or before it, or of
  the first breakpoint where there is none, although the search stops at the first later breakpoint;
  the list is never empty for a known release, and a warning is given exactly for a system of the
  family whose major number is not in it.
\<close>

theorem el_versions_last_breakpoint:
  "el_versions_for v = map_option (\<lambda>r. in_effect (rl_el_history r) (version_tuple v)) (release_of v)
   \<and> (os_upgrade_warning v os ver \<noteq> None \<longleftrightarrow>
        os \<in> set el_family_os_ids
        \<and> (\<exists>n els. int_of_text (hd (split_on (CHR ''.'') ver)) = Some n
                    \<and> el_versions_for v = Some els \<and> els \<noteq> [] \<and> n \<notin> set els))"
proof -
  have eq: "el_versions_for v
      = map_option (\<lambda>r. in_effect (rl_el_history r) (version_tuple v)) (release_of v)"
  proof (cases "release_of v")
    case None
    then show ?thesis by (simp add: el_versions_for_def)
  next
    case (Some r)
    with release_well_kept [OF Some] walk_history_filter [of "rl_el_history r"] show ?thesis
      by (simp add: el_versions_for_def in_effect_def well_kept_def)
  qed
  have some_els: "els \<noteq> []" if some: "el_versions_for v = Some els" for els
  proof -
    obtain r where r: "release_of v = Some r" "els = in_effect (rl_el_history r) (version_tuple v)"
      using some eq by auto
    have k: "rl_el_history r \<noteq> []" "\<And>h. h \<in> set (rl_el_history r) \<Longrightarrow> snd h \<noteq> []"
      using release_well_kept [OF r(1)] by (auto simp: well_kept_def list_all_iff)
    let ?bs = "filter (\<lambda>(b, _). version_tuple b \<le> version_tuple v) (rl_el_history r)"
    show ?thesis
    proof (cases "?bs = []")
      case True
      with k(2) [OF hd_in_set [OF k(1)]] show ?thesis by (simp add: r(2) in_effect_def)
    next
      case False
      have "last ?bs \<in> set (rl_el_history r)" using last_in_set [OF False] by simp
      with False k(2) show ?thesis by (cases ?bs) (simp_all add: r(2) in_effect_def)
    qed
  qed
  show ?thesis
  proof (intro conjI, rule eq)
    show "os_upgrade_warning v os ver \<noteq> None \<longleftrightarrow>
        os \<in> set el_family_os_ids
        \<and> (\<exists>n els. int_of_text (hd (split_on (CHR ''.'') ver)) = Some n
                    \<and> el_versions_for v = Some els \<and> els \<noteq> [] \<and> n \<notin> set els)"
      using some_els unfolding os_upgrade_warning_def Let_def
      by (auto split: option.split if_split)
  qed
qed

end
