(* ===== verification/CommandTable.thy ===== *)
theory CommandTable
  imports Commands Releases
begin

text \<open>
  The rest of the executor's commands: finding the Ceph units of a host, restarting OSDs, the cluster
  upgrades, and the table \<open>get_command\<close> that chooses a builder and runs its command inside the
  cluster's Ceph runtime.  The previews of actions that have an orchestrator of their own
  (\<open>deploy\<close>, performance sweeps, restores) are display text, an argument here, as are the answers of
  a host and the field checks of the typed contracts.
\<close>

section \<open>The Ceph units of a host\<close>

definition word_char :: "char \<Rightarrow> bool" where
  "word_char c = (alnum_char c \<or> c = CHR ''_'')"

definition at_boundary :: "string \<Rightarrow> bool" where
  "at_boundary rest = (rest = [] \<or> \<not> word_char (hd rest))"

text \<open>\<open>splitlines\<close>; a carriage return and the line feed after it end one line.\<close>

definition line_break :: "char \<Rightarrow> bool" where
  "line_break c = (c \<in> {CHR 0x0A, CHR 0x0B, CHR 0x0C, CHR 0x0D, CHR 0x1C, CHR 0x1D, CHR 0x1E})"

fun split_lines :: "string \<Rightarrow> string \<Rightarrow> string list" where
  "split_lines acc [] = (if acc = [] then [] else [acc])"
| "split_lines acc (c # cs) =
     (if c = CHR 0x0D \<and> cs \<noteq> [] \<and> hd cs = CHR 0x0A then split_lines acc cs
      else if line_break c then acc # split_lines [] cs
      else split_lines (acc @ [c]) cs)"

text \<open>\<open>^\s*(\S+\.service)\b\<close>: the longest run that ends in \<open>.service\<close> at a word boundary.\<close>

definition service_unit :: "string \<Rightarrow> string option" where
  "service_unit line =
     (let s = dropWhile space_char line; run = takeWhile (\<lambda>c. \<not> space_char c) s in
      map_option (\<lambda>n. take n run)
        (find (\<lambda>n. starts_with (rev (take n run)) (rev ''.service'') \<and> at_boundary (drop n s))
           (rev [9..<Suc (length run)])))"

definition unit_type_markers :: "string list" where
  "unit_type_markers = [''osd'', ''mon'', ''mgr'', ''mds'', ''rgw'']"

definition classify_ceph_unit :: "string \<Rightarrow> string option" where
  "classify_ceph_unit unit_name =
     find (\<lambda>daemon_type. contains_str daemon_type (str_lower unit_name)) unit_type_markers"

text \<open>
  What \<open>systemctl --all | grep ceph || true\<close> prints on a host, for the user and key given
  (\<open>None\<close> for the defaults), or the failure of the connection.
\<close>

type_synonym unit_listing = "string \<Rightarrow> pyval \<Rightarrow> pyval \<Rightarrow> cmd_error + string"

definition discovered_units :: "string \<Rightarrow> string list" where
  "discovered_units printed = List.map_filter service_unit (split_lines [] printed)"

definition units_of_type :: "string \<Rightarrow> string list \<Rightarrow> string list" where
  "units_of_type daemon_type units =
     filter (\<lambda>u. classify_ceph_unit u = Some daemon_type) units"

definition discover_ceph_units ::
  "unit_listing \<Rightarrow> string \<Rightarrow> pyval \<Rightarrow> pyval \<Rightarrow> cmd_error + (string \<times> string list) list" where
  "discover_ceph_units listing host user key_path =
     bind_cmd (listing host user key_path) (\<lambda>printed.
       Inr (map (\<lambda>t. (t, units_of_type t (discovered_units printed))) unit_type_markers))"

text \<open>\<open>osd[.@](\d+)\b\<close>, case-insensitive: all matches, left to right.\<close>

function osd_unit_ids :: "string \<Rightarrow> int list" where
  "osd_unit_ids [] = []"
| "osd_unit_ids (c # cs) =
     (let s = c # cs; after_marker = drop 4 s;
          digits = takeWhile digit_char after_marker; rest = dropWhile digit_char after_marker in
      if str_lower (take 3 s) = ''osd'' \<and> length s > 3 \<and> s ! 3 \<in> {CHR ''.'', CHR ''@''}
         \<and> digits \<noteq> [] \<and> at_boundary rest
      then (case digits_value 0 digits of Some n \<Rightarrow> n | None \<Rightarrow> 0) # osd_unit_ids rest
      else osd_unit_ids cs)"
  by pat_completeness auto
termination
  by (relation "measure length")
     (auto simp: Let_def less_Suc_eq_le intro: order_trans [OF length_dropWhile_le])

section \<open>Restarting daemons\<close>

text \<open>Iterating a value, and \<open>int\<close> of each of its elements.\<close>

definition iterate :: "pyval \<Rightarrow> cmd_error + pyval list" where
  "iterate v =
     (case v of PList xs \<Rightarrow> Inr xs | PDict kvs \<Rightarrow> Inr (map fst kvs)
      | PStr s \<Rightarrow> Inr (map (\<lambda>c. PStr [c]) s) | _ \<Rightarrow> Inl (Raises TypeError))"

definition int_value :: "pyval \<Rightarrow> cmd_error + int" where
  "int_value v =
     (case py_int v of Some n \<Rightarrow> Inr n
      | None \<Rightarrow> Inl (Raises (if is_str v \<or> v = PNonFinite then ValueError else TypeError)))"

definition int_values :: "pyval \<Rightarrow> cmd_error + int list" where
  "int_values v = bind_cmd (iterate v) (map_cmd int_value)"

definition restart_osd_daemon_command ::
  "unit_listing \<Rightarrow> string option \<Rightarrow> pyval \<Rightarrow> cmd_error + string" where
  "restart_osd_daemon_command listing host params =
     (case host of
        None \<Rightarrow> Inl ExecutorError
      | Some h \<Rightarrow>
          if truthy (dget params ''cephadm_osd_ids'') then
            bind_cmd (int_values (dget params ''cephadm_osd_ids'')) (\<lambda>ids.
              Inr (join '' && '' (map (\<lambda>n. ''ceph orch daemon restart osd.'' @ int_text n)
                                    (sorted_set ids))))
          else
            bind_cmd (listing h PNone PNone) (\<lambda>printed.
              (let osd_units = units_of_type ''osd'' (discovered_units printed);
                   ids_by_host = por (dget params ''osd_ids_by_host'') (PDict []);
                   requested = (if is_dict ids_by_host then dget ids_by_host h else PNone);
                   restart = (\<lambda>units.
                     if units = [] then Inl ExecutorError
                     else Inr (join '' && ''
                       (map (\<lambda>name. ''systemctl restart '' @ shlex_quote name) units)))
               in if requested = PNone then restart osd_units
                  else bind_cmd (int_values requested) (\<lambda>ids.
                    (let mine = filter (\<lambda>u. list_ex (\<lambda>n. n \<in> set ids) (osd_unit_ids u)) osd_units in
                     if set (concat (map osd_unit_ids mine)) \<noteq> set ids then Inl ExecutorError
                     else restart mine)))))"

definition restart_snippet :: "string list \<Rightarrow> string" where
  "restart_snippet units =
     join '' && '' (map (\<lambda>name. ''(systemctl reset-failed '' @ shlex_quote name
       @ '' 2>/dev/null; systemctl restart '' @ shlex_quote name @ '')'') units)"

definition restart_units_by_type_snippet ::
  "unit_listing \<Rightarrow> string \<Rightarrow> string list \<Rightarrow> pyval \<Rightarrow> pyval \<Rightarrow> cmd_error + string option" where
  "restart_units_by_type_snippet listing host daemon_types user key_path =
     bind_cmd (discover_ceph_units listing host user key_path) (\<lambda>discovered.
       (let matching = concat (map (\<lambda>t. case map_of discovered t of None \<Rightarrow> [] | Some us \<Rightarrow> us)
                                 daemon_types) in
        Inr (if matching = [] then None else Some (restart_snippet matching))))"

definition restart_discovered_units_snippet ::
  "unit_listing \<Rightarrow> string \<Rightarrow> pyval \<Rightarrow> pyval \<Rightarrow> cmd_error + string option" where
  "restart_discovered_units_snippet listing host user key_path =
     bind_cmd (discover_ceph_units listing host user key_path) (\<lambda>discovered.
       (let all_units = concat (map snd discovered) in
        Inr (if all_units = [] then None else Some (restart_snippet all_units))))"

section \<open>Cluster upgrades\<close>

text \<open>\<open>^\d+\.\d+\.\d+$\<close>, on ASCII digits, and \<open>^/[A-Za-z0-9_./-]+$\<close>.\<close>

definition target_version_re :: "string \<Rightarrow> bool" where
  "target_version_re s =
     (let parts = split_on (CHR ''.'') s in length parts = 3 \<and> list_all str_isdigit parts)"

definition package_dir_re :: "string \<Rightarrow> bool" where
  "package_dir_re s =
     (1 < length s \<and> hd s = CHR ''/'' \<and> list_all (\<lambda>c. alnum_char c \<or> c \<in> set ''_./-'') (tl s))"

definition require_target_version :: "pyval \<Rightarrow> cmd_error + string" where
  "require_target_version params = text_of (matches target_version_re) (dget params ''target_version'')"

definition require_package_dir :: "pyval \<Rightarrow> cmd_error + string" where
  "require_package_dir params = text_of (matches package_dir_re) (dget params ''package_dir'')"

definition upgrade_osd_flags :: "string list" where
  "upgrade_osd_flags = [''noout'', ''noscrub'', ''nodeep-scrub'', ''nosnaptrim'']"

definition upgrade_ceph_cluster_command :: "string \<Rightarrow> pyval \<Rightarrow> cmd_error + string" where
  "upgrade_ceph_cluster_command exec_mode params =
     bind_cmd (require_target_version params) (\<lambda>target_version.
     guard_cmd (dget_default params ''_cluster_exec_mode'' (PStr exec_mode) \<noteq> PStr ''cephadm'')
       (Inr (''cephadm shell -- bash -c '' @ shlex_quote (join '' && ''
          (map (\<lambda>flag. ''ceph osd set '' @ flag) upgrade_osd_flags
           @ [''ceph orch upgrade start --ceph-version '' @ shlex_quote target_version])))))"

definition package_manager_branch :: "string \<Rightarrow> string \<Rightarrow> string" where
  "package_manager_branch apt_snippet rpm_snippet = (''if command -v apt-get >/dev/null 2>&1; then '' @ apt_snippet @
       ''; elif command -v dnf >/dev/null 2>&1 || command -v yum >/dev/null 2>&1; then '' @
       rpm_snippet @ ''; else echo '' @ [CHR 0x27] @
       ''no supported package manager (apt-get/dnf/yum) found'' @ [CHR 0x27] @
       '' >&2; exit 1; fi'')"

text \<open>
  The phases of a package upgrade: \<open>restart_only\<close> restarts the units of the listed types,
  \<open>install_only\<close> leaves the restart out.
\<close>

definition package_upgrade ::
  "unit_listing \<Rightarrow> string \<Rightarrow> string option \<Rightarrow> pyval \<Rightarrow> (pyval \<Rightarrow> cmd_error + string)
     \<Rightarrow> cmd_error + string" where
  "package_upgrade listing exec_mode host params install =
     guard_cmd (dget_default params ''_cluster_exec_mode'' (PStr exec_mode) \<noteq> PStr ''none'')
     (case host of
        None \<Rightarrow> Inl ExecutorError
      | Some h \<Rightarrow>
          (let phase = dget params ''_phase''; user = dget params ''_ssh_user'';
               key_path = dget params ''_ssh_key_path'' in
           if phase = PStr ''restart_only'' then
             bind_cmd (restart_units_by_type_snippet listing h
                 [t. PStr t \<leftarrow> elems_of (por (dget params ''_phase_daemon_types'') (PList []))]
                 user key_path) (\<lambda>snippet.
               case snippet of None \<Rightarrow> Inl ExecutorError | Some s \<Rightarrow> Inr s)
           else
             bind_cmd (install params) (\<lambda>install_command.
               if phase = PStr ''install_only'' then Inr install_command
               else bind_cmd (restart_discovered_units_snippet listing h user key_path) (\<lambda>snippet.
                 Inr (case snippet of None \<Rightarrow> install_command
                      | Some s \<Rightarrow> install_command @ '' && '' @ s)))))"

definition download_install_command :: "string \<Rightarrow> string" where
  "download_install_command target_version =
     (let repo_path = repo_path_version target_version;
          rpm_package = (if repo_path \<noteq> target_version then ''ceph-'' @ target_version else ''ceph'');
          apt_snippet = (''wget -q -O- https://download.ceph.com/keys/release.asc | gpg --dearmor -o '' @
       ''/usr/share/keyrings/ceph-archive-keyring.gpg && echo '' @ [CHR 0x22] @
       ''deb [signed-by=/usr/share/keyrings/ceph-archive-keyring.gpg] '' @
       ''https://download.ceph.com/debian-'' @ repo_path @ ''/ $(lsb_release -sc) main'' @
       [CHR 0x22] @
       '' > /etc/apt/sources.list.d/ceph.list && apt-get update -y && apt-get install '' @
       ''-y ceph'');
          rpm_snippet = (''rm -f /etc/yum.repos.d/download.ceph.com_rpm-*.repo && rpm --import '' @
       ''https://download.ceph.com/keys/release.asc && (dnf config-manager --add-repo '' @
       ''https://download.ceph.com/rpm-'' @ repo_path @
       ''/el$(rpm -E %rhel)/$(uname -m)/ 2>/dev/null || yum-config-manager --add-repo '' @
       ''https://download.ceph.com/rpm-'' @ repo_path @
       ''/el$(rpm -E %rhel)/$(uname -m)/) && (dnf config-manager --add-repo '' @
       ''https://download.ceph.com/rpm-'' @ repo_path @
       ''/el$(rpm -E %rhel)/noarch/ 2>/dev/null || yum-config-manager --add-repo '' @
       ''https://download.ceph.com/rpm-'' @ repo_path @
       ''/el$(rpm -E %rhel)/noarch/) && (dnf install -y '' @ rpm_package @
       '' || yum install -y '' @ rpm_package @ '')'')
      in package_manager_branch apt_snippet rpm_snippet)"

definition download_install :: "pyval \<Rightarrow> cmd_error + string" where
  "download_install params =
     bind_cmd (require_target_version params) (\<lambda>target_version.
     guard_cmd (codename_for_version target_version = None)
       (Inr (download_install_command target_version)))"

definition local_install :: "pyval \<Rightarrow> cmd_error + string" where
  "local_install params =
     bind_cmd (require_package_dir params) (\<lambda>package_dir.
       (let quoted_dir = shlex_quote package_dir;
            exists_check = (''[ -d '' @ quoted_dir @ '' ] || { echo '' @ [CHR 0x27] @ quoted_dir @
       '': directory not found'' @ [CHR 0x27] @ '' >&2; exit 1; }'');
            apt_snippet = (''apt-get install -y '' @ quoted_dir @ ''/*.deb'');
            rpm_snippet = (''(dnf install -y '' @ quoted_dir @ ''/*.rpm || yum localinstall -y '' @ quoted_dir @
       ''/*.rpm)'')
        in Inr (exists_check @ '' && '' @ package_manager_branch apt_snippet rpm_snippet)))"

definition upgrade_ceph_cluster_package_download_command ::
  "unit_listing \<Rightarrow> string \<Rightarrow> string option \<Rightarrow> pyval \<Rightarrow> cmd_error + string" where
  "upgrade_ceph_cluster_package_download_command listing exec_mode host params =
     package_upgrade listing exec_mode host params download_install"

definition upgrade_ceph_cluster_package_local_command ::
  "unit_listing \<Rightarrow> string \<Rightarrow> string option \<Rightarrow> pyval \<Rightarrow> cmd_error + string" where
  "upgrade_ceph_cluster_package_local_command listing exec_mode host params =
     package_upgrade listing exec_mode host params local_install"

section \<open>The typed contracts of the RBD copy and move actions\<close>

text \<open>
  The models of \<open>executor/action_contract.py\<close>: \<open>fields_of\<close> stands for Pydantic's strict field checks
  (types, lengths, unknown keys, stripped texts) and gives the fields, or \<open>None\<close>; the validators are
  the module's own.
\<close>

definition field_text :: "pyval \<Rightarrow> string \<Rightarrow> string" where
  "field_text fs k = py_str (dget fs k)"

definition rbd_names_valid :: "pyval \<Rightarrow> bool" where
  "rbd_names_valid fs =
     (pool_name_re (field_text fs ''pool_name'') \<and> pool_name_re (field_text fs ''dest_pool'')
      \<and> rbd_image_re (field_text fs ''image'') \<and> rbd_image_re (field_text fs ''dest_image''))"

definition cinder_managed :: "pyval \<Rightarrow> bool" where
  "cinder_managed fs =
     (starts_with (field_text fs ''image'') ''volume-''
      \<or> starts_with (field_text fs ''dest_image'') ''volume-'')"

definition validate_copy_boundary :: "pyval \<Rightarrow> bool" where
  "validate_copy_boundary fs =
     (rbd_names_valid fs \<and> rbd_image_re (field_text fs ''snapshot'')
      \<and> field_text fs ''pool_name'' \<noteq> field_text fs ''dest_pool'' \<and> \<not> cinder_managed fs)"

definition validate_move_boundary :: "pyval \<Rightarrow> bool" where
  "validate_move_boundary fs =
     (rbd_names_valid fs \<and> field_text fs ''pool_name'' \<noteq> field_text fs ''dest_pool''
      \<and> field_text fs ''image'' \<noteq> field_text fs ''dest_image'' \<and> \<not> cinder_managed fs
      \<and> dget fs ''delete_source'' = PBool True)"

definition validate_cleanup_boundary :: "pyval \<Rightarrow> bool" where
  "validate_cleanup_boundary fs =
     (rbd_names_valid fs \<and> field_text fs ''pool_name'' \<noteq> field_text fs ''dest_pool''
      \<and> field_text fs ''image'' \<noteq> field_text fs ''dest_image''
      \<and> dget fs ''delete_destination'' = PBool True)"

definition validate_typed_action_params ::
  "(string \<Rightarrow> pyval \<Rightarrow> pyval option) \<Rightarrow> string \<Rightarrow> pyval \<Rightarrow> bool" where
  "validate_typed_action_params fields_of action_id params =
     (if action_id = ''rbd_move_volume'' then
        (case fields_of action_id params of None \<Rightarrow> False | Some fs \<Rightarrow> validate_move_boundary fs)
      else if action_id = ''rbd_move_cleanup_partial'' then
        (case fields_of action_id params of None \<Rightarrow> False | Some fs \<Rightarrow> validate_cleanup_boundary fs)
      else if action_id = ''rbd_copy_volume'' then
        (case fields_of action_id params of None \<Rightarrow> False | Some fs \<Rightarrow> validate_copy_boundary fs)
      else True)"

section \<open>The table\<close>

definition management_command_builders :: "(string \<times> (pyval \<Rightarrow> cmd_error + string)) list" where
  "management_command_builders =
     [(''edit_pool'', edit_pool_command),
      (''tune_bluestore_slow_ops_warn'', tune_bluestore_slow_ops_warn_command),
      (''scrub_pool'', scrub_pool_command),
      (''set_pool_protection'', set_pool_protection_command),
      (''execute_node_command'', execute_node_command),
      (''create_pool'', create_pool_command),
      (''cephfs_create_volume'', cephfs_create_volume_command),
      (''cephfs_create_subvolume'', cephfs_create_subvolume_command),
      (''nfs_create_cluster'', nfs_create_cluster_command),
      (''nfs_create_export'', nfs_create_export_command),
      (''nfs_delete_export'', nfs_delete_export_command),
      (''rgw_apply_service'', rgw_apply_service_command),
      (''delete_pool'', delete_pool_command),
      (''set_pool_size'', set_pool_size_command),
      (''set_pool_pg_num'', set_pool_pg_num_command),
      (''enable_pool_pg_autoscaler'', enable_pool_pg_autoscaler_command),
      (''reshard_rgw_bucket'', reshard_rgw_bucket_command),
      (''deep_scrub_omap_pg'', deep_scrub_omap_pg_command),
      (''mark_osd_out'', mark_osd_command ''out''),
      (''mark_osd_in'', mark_osd_command ''in''),
      (''mark_osd_down'', mark_osd_command ''down''),
      (''enable_pool_application'', enable_pool_application_command),
      (''finalize_pacific_osd_release'', finalize_pacific_osd_release_command),
      (''rbd_trash_remove'', rbd_trash_remove_command),
      (''rbd_create_volume'', rbd_create_volume_command),
      (''rbd_resize_volume'', rbd_resize_volume_command),
      (''rbd_rename_volume'', rbd_rename_volume_command),
      (''rbd_clone_volume'', rbd_clone_volume_command),
      (''rbd_copy_volume'', rbd_copy_volume_command),
      (''rbd_move_volume'', rbd_move_volume_command),
      (''rbd_move_cleanup_partial'', rbd_move_cleanup_partial_command),
      (''rbd_flatten_volume'', rbd_flatten_volume_command),
      (''rbd_template_mark'', rbd_template_mark_command),
      (''rbd_qos_set'', rbd_qos_set_command),
      (''rbd_trash_move_volume'', rbd_trash_move_volume_command),
      (''rbd_trash_restore_volume'', rbd_trash_restore_volume_command),
      (''rbd_trash_purge_all'', rbd_trash_purge_all_command),
      (''cinder_attach_volume'', cinder_attach_volume_command),
      (''cinder_detach_volume'', cinder_detach_volume_command),
      (''cinder_create_snapshot'', cinder_create_snapshot_command),
      (''cinder_delete_snapshot'', cinder_delete_snapshot_command)]"

definition incident_parameter_command_builders ::
  "(string \<times> (pyval \<Rightarrow> cmd_error + string)) list" where
  "incident_parameter_command_builders =
     [(''finalize_osd_release'', finalize_osd_release_command),
      (''remove_invalid_rgw_default_key'', remove_invalid_rgw_default_key_command)]"

definition device_health_command_builders :: "(string \<times> (pyval \<Rightarrow> cmd_error + string)) list" where
  "device_health_command_builders = [(''evacuate_predicted_failing_osd'', mark_osd_command ''out'')]"

definition cluster_deploy_previews :: "string list" where
  "cluster_deploy_previews =
     [''deploy_cluster_cephadm'', ''deploy_cluster_ceph_deploy'', ''deploy_cluster_rpm_local'',
      ''delete_cluster_cephadm'', ''delete_cluster_manual'', ''convert_cluster_to_cephadm'',
      ''restore_cluster_from_backup'', ''node_os_gate_prepare'', ''node_os_gate_abort'',
      ''node_os_gate_recover'', ''remove_cluster_nodes'', ''finish_remove_cluster_nodes'',
      ''replace_failed_osd'', ''finish_replace_osd'']"

definition volume_perf_previews :: "string list" where
  "volume_perf_previews = [''volume_perf_sweep'', ''vm_perf_benchmark'']"

definition backup_previews :: "string list" where
  "backup_previews = [''restore_rbd_image_to_production'', ''restore_rbd_image_as_new'']"

definition static_commands :: "(string \<times> string) list" where
  "static_commands =
     [(''hard_reboot_node'', ''nohup systemctl reboot --force --force >/dev/null 2>&1 &''),
      (''resync_ntp'', (''if command -v chronyc >/dev/null 2>&1; then (systemctl start chronyd 2>/dev/null || systemctl start chrony 2>/dev/null || true) && chronyc -a makestep; elif command -v ntpdate >/dev/null 2>&1; then ntpdate -u pool.ntp.org; elif systemctl list-unit-files 2>/dev/null | grep -q systemd-timesyncd; then timedatectl set-ntp true && systemctl restart systemd-timesyncd; else echo '' @
       [CHR 0x27] @ ''no supported NTP tool found'' @ [CHR 0x27] @ '' >&2; exit 1; fi'')),
      (''enable_mon_msgr2'', ''ceph mon enable-msgr2''),
      (''crash_archive_all'', ''ceph crash archive-all'')]"

definition ceph_runtime_action_ids :: "string list" where
  "ceph_runtime_action_ids =
     [''crash_archive_all'', ''edit_pool'', ''scrub_pool'', ''set_pool_protection'', ''create_pool'',
      ''cephfs_create_volume'', ''cephfs_create_subvolume'', ''nfs_create_cluster'',
      ''nfs_create_export'', ''nfs_delete_export'', ''rgw_apply_service'', ''delete_pool'',
      ''set_pool_size'', ''set_pool_pg_num'', ''mark_osd_out'', ''mark_osd_in'', ''mark_osd_down'',
      ''enable_pool_application'', ''finalize_pacific_osd_release'', ''finalize_osd_release'',
      ''tune_bluestore_slow_ops_warn'', ''rbd_trash_remove'', ''rbd_create_volume'',
      ''rbd_resize_volume'', ''rbd_rename_volume'', ''rbd_clone_volume'', ''rbd_copy_volume'',
      ''rbd_move_volume'', ''rbd_move_cleanup_partial'', ''rbd_flatten_volume'',
      ''rbd_template_mark'', ''rbd_qos_set'', ''rbd_trash_move_volume'', ''rbd_trash_restore_volume'',
      ''rbd_trash_purge_all'', ''evacuate_predicted_failing_osd'']"

text \<open>What the builders take from outside: settings, hosts and display texts.\<close>

record command_world =
  cw_exec_mode :: string
  cw_listing :: unit_listing
  cw_fields_of :: "string \<Rightarrow> pyval \<Rightarrow> pyval option"
  cw_preview :: "string \<Rightarrow> string option \<Rightarrow> pyval \<Rightarrow> cmd_error + string"

definition build_command ::
  "command_world \<Rightarrow> string \<Rightarrow> string option \<Rightarrow> pyval \<Rightarrow> cmd_error + string" where
  "build_command w action_id host params =
     (if action_id = ''restart_osd_daemon'' then restart_osd_daemon_command (cw_listing w) host params
      else case map_of (management_command_builders @ incident_parameter_command_builders
                        @ device_health_command_builders) action_id of
        Some build \<Rightarrow> build params
      | None \<Rightarrow>
          if action_id = ''upgrade_ceph_cluster''
          then upgrade_ceph_cluster_command (cw_exec_mode w) params
          else if action_id = ''upgrade_ceph_cluster_package_download''
          then upgrade_ceph_cluster_package_download_command (cw_listing w) (cw_exec_mode w) host params
          else if action_id = ''upgrade_ceph_cluster_package_local''
          then upgrade_ceph_cluster_package_local_command (cw_listing w) (cw_exec_mode w) host params
          else if action_id \<in> set (cluster_deploy_previews @ volume_perf_previews @ backup_previews)
          then cw_preview w action_id host params
          else if action_id = ''bluestore_omap_quick_fix''
          then bluestore_omap_quick_fix_command (cw_exec_mode w) host params
          else (case map_of static_commands action_id of
                  Some command \<Rightarrow> Inr command | None \<Rightarrow> Inl ExecutorError))"

text \<open>\<open>params or {}\<close> is a dictionary in every caller; the wrapping needs an execution mode.\<close>

definition get_command ::
  "command_world \<Rightarrow> string \<Rightarrow> string option \<Rightarrow> pyval \<Rightarrow> string option \<Rightarrow> string
     \<Rightarrow> cmd_error + string" where
  "get_command w action_id host params exec_mode container_name =
     (let ps = por params (PDict []) in
      guard_cmd (action_id \<in> {''rbd_copy_volume'', ''rbd_move_volume'', ''rbd_move_cleanup_partial''}
                 \<and> \<not> validate_typed_action_params (cw_fields_of w) action_id ps)
        (bind_cmd (build_command w action_id host ps) (\<lambda>command.
           case exec_mode of
             None \<Rightarrow> Inr command
           | Some mode \<Rightarrow>
               if action_id \<in> set ceph_runtime_action_ids
               then wrap_ceph_runtime_command command mode container_name
               else Inr command)))"

definition has_command :: "string \<Rightarrow> bool" where
  "has_command action_id =
     (action_id = ''restart_osd_daemon''
      \<or> action_id \<in> set (map fst management_command_builders)
      \<or> action_id \<in> set (map fst incident_parameter_command_builders)
      \<or> action_id \<in> set (map fst device_health_command_builders)
      \<or> action_id \<in> {''upgrade_ceph_cluster'', ''upgrade_ceph_cluster_package_download'',
                     ''upgrade_ceph_cluster_package_local''}
      \<or> action_id \<in> set cluster_deploy_previews
      \<or> action_id \<in> set volume_perf_previews
      \<or> action_id \<in> set backup_previews
      \<or> action_id = ''bluestore_omap_quick_fix''
      \<or> action_id \<in> set (map fst static_commands))"

end
