(* ===== verification/CommandPlans.thy ===== *)
theory CommandPlans
  imports CommandTable
begin

text \<open>
  What a built command is on the node: the argument vectors it was meant to run.  The plans are stated
  over the parameters, with no quoting in them; the lemmas show that the shell reads every accepted
  command of the table as its plan.
\<close>

section \<open>Plans\<close>

definition arg :: "pyval \<Rightarrow> string \<Rightarrow> string" where
  "arg params k = py_str (dget params k)"

fun chain :: "string list list \<Rightarrow> shell_token list" where
  "chain [] = []"
| "chain [c] = map Word c"
| "chain (c # d # cs) = map Word c @ [Oper (CHR ''&''), Oper (CHR ''&'')] @ chain (d # cs)"

definition pg_num_plan :: "pyval \<Rightarrow> string list" where
  "pg_num_plan p = [''ceph'', ''osd'', ''pool'', ''set'', arg p ''pool_name'', ''pg_num'', arg p ''pg_num'']"

definition spec_arg :: "pyval \<Rightarrow> string \<Rightarrow> string \<Rightarrow> string" where
  "spec_arg p pool img = arg p pool @ ''/'' @ arg p img"

definition info_plan :: "string \<Rightarrow> string list" where
  "info_plan spec = [''rbd'', ''info'', spec, ''--format'', ''json'']"

definition hosts_arg :: "pyval \<Rightarrow> string" where
  "hosts_arg p =
     (let hosts = map py_str (elems_of (dget p ''hosts'')) in
      int_text (int (length hosts)) @ '' '' @ join '' '' hosts)"

definition plans :: "(string \<times> (pyval \<Rightarrow> string list list)) list" where
  "plans =
     [(''edit_pool'', \<lambda>p.
         [[''ceph'', ''osd'', ''pool'', ''set'', arg p ''pool_name'', ''size'', arg p ''size''],
          pg_num_plan p]),
      (''scrub_pool'', \<lambda>p. [[''ceph'', ''osd'', ''pool'', ''scrub'', arg p ''pool_name'']]),
      (''set_pool_protection'', \<lambda>p.
         [[''ceph'', ''osd'', ''pool'', ''set'', arg p ''pool_name'', ''nodelete'',
           if dget p ''protected'' = PBool True then ''true'' else ''false'']]),
      (''create_pool'', \<lambda>p.
         [''ceph'', ''osd'', ''pool'', ''create'', arg p ''pool_name'', arg p ''pg_num'']
         # (if dget p ''app_name'' = PNone then []
            else [[''ceph'', ''osd'', ''pool'', ''application'', ''enable'', arg p ''pool_name'',
                   arg p ''app_name'']])),
      (''cephfs_create_volume'', \<lambda>p. [[''ceph'', ''fs'', ''volume'', ''create'', arg p ''fs_name'']]),
      (''nfs_create_cluster'', \<lambda>p.
         [[''ceph'', ''nfs'', ''cluster'', ''create'', arg p ''nfs_id'', hosts_arg p]]),
      (''nfs_delete_export'', \<lambda>p.
         [[''ceph'', ''nfs'', ''export'', ''rm'', arg p ''nfs_id'', arg p ''pseudo_path'']]),
      (''rgw_apply_service'', \<lambda>p.
         [[''ceph'', ''orch'', ''apply'', ''rgw'', arg p ''service_id'',
           ''--placement='' @ hosts_arg p, ''--port='' @ arg p ''port'']]),
      (''set_pool_size'', \<lambda>p.
         [[''ceph'', ''osd'', ''pool'', ''set'', arg p ''pool_name'', ''size'', arg p ''size'']]),
      (''set_pool_pg_num'', \<lambda>p.
         (if dget p ''adjustments'' = PNone then [pg_num_plan p]
          else map pg_num_plan (elems_of (dget p ''adjustments'')))),
      (''enable_pool_pg_autoscaler'', \<lambda>p.
         map (\<lambda>v. [''ceph'', ''osd'', ''pool'', ''set'', py_str v, ''pg_autoscale_mode'', ''on''])
           (elems_of (dget p ''pools''))),
      (''reshard_rgw_bucket'', \<lambda>p.
         [''radosgw-admin'', ''bucket'', ''reshard'', ''--bucket='' @ arg p ''bucket_name'',
          ''--num-shards='' @ arg p ''num_shards'']
         # (if dget p ''pg_id'' = PNone then []
            else [[''ceph'', ''pg'', arg p ''pg_id'', ''deep_scrub'']])),
      (''deep_scrub_omap_pg'', \<lambda>p.
         map (\<lambda>v. [''ceph'', ''pg'', py_str v, ''deep_scrub''])
           (if dget p ''pg_ids'' = PNone then [dget p ''pg_id''] else elems_of (dget p ''pg_ids''))),
      (''mark_osd_out'', \<lambda>p. [[''ceph'', ''osd'', ''out'', arg p ''osd_id'']]),
      (''mark_osd_in'', \<lambda>p. [[''ceph'', ''osd'', ''in'', arg p ''osd_id'']]),
      (''mark_osd_down'', \<lambda>p. [[''ceph'', ''osd'', ''down'', arg p ''osd_id'']]),
      (''enable_pool_application'', \<lambda>p.
         [[''ceph'', ''osd'', ''pool'', ''application'', ''enable'', arg p ''pool_name'',
           arg p ''app_name'', ''--yes-i-really-mean-it'']]),
      (''rbd_trash_remove'', \<lambda>p.
         [[''rbd'', ''trash'', ''rm'', spec_arg p ''pool_name'' ''trash_id'']]),
      (''rbd_create_volume'', \<lambda>p.
         [[''rbd'', ''create'', ''--size'', arg p ''size_mib'', spec_arg p ''pool_name'' ''image''],
          info_plan (spec_arg p ''pool_name'' ''image'')]),
      (''rbd_resize_volume'', \<lambda>p.
         [[''rbd'', ''resize'', ''--size'', arg p ''size_mib'', spec_arg p ''pool_name'' ''image''],
          info_plan (spec_arg p ''pool_name'' ''image'')]),
      (''rbd_rename_volume'', \<lambda>p.
         [[''rbd'', ''mv'', spec_arg p ''pool_name'' ''image'', spec_arg p ''pool_name'' ''new_image''],
          info_plan (spec_arg p ''pool_name'' ''new_image'')]),
      (''rbd_copy_volume'', \<lambda>p.
         [[''rbd'', ''cp'', ''--no-progress'',
           spec_arg p ''pool_name'' ''image'' @ ''@'' @ arg p ''snapshot'',
           spec_arg p ''dest_pool'' ''dest_image''],
          info_plan (spec_arg p ''dest_pool'' ''dest_image'')]),
      (''rbd_flatten_volume'', \<lambda>p.
         [[''rbd'', ''flatten'', spec_arg p ''pool_name'' ''image''],
          info_plan (spec_arg p ''pool_name'' ''image'')]),
      (''rbd_trash_move_volume'', \<lambda>p.
         [[''rbd'', ''trash'', ''mv'', spec_arg p ''pool_name'' ''image''],
          [''rbd'', ''trash'', ''ls'', arg p ''pool_name'', ''--format'', ''json'']]),
      (''rbd_trash_restore_volume'', \<lambda>p.
         [[''rbd'', ''trash'', ''restore'', spec_arg p ''pool_name'' ''trash_id'', ''--image'',
           arg p ''image''],
          info_plan (spec_arg p ''pool_name'' ''image'')])]"

section \<open>Accepted parameters\<close>

lemma bind_cmd_Inr [simp]: "bind_cmd m f = Inr y \<longleftrightarrow> (\<exists>x. m = Inr x \<and> f x = Inr y)"
  by (cases m) (simp_all add: bind_cmd_def)

lemma guard_cmd_Inr [simp]: "guard_cmd b m = Inr y \<longleftrightarrow> \<not> b \<and> m = Inr y"
  by (simp add: guard_cmd_def)

lemma text_of_Inr [simp]: "text_of P v = Inr s \<longleftrightarrow> v = PStr s \<and> P s"
  by (cases v) (auto simp: text_of_def)

lemma require_int_Inr [simp]:
  "require_int p k (low, high) = Inr n \<longleftrightarrow> dget p k = PInt n \<and> low \<le> n \<and> n \<le> high"
  by (cases "dget p k") (auto simp: require_int_def)

lemma map_cmd_Inr: "map_cmd f xs = Inr ys \<longleftrightarrow> map f xs = map Inr ys"
  by (induction xs arbitrary: ys) (auto simp: Cons_eq_map_conv)

lemmas accepted = require_pool_name_def require_trash_id_def require_rbd_image_def require_app_name_def
  require_name_def require_export_path_def image_spec_def Let_def pg_num_range_def pool_size_range_def
  osd_id_range_def rbd_size_mib_range_def

lemmas planned = arg_def spec_arg_def info_plan_def pg_num_plan_def

section \<open>Compound commands\<close>

lemma map_option_append: "map_option (append xs) (map_option (append ys) z) = map_option (append (xs @ ys)) z"
  by (cases z) simp_all

lemma lex_then_blank:
  "lex m w s = Some ts \<Longrightarrow> lex m w (s @ CHR '' '' # r) = map_option (append ts) (lex Bare None r)"
  by (induction m w s arbitrary: ts rule: lex.induct)
     (auto simp: blank_char_def map_option_append split: if_splits list.splits)

lemma chain_Cons: "cs \<noteq> [] \<Longrightarrow> chain (c # cs) = map Word c @ [Oper (CHR ''&''), Oper (CHR ''&'')] @ chain cs"
  by (cases cs) simp_all

lemma join_reads_chain:
  "list_all2 (\<lambda>c argv. shell_read c = Some (map Word argv)) cs argvs
     \<Longrightarrow> shell_read (join '' && '' cs) = Some (chain argvs)"
proof (induction rule: list_all2_induct)
  case Nil
  then show ?case by (simp add: shell_read_def)
next
  case (Cons c cs argv argvs)
  show ?case
  proof (cases cs)
    case Nil
    with Cons show ?thesis by simp
  next
    case (Cons d ds)
    with \<open>list_all2 _ cs argvs\<close> have "argvs \<noteq> []" by auto
    have "shell_read (join '' && '' (c # cs)) =
        map_option (append (map Word argv)) (lex Bare None (''&& '' @ join '' && '' cs))"
      using Cons.hyps(1) lex_then_blank [of Bare None c "map Word argv" "''&& '' @ join '' && '' cs"]
      by (simp add: shell_read_def Cons)
    also have "\<dots> = Some (chain (argv # argvs))"
      using Cons.IH \<open>argvs \<noteq> []\<close> by (simp add: shell_read_def chain_Cons blank_char_def oper_char_def)
    finally show ?thesis .
  qed
qed


section \<open>Every builder reads as its plan\<close>

definition reads :: "(pyval \<Rightarrow> cmd_error + string) \<Rightarrow> (pyval \<Rightarrow> string list list) \<Rightarrow> bool" where
  "reads build plan = (\<forall>p cmd. build p = Inr cmd \<longrightarrow> shell_read cmd = Some (chain (plan p)))"

definition plan_of :: "string \<Rightarrow> pyval \<Rightarrow> string list list" where
  "plan_of a = the (map_of plans a)"

lemma reads_edit_pool: "reads edit_pool_command (plan_of ''edit_pool'')"
  by (auto simp: reads_def plan_of_def plans_def edit_pool_command_def accepted planned shell_simps split: if_splits)

lemma reads_scrub_pool: "reads scrub_pool_command (plan_of ''scrub_pool'')"
  by (auto simp: reads_def plan_of_def plans_def scrub_pool_command_def accepted planned shell_simps split: if_splits)

lemma reads_cephfs_create_volume: "reads cephfs_create_volume_command (plan_of ''cephfs_create_volume'')"
  by (auto simp: reads_def plan_of_def plans_def cephfs_create_volume_command_def accepted planned shell_simps split: if_splits)

lemma reads_nfs_delete_export: "reads nfs_delete_export_command (plan_of ''nfs_delete_export'')"
  by (auto simp: reads_def plan_of_def plans_def nfs_delete_export_command_def accepted planned shell_simps split: if_splits)

lemma reads_set_pool_size: "reads set_pool_size_command (plan_of ''set_pool_size'')"
  by (auto simp: reads_def plan_of_def plans_def set_pool_size_command_def accepted planned shell_simps split: if_splits)

lemma reads_enable_pool_application: "reads enable_pool_application_command (plan_of ''enable_pool_application'')"
  by (auto simp: reads_def plan_of_def plans_def enable_pool_application_command_def accepted planned shell_simps split: if_splits)

lemma reads_rbd_trash_remove: "reads rbd_trash_remove_command (plan_of ''rbd_trash_remove'')"
  by (auto simp: reads_def plan_of_def plans_def rbd_trash_remove_command_def accepted planned shell_simps split: if_splits)

lemma reads_rbd_create_volume: "reads rbd_create_volume_command (plan_of ''rbd_create_volume'')"
  by (auto simp: reads_def plan_of_def plans_def rbd_create_volume_command_def accepted planned shell_simps split: if_splits)

lemma reads_rbd_resize_volume: "reads rbd_resize_volume_command (plan_of ''rbd_resize_volume'')"
  by (auto simp: reads_def plan_of_def plans_def rbd_resize_volume_command_def accepted planned shell_simps split: if_splits)

lemma reads_rbd_rename_volume: "reads rbd_rename_volume_command (plan_of ''rbd_rename_volume'')"
  by (auto simp: reads_def plan_of_def plans_def rbd_rename_volume_command_def accepted planned shell_simps split: if_splits)

lemma reads_rbd_copy_volume: "reads rbd_copy_volume_command (plan_of ''rbd_copy_volume'')"
  by (auto simp: reads_def plan_of_def plans_def rbd_copy_volume_command_def accepted planned shell_simps split: if_splits)

lemma reads_rbd_flatten_volume: "reads rbd_flatten_volume_command (plan_of ''rbd_flatten_volume'')"
  by (auto simp: reads_def plan_of_def plans_def rbd_flatten_volume_command_def accepted planned shell_simps split: if_splits)

lemma reads_rbd_trash_move_volume: "reads rbd_trash_move_volume_command (plan_of ''rbd_trash_move_volume'')"
  by (auto simp: reads_def plan_of_def plans_def rbd_trash_move_volume_command_def accepted planned shell_simps split: if_splits)

lemma reads_rbd_trash_restore_volume: "reads rbd_trash_restore_volume_command (plan_of ''rbd_trash_restore_volume'')"
  by (auto simp: reads_def plan_of_def plans_def rbd_trash_restore_volume_command_def accepted planned shell_simps split: if_splits)

lemma reads_mark_osd:
  "reads (mark_osd_command ''out'') (plan_of ''mark_osd_out'')"
  "reads (mark_osd_command ''in'') (plan_of ''mark_osd_in'')"
  "reads (mark_osd_command ''down'') (plan_of ''mark_osd_down'')"
  by (auto simp: reads_def plan_of_def plans_def mark_osd_command_def accepted planned shell_simps)

lemma reads_set_pool_protection: "reads set_pool_protection_command (plan_of ''set_pool_protection'')"
  unfolding reads_def
proof (intro allI impI)
  fix p cmd
  assume ok: "set_pool_protection_command p = Inr cmd"
  then obtain pool b where p: "dget p ''pool_name'' = PStr pool" "dget p ''protected'' = PBool b"
    by (cases "dget p ''protected''") (auto simp: set_pool_protection_command_def accepted)
  with ok show "shell_read cmd = Some (chain (plan_of ''set_pool_protection'' p))"
    by (auto simp: set_pool_protection_command_def accepted plan_of_def plans_def planned shell_simps)
qed

lemma reads_create_pool: "reads create_pool_command (plan_of ''create_pool'')"
  unfolding reads_def
proof (intro allI impI)
  fix p cmd
  assume ok: "create_pool_command p = Inr cmd"
  then obtain pool n where p: "dget p ''pool_name'' = PStr pool" "dget p ''pg_num'' = PInt n"
    by (auto simp: create_pool_command_def accepted)
  let ?app = "dget p ''app_name''"
  show "shell_read cmd = Some (chain (plan_of ''create_pool'' p))"
  proof (cases "?app = PNone")
    case True
    with ok p show ?thesis
      by (auto simp: create_pool_command_def accepted plan_of_def plans_def planned shell_simps)
  next
    case False
    with ok obtain app where app: "?app = PStr app"
      by (auto simp: create_pool_command_def accepted in_strings_def split: if_splits pyval.splits)
    with ok p show ?thesis
      by (auto simp: create_pool_command_def accepted plan_of_def plans_def planned shell_simps
          split: if_splits)
  qed
qed

lemma reads_reshard: "reads reshard_rgw_bucket_command (plan_of ''reshard_rgw_bucket'')"
  by (auto simp: reads_def plan_of_def plans_def reshard_rgw_bucket_command_def accepted planned
      shell_simps split: if_splits)

lemma map_text_of: "map_cmd (text_of P) vs = Inr ss \<Longrightarrow> vs = map PStr ss"
  by (induction vs arbitrary: ss) auto

lemma require_hosts_Inr:
  "require_hosts p = Inr hosts \<Longrightarrow> dget p ''hosts'' = PList (map PStr hosts)"
  by (cases "dget p ''hosts''") (auto simp: require_hosts_def split: if_splits dest!: map_text_of)

lemma hosts_arg_strings:
  "dget p ''hosts'' = PList (map PStr hosts)
     \<Longrightarrow> hosts_arg p = int_text (int (length hosts)) @ '' '' @ join '' '' hosts"
  by (simp add: hosts_arg_def comp_def)

lemma reads_nfs_create_cluster: "reads nfs_create_cluster_command (plan_of ''nfs_create_cluster'')"
  unfolding reads_def
proof (intro allI impI)
  fix p cmd
  assume "nfs_create_cluster_command p = Inr cmd"
  then obtain i hosts where i: "dget p ''nfs_id'' = PStr i" and hosts: "require_hosts p = Inr hosts"
    and cmd: "cmd = ''ceph nfs cluster create '' @ shlex_quote i @ '' '' @ placement hosts"
    by (auto simp: nfs_create_cluster_command_def accepted)
  show "shell_read cmd = Some (chain (plan_of ''nfs_create_cluster'' p))"
    by (simp add: cmd placement_def plan_of_def plans_def arg_def i
        hosts_arg_strings [OF require_hosts_Inr [OF hosts]] shell_simps)
qed

lemma reads_rgw_apply_service: "reads rgw_apply_service_command (plan_of ''rgw_apply_service'')"
  unfolding reads_def
proof (intro allI impI)
  fix p cmd
  assume "rgw_apply_service_command p = Inr cmd"
  then obtain n i hosts where i: "dget p ''service_id'' = PStr i" and n: "dget p ''port'' = PInt n"
    and hosts: "require_hosts p = Inr hosts"
    and cmd: "cmd = ''ceph orch apply rgw '' @ shlex_quote i @ '' --placement='' @ placement hosts
            @ '' --port='' @ int_text n"
    by (auto simp: rgw_apply_service_command_def accepted)
  show "shell_read cmd = Some (chain (plan_of ''rgw_apply_service'' p))"
    by (simp add: cmd placement_def plan_of_def plans_def arg_def i n
        hosts_arg_strings [OF require_hosts_Inr [OF hosts]] shell_simps)
qed

lemma map_cmd_reads:
  assumes "map_cmd f vs = Inr cs"
    and "\<And>v c. f v = Inr c \<Longrightarrow> shell_read c = Some (map Word (argv v))"
  shows "shell_read (join '' && '' cs) = Some (chain (map argv vs))"
proof -
  have "list_all2 (\<lambda>c a. shell_read c = Some (map Word a)) cs (map argv vs)"
    using assms(1) by (induction vs arbitrary: cs) (auto simp: assms(2))
  then show ?thesis by (rule join_reads_chain)
qed

lemma pool_pg_num_reads: "pool_pg_num p = Inr c \<Longrightarrow> shell_read c = Some (map Word (pg_num_plan p))"
  by (auto simp: pool_pg_num_def accepted planned shell_simps)

lemma reads_set_pool_pg_num: "reads set_pool_pg_num_command (plan_of ''set_pool_pg_num'')"
  unfolding reads_def
proof (intro allI impI)
  fix p cmd
  assume ok: "set_pool_pg_num_command p = Inr cmd"
  show "shell_read cmd = Some (chain (plan_of ''set_pool_pg_num'' p))"
  proof (cases "dget p ''adjustments''")
    case PNone
    with ok pool_pg_num_reads show ?thesis
      by (simp add: set_pool_pg_num_command_def plan_of_def plans_def)
  next
    case (PList as)
    with ok obtain cs where cs: "map_cmd (\<lambda>a. if is_dict a then pool_pg_num a else Inl ExecutorError) as = Inr cs"
      "cmd = join '' && '' cs"
      by (auto simp: set_pool_pg_num_command_def split: if_splits)
    have "shell_read cmd = Some (chain (map pg_num_plan as))"
      unfolding cs(2) by (rule map_cmd_reads [OF cs(1)]) (auto intro: pool_pg_num_reads split: if_splits)
    with PList show ?thesis by (simp add: plan_of_def plans_def)
  qed (use ok in \<open>simp_all add: set_pool_pg_num_command_def\<close>)
qed

lemma deep_scrub_reads:
  "deep_scrub v = Inr c \<Longrightarrow> shell_read c = Some (map Word [''ceph'', ''pg'', py_str v, ''deep_scrub''])"
  by (auto simp: deep_scrub_def shell_simps)

lemma reads_deep_scrub_omap_pg: "reads deep_scrub_omap_pg_command (plan_of ''deep_scrub_omap_pg'')"
  unfolding reads_def
proof (intro allI impI)
  fix p cmd
  assume ok: "deep_scrub_omap_pg_command p = Inr cmd"
  show "shell_read cmd = Some (chain (plan_of ''deep_scrub_omap_pg'' p))"
  proof (cases "dget p ''pg_ids''")
    case PNone
    with ok deep_scrub_reads [of "dget p ''pg_id''" cmd] show ?thesis
      by (simp add: deep_scrub_omap_pg_command_def plan_of_def plans_def)
  next
    case (PList vs)
    with ok obtain cs where cs: "map_cmd deep_scrub vs = Inr cs" "cmd = join '' && '' cs"
      by (auto simp: deep_scrub_omap_pg_command_def split: if_splits)
    have "shell_read cmd = Some (chain (map (\<lambda>v. [''ceph'', ''pg'', py_str v, ''deep_scrub'']) vs))"
      unfolding cs(2) by (rule map_cmd_reads [OF cs(1)]) (rule deep_scrub_reads)
    with PList show ?thesis by (simp add: plan_of_def plans_def)
  qed (use ok in \<open>simp_all add: deep_scrub_omap_pg_command_def\<close>)
qed

lemma reads_enable_pool_pg_autoscaler:
  "reads enable_pool_pg_autoscaler_command (plan_of ''enable_pool_pg_autoscaler'')"
  unfolding reads_def
proof (intro allI impI)
  fix p cmd
  assume ok: "enable_pool_pg_autoscaler_command p = Inr cmd"
  then obtain vs ns where vs: "dget p ''pools'' = PList vs"
    and ns: "map_cmd (\<lambda>v. require_pool_name (doc [(''pool_name'', v)])) vs = Inr ns"
    and cmd: "cmd = join '' && '' (map (\<lambda>n. ''ceph osd pool set '' @ shlex_quote n
                                            @ '' pg_autoscale_mode on'') ns)"
    by (cases "dget p ''pools''") (auto simp: enable_pool_pg_autoscaler_command_def split: if_splits)
  have names: "vs = map PStr ns"
    using ns by (induction vs arbitrary: ns) (auto simp: require_pool_name_def doc_def)
  have "list_all2 (\<lambda>c a. shell_read c = Some (map Word a))
      (map (\<lambda>n. ''ceph osd pool set '' @ shlex_quote n @ '' pg_autoscale_mode on'') ns)
      (map (\<lambda>n. [''ceph'', ''osd'', ''pool'', ''set'', n, ''pg_autoscale_mode'', ''on'']) ns)"
    by (simp add: list.rel_map shell_simps list.rel_refl)
  from join_reads_chain [OF this] show "shell_read cmd = Some (chain (plan_of ''enable_pool_pg_autoscaler'' p))"
    by (simp add: cmd plan_of_def plans_def vs names comp_def)
qed

lemmas plan_reads =
  reads_edit_pool reads_scrub_pool reads_set_pool_protection reads_create_pool reads_cephfs_create_volume
  reads_nfs_create_cluster reads_nfs_delete_export reads_rgw_apply_service reads_set_pool_size
  reads_set_pool_pg_num reads_enable_pool_pg_autoscaler reads_reshard reads_deep_scrub_omap_pg
  reads_mark_osd reads_enable_pool_application reads_rbd_trash_remove reads_rbd_create_volume
  reads_rbd_resize_volume reads_rbd_rename_volume reads_rbd_copy_volume reads_rbd_flatten_volume
  reads_rbd_trash_move_volume reads_rbd_trash_restore_volume

lemma planned_actions:
  "map fst plans =
     [''edit_pool'', ''scrub_pool'', ''set_pool_protection'', ''create_pool'', ''cephfs_create_volume'',
      ''nfs_create_cluster'', ''nfs_delete_export'', ''rgw_apply_service'', ''set_pool_size'',
      ''set_pool_pg_num'', ''enable_pool_pg_autoscaler'', ''reshard_rgw_bucket'',
      ''deep_scrub_omap_pg'', ''mark_osd_out'', ''mark_osd_in'', ''mark_osd_down'',
      ''enable_pool_application'', ''rbd_trash_remove'', ''rbd_create_volume'', ''rbd_resize_volume'',
      ''rbd_rename_volume'', ''rbd_copy_volume'', ''rbd_flatten_volume'', ''rbd_trash_move_volume'',
      ''rbd_trash_restore_volume'']"
  by (simp add: plans_def)

lemma planned_builders:
  "list_all (\<lambda>a. \<exists>b. map_of management_command_builders a = Some b \<and> reads b (plan_of a))
     (map fst plans)"
  unfolding planned_actions by (simp add: management_command_builders_def plan_reads)

lemma build_command_reads:
  assumes "map_of plans a = Some plan" and "build_command w a host p = Inr cmd"
  shows "shell_read cmd = Some (chain (plan p))"
proof -
  have a: "a \<in> set (map fst plans)" using assms(1) by (force dest: map_of_SomeD)
  then obtain b where b: "map_of management_command_builders a = Some b" "reads b (plan_of a)"
    using planned_builders by (auto simp: list_all_iff)
  have "a \<noteq> ''restart_osd_daemon''" using a unfolding planned_actions by auto
  with assms(2) b(1) have "b p = Inr cmd" by (simp add: build_command_def map_add_def split: option.splits)
  with b(2) assms(1) show ?thesis by (simp add: reads_def plan_of_def)
qed

lemma wrapper_reads:
  "shell_read (''cephadm shell -- bash -lc '' @ shlex_quote c)
     = Some (map Word [''cephadm'', ''shell'', ''--'', ''bash'', ''-lc'', c])"
  "shell_read (''docker exec '' @ shlex_quote n @ '' sh -lc '' @ shlex_quote c)
     = Some (map Word [''docker'', ''exec'', n, ''sh'', ''-lc'', c])"
  "shell_read (''podman exec '' @ shlex_quote n @ '' sh -lc '' @ shlex_quote c)
     = Some (map Word [''podman'', ''exec'', n, ''sh'', ''-lc'', c])"
  by (simp_all add: shell_simps)

lemma wrap_reads:
  assumes "wrap_ceph_runtime_command inner m container = Inr cmd"
  shows "cmd = inner
     \<or> shell_read cmd = Some (map Word [''cephadm'', ''shell'', ''--'', ''bash'', ''-lc'', inner])
     \<or> m \<in> {''docker'', ''podman''} \<and> container \<noteq> []
        \<and> shell_read cmd = Some (map Word [m, ''exec'', container, ''sh'', ''-lc'', inner])"
proof -
  consider "m = ''none''" | "m = ''cephadm''" | "m = ''docker''" | "m = ''podman''"
    using assms by (auto simp: wrap_ceph_runtime_command_def split: if_splits)
  then show ?thesis
  proof cases
    case 1
    with assms show ?thesis by (simp add: wrap_ceph_runtime_command_def)
  next
    case 2
    with assms have "cmd = ''cephadm shell -- bash -lc '' @ shlex_quote inner"
      by (simp add: wrap_ceph_runtime_command_def)
    then show ?thesis by (simp only: wrapper_reads simp_thms)
  next
    case 3
    with assms have "cmd = ''docker exec '' @ shlex_quote container @ '' sh -lc '' @ shlex_quote inner"
      "container \<noteq> []"
      by (simp_all add: wrap_ceph_runtime_command_def split: if_splits)
    then show ?thesis unfolding 3 by (simp only: wrapper_reads insert_iff simp_thms)
  next
    case 4
    with assms have "cmd = ''podman exec '' @ shlex_quote container @ '' sh -lc '' @ shlex_quote inner"
      "container \<noteq> []"
      by (simp_all add: wrap_ceph_runtime_command_def split: if_splits)
    then show ?thesis unfolding 4 by (simp only: wrapper_reads insert_iff simp_thms)
  qed
qed

text \<open>
  C3. An accepted parameter cannot change what runs: for every action with a plan, whatever the
  parameters, the shell reads an accepted command as exactly the planned argument vectors, joined by
  \<open>&&\<close>; each parameter is one argument, or part of one, and contributes no operator.  Inside a Ceph
  runtime the whole command is one argument of the wrapper, so no part of it runs outside.
\<close>

theorem commands_read_as_planned:
  assumes "map_of plans a = Some plan" and "get_command w a host params mode container = Inr cmd"
  shows "\<exists>inner. shell_read inner = Some (chain (plan (por params (PDict []))))
     \<and> (cmd = inner
        \<or> shell_read cmd = Some (map Word [''cephadm'', ''shell'', ''--'', ''bash'', ''-lc'', inner])
        \<or> (\<exists>m. mode = Some m \<and> m \<in> {''docker'', ''podman''} \<and> container \<noteq> []
               \<and> shell_read cmd = Some (map Word [m, ''exec'', container, ''sh'', ''-lc'', inner])))"
proof -
  let ?p = "por params (PDict [])"
  from assms(2) obtain inner where built: "build_command w a host ?p = Inr inner"
    and wrapped: "cmd = inner \<or> (\<exists>m. mode = Some m \<and> wrap_ceph_runtime_command inner m container = Inr cmd)"
    by (auto simp: get_command_def Let_def split: option.splits if_splits)
  have "shell_read inner = Some (chain (plan ?p))"
    by (rule build_command_reads [OF assms(1) built])
  moreover have "cmd = inner
        \<or> shell_read cmd = Some (map Word [''cephadm'', ''shell'', ''--'', ''bash'', ''-lc'', inner])
        \<or> (\<exists>m. mode = Some m \<and> m \<in> {''docker'', ''podman''} \<and> container \<noteq> []
               \<and> shell_read cmd = Some (map Word [m, ''exec'', container, ''sh'', ''-lc'', inner]))"
    using wrapped wrap_reads by blast
  ultimately show ?thesis by blast
qed

lemma commands_read_as_planned_witness:
  "\<exists>inner cmd. shell_read inner
       = Some (map Word [''ceph'', ''osd'', ''pool'', ''set'', ''vms'', ''size'', ''3''])
     \<and> (cmd = inner
        \<or> shell_read cmd = Some (map Word [''cephadm'', ''shell'', ''--'', ''bash'', ''-lc'', inner])
        \<or> shell_read cmd = Some (map Word [''docker'', ''exec'', ''mon'', ''sh'', ''-lc'', inner]))"
proof -
  let ?p = "doc [(''pool_name'', PStr ''vms''), (''size'', PInt 3)]"
  let ?w = "\<lparr>cw_exec_mode = [], cw_listing = (\<lambda>_ _ _. Inl ExecutorError), cw_fields_of = (\<lambda>_ _. None),
              cw_preview = (\<lambda>_ _ _. Inl ExecutorError)\<rparr>"
  have three: "int_text 3 = ''3''" by code_simp
  obtain plan where plan: "map_of plans ''set_pool_size'' = Some plan" by (simp add: plans_def)
  have argv: "plan (por ?p (PDict [])) = [[''ceph'', ''osd'', ''pool'', ''set'', ''vms'', ''size'', ''3'']]"
    using plan three by (auto simp: plans_def arg_def doc_def por_def)
  have "\<not> isl (get_command ?w ''set_pool_size'' None ?p (Some ''docker'') ''mon'')" by code_simp
  then obtain cmd where cmd: "get_command ?w ''set_pool_size'' None ?p (Some ''docker'') ''mon'' = Inr cmd"
    by (cases "get_command ?w ''set_pool_size'' None ?p (Some ''docker'') ''mon''") simp_all
  from commands_read_as_planned [OF plan cmd] show ?thesis unfolding argv by auto
qed

end
