(* ===== verification/CommandFaults.thy ===== *)
theory CommandFaults
  imports CommandPlans
begin

text \<open>
  Restarts and upgrades: the requested OSDs are the ones that are restarted, and two places where the
  text of a host or a version is read otherwise than meant.
\<close>

section \<open>Restarting the requested OSDs\<close>

lemma restart_units_read:
  "shell_read (join '' && '' (map (\<lambda>name. ''systemctl restart '' @ shlex_quote name) units))
     = Some (chain (map (\<lambda>name. [''systemctl'', ''restart'', name]) units))"
  by (rule join_reads_chain) (simp add: list.rel_map list.rel_refl shell_simps)

text \<open>
  C18. A restart of listed OSDs touches those OSDs only: an accepted command runs \<open>systemctl restart\<close>
  on OSD units of the host, each with a requested id, and every requested id has its unit; when an id
  is not found on the host there is no command at all.
\<close>

theorem restart_only_requested_osds:
  assumes "restart_osd_daemon_command listing (Some h) params = Inr cmd"
    and "\<not> truthy (dget params ''cephadm_osd_ids'')"
    and "is_dict (dget params ''osd_ids_by_host'')"
    and "dget (dget params ''osd_ids_by_host'') h = PList (map PInt ids)"
  shows "\<exists>printed units. listing h PNone PNone = Inr printed \<and> units \<noteq> []
     \<and> set units = {u \<in> set (units_of_type ''osd'' (discovered_units printed)).
                       set (osd_unit_ids u) \<inter> set ids \<noteq> {}}
     \<and> \<Union> (set ` osd_unit_ids ` set units) = set ids
     \<and> shell_read cmd = Some (chain (map (\<lambda>u. [''systemctl'', ''restart'', u]) units))"
proof -
  have ints: "int_values (PList (map PInt ids)) = Inr ids"
    by (induction ids) (simp_all add: int_values_def iterate_def bind_cmd_def int_value_def py_int_def)
  have dict: "por (dget params ''osd_ids_by_host'') (PDict []) = dget params ''osd_ids_by_host''"
    using assms(3,4) by (cases "dget params ''osd_ids_by_host''") (auto simp: por_def dget_def)
  obtain printed where printed: "listing h PNone PNone = Inr printed"
    using assms(1,2) by (auto simp: restart_osd_daemon_command_def)
  let ?units = "filter (\<lambda>u. list_ex (\<lambda>n. n \<in> set ids) (osd_unit_ids u))
      (units_of_type ''osd'' (discovered_units printed))"
  have found: "set (concat (map osd_unit_ids ?units)) = set ids" "?units \<noteq> []"
    and cmd: "cmd = join '' && '' (map (\<lambda>name. ''systemctl restart '' @ shlex_quote name) ?units)"
    using assms ints printed
    by (auto simp: restart_osd_daemon_command_def Let_def dict bind_cmd_def split: if_splits)
  have "set ?units = {u \<in> set (units_of_type ''osd'' (discovered_units printed)).
                        set (osd_unit_ids u) \<inter> set ids \<noteq> {}}"
    by (auto simp: list_ex_iff)
  moreover have "\<Union> (set ` osd_unit_ids ` set ?units) = set ids"
    using found(1) by (simp add: image_image)
  moreover have "shell_read cmd = Some (chain (map (\<lambda>u. [''systemctl'', ''restart'', u]) ?units))"
    unfolding cmd by (rule restart_units_read)
  ultimately show ?thesis using printed found(2) by blast
qed

section \<open>A monitor on a host named after its OSDs\<close>

lemma contains_str_append: "contains_str p b \<Longrightarrow> contains_str p (a @ b @ c)"
  unfolding contains_str_iff by (metis append.assoc)

text \<open>
  A unit is classified by the first marker found anywhere in its name, also in the host name
  after the \<open>@\<close>: on a host whose name contains \<open>osd\<close> every monitor unit counts as an OSD, and a
  restart of the OSD daemons without listed ids restarts the monitor.
\<close>

theorem monitor_restarted_as_osd:
  assumes "contains_str ''osd'' (str_lower host)"
    and "discovered_units printed = [''ceph-mon@'' @ host @ ''.service'']"
  shows "restart_osd_daemon_command (\<lambda>_ _ _. Inr printed) (Some host) (PDict [])
       = Inr (''systemctl restart '' @ shlex_quote (''ceph-mon@'' @ host @ ''.service''))"
proof -
  have "str_lower (''ceph-mon@'' @ host @ ''.service'')
      = str_lower ''ceph-mon@'' @ str_lower host @ str_lower ''.service''"
    by (simp add: str_lower_def)
  then have "classify_ceph_unit (''ceph-mon@'' @ host @ ''.service'') = Some ''osd''"
    using contains_str_append [OF assms(1)] by (simp add: classify_ceph_unit_def unit_type_markers_def del: append.simps)
  then show ?thesis
    using assms(2) by (simp add: restart_osd_daemon_command_def bind_cmd_def units_of_type_def por_def Let_def)
qed

lemma monitor_restarted_as_osd_witness:
  "restart_osd_daemon_command
     (\<lambda>_ _ _. Inr ''  ceph-mon@osd1.service loaded active running Ceph monitor'') (Some ''osd1'') (PDict [])
     = Inr ''systemctl restart ceph-mon@osd1.service''"
proof -
  have "contains_str ''osd'' (str_lower ''osd1'')"
    "discovered_units ''  ceph-mon@osd1.service loaded active running Ceph monitor''
       = [''ceph-mon@'' @ ''osd1'' @ ''.service'']"
    "shlex_quote (''ceph-mon@'' @ ''osd1'' @ ''.service'') = ''ceph-mon@osd1.service''" by code_simp+
  from monitor_restarted_as_osd [OF this(1,2)] this(3) show ?thesis by simp
qed

lemma restart_only_requested_osds_witness:
  "\<exists>cmd. restart_osd_daemon_command
      (\<lambda>_ _ _. Inr (''ceph-osd@3.service loaded'' @ [CHR 0x0A] @ ''ceph-osd@4.service loaded'')) (Some ''n1'')
      (doc [(''osd_ids_by_host'', doc [(''n1'', PList [PInt 4])])]) = Inr cmd
    \<and> shell_read cmd = Some (map Word [''systemctl'', ''restart'', ''ceph-osd@4.service''])"
proof -
  let ?l = "\<lambda>(_::string) (_::pyval) (_::pyval).
    (Inr (''ceph-osd@3.service loaded'' @ [CHR 0x0A] @ ''ceph-osd@4.service loaded'') :: cmd_error + string)"
  let ?p = "doc [(''osd_ids_by_host'', doc [(''n1'', PList [PInt 4])])]"
  have run: "restart_osd_daemon_command ?l (Some ''n1'') ?p = Inr ''systemctl restart ceph-osd@4.service''"
    by code_simp
  have units: "set (units_of_type ''osd'' (discovered_units
      (''ceph-osd@3.service loaded'' @ [CHR 0x0A] @ ''ceph-osd@4.service loaded'')))
      = {''ceph-osd@3.service'', ''ceph-osd@4.service''}"
    "osd_unit_ids ''ceph-osd@3.service'' = [3]" "osd_unit_ids ''ceph-osd@4.service'' = [4]" by code_simp+
  have "\<exists>printed us. ?l ''n1'' PNone PNone = Inr printed \<and> us \<noteq> []
     \<and> set us = {u \<in> set (units_of_type ''osd'' (discovered_units printed)).
                       set (osd_unit_ids u) \<inter> set [4] \<noteq> {}}
     \<and> \<Union> (set ` osd_unit_ids ` set us) = set [4]
     \<and> shell_read ''systemctl restart ceph-osd@4.service''
        = Some (chain (map (\<lambda>u. [''systemctl'', ''restart'', u]) us))"
    by (rule restart_only_requested_osds [OF run]) (simp_all add: doc_def)
  then have "shell_read ''systemctl restart ceph-osd@4.service''
      = Some (map Word [''systemctl'', ''restart'', ''ceph-osd@4.service''])"
    by (simp add: shell_simps)
  with run show ?thesis by blast
qed

section \<open>A version with a line feed\<close>

text \<open>
  The patterns checked with \<open>re.match\<close> and \<open>$\<close> admit a final line feed, and the package upgrade
  puts the version in its command without quotes: the version \<open>18.2.1\<close> with a line feed is accepted,
  and where the command installs it the shell reads the line feed as the end of a command.
\<close>

lemma version_line_feed_accepted:
  "download_install (doc [(''target_version'', PStr (''18.2.1'' @ [CHR 0x0A]))])
     = Inr (download_install_command (''18.2.1'' @ [CHR 0x0A]))"
proof -
  have "require_target_version (doc [(''target_version'', PStr (''18.2.1'' @ [CHR 0x0A]))])
      = Inr (''18.2.1'' @ [CHR 0x0A])" by code_simp
  moreover have "codename_for_version (''18.2.1'' @ [CHR 0x0A]) \<noteq> None" by code_simp
  ultimately show ?thesis by (simp add: download_install_def bind_cmd_def guard_cmd_def)
qed

lemma line_feed_splits_install:
  "shell_read (''yum install -y ceph-'' @ (''18.2.1'' @ [CHR 0x0A]) @ '' )'')
     = Some (map Word [''yum'', ''install'', ''-y'', ''ceph-18.2.1''] @ [Oper (CHR 0x0A), Oper (CHR '')'')])"
  by code_simp

end
