(* ===== verification/NodeGate.thy ===== *)
theory NodeGate
  imports Ledger
begin

text \<open>
  The gate that lets one node of a cluster at a time be taken out for an operating-system upgrade
  (\<open>shared/node_upgrade_gate.py\<close>): the lock row of a cluster, claimed by a conditional update, and the
  check whether a gate of a cluster is under way.  \<open>exclusive_lock\<close> is what the users of the lock
  rely on; the rows of \<open>node_upgrade_gate_locks\<close> provide it.
\<close>

section \<open>The operations\<close>

definition lock_id :: "string option \<Rightarrow> string" where
  "lock_id cluster_id =
     (case cluster_id of None \<Rightarrow> ''singleton'' | Some c \<Rightarrow> ''cluster:'' @ c)"

text \<open>
  The row of a cluster other than the default one is inserted by its first claim; an insertion that
  meets an existing row is rolled back to its savepoint.
\<close>

definition with_lock_row :: "string \<Rightarrow> node_upgrade_gate_lock list \<Rightarrow> node_upgrade_gate_lock list" where
  "with_lock_row lid rows =
     (if lid = lock_id None \<or> lid \<in> nl_id ` set rows then rows
      else rows @ [\<lparr>nl_id = lid, nl_active_gate_id = None\<rparr>])"

definition claim_node_upgrade_gate_lock ::
  "string \<Rightarrow> string option \<Rightarrow> node_upgrade_gate_lock list \<Rightarrow> bool \<times> node_upgrade_gate_lock list" where
  "claim_node_upgrade_gate_lock gate_id cluster_id rows =
     (let lid = lock_id cluster_id;
          (n, rows1) = update_where (\<lambda>r. nl_id r = lid \<and> nl_active_gate_id r = None)
             (\<lambda>r. r\<lparr>nl_active_gate_id := Some gate_id\<rparr>) (with_lock_row lid rows)
      in (n = 1, rows1))"

definition release_node_upgrade_gate_lock ::
  "string \<Rightarrow> node_upgrade_gate_lock list \<Rightarrow> node_upgrade_gate_lock list" where
  "release_node_upgrade_gate_lock gate_id rows =
     snd (update_where (\<lambda>r. nl_active_gate_id r = Some gate_id)
       (\<lambda>r. r\<lparr>nl_active_gate_id := None\<rparr>) rows)"

definition non_terminal_states :: "node_upgrade_gate_state list" where
  "non_terminal_states = [NG_PREPARING, NG_PREPARED, NG_RECOVERING, NG_ABORTING]"

definition not_this_action :: "string option \<Rightarrow> string \<Rightarrow> bool" where
  "not_this_action column action_id = (column = None \<or> column \<noteq> Some action_id)"

text \<open>
  The scope is \<open>None\<close> for every cluster, else the cluster id compared with the column (\<open>Some None\<close> is
  \<open>IS NULL\<close>).
\<close>

definition is_node_upgrade_gate_pending ::
  "string option \<Rightarrow> string option option \<Rightarrow> node_upgrade_gate list \<Rightarrow> bool" where
  "is_node_upgrade_gate_pending exclude_action_id scope rows =
     list_ex (\<lambda>g. ng_state g \<in> set non_terminal_states
        \<and> (case scope of None \<Rightarrow> True | Some c \<Rightarrow> ng_cluster_id g = c)
        \<and> (case exclude_action_id of None \<Rightarrow> True
           | Some a \<Rightarrow> not_this_action (ng_prepare_action_id g) a
                \<and> not_this_action (ng_confirm_action_id g) a
                \<and> not_this_action (ng_abort_action_id g) a)) rows"

section \<open>The contract of the lock\<close>

datatype ('c, 'w) lock_op = Claim 'c 'w | Release 'w

fun lock_run ::
  "('w \<Rightarrow> 'c \<Rightarrow> 's \<Rightarrow> bool \<times> 's) \<Rightarrow> ('w \<Rightarrow> 's \<Rightarrow> 's) \<Rightarrow> ('c, 'w) lock_op list \<Rightarrow> 's \<Rightarrow> bool list \<times> 's" where
  "lock_run get give [] s = ([], s)"
| "lock_run get give (Claim c w # ops) s =
     (let (b, s1) = get w c s; (bs, s2) = lock_run get give ops s1 in (b # bs, s2))"
| "lock_run get give (Release w # ops) s = lock_run get give ops (give w s)"

fun claims_of :: "'c \<Rightarrow> ('c, 'w) lock_op list \<Rightarrow> bool list" where
  "claims_of c [] = []"
| "claims_of c (Claim d w # ops) = (d = c) # claims_of c ops"
| "claims_of c (Release w # ops) = claims_of c ops"

fun releases_of :: "'w \<Rightarrow> ('c, 'w) lock_op list \<Rightarrow> bool" where
  "releases_of w [] = False"
| "releases_of w (Claim c v # ops) = releases_of w ops"
| "releases_of w (Release v # ops) = (v = w \<or> releases_of w ops)"

locale exclusive_lock =
  fixes holder :: "'s \<Rightarrow> 'c \<Rightarrow> 'w option"
    and inv :: "'s \<Rightarrow> bool"
    and get :: "'w \<Rightarrow> 'c \<Rightarrow> 's \<Rightarrow> bool \<times> 's"
    and give :: "'w \<Rightarrow> 's \<Rightarrow> 's"
  assumes get_inv: "inv s \<Longrightarrow> inv (snd (get w c s))"
    and give_inv: "inv s \<Longrightarrow> inv (give w s)"
    and get_answer: "inv s \<Longrightarrow> fst (get w c s) \<longleftrightarrow> holder s c = None"
    and get_holder: "inv s \<Longrightarrow> holder (snd (get w c s)) d =
          (if d = c \<and> fst (get w c s) then Some w else holder s d)"
    and give_holder: "inv s \<Longrightarrow> holder (give w s) c =
          (if holder s c = Some w then None else holder s c)"
begin

lemma run_inv: "inv s \<Longrightarrow> inv (snd (lock_run get give ops s))"
proof (induction ops arbitrary: s)
  case (Cons op ops)
  then show ?case by (cases op) (simp_all add: Let_def case_prod_unfold get_inv give_inv)
qed simp

text \<open>A holder keeps the lock through any run in which it does not release it itself.\<close>

lemma held_until_released:
  assumes "inv s" and "holder s c = Some w" and "\<not> releases_of w ops"
  shows "holder (snd (lock_run get give ops s)) c = Some w
       \<and> list_all (\<lambda>(mine, won). mine \<longrightarrow> \<not> won)
           (zip (claims_of c ops) (fst (lock_run get give ops s)))"
  using assms
proof (induction ops arbitrary: s)
  case (Cons op ops)
  show ?case
  proof (cases op)
    case (Claim d v)
    have "holder (snd (get v d s)) c = Some w"
      using Cons.prems get_answer [OF Cons.prems(1), of v d] by (auto simp: get_holder)
    moreover have "d = c \<Longrightarrow> \<not> fst (get v d s)"
      using Cons.prems get_answer [OF Cons.prems(1), of v d] by auto
    ultimately show ?thesis
      using Cons.IH [OF get_inv [OF Cons.prems(1)]] Cons.prems(3) Claim
      by (auto simp: Let_def case_prod_unfold)
  next
    case (Release v)
    with Cons.prems have "holder (give v s) c = Some w" by (auto simp: give_holder)
    with Cons.IH [OF give_inv [OF Cons.prems(1)]] Cons.prems(3) Release show ?thesis by simp
  qed
qed simp

end

section \<open>The rows provide it\<close>

definition lock_rows_ok :: "node_upgrade_gate_lock list \<Rightarrow> bool" where
  "lock_rows_ok rows = (distinct (map nl_id rows) \<and> lock_id None \<in> nl_id ` set rows)"

definition gate_holder :: "node_upgrade_gate_lock list \<Rightarrow> string option \<Rightarrow> string option" where
  "gate_holder rows cluster_id =
     (case find_id nl_id (lock_id cluster_id) rows of None \<Rightarrow> None | Some r \<Rightarrow> nl_active_gate_id r)"

lemma lock_id_eq [simp]: "lock_id c = lock_id d \<longleftrightarrow> c = d"
  by (auto simp: lock_id_def split: option.splits)

lemma with_lock_row_ok:
  "lock_rows_ok rows \<Longrightarrow> lock_rows_ok (with_lock_row (lock_id c) rows)
     \<and> lock_id c \<in> nl_id ` set (with_lock_row (lock_id c) rows)"
  by (auto simp: with_lock_row_def lock_rows_ok_def)

lemma with_lock_row_holder: "gate_holder (with_lock_row (lock_id c) rows) d = gate_holder rows d"
  by (auto simp: gate_holder_def with_lock_row_def find_id_append_new split: option.split)

lemma update_rows_ok:
  assumes "lock_rows_ok rows" and "\<And>r. nl_id (f r) = nl_id r"
  shows "lock_rows_ok (snd (update_where P f rows))"
proof -
  have "map nl_id (snd (update_where P f rows)) = map nl_id rows"
    by (rule map_key_update_where) (rule assms(2))
  then show ?thesis using assms(1) unfolding lock_rows_ok_def by (metis set_map)
qed

lemma claim_answer:
  assumes "lock_rows_ok rows"
  shows "fst (claim_node_upgrade_gate_lock g c rows) \<longleftrightarrow> gate_holder rows c = None"
proof -
  let ?rows = "with_lock_row (lock_id c) rows"
  have "distinct (map nl_id ?rows)" "find_id nl_id (lock_id c) ?rows \<noteq> None"
    using with_lock_row_ok [OF assms, of c] by (auto simp: lock_rows_ok_def find_id_None)
  then have "fst (claim_node_upgrade_gate_lock g c rows) \<longleftrightarrow> gate_holder ?rows c = None"
    by (auto simp: claim_node_upgrade_gate_lock_def Let_def case_prod_unfold gate_holder_def
          update_where_key_count split: option.split)
  then show ?thesis by (simp add: with_lock_row_holder)
qed

lemma claim_holder:
  assumes "lock_rows_ok rows"
  shows "gate_holder (snd (claim_node_upgrade_gate_lock g c rows)) d =
           (if d = c \<and> fst (claim_node_upgrade_gate_lock g c rows) then Some g else gate_holder rows d)"
proof -
  let ?rows = "with_lock_row (lock_id c) rows"
  obtain y where y: "find_id nl_id (lock_id c) ?rows = Some y" "nl_id y = lock_id c"
    using with_lock_row_ok [OF assms, of c] by (cases "find_id nl_id (lock_id c) ?rows")
      (auto simp: find_id_None dest: find_id_Some)
  have "gate_holder (snd (claim_node_upgrade_gate_lock g c rows)) d =
      (if d = c \<and> gate_holder ?rows c = None then Some g else gate_holder ?rows d)"
  proof (cases "d = c")
    case True
    with y show ?thesis
      by (auto simp: claim_node_upgrade_gate_lock_def Let_def case_prod_unfold gate_holder_def
            find_id_update_where)
  next
    case False
    then show ?thesis
      by (cases "find_id nl_id (lock_id d) ?rows")
         (auto simp: claim_node_upgrade_gate_lock_def Let_def case_prod_unfold gate_holder_def
            find_id_update_where dest: find_id_Some)
  qed
  then show ?thesis by (simp add: with_lock_row_holder claim_answer [OF assms])
qed

interpretation gate_lock: exclusive_lock gate_holder lock_rows_ok claim_node_upgrade_gate_lock
  release_node_upgrade_gate_lock
proof (unfold_locales, goal_cases)
  case (1 s w c)
  then show ?case
    using update_rows_ok [OF conjunct1 [OF with_lock_row_ok [OF 1, of c]]]
    by (simp add: claim_node_upgrade_gate_lock_def Let_def case_prod_unfold)
next
  case (2 s w)
  then show ?case unfolding release_node_upgrade_gate_lock_def by (rule update_rows_ok) simp
next
  case (3 s w c)
  then show ?case by (rule claim_answer)
next
  case (4 s w c d)
  then show ?case by (rule claim_holder)
next
  case (5 s w c)
  then show ?case
    by (auto simp: gate_holder_def release_node_upgrade_gate_lock_def find_id_update_where
        split: option.split)
qed

text \<open>
  At most one node of a cluster is taken out at a time: a gate whose claim succeeds holds the
  lock of its cluster through every later sequence of claims and releases by whatever gates, as long
  as it is not released itself; each claim for that cluster in between is refused.
\<close>

theorem gate_lock_exclusive:
  assumes "lock_rows_ok rows"
    and "claim_node_upgrade_gate_lock g c rows = (True, rows1)" and "\<not> releases_of g ops"
  shows "gate_holder (snd (lock_run claim_node_upgrade_gate_lock release_node_upgrade_gate_lock
             ops rows1)) c = Some g
       \<and> list_all (\<lambda>(mine, won). mine \<longrightarrow> \<not> won) (zip (claims_of c ops)
           (fst (lock_run claim_node_upgrade_gate_lock release_node_upgrade_gate_lock ops rows1)))"
proof (rule gate_lock.held_until_released)
  show "lock_rows_ok rows1" using gate_lock.get_inv [OF assms(1), of g c] assms(2) by simp
  show "gate_holder rows1 c = Some g" using gate_lock.get_holder [OF assms(1), of g c c] assms(2) by simp
qed (rule assms(3))

definition lock_script :: "(string option, string) lock_op list" where
  "lock_script =
     [Claim (Some ''c1'') ''g2'', Claim None ''g3'', Release ''g2'', Claim None ''g4'',
      Claim (Some ''c1'') ''g5'']"

lemma gate_lock_exclusive_witness:
  "gate_holder (snd (lock_run claim_node_upgrade_gate_lock release_node_upgrade_gate_lock lock_script
      [\<lparr>nl_id = ''singleton'', nl_active_gate_id = None\<rparr>,
       \<lparr>nl_id = ''cluster:c1'', nl_active_gate_id = Some ''g1''\<rparr>])) (Some ''c1'') = Some ''g1''
   \<and> fst (lock_run claim_node_upgrade_gate_lock release_node_upgrade_gate_lock lock_script
      [\<lparr>nl_id = ''singleton'', nl_active_gate_id = None\<rparr>,
       \<lparr>nl_id = ''cluster:c1'', nl_active_gate_id = Some ''g1''\<rparr>]) = [False, True, False, False]"
proof -
  let ?rows = "[\<lparr>nl_id = ''singleton'', nl_active_gate_id = None\<rparr>]"
  have "lock_rows_ok ?rows" by (simp add: lock_rows_ok_def lock_id_def)
  moreover have "claim_node_upgrade_gate_lock ''g1'' (Some ''c1'') ?rows
      = (True, ?rows @ [\<lparr>nl_id = ''cluster:c1'', nl_active_gate_id = Some ''g1''\<rparr>])"
    by (simp add: claim_node_upgrade_gate_lock_def with_lock_row_def lock_id_def update_where_def)
  moreover have "\<not> releases_of ''g1'' lock_script" by (simp add: lock_script_def)
  ultimately have "gate_holder (snd (lock_run claim_node_upgrade_gate_lock
      release_node_upgrade_gate_lock lock_script
      (?rows @ [\<lparr>nl_id = ''cluster:c1'', nl_active_gate_id = Some ''g1''\<rparr>]))) (Some ''c1'') = Some ''g1''"
    using gate_lock_exclusive by blast
  moreover have "fst (lock_run claim_node_upgrade_gate_lock release_node_upgrade_gate_lock lock_script
      (?rows @ [\<lparr>nl_id = ''cluster:c1'', nl_active_gate_id = Some ''g1''\<rparr>])) = [False, True, False, False]"
    by code_simp
  ultimately show ?thesis by simp
qed

end
