(* ===== verification/ClusterAccess.thy ===== *)
theory ClusterAccess
  imports Ledger
begin

text \<open>
  Who may act on which cluster: the accounts and their capability grants
  (\<open>dashboard/cluster_authorization.py\<close>, \<open>is_admin_user\<close> of \<open>dashboard/routes/auth.py\<close>), and the row
  of the default cluster (\<open>shared/clusters.py\<close>).  The account of the environment file is
  \<open>acc_root\<close>; user names are unique.
\<close>

section \<open>Accounts\<close>

record user_row =
  us_id :: string
  us_username :: string
  us_password_hash :: string
  us_is_admin :: bool
  us_is_active :: bool
  us_session_version :: int
  us_ceph_chat_restricted :: bool
  us_created_by :: string
  us_created_at :: time

record capability_grant =
  cg_id :: string
  cg_user_id :: string
  cg_cluster_id :: string
  cg_capability :: string
  cg_is_active :: bool
  cg_granted_by :: string
  cg_created_at :: time
  cg_updated_at :: time

record accounts =
  acc_root :: string
  acc_users :: "user_row list"
  acc_grants :: "capability_grant list"

definition find_active_user :: "accounts \<Rightarrow> string \<Rightarrow> user_row option" where
  "find_active_user acc username =
     find (\<lambda>u. us_username u = username \<and> us_is_active u) (acc_users acc)"

definition is_admin_user :: "accounts \<Rightarrow> string \<Rightarrow> bool" where
  "is_admin_user acc username =
     (username = acc_root acc
      \<or> (case find_active_user acc username of None \<Rightarrow> False | Some u \<Rightarrow> us_is_admin u))"

section \<open>Capabilities\<close>

definition capability_read :: string where
  "capability_read = ''cluster.read''"

definition capability_manage :: string where
  "capability_manage = ''cluster.manage''"

definition capability_approve :: string where
  "capability_approve = ''action.approve''"

definition capability_execute :: string where
  "capability_execute = ''action.execute''"

definition capability_matches :: "string \<Rightarrow> string \<Rightarrow> bool" where
  "capability_matches granted requested =
     (if granted = requested then True
      else if requested = capability_read
      then starts_with granted ''cluster.'' \<or> starts_with granted ''action.''
      else if requested \<in> {capability_approve, capability_execute} then granted = capability_manage
      else False)"

definition user_grants :: "accounts \<Rightarrow> user_row \<Rightarrow> capability_grant list" where
  "user_grants acc u = filter (\<lambda>g. cg_user_id g = us_id u \<and> cg_is_active g) (acc_grants acc)"

definition has_cluster_capability ::
  "accounts \<Rightarrow> cluster list \<Rightarrow> string \<Rightarrow> string \<Rightarrow> string \<Rightarrow> bool" where
  "has_cluster_capability acc clusters username cluster_id capability =
     (if username = [] \<or> cluster_id = [] \<or> capability = [] then False
      else if is_admin_user acc username then True
      else case find_active_user acc username of
        None \<Rightarrow> False
      | Some u \<Rightarrow>
          if capability = capability_read
             \<and> (case find_id cl_id cluster_id clusters of None \<Rightarrow> False | Some c \<Rightarrow> cl_is_default c)
          then True
          else list_ex (\<lambda>g. cg_cluster_id g = cluster_id
                           \<and> capability_matches (cg_capability g) capability) (user_grants acc u))"

text \<open>\<open>None\<close> is the refusal with status 403; the session's user stands in for a missing name.\<close>

definition require_cluster_capability ::
  "accounts \<Rightarrow> cluster list \<Rightarrow> pyval \<Rightarrow> string \<Rightarrow> string \<Rightarrow> string option \<Rightarrow> string option" where
  "require_cluster_capability acc clusters session_user cluster_id capability username =
     (let actor = (if opt_truthy username then or_empty username
                   else py_str (por session_user (PStr []))) in
      if has_cluster_capability acc clusters actor cluster_id capability then Some actor else None)"

text \<open>\<open>None\<close> is access to every cluster.\<close>

definition authorized_cluster_ids :: "accounts \<Rightarrow> string \<Rightarrow> string list option" where
  "authorized_cluster_ids acc username =
     (if is_admin_user acc username then None
      else case find_active_user acc username of
        None \<Rightarrow> Some []
      | Some u \<Rightarrow> Some (remdups (map cg_cluster_id (user_grants acc u))))"

section \<open>The default cluster\<close>

text \<open>
  \<open>seed\<close> holds the settings' connection columns and the class defaults of the others.  The insertion
  that loses the race to another process ends, like the lookup, with the row that is there.
\<close>

definition default_cluster_name_fallback :: string where
  "default_cluster_name_fallback = (''C'' @ [CHR 0xE1, CHR 0xBB, CHR 0xA5] @ ''m m'' @
       [CHR 0xE1, CHR 0xBA, CHR 0xB7] @ ''c '' @
       [CHR 0xC4, CHR 0x91, CHR 0xE1, CHR 0xBB, CHR 0x8B] @ ''nh'')"

definition seeded_name :: "cluster \<Rightarrow> string" where
  "seeded_name seed =
     (let n = str_strip (cl_name seed) in if n = [] then default_cluster_name_fallback else n)"

definition ensure_default_cluster :: "env \<Rightarrow> cluster \<Rightarrow> store \<Rightarrow> cluster \<times> store" where
  "ensure_default_cluster e seed st =
     (case find cl_is_default (st_clusters st) of
        Some c \<Rightarrow> (c, st)
      | None \<Rightarrow>
          (let (uid, st1) = draw e st;
               c = seed\<lparr>cl_id := uid, cl_name := seeded_name seed, cl_is_default := True,
                        cl_is_active := True, cl_created_at := ev_now e\<rparr>
           in (c, st1\<lparr>st_clusters := st_clusters st1 @ [c]\<rparr>)))"

text \<open>The fields of \<open>_DEFAULT_CLUSTER_SETTING_FIELDS\<close> and the name, taken from the settings.\<close>

definition synced_cluster :: "cluster \<Rightarrow> cluster \<Rightarrow> cluster" where
  "synced_cluster seed c =
     c\<lparr>cl_name := seeded_name seed,
       cl_ceph_mon_nodes := cl_ceph_mon_nodes seed, cl_ceph_mgr_nodes := cl_ceph_mgr_nodes seed,
       cl_ceph_osd_nodes := cl_ceph_osd_nodes seed, cl_ceph_rgw_nodes := cl_ceph_rgw_nodes seed,
       cl_ceph_container_name := cl_ceph_container_name seed,
       cl_ceph_keyring_path := cl_ceph_keyring_path seed,
       cl_ceph_rgw_container_name := cl_ceph_rgw_container_name seed,
       cl_ceph_mon_hostnames := cl_ceph_mon_hostnames seed,
       cl_ceph_osd_container_name := cl_ceph_osd_container_name seed,
       cl_ssh_user := cl_ssh_user seed, cl_ssh_key_path := cl_ssh_key_path seed,
       cl_ceph_exec_mode := cl_ceph_exec_mode seed\<rparr>"

definition edit_cluster :: "string \<Rightarrow> (cluster \<Rightarrow> cluster) \<Rightarrow> store \<Rightarrow> store" where
  "edit_cluster cid f st =
     st\<lparr>st_clusters := map (\<lambda>c. if cl_id c = cid then f c else c) (st_clusters st)\<rparr>"

definition sync_default_cluster_from_settings :: "env \<Rightarrow> cluster \<Rightarrow> store \<Rightarrow> cluster \<times> store" where
  "sync_default_cluster_from_settings e seed st =
     (let (c, st1) = ensure_default_cluster e seed st in
      (synced_cluster seed c, edit_cluster (cl_id c) (synced_cluster seed) st1))"

text \<open>
  The fields of \<open>env_config.CLUSTER_ENV_NAMES\<close> that are columns of a cluster; \<open>values\<close> is what the
  environment file holds under their names, a key that is absent keeps the column.
\<close>

definition env_value :: "(string \<rightharpoonup> string) \<Rightarrow> string \<Rightarrow> string \<Rightarrow> string" where
  "env_value values name old = (case values name of None \<Rightarrow> old | Some v \<Rightarrow> v)"

definition env_synced_cluster :: "(string \<rightharpoonup> string) \<Rightarrow> cluster \<Rightarrow> cluster" where
  "env_synced_cluster values c =
     c\<lparr>cl_ceph_mon_nodes := env_value values ''CEPH_MON_NODES'' (cl_ceph_mon_nodes c),
       cl_ceph_mon_hostnames := env_value values ''CEPH_MON_HOSTNAMES'' (cl_ceph_mon_hostnames c),
       cl_ceph_container_name := env_value values ''CEPH_CONTAINER_NAME'' (cl_ceph_container_name c),
       cl_ceph_keyring_path := env_value values ''CEPH_KEYRING_PATH'' (cl_ceph_keyring_path c),
       cl_ceph_osd_nodes := env_value values ''CEPH_OSD_NODES'' (cl_ceph_osd_nodes c),
       cl_ceph_osd_container_name :=
         env_value values ''CEPH_OSD_CONTAINER_NAME'' (cl_ceph_osd_container_name c),
       cl_ceph_mgr_nodes := env_value values ''CEPH_MGR_NODES'' (cl_ceph_mgr_nodes c),
       cl_ceph_rgw_nodes := env_value values ''CEPH_RGW_NODES'' (cl_ceph_rgw_nodes c),
       cl_ceph_rgw_container_name :=
         env_value values ''CEPH_RGW_CONTAINER_NAME'' (cl_ceph_rgw_container_name c),
       cl_ceph_exec_mode := env_value values ''CEPH_EXEC_MODE'' (cl_ceph_exec_mode c),
       cl_ssh_user := env_value values ''SSH_USER'' (cl_ssh_user c)\<rparr>"

definition sync_default_cluster_from_env ::
  "env \<Rightarrow> cluster \<Rightarrow> (string \<rightharpoonup> string) \<Rightarrow> store \<Rightarrow> cluster \<times> store" where
  "sync_default_cluster_from_env e seed values st =
     (let (c, st1) = ensure_default_cluster e seed st in
      (env_synced_cluster values c, edit_cluster (cl_id c) (env_synced_cluster values) st1))"

definition cluster_config_fingerprint :: "env \<Rightarrow> cluster \<Rightarrow> string" where
  "cluster_config_fingerprint e c =
     ev_sha e (sort_keys (doc
       [(''mon'', PStr (cl_ceph_mon_nodes c)), (''mgr'', PStr (cl_ceph_mgr_nodes c)),
        (''osd'', PStr (cl_ceph_osd_nodes c)), (''rgw'', PStr (cl_ceph_rgw_nodes c)),
        (''exec_mode'', PStr (cl_ceph_exec_mode c))]))"

definition get_default_cluster_id :: "env \<Rightarrow> cluster \<Rightarrow> store \<Rightarrow> string \<times> store" where
  "get_default_cluster_id e seed st =
     (let (c, st1) = ensure_default_cluster e seed st in (cl_id c, st1))"

definition list_active_clusters :: "store \<Rightarrow> cluster list" where
  "list_active_clusters st = filter cl_is_active (st_clusters st)"

section \<open>Facts\<close>

lemma ensure_default_found:
  "find cl_is_default (st_clusters st) = Some c \<Longrightarrow> ensure_default_cluster e seed st = (c, st)"
  by (simp add: ensure_default_cluster_def)

lemma ensure_default_is_default: "cl_is_default (fst (ensure_default_cluster e seed st))"
  by (auto simp: ensure_default_cluster_def draw_def Let_def find_Some_iff split: option.split)

lemma ensure_default_tables:
  "st_actions (snd (ensure_default_cluster e seed st)) = st_actions st"
  "st_incidents (snd (ensure_default_cluster e seed st)) = st_incidents st"
  "st_overrides (snd (ensure_default_cluster e seed st)) = st_overrides st"
  "st_gates (snd (ensure_default_cluster e seed st)) = st_gates st"
  "st_cases (snd (ensure_default_cluster e seed st)) = st_cases st"
  "st_assessments (snd (ensure_default_cluster e seed st)) = st_assessments st"
  by (simp_all add: ensure_default_cluster_def draw_def Let_def split: option.split)

text \<open>
  There is one default cluster and it stays the same one: seeding keeps at most one default row,
  the row it returns is a default row of the table, and every later seeding, at any time and from any
  settings, returns that row and writes nothing.
\<close>

theorem default_cluster_seeded_once:
  assumes "single_default_cluster (st_clusters st)"
    and "ensure_default_cluster e seed st = (c, st1)"
  shows "single_default_cluster (st_clusters st1) \<and> c \<in> set (st_clusters st1) \<and> cl_is_default c
       \<and> ensure_default_cluster e' seed' st1 = (c, st1)"
proof (cases "find cl_is_default (st_clusters st)")
  case None
  then have none: "filter cl_is_default (st_clusters st) = []"
    by (auto simp: find_None_iff filter_empty_conv)
  have found: "find cl_is_default (rows @ [c]) = Some c"
    if "cl_is_default c" "filter cl_is_default rows = []" for rows
    using that by (induction rows) (auto split: if_splits)
  have c: "cl_is_default c" using ensure_default_is_default [of e seed st] assms(2) by simp
  have st1: "st_clusters st1 = st_clusters st @ [c]"
    using assms(2) None by (auto simp: ensure_default_cluster_def draw_def Let_def)
  from found [OF c none] have "ensure_default_cluster e' seed' st1 = (c, st1)"
    by (simp add: ensure_default_found st1)
  with c none st1 show ?thesis by (simp add: single_default_cluster_def)
next
  case (Some d)
  with assms have "c = d" "st1 = st" by (simp_all add: ensure_default_cluster_def)
  moreover have "d \<in> set (st_clusters st)" "cl_is_default d"
    using Some by (auto simp: find_Some_iff)
  ultimately show ?thesis using ensure_default_found [OF Some] assms(1) by simp
qed

definition bare_env :: env where
  "bare_env = \<lparr>ev_now = 0, ev_uuid = (\<lambda>n. ''u'' @ nat_text n), ev_sha = (\<lambda>_. ''h'')\<rparr>"

definition bare_store :: store where
  "bare_store = \<lparr>st_draws = 0, st_clusters = [], st_incidents = [], st_actions = [], st_cases = [],
     st_stats = [], st_leases = [], st_assessments = [], st_audit = [], st_events = [],
     st_outbox = [], st_notices = [], st_overrides = [], st_findings = [], st_gates = [],
     st_gate_locks = [], st_chat = [], st_trash = []\<rparr>"

lemma default_cluster_seeded_once_witness:
  "cl_is_default (fst (ensure_default_cluster bare_env sample_cluster bare_store))
   \<and> fst (ensure_default_cluster bare_env sample_cluster (snd (ensure_default_cluster bare_env sample_cluster bare_store)))
     = fst (ensure_default_cluster bare_env sample_cluster bare_store)"
proof -
  have "single_default_cluster (st_clusters bare_store)"
    by (simp add: single_default_cluster_def bare_store_def)
  from default_cluster_seeded_once [OF this surjective_pairing] show ?thesis by simp
qed

lemma capability_approve_granted:
  "capability_matches granted capability_approve \<longleftrightarrow> granted \<in> {capability_approve, capability_manage}"
  by (auto simp: capability_matches_def capability_approve_def capability_read_def
      capability_manage_def capability_execute_def)

text \<open>
  An account may approve on a cluster exactly when it is an administrator, or an active account
  with an active grant of \<open>action.approve\<close> or \<open>cluster.manage\<close> on that very cluster; the right to
  read the default cluster gives nothing more.
\<close>

theorem approval_right_exact:
  "has_cluster_capability acc clusters username cluster_id capability_approve \<longleftrightarrow>
     username \<noteq> [] \<and> cluster_id \<noteq> []
     \<and> (is_admin_user acc username
        \<or> (\<exists>u g. find_active_user acc username = Some u \<and> g \<in> set (acc_grants acc)
              \<and> cg_user_id g = us_id u \<and> cg_is_active g \<and> cg_cluster_id g = cluster_id
              \<and> cg_capability g \<in> {capability_approve, capability_manage}))"
proof -
  have "capability_approve \<noteq> []" "capability_approve \<noteq> capability_read"
    by (simp_all add: capability_approve_def capability_read_def)
  then show ?thesis
    unfolding has_cluster_capability_def
    by (cases "find_active_user acc username")
       (auto simp: list_ex_iff user_grants_def capability_approve_granted)
qed

end
