(* ===== verification/Approvals.thy ===== *)
theory Approvals
  imports Runtime NodeGate ClusterAccess CommandTable Policy
begin

text \<open>
  The operator's decision on a proposed action (\<open>dashboard/routes/actions.py\<close>): who may decide, the
  conditions under which an approval is refused, and what approval, rejection and the cancellation of
  a grace period write.  Every operation is one transaction; a refusal leaves the database as it was.
  The live status of a cluster upgrade and the policy document are arguments.
\<close>

section \<open>Cluster upgrades under way\<close>

definition cluster_upgrade_action_ids :: "string list" where
  "cluster_upgrade_action_ids =
     [''upgrade_ceph_cluster'', ''upgrade_ceph_cluster_package_download'',
      ''upgrade_ceph_cluster_package_local'']"

definition in_flight_action_statuses :: "action_status list" where
  "in_flight_action_statuses = [AS_PENDING_APPROVAL, AS_APPROVED]"

definition is_cluster_upgrade_pending_or_approved :: "store \<Rightarrow> bool" where
  "is_cluster_upgrade_pending_or_approved st =
     list_ex (\<lambda>a. ac_action_id a \<in> set cluster_upgrade_action_ids
                 \<and> ac_status a \<in> set in_flight_action_statuses) (st_actions st)"

text \<open>The answer of \<open>ceph orch upgrade status\<close>, \<open>None\<close> where the query fails: the check fails open.\<close>

definition is_cluster_upgrade_physically_running :: "string \<Rightarrow> pyval option \<Rightarrow> bool" where
  "is_cluster_upgrade_physically_running exec_mode status =
     (if exec_mode \<noteq> ''cephadm'' then False
      else case status of None \<Rightarrow> False | Some d \<Rightarrow> truthy (dget d ''in_progress''))"

section \<open>Results\<close>

datatype conflict = ClusterUnavailable | UpgradeUnderWay | NodeGateUnderWay | LifecycleUnderWay

datatype route_error =
    ActionNotFound
  | ActionConflict conflict
  | NotPendingAnyMore
  | HttpError int
  | Escapes py_exn

datatype approval_outcome =
    AO_ALREADY_HANDLED | AO_ACKNOWLEDGED | AO_APPROVED | AO_REJECTED | AO_EXPIRED

record approval_result =
  ar_outcome :: approval_outcome
  ar_action_id :: string
  ar_incident_id :: string

definition outcome_of :: "approval_outcome \<Rightarrow> action_row \<Rightarrow> route_error + approval_result" where
  "outcome_of outcome a =
     Inr \<lparr>ar_outcome = outcome, ar_action_id = ac_id a, ar_incident_id = ac_incident_id a\<rparr>"

text \<open>
  What the operations read besides the database: the settings' execution mode, the upgrade status,
  the policy document with its lists, the accounts, the columns of a new default cluster, and what
  the command builders read.
\<close>

record approval_world =
  aw_exec_mode :: string
  aw_upgrade_status :: "pyval option"
  aw_policy :: pyval
  aw_accounts :: accounts
  aw_seed :: cluster
  aw_commands :: command_world

definition deploy_ids :: "approval_world \<Rightarrow> string list" where
  "deploy_ids w = load_cluster_deploy_action_ids (aw_policy w)"

section \<open>The conditions of an approval\<close>

definition approval_expired :: "env \<Rightarrow> action_row \<Rightarrow> bool" where
  "approval_expired e a = (case ac_expires_at a of None \<Rightarrow> False | Some t \<Rightarrow> ev_now e > t)"

definition cluster_unavailable :: "store \<Rightarrow> incident option \<Rightarrow> bool" where
  "cluster_unavailable st inc =
     (case inc of None \<Rightarrow> False
      | Some i \<Rightarrow> (case in_cluster_id i of None \<Rightarrow> False
          | Some cid \<Rightarrow> (case get_cluster st cid of None \<Rightarrow> True | Some c \<Rightarrow> \<not> cl_is_active c)))"

definition lifecycle_conflict :: "string list \<Rightarrow> store \<Rightarrow> action_row \<Rightarrow> bool" where
  "lifecycle_conflict ids st a =
     list_ex (\<lambda>b. ac_action_id b \<in> set ids
        \<and> ac_status b \<in> {AS_PENDING_APPROVAL, AS_APPROVED, AS_EXECUTING} \<and> ac_id b \<noteq> ac_id a)
       (st_actions st)"

definition approval_conflict :: "approval_world \<Rightarrow> store \<Rightarrow> action_row \<Rightarrow> conflict option" where
  "approval_conflict w st a =
     (let inc = get_incident st (ac_incident_id a);
          gate_cluster_id = (case inc of None \<Rightarrow> None | Some i \<Rightarrow> in_cluster_id i) in
      if cluster_unavailable st inc then Some ClusterUnavailable
      else if ac_action_id a \<notin> set cluster_upgrade_action_ids
          \<and> (is_cluster_upgrade_pending_or_approved st
             \<or> is_cluster_upgrade_physically_running (aw_exec_mode w) (aw_upgrade_status w))
      then Some UpgradeUnderWay
      else if is_node_upgrade_gate_pending (Some (ac_id a)) (Some gate_cluster_id) (st_gates st)
      then Some NodeGateUnderWay
      else if ac_action_id a \<in> set (deploy_ids w) \<and> lifecycle_conflict (deploy_ids w) st a
      then Some LifecycleUnderWay
      else None)"

section \<open>The decisions\<close>

definition decide_action ::
  "env \<Rightarrow> action_row \<Rightarrow> (action_row \<Rightarrow> action_row) \<Rightarrow> incident_status \<Rightarrow> string \<Rightarrow> string \<Rightarrow> store \<Rightarrow> store" where
  "decide_action e a f incident_status event_type actor st =
     audit_record e (ac_incident_id a) (Some (ac_id a)) event_type actor None
       (edit_incident e (ac_incident_id a) (incident_to e incident_status)
         (edit_action e (ac_id a) f st))"

definition approve_action_core ::
  "env \<Rightarrow> approval_world \<Rightarrow> string \<Rightarrow> string \<Rightarrow> store \<Rightarrow> (route_error + approval_result) \<times> store" where
  "approve_action_core e w action_id actor st =
     (case get_action st action_id of
        None \<Rightarrow> (Inl ActionNotFound, st)
      | Some a \<Rightarrow>
          if ac_status a \<noteq> AS_PENDING_APPROVAL then (outcome_of AO_ALREADY_HANDLED a, st)
          else if approval_expired e a then
            (outcome_of AO_EXPIRED a,
             audit_record e (ac_incident_id a) (Some (ac_id a)) ''risky_action_approval_expired''
               actor None st)
          else (case approval_conflict w st a of
            Some c \<Rightarrow> (Inl (ActionConflict c), st)
          | None \<Rightarrow>
              (let (risk, st1) = acknowledge e a (get_incident st (ac_incident_id a)) st in
               if \<not> has_command (ac_action_id a) then
                 (outcome_of AO_ACKNOWLEDGED a,
                  decide_action e a (\<lambda>r. (attach_summary risk r)\<lparr>ac_status := AS_EXECUTED\<rparr>)
                    IS_RESOLVED ''risky_action_acknowledged_no_command'' actor st1)
               else
                 (outcome_of AO_APPROVED a,
                  decide_action e a (\<lambda>r. (attach_summary risk r)\<lparr>ac_status := AS_APPROVED\<rparr>)
                    IS_APPROVED ''risky_action_approved'' actor st1))))"

definition reject_action_core ::
  "env \<Rightarrow> string \<Rightarrow> string \<Rightarrow> store \<Rightarrow> (route_error + approval_result) \<times> store" where
  "reject_action_core e action_id actor st =
     (case get_action st action_id of
        None \<Rightarrow> (Inl ActionNotFound, st)
      | Some a \<Rightarrow>
          if ac_status a \<noteq> AS_PENDING_APPROVAL then (outcome_of AO_ALREADY_HANDLED a, st)
          else (outcome_of AO_REJECTED a,
                decide_action e a (\<lambda>r. r\<lparr>ac_status := AS_REJECTED\<rparr>) IS_REJECTED
                  ''risky_action_rejected'' actor st))"

definition cancel_grace_action_core ::
  "env \<Rightarrow> string \<Rightarrow> string \<Rightarrow> store \<Rightarrow> (route_error + approval_result) \<times> store" where
  "cancel_grace_action_core e action_id actor st =
     (case get_action st action_id of
        None \<Rightarrow> (Inl ActionNotFound, st)
      | Some a \<Rightarrow>
          if ac_status a \<noteq> AS_GRACE_PENDING then (outcome_of AO_ALREADY_HANDLED a, st)
          else (outcome_of AO_REJECTED a,
                decide_action e a
                  (\<lambda>r. r\<lparr>ac_status := AS_REJECTED, ac_cancelled_at := Some (ev_now e),
                         ac_cancelled_by := Some actor\<rparr>) IS_REJECTED
                  ''autopilot_grace_cancelled'' actor st))"

section \<open>The routes\<close>

text \<open>
  An action whose incident has no cluster belongs to the default cluster.  An action always has an
  incident id.
\<close>

definition action_cluster ::
  "env \<Rightarrow> approval_world \<Rightarrow> action_row \<Rightarrow> store \<Rightarrow> string \<times> store" where
  "action_cluster e w a st =
     (case get_incident st (ac_incident_id a) of
        Some i \<Rightarrow>
          if opt_truthy (in_cluster_id i) then (or_empty (in_cluster_id i), st)
          else get_default_cluster_id e (aw_seed w) st
      | None \<Rightarrow> get_default_cluster_id e (aw_seed w) st)"

definition authorize_action_route ::
  "env \<Rightarrow> approval_world \<Rightarrow> string \<Rightarrow> string \<Rightarrow> store \<Rightarrow> (route_error + string) \<times> store" where
  "authorize_action_route e w action_id user st =
     (case get_action st action_id of
        None \<Rightarrow> (Inl ActionNotFound, st)
      | Some a \<Rightarrow>
          (let (cid, st1) = action_cluster e w a st in
           (case require_cluster_capability (aw_accounts w) (st_clusters st1) PNone cid
                   capability_approve (Some user) of
              None \<Rightarrow> Inl (HttpError 403) | Some actor \<Rightarrow> Inr actor, st1)))"





section \<open>Choosing the application of a pool\<close>










section \<open>The request handlers\<close>


definition reject_action ::
  "env \<Rightarrow> approval_world \<Rightarrow> string \<Rightarrow> string \<Rightarrow> store \<Rightarrow> (route_error + approval_result) \<times> store" where
  "reject_action e w action_id user st =
     (case authorize_action_route e w action_id user st of
        (Inl err, st1) \<Rightarrow> (Inl err, st1)
      | (Inr _, st1) \<Rightarrow> reject_action_core e action_id user st1)"

definition cancel_grace_action ::
  "env \<Rightarrow> approval_world \<Rightarrow> string \<Rightarrow> string \<Rightarrow> store \<Rightarrow> (route_error + approval_result) \<times> store" where
  "cancel_grace_action e w action_id user st =
     (case authorize_action_route e w action_id user st of
        (Inl err, st1) \<Rightarrow> (Inl err, st1)
      | (Inr _, st1) \<Rightarrow> cancel_grace_action_core e action_id user st1)"

section \<open>Facts\<close>

lemma assess_and_record_tables:
  "st_actions (snd (assess_and_record e a inc st)) = st_actions st"
  "st_incidents (snd (assess_and_record e a inc st)) = st_incidents st"
  "st_clusters (snd (assess_and_record e a inc st)) = st_clusters st"
  "st_gates (snd (assess_and_record e a inc st)) = st_gates st"
  "st_gate_locks (snd (assess_and_record e a inc st)) = st_gate_locks st"
  by (simp_all add: assess_and_record_def edit_assessment_def draw_def Let_def split: option.split)

lemma acknowledge_tables [simp, store_simps]:
  "st_actions (snd (acknowledge e a inc st)) = st_actions st"
  "st_incidents (snd (acknowledge e a inc st)) = st_incidents st"
  "st_clusters (snd (acknowledge e a inc st)) = st_clusters st"
  "st_gates (snd (acknowledge e a inc st)) = st_gates st"
  "st_gate_locks (snd (acknowledge e a inc st)) = st_gate_locks st"
  by (simp_all add: acknowledge_def case_prod_unfold Let_def edit_assessment_def
      assess_and_record_tables)

lemma attach_summary_simps [simp]:
  "ac_id (attach_summary r a) = ac_id a" "ac_incident_id (attach_summary r a) = ac_incident_id a"
  "ac_status (attach_summary r a) = ac_status a"
  by (simp_all add: attach_summary_def Let_def)


lemma decide_incident_get:
  "get_incident (decide_action e a f s ev actor st) i =
    (if i = ac_incident_id a
     then map_option (save_incident (ev_now e) (incident_to e s)) (get_incident st i)
     else get_incident st i)"
  unfolding decide_action_def by (simp add: get_incident_edit)

text \<open>The three decisions, and what a decision leaves.\<close>

datatype decision = Approve approval_world | Reject | CancelGrace

fun take_decision :: "decision \<Rightarrow> env \<Rightarrow> string \<Rightarrow> string \<Rightarrow> store \<Rightarrow> (route_error + approval_result) \<times> store" where
  "take_decision (Approve w) e action_id actor st = approve_action_core e w action_id actor st"
| "take_decision Reject e action_id actor st = reject_action_core e action_id actor st"
| "take_decision CancelGrace e action_id actor st = cancel_grace_action_core e action_id actor st"


text \<open>An approval or acknowledgement, with what it has checked and what it writes.\<close>

definition approved_row :: "env \<Rightarrow> store \<Rightarrow> action_row \<Rightarrow> action_row \<Rightarrow> action_row" where
  "approved_row e st a =
     (\<lambda>r. (attach_summary (fst (acknowledge e a (get_incident st (ac_incident_id a)) st)) r)
       \<lparr>ac_status := if has_command (ac_action_id a) then AS_APPROVED else AS_EXECUTED\<rparr>)"

definition approved_store :: "env \<Rightarrow> action_row \<Rightarrow> string \<Rightarrow> store \<Rightarrow> store" where
  "approved_store e a actor st =
     (let c = has_command (ac_action_id a) in
      decide_action e a (approved_row e st a) (if c then IS_APPROVED else IS_RESOLVED)
        (if c then ''risky_action_approved'' else ''risky_action_acknowledged_no_command'') actor
        (snd (acknowledge e a (get_incident st (ac_incident_id a)) st)))"

definition approval_open :: "env \<Rightarrow> approval_world \<Rightarrow> action_row \<Rightarrow> store \<Rightarrow> bool" where
  "approval_open e w a st =
     (ac_status a = AS_PENDING_APPROVAL \<and> \<not> approval_expired e a \<and> approval_conflict w st a = None)"

lemma approve_core_open:
  assumes "get_action st i = Some a" and "approval_open e w a st"
  shows "approve_action_core e w i actor st =
     (outcome_of (if has_command (ac_action_id a) then AO_APPROVED else AO_ACKNOWLEDGED) a,
      approved_store e a actor st)"
  using assms unfolding approval_open_def
  by (simp add: approve_action_core_def approved_store_def approved_row_def case_prod_unfold Let_def)






definition graced_action :: action_row where
  "graced_action = \<lparr>ac_id = ''a1'', ac_incident_id = ''i1'', ac_action_id = ''resync_ntp'',
     ac_classification = ''SAFE'', ac_status = AS_GRACE_PENDING, ac_proposed_command = None,
     ac_rationale = None, ac_target_nodes = None, ac_action_params = None,
     ac_execution_progress = None, ac_telegram_message_ids = None, ac_telegram_notified_at = None,
     ac_executed_at = None, ac_expires_at = None, ac_grace_until = None, ac_cancelled_at = None,
     ac_cancelled_by = None, ac_idempotency_key = None, ac_created_at = 0, ac_updated_at = 0\<rparr>"




section \<open>One lifecycle action at a time\<close>

definition lifecycle_busy :: "string list \<Rightarrow> action_row \<Rightarrow> bool" where
  "lifecycle_busy ids a = (ac_action_id a \<in> set ids \<and> ac_status a \<in> {AS_APPROVED, AS_EXECUTING})"

definition one_lifecycle :: "string list \<Rightarrow> action_row list \<Rightarrow> bool" where
  "one_lifecycle ids rows =
     list_all (\<lambda>a. list_all (\<lambda>b. lifecycle_busy ids a \<and> lifecycle_busy ids b \<longrightarrow> ac_id a = ac_id b) rows) rows"

text \<open>The rows after a decision: the decided one, and the others as they were.\<close>

lemma decide_action_rows:
  "st_actions (decide_action e a f s ev actor st)
     = map (\<lambda>r. if ac_id r = ac_id a then save_action (ev_now e) f r else r) (st_actions st)"
  unfolding decide_action_def by (simp add: edit_action_def)

lemma one_lifecycle_quiet:
  assumes "one_lifecycle ids rows" and "\<And>r. ac_id (f r) = ac_id r"
    and "\<And>r. r \<in> set rows \<Longrightarrow> ac_id r = i \<Longrightarrow> \<not> lifecycle_busy ids (f r)"
  shows "one_lifecycle ids (map (\<lambda>r. if ac_id r = i then save_action now f r else r) rows)"
proof -
  have "lifecycle_busy ids (save_action now f r) = lifecycle_busy ids (f r)" for r
    by (simp add: lifecycle_busy_def)
  with assms(3) have "r \<in> set rows \<Longrightarrow> ac_id r = i \<Longrightarrow> \<not> lifecycle_busy ids (save_action now f r)" for r
    by simp
  with assms(1) show ?thesis unfolding one_lifecycle_def list_all_iff by auto
qed

lemma one_lifecycle_alone:
  assumes "\<And>r. r \<in> set rows \<Longrightarrow> ac_id r \<noteq> i \<Longrightarrow> \<not> lifecycle_busy ids r"
    and "\<And>r. ac_id (f r) = ac_id r"
  shows "one_lifecycle ids (map (\<lambda>r. if ac_id r = i then save_action now f r else r) rows)"
  using assms by (auto simp: one_lifecycle_def list_all_iff)

lemma approve_core_lifecycle:
  assumes "deploy_ids w = ids" and "one_lifecycle ids (st_actions st)"
    and "distinct (map ac_id (st_actions st))"
  shows "one_lifecycle ids (st_actions (snd (approve_action_core e w i actor st)))"
proof (cases "get_action st i")
  case None
  with assms show ?thesis by (simp add: approve_action_core_def)
next
  case (Some a)
  have ai: "ac_id a = i" using find_id_Some [OF Some] by simp
  show ?thesis
  proof (cases "approval_open e w a st")
    case False
    then have "st_actions (snd (approve_action_core e w i actor st)) = st_actions st"
      using Some by (auto simp: approve_action_core_def approval_open_def split: option.split)
    with assms show ?thesis by simp
  next
    case True
    have rows: "st_actions (snd (approve_action_core e w i actor st)) =
        map (\<lambda>r. if ac_id r = i then save_action (ev_now e) (approved_row e st a) r else r) (st_actions st)"
      unfolding approve_core_open [OF Some True]
      by (simp add: approved_store_def Let_def decide_action_rows ai)
    have keeps: "ac_id (approved_row e st a r) = ac_id r" for r by (simp add: approved_row_def)
    show ?thesis
    proof (cases "ac_action_id a \<in> set ids")
      case True
      with \<open>approval_open e w a st\<close> assms(1) have "\<not> lifecycle_conflict ids st a"
        by (auto simp: approval_open_def approval_conflict_def Let_def split: if_splits)
      then have "\<not> lifecycle_busy ids r" if "r \<in> set (st_actions st)" "ac_id r \<noteq> i" for r
        using that by (auto simp: lifecycle_conflict_def lifecycle_busy_def list_ex_iff ai)
      then show ?thesis unfolding rows by (rule one_lifecycle_alone [OF _ keeps])
    next
      case False
      have "\<not> lifecycle_busy ids (approved_row e st a r)"
        if "r \<in> set (st_actions st)" "ac_id r = i" for r
      proof -
        have "r = a" using find_id_in [OF assms(3) that(1)] that(2) Some by simp
        with False show ?thesis by (simp add: lifecycle_busy_def approved_row_def attach_summary_def Let_def)
      qed
      then show ?thesis unfolding rows by (rule one_lifecycle_quiet [OF assms(2) keeps])
    qed
  qed
qed

lemma reject_core_rows:
  "st_actions (snd (reject_action_core e i actor st)) = st_actions st
   \<or> (\<exists>f j. st_actions (snd (reject_action_core e i actor st))
         = map (\<lambda>r. if ac_id r = j then save_action (ev_now e) f r else r) (st_actions st)
       \<and> (\<forall>r. ac_id (f r) = ac_id r \<and> ac_status (f r) = AS_REJECTED))"
  unfolding reject_action_core_def
  by (cases "get_action st i") (auto simp: decide_action_rows intro!: exI)

lemma cancel_core_rows:
  "st_actions (snd (cancel_grace_action_core e i actor st)) = st_actions st
   \<or> (\<exists>f j. st_actions (snd (cancel_grace_action_core e i actor st))
         = map (\<lambda>r. if ac_id r = j then save_action (ev_now e) f r else r) (st_actions st)
       \<and> (\<forall>r. ac_id (f r) = ac_id r \<and> ac_status (f r) = AS_REJECTED))"
  unfolding cancel_grace_action_core_def
  by (cases "get_action st i") (auto simp: decide_action_rows intro!: exI)

lemma map_ids_kept:
  "(\<And>r. ac_id (f r) = ac_id r) \<Longrightarrow>
     map ac_id (map (\<lambda>r. if ac_id r = j then save_action now f r else r) rows) = map ac_id rows"
  by simp

lemma one_lifecycle_rejected:
  assumes "one_lifecycle ids rows"
    and "rows1 = rows \<or> (\<exists>f j. rows1 = map (\<lambda>r. if ac_id r = j then save_action now f r else r) rows
           \<and> (\<forall>r. ac_id (f r) = ac_id r \<and> ac_status (f r) = AS_REJECTED))"
  shows "one_lifecycle ids rows1 \<and> map ac_id rows1 = map ac_id rows"
proof (cases "rows1 = rows")
  case True
  with assms(1) show ?thesis by simp
next
  case False
  with assms(2) obtain f j where rows1: "rows1 = map (\<lambda>r. if ac_id r = j then save_action now f r else r) rows"
    and f: "\<And>r. ac_id (f r) = ac_id r" "\<And>r. ac_status (f r) = AS_REJECTED" by blast
  from one_lifecycle_quiet [OF assms(1) f(1), of j now] f show ?thesis
    unfolding rows1 by (simp add: lifecycle_busy_def)
qed

lemma approve_core_ids: "map ac_id (st_actions (snd (approve_action_core e w i actor st))) = map ac_id (st_actions st)"
proof (cases "get_action st i")
  case None
  then show ?thesis by (simp add: approve_action_core_def)
next
  case (Some a)
  show ?thesis
  proof (cases "approval_open e w a st")
    case True
    from approve_core_open [OF Some True] show ?thesis
      by (simp add: approved_store_def Let_def decide_action_rows approved_row_def)
  next
    case False
    with Some show ?thesis
      by (auto simp: approve_action_core_def approval_open_def split: option.split)
  qed
qed

fun under_policy :: "string list \<Rightarrow> decision \<Rightarrow> bool" where
  "under_policy ids (Approve w) = (deploy_ids w = ids)"
| "under_policy ids d = True"

lemma decide_lifecycle:
  assumes "under_policy ids d" and "one_lifecycle ids (st_actions st)"
    and "distinct (map ac_id (st_actions st))"
  shows "one_lifecycle ids (st_actions (snd (take_decision d e i actor st)))
       \<and> distinct (map ac_id (st_actions (snd (take_decision d e i actor st))))"
proof (cases d)
  case (Approve w)
  with assms show ?thesis using approve_core_lifecycle [of w ids st e i actor] approve_core_ids
    by simp
next
  case Reject
  with one_lifecycle_rejected [OF assms(2) reject_core_rows] assms(3) show ?thesis by simp
next
  case CancelGrace
  with one_lifecycle_rejected [OF assms(2) cancel_core_rows] assms(3) show ?thesis by simp
qed

text \<open>A sequence of decisions: kind, environment, action and actor of each.\<close>

fun decide_all :: "(decision \<times> env \<times> string \<times> string) list \<Rightarrow> store \<Rightarrow> store" where
  "decide_all [] st = st"
| "decide_all ((d, e, i, actor) # ds) st = decide_all ds (snd (take_decision d e i actor st))"

text \<open>
  C21. Lifecycle actions exclude each other: through any sequence of approvals, rejections and
  cancellations, by whatever operators and at whatever times, at most one action that deploys,
  converts, restores, shrinks or deletes a cluster is approved or executing.
\<close>

theorem one_lifecycle_action_approved:
  assumes "list_all (\<lambda>(d, _). under_policy ids d) ds"
    and "one_lifecycle ids (st_actions st)" and "distinct (map ac_id (st_actions st))"
  shows "one_lifecycle ids (st_actions (decide_all ds st))"
  using assms
proof (induction ds arbitrary: st rule: list.induct)
  case (Cons x ds)
  obtain d e i actor where x: "x = (d, e, i, actor)" by (cases x)
  from Cons.prems have "under_policy ids d" by (simp add: x)
  from decide_lifecycle [OF this Cons.prems(2,3), of e i actor] Cons.IH [of "snd (take_decision d e i actor st)"]
    Cons.prems(1) show ?case by (simp add: x)
qed simp

definition lifecycle_action :: "string \<Rightarrow> action_status \<Rightarrow> action_row" where
  "lifecycle_action i s =
     graced_action\<lparr>ac_id := i, ac_action_id := ''remove_cluster_nodes'', ac_status := s\<rparr>"

definition lab_world :: approval_world where
  "lab_world = \<lparr>aw_exec_mode = ''docker'', aw_upgrade_status = None,
     aw_policy = doc [(''cluster_deploy_action_ids'', py_strs [''remove_cluster_nodes''])],
     aw_accounts = \<lparr>acc_root = ''root'', acc_users = [], acc_grants = []\<rparr>,
     aw_seed = sample_cluster,
     aw_commands = \<lparr>cw_exec_mode = ''docker'', cw_listing = (\<lambda>_ _ _. Inl ExecutorError),
       cw_fields_of = (\<lambda>_ _. None), cw_preview = (\<lambda>_ _ _. Inl ExecutorError)\<rparr>\<rparr>"

definition lifecycle_store :: store where
  "lifecycle_store = bare_store\<lparr>st_actions :=
     [lifecycle_action ''a1'' AS_APPROVED, lifecycle_action ''a2'' AS_PENDING_APPROVAL]\<rparr>"

lemma one_lifecycle_action_approved_witness:
  "one_lifecycle [''remove_cluster_nodes'']
     (st_actions (decide_all [(Approve lab_world, bare_env, ''a2'', ''op''), (Reject, bare_env, ''a2'', ''op'')]
        lifecycle_store))
   \<and> fst (approve_action_core bare_env lab_world ''a2'' ''op'' lifecycle_store)
       = Inl (ActionConflict LifecycleUnderWay)"
proof -
  have ids: "deploy_ids lab_world = [''remove_cluster_nodes'']"
    by (simp add: deploy_ids_def load_cluster_deploy_action_ids_def load_ids_def lab_world_def doc_def
        dget_def por_def py_strs_def strings_of_def)
  have rows: "one_lifecycle [''remove_cluster_nodes''] (st_actions lifecycle_store)"
    "distinct (map ac_id (st_actions lifecycle_store))"
    by (simp_all add: lifecycle_store_def one_lifecycle_def lifecycle_busy_def lifecycle_action_def)
  have "fst (approve_action_core bare_env lab_world ''a2'' ''op'' lifecycle_store)
      = Inl (ActionConflict LifecycleUnderWay)"
    unfolding approve_action_core_def approval_conflict_def ids
    by (simp add: lifecycle_store_def lifecycle_action_def bare_store_def find_id_def
        approval_expired_def cluster_unavailable_def is_cluster_upgrade_pending_or_approved_def
        is_cluster_upgrade_physically_running_def cluster_upgrade_action_ids_def
        is_node_upgrade_gate_pending_def lifecycle_conflict_def graced_action_def lab_world_def Let_def)
  with one_lifecycle_action_approved [OF _ rows, of "[(Approve lab_world, bare_env, ''a2'', ''op''),
      (Reject, bare_env, ''a2'', ''op'')]"] ids show ?thesis by simp
qed

section \<open>Authority\<close>





section \<open>The gate of the default cluster\<close>

text \<open>
  A gate of the default cluster stops no approval of its incidents: such a gate is stored
  without a cluster id while the incidents the watcher finds carry the id of the default cluster, so
  whatever state the gates without a cluster id are in, the node-gate check never refuses an action
  of such an incident.
\<close>

theorem default_cluster_gate_unseen:
  assumes "get_incident st (ac_incident_id a) = Some inc" and "in_cluster_id inc = Some cid"
    and "list_all (\<lambda>g. ng_cluster_id g = None) (st_gates st)"
  shows "approval_conflict w st a \<noteq> Some NodeGateUnderWay"
  using assms unfolding approval_conflict_def
  by (auto simp: Let_def is_node_upgrade_gate_pending_def list_all_iff list_ex_iff split: if_splits)

definition waiting_action :: action_row where
  "waiting_action =
     graced_action\<lparr>ac_action_id := ''restart_osd_daemon'', ac_status := AS_PENDING_APPROVAL\<rparr>"

definition waiting_incident :: incident where
  "waiting_incident = \<lparr>in_id = ''i1'', in_cluster_id = Some ''c1'', in_ceph_code = ''OSD_DOWN'',
     in_dedupe_key = None, in_status = IS_PENDING_APPROVAL, in_severity = None, in_log_excerpt = None,
     in_signal_evidence_json = None, in_group_root_incident_id = None, in_diagnosis_text = None,
     in_postmortem_json = None, in_postmortem_generated_at = None,
     in_postmortem_prompt_version = None, in_telegram_reminded_at = None,
     in_acknowledged_at = None, in_acknowledged_by = None, in_muted_until = None,
     in_muted_by = None, in_verify_after = None, in_verify_attempts = 0, in_detected_at = 0,
     in_created_at = 0, in_updated_at = 0, in_failed_at = None\<rparr>"

definition prepared_gate :: node_upgrade_gate where
  "prepared_gate = \<lparr>ng_id = ''g1'', ng_cluster_id = None, ng_host = ''n1'',
     ng_target_version = ''18.2.4'', ng_state = NG_PREPARED, ng_roles_snapshot = None,
     ng_osd_backup = None, ng_maintenance_flags_added = None, ng_mon_removed = True,
     ng_prepare_action_id = Some ''a0'', ng_confirm_action_id = None, ng_abort_action_id = None,
     ng_created_at = 0, ng_updated_at = 0\<rparr>"

definition gated_store :: store where
  "gated_store = bare_store\<lparr>st_clusters := [sample_cluster\<lparr>cl_is_default := True\<rparr>],
     st_incidents := [waiting_incident], st_actions := [waiting_action], st_gates := [prepared_gate]\<rparr>"

lemma gated_get:
  "get_action gated_store ''a1'' = Some waiting_action"
  "get_incident gated_store ''i1'' = Some waiting_incident"
  "get_cluster gated_store ''c1'' = Some (sample_cluster\<lparr>cl_is_default := True\<rparr>)"
  by (simp_all add: gated_store_def waiting_action_def waiting_incident_def graced_action_def
      sample_cluster_def find_id_def)

lemma gated_open: "approval_open bare_env lab_world waiting_action gated_store"
proof -
  have row: "ac_status waiting_action = AS_PENDING_APPROVAL" "ac_expires_at waiting_action = None"
    "ac_incident_id waiting_action = ''i1''" "ac_action_id waiting_action = ''restart_osd_daemon''"
    "in_cluster_id waiting_incident = Some ''c1''"
    by (simp_all add: waiting_action_def graced_action_def waiting_incident_def)
  have "deploy_ids lab_world = [''remove_cluster_nodes'']"
    by (simp add: deploy_ids_def load_cluster_deploy_action_ids_def load_ids_def lab_world_def doc_def
        dget_def por_def py_strs_def strings_of_def)
  moreover have "\<not> is_cluster_upgrade_pending_or_approved gated_store"
    by (simp add: is_cluster_upgrade_pending_or_approved_def gated_store_def row
        cluster_upgrade_action_ids_def)
  moreover have "\<not> is_node_upgrade_gate_pending x (Some (Some c)) (st_gates gated_store)" for x c
    by (simp add: is_node_upgrade_gate_pending_def gated_store_def prepared_gate_def)
  moreover have "\<not> cluster_unavailable gated_store (Some waiting_incident)"
    by (simp add: cluster_unavailable_def row gated_get sample_cluster_def)
  moreover have "\<not> is_cluster_upgrade_physically_running (aw_exec_mode lab_world) (aw_upgrade_status lab_world)"
    by (simp add: is_cluster_upgrade_physically_running_def lab_world_def)
  ultimately show ?thesis
    by (simp add: approval_open_def approval_expired_def approval_conflict_def Let_def row gated_get)
qed

lemma default_cluster_gate_unseen_witness:
  "approval_conflict lab_world gated_store waiting_action \<noteq> Some NodeGateUnderWay
   \<and> is_node_upgrade_gate_pending (Some ''a1'') None (st_gates gated_store)
   \<and> approval_open bare_env lab_world waiting_action gated_store"
proof -
  have "ac_incident_id waiting_action = ''i1''" "in_cluster_id waiting_incident = Some ''c1''"
    "list_all (\<lambda>g. ng_cluster_id g = None) (st_gates gated_store)"
    by (simp_all add: waiting_action_def graced_action_def waiting_incident_def gated_store_def
        prepared_gate_def)
  then have "approval_conflict lab_world gated_store waiting_action \<noteq> Some NodeGateUnderWay"
    using default_cluster_gate_unseen [where st = gated_store and a = waiting_action and w = lab_world]
      gated_get(2) by simp
  moreover have "is_node_upgrade_gate_pending (Some ''a1'') None (st_gates gated_store)"
    by (simp add: is_node_upgrade_gate_pending_def gated_store_def prepared_gate_def
        non_terminal_states_def not_this_action_def)
  ultimately show ?thesis using gated_open by blast
qed



end
