(* ===== verification/NodeGateFlow.thy ===== *)
theory NodeGateFlow
  imports Approvals
begin

text \<open>
  The operating-system upgrade of a node: the three requests of \<open>dashboard/routes/upgrade.py\<close>
  (Prepare, Abort, Confirm), each creating an incident and an action of its own and approving it in
  the same request, and the places of \<open>worker/executor/cluster_deploy.py\<close> where the worker moves a
  gate.  The inventory of the cluster, the command previews and the node's \<open>/etc/os-release\<close> are
  arguments.
\<close>

section \<open>The requests\<close>

text \<open>
  The selected cluster, its effective execution mode and nodes with their roles, and the display text
  of an action's command.
\<close>

record gate_request =
  gr_cluster :: cluster
  gr_exec_mode :: string
  gr_nodes :: "(string \<times> string list) list"
  gr_preview :: "string \<Rightarrow> string option"

definition cluster_scope_id :: "cluster \<Rightarrow> string option" where
  "cluster_scope_id c = (if cl_is_default c then None else Some (cl_id c))"

definition gate_incident :: "env \<Rightarrow> string \<Rightarrow> string option \<Rightarrow> string \<Rightarrow> string \<Rightarrow> incident" where
  "gate_incident e iid cluster_id dedupe_key log_excerpt =
     \<lparr>in_id = iid, in_cluster_id = cluster_id, in_ceph_code = ''NODE_OS_GATE'',
      in_dedupe_key = Some dedupe_key, in_status = IS_PENDING_APPROVAL, in_severity = None,
      in_log_excerpt = Some log_excerpt, in_signal_evidence_json = None,
      in_group_root_incident_id = None, in_diagnosis_text = None, in_postmortem_json = None,
      in_postmortem_generated_at = None, in_postmortem_prompt_version = None,
      in_telegram_reminded_at = None, in_acknowledged_at = None, in_acknowledged_by = None,
      in_muted_until = None, in_muted_by = None, in_verify_after = None, in_verify_attempts = 0,
      in_detected_at = ev_now e, in_created_at = ev_now e, in_updated_at = ev_now e,
      in_failed_at = None\<rparr>"

definition gate_action_row ::
  "env \<Rightarrow> string \<Rightarrow> string \<Rightarrow> string \<Rightarrow> string \<Rightarrow> string option \<Rightarrow> string \<Rightarrow> string \<Rightarrow> pyval \<Rightarrow> action_row" where
  "gate_action_row e aid iid action_id tier command rationale host params =
     \<lparr>ac_id = aid, ac_incident_id = iid, ac_action_id = action_id, ac_classification = tier,
      ac_status = AS_PENDING_APPROVAL, ac_proposed_command = command, ac_rationale = Some rationale,
      ac_target_nodes = Some (JText (PList [PStr host])), ac_action_params = Some (JText params),
      ac_execution_progress = None, ac_telegram_message_ids = None, ac_telegram_notified_at = None,
      ac_executed_at = None, ac_expires_at = None, ac_grace_until = None, ac_cancelled_at = None,
      ac_cancelled_by = None, ac_idempotency_key = None, ac_created_at = ev_now e,
      ac_updated_at = ev_now e\<rparr>"

definition gate_tier :: "approval_world \<Rightarrow> string \<Rightarrow> string" where
  "gate_tier w action_id =
     classification_value (classify_action (load_action_id_lists (aw_policy w)) action_id None)"

definition gate_params ::
  "string \<Rightarrow> string \<Rightarrow> pyval \<Rightarrow> string option \<Rightarrow> string \<Rightarrow> string \<Rightarrow> string \<Rightarrow> pyval" where
  "gate_params host target_version roles cluster_id gate_id aid iid =
     doc [(''host'', PStr host), (''target_version'', PStr target_version), (''roles'', roles),
          (''nodes'', PList [PStr host]), (''_cluster_id'', opt_py cluster_id),
          (''node_upgrade_gate_id'', PStr gate_id), (''action_pk'', PStr aid),
          (''incident_id'', PStr iid)]"

text \<open>The incident and the action of a request, with the audit entry of the proposal.\<close>

record gate_proposal =
  gp_action_id :: string
  gp_log_excerpt :: string
  gp_rationale :: string
  gp_host :: string
  gp_target_version :: string
  gp_roles :: pyval
  gp_cluster_id :: "string option"
  gp_gate_id :: string

definition propose_gate_action ::
  "env \<Rightarrow> approval_world \<Rightarrow> gate_request \<Rightarrow> gate_proposal \<Rightarrow> (string \<Rightarrow> store \<Rightarrow> store) \<Rightarrow> string \<Rightarrow> store
     \<Rightarrow> string \<times> store" where
  "propose_gate_action e w req p move user st =
     (let (iid, st1) = draw e st; (aid, st2) = draw e st1;
          inc = gate_incident e iid (gp_cluster_id p)
                  (''node-os-gate:'' @ gp_gate_id p @ '':'' @ gp_action_id p) (gp_log_excerpt p);
          act = gate_action_row e aid iid (gp_action_id p) (gate_tier w (gp_action_id p))
                  (gr_preview req (gp_action_id p)) (gp_rationale p) (gp_host p)
                  (gate_params (gp_host p) (gp_target_version p) (gp_roles p) (gp_cluster_id p)
                     (gp_gate_id p) aid iid);
          st3 = st2\<lparr>st_incidents := st_incidents st2 @ [inc], st_actions := st_actions st2 @ [act]\<rparr>
      in (aid, audit_record e iid (Some aid) ''risky_action_pending_approval'' user None (move aid st3)))"


section \<open>Prepare\<close>


definition new_gate ::
  "env \<Rightarrow> string \<Rightarrow> string option \<Rightarrow> string \<Rightarrow> string \<Rightarrow> pyval \<Rightarrow> string \<Rightarrow> node_upgrade_gate" where
  "new_gate e gate_id cluster_id host target_version roles aid =
     \<lparr>ng_id = gate_id, ng_cluster_id = cluster_id, ng_host = host,
      ng_target_version = target_version, ng_state = NG_PREPARING,
      ng_roles_snapshot = Some (JText roles), ng_osd_backup = None,
      ng_maintenance_flags_added = None, ng_mon_removed = False, ng_prepare_action_id = Some aid,
      ng_confirm_action_id = None, ng_abort_action_id = None, ng_created_at = ev_now e,
      ng_updated_at = ev_now e\<rparr>"

definition add_gate :: "node_upgrade_gate \<Rightarrow> store \<Rightarrow> store" where
  "add_gate g st = st\<lparr>st_gates := st_gates st @ [g]\<rparr>"

definition prepare_proposal ::
  "string \<Rightarrow> string \<Rightarrow> string list \<Rightarrow> string option \<Rightarrow> string \<Rightarrow> string \<Rightarrow> gate_proposal" where
  "prepare_proposal host target_version roles cluster_id gate_id user =
     \<lparr>gp_action_id = ''node_os_gate_prepare'',
      gp_log_excerpt = (''Chu'' @ [CHR 0xE1, CHR 0xBA, CHR 0xA9] @ ''n b'' @
       [CHR 0xE1, CHR 0xBB, CHR 0x8B] @ '' node '') @ host @ ('' '' @ [CHR 0xC4, CHR 0x91, CHR 0xE1, CHR 0xBB, CHR 0x83] @ '' c'' @
       [CHR 0xC3, CHR 0xA0] @ ''i l'' @ [CHR 0xE1, CHR 0xBA, CHR 0xA1] @ ''i OS (m'' @
       [CHR 0xE1, CHR 0xBB, CHR 0xA5] @ ''c ti'' @ [CHR 0xC3, CHR 0xAA] @ ''u Ceph '') @ target_version
        @ ('') b'' @ [CHR 0xE1, CHR 0xBB, CHR 0x9F] @ ''i '') @ user,
      gp_rationale = (''Chu'' @ [CHR 0xE1, CHR 0xBA, CHR 0xA9] @ ''n b'' @
       [CHR 0xE1, CHR 0xBB, CHR 0x8B] @ '' node '') @ host @ '' (vai: '' @ join '', '' roles
        @ ('') '' @ [CHR 0xC4, CHR 0x91, CHR 0xE1, CHR 0xBB, CHR 0x83] @ '' c'' @
       [CHR 0xC3, CHR 0xA0] @ ''i l'' @ [CHR 0xE1, CHR 0xBA, CHR 0xA1] @ ''i OS l'' @
       [CHR 0xC3, CHR 0xAA] @ ''n t'' @ [CHR 0xE1, CHR 0xBB, CHR 0x91] @ ''i thi'' @
       [CHR 0xE1, CHR 0xBB, CHR 0x83] @ ''u t'' @
       [CHR 0xC6, CHR 0xB0, CHR 0xC6, CHR 0xA1] @ ''ng th'' @ [CHR 0xC3, CHR 0xAD] @
       ''ch Ceph '') @ target_version,
      gp_host = host, gp_target_version = target_version, gp_roles = PList (map PStr roles),
      gp_cluster_id = cluster_id, gp_gate_id = gate_id\<rparr>"

definition prepare_gate ::
  "env \<Rightarrow> approval_world \<Rightarrow> gate_request \<Rightarrow> string \<Rightarrow> string \<Rightarrow> string list \<Rightarrow> string \<Rightarrow> store
     \<Rightarrow> string option \<times> store" where
  "prepare_gate e w req host target_version roles user st =
     (let cid = cluster_scope_id (gr_cluster req); (gate_id, st1) = draw e st;
          (won, locks) = claim_node_upgrade_gate_lock gate_id cid (st_gate_locks st1) in
      if \<not> won then (None, st)
      else
        (let (aid, st2) = propose_gate_action e w req
                (prepare_proposal host target_version roles cid gate_id user)
                (\<lambda>aid. add_gate (new_gate e gate_id cid host target_version
                                  (PList (map PStr roles)) aid))
                user (st1\<lparr>st_gate_locks := locks\<rparr>)
         in (Some aid, st2)))"


section \<open>Abort\<close>


definition save_gate ::
  "time \<Rightarrow> (node_upgrade_gate \<Rightarrow> node_upgrade_gate) \<Rightarrow> node_upgrade_gate \<Rightarrow> node_upgrade_gate" where
  "save_gate now f g = (if f g = g then g else (f g)\<lparr>ng_updated_at := now\<rparr>)"

definition edit_gate ::
  "env \<Rightarrow> string \<Rightarrow> (node_upgrade_gate \<Rightarrow> node_upgrade_gate) \<Rightarrow> store \<Rightarrow> store" where
  "edit_gate e gid f st =
     st\<lparr>st_gates := map (\<lambda>g. if ng_id g = gid then save_gate (ev_now e) f g else g) (st_gates st)\<rparr>"

text \<open>No code writes a malformed snapshot; it would count as an empty one here.\<close>

definition gate_roles :: "node_upgrade_gate \<Rightarrow> pyval" where
  "gate_roles g = (case ng_roles_snapshot g of Some (JText v) \<Rightarrow> v | _ \<Rightarrow> PList [])"

definition roles_text :: "pyval \<Rightarrow> string" where
  "roles_text v = join '', '' (map py_str (elems_of v))"

text \<open>The conditional update that reserves the one slot for an abort.\<close>

definition abort_slot :: "string \<Rightarrow> node_upgrade_gate \<Rightarrow> bool" where
  "abort_slot gid g = (ng_id g = gid \<and> ng_state g = NG_PREPARED \<and> ng_abort_action_id g = None)"

definition reserve_abort :: "env \<Rightarrow> string \<Rightarrow> string \<Rightarrow> store \<Rightarrow> store" where
  "reserve_abort e gid aid st =
     st\<lparr>st_gates := snd (update_where (abort_slot gid)
         (\<lambda>g. g\<lparr>ng_abort_action_id := Some aid, ng_state := NG_ABORTING, ng_updated_at := ev_now e\<rparr>)
         (st_gates st))\<rparr>"

definition abort_proposal :: "node_upgrade_gate \<Rightarrow> string option \<Rightarrow> string \<Rightarrow> gate_proposal" where
  "abort_proposal g cluster_id user =
     \<lparr>gp_action_id = ''node_os_gate_abort'',
      gp_log_excerpt = (''Hu'' @ [CHR 0xE1, CHR 0xBB, CHR 0xB7] @ '' Chu'' @
       [CHR 0xE1, CHR 0xBA, CHR 0xA9] @ ''n b'' @ [CHR 0xE1, CHR 0xBB, CHR 0x8B] @
       '' cho node '') @ ng_host g @ ('' b'' @ [CHR 0xE1, CHR 0xBB, CHR 0x9F] @ ''i '') @ user,
      gp_rationale = (''Hu'' @ [CHR 0xE1, CHR 0xBB, CHR 0xB7] @ '' Chu'' @
       [CHR 0xE1, CHR 0xBA, CHR 0xA9] @ ''n b'' @ [CHR 0xE1, CHR 0xBB, CHR 0x8B] @
       '' cho node '') @ ng_host g @ '' (vai: '' @ roles_text (gate_roles g)
        @ ('') '' @ [CHR 0xE2, CHR 0x80, CHR 0x94] @ '' rejoin mon, g'' @
       [CHR 0xE1, CHR 0xBB, CHR 0xA1] @ '' c'' @ [CHR 0xE1, CHR 0xBB, CHR 0x9D] @
       '' n'' @ [CHR 0xE1, CHR 0xBA, CHR 0xBF] @ ''u l'' @ [CHR 0xC3, CHR 0xA0] @
       '' node cu'' @ [CHR 0xE1, CHR 0xBB, CHR 0x91] @ ''i''),
      gp_host = ng_host g, gp_target_version = ng_target_version g, gp_roles = gate_roles g,
      gp_cluster_id = cluster_id, gp_gate_id = ng_id g\<rparr>"

definition abort_gate ::
  "env \<Rightarrow> approval_world \<Rightarrow> gate_request \<Rightarrow> node_upgrade_gate \<Rightarrow> string \<Rightarrow> store \<Rightarrow> string option \<times> store" where
  "abort_gate e w req g user st =
     (if length (filter (abort_slot (ng_id g)) (st_gates st)) \<noteq> 1 then (None, st)
      else (let (aid, st1) = propose_gate_action e w req
                  (abort_proposal g (cluster_scope_id (gr_cluster req)) user)
                  (reserve_abort e (ng_id g)) user st
            in (Some aid, st1)))"


section \<open>Confirm\<close>


definition confirm_proposal :: "node_upgrade_gate \<Rightarrow> string option \<Rightarrow> string \<Rightarrow> gate_proposal" where
  "confirm_proposal g cluster_id user =
     \<lparr>gp_action_id = ''node_os_gate_recover'',
      gp_log_excerpt = (''X'' @ [CHR 0xC3, CHR 0xA1] @ ''c nh'' @ [CHR 0xE1, CHR 0xBA, CHR 0xAD] @
       ''n & Ph'' @ [CHR 0xE1, CHR 0xBB, CHR 0xA5] @ ''c h'' @
       [CHR 0xE1, CHR 0xBB, CHR 0x93] @ ''i node '') @ ng_host g @ ('' (m'' @ [CHR 0xE1, CHR 0xBB, CHR 0xA5] @ ''c ti'' @ [CHR 0xC3, CHR 0xAA] @
       ''u Ceph '')
        @ ng_target_version g @ ('') b'' @ [CHR 0xE1, CHR 0xBB, CHR 0x9F] @ ''i '') @ user,
      gp_rationale = (''X'' @ [CHR 0xC3, CHR 0xA1] @ ''c nh'' @ [CHR 0xE1, CHR 0xBA, CHR 0xAD] @
       ''n & Ph'' @ [CHR 0xE1, CHR 0xBB, CHR 0xA5] @ ''c h'' @
       [CHR 0xE1, CHR 0xBB, CHR 0x93] @ ''i node '') @ ng_host g @ '' (vai: '' @ roles_text (gate_roles g)
        @ ('') l'' @ [CHR 0xC3, CHR 0xAA] @ ''n Ceph '') @ ng_target_version g,
      gp_host = ng_host g, gp_target_version = ng_target_version g, gp_roles = gate_roles g,
      gp_cluster_id = cluster_id, gp_gate_id = ng_id g\<rparr>"

text \<open>
  The second transaction in its two halves: the row as it is read, and the write, which names the
  row by its id only.
\<close>

definition confirm_read :: "gate_request \<Rightarrow> string \<Rightarrow> store \<Rightarrow> node_upgrade_gate option" where
  "confirm_read req gid st =
     (case find_id ng_id gid (st_gates st) of
        None \<Rightarrow> None
      | Some g \<Rightarrow>
          if ng_state g \<noteq> NG_PREPARED \<or> ng_cluster_id g \<noteq> cluster_scope_id (gr_cluster req) then None
          else Some g)"

definition confirm_write ::
  "env \<Rightarrow> approval_world \<Rightarrow> gate_request \<Rightarrow> node_upgrade_gate \<Rightarrow> string \<Rightarrow> store \<Rightarrow> string \<times> store" where
  "confirm_write e w req g user st =
     propose_gate_action e w req (confirm_proposal g (cluster_scope_id (gr_cluster req)) user)
       (\<lambda>aid. edit_gate e (ng_id g)
          (\<lambda>r. r\<lparr>ng_confirm_action_id := Some aid, ng_state := NG_RECOVERING\<rparr>)) user st"


section \<open>The worker\<close>










section \<open>Gates and locks\<close>

text \<open>Every gate under way holds the lock of its cluster.\<close>

definition under_way :: "node_upgrade_gate \<Rightarrow> bool" where
  "under_way g = (ng_state g \<in> set non_terminal_states)"

definition gates_hold ::
  "node_upgrade_gate list \<Rightarrow> node_upgrade_gate_lock list \<Rightarrow> bool" where
  "gates_hold gates locks =
     (lock_rows_ok locks \<and> distinct (map ng_id gates)
      \<and> list_all (\<lambda>g. under_way g \<longrightarrow> gate_holder locks (ng_cluster_id g) = Some (ng_id g)) gates)"

abbreviation gates_locked :: "store \<Rightarrow> bool" where
  "gates_locked st \<equiv> gates_hold (st_gates st) (st_gate_locks st)"

lemma save_gate_simps [simp]:
  "(\<And>g. ng_id (f g) = ng_id g) \<Longrightarrow> ng_id (save_gate now f g) = ng_id g"
  "(\<And>g. ng_cluster_id (f g) = ng_cluster_id g) \<Longrightarrow> ng_cluster_id (save_gate now f g) = ng_cluster_id g"
  "ng_state (save_gate now f g) = ng_state (f g)"
  "ng_abort_action_id (save_gate now f g) = ng_abort_action_id (f g)"
  "ng_confirm_action_id (save_gate now f g) = ng_confirm_action_id (f g)"
  by (simp_all add: save_gate_def)





lemma same_key: "distinct (map key rows) \<Longrightarrow> r \<in> set rows \<Longrightarrow> s \<in> set rows \<Longrightarrow> key r = key s \<Longrightarrow> r = s"
  by (meson distinct_map inj_onD)


section \<open>Every operation keeps it\<close>

lemma decide_action_gates:
  "st_gates (decide_action e a f s ev actor st) = st_gates st"
  "st_gate_locks (decide_action e a f s ev actor st) = st_gate_locks st"
  by (simp_all add: decide_action_def)

lemma approve_core_gates:
  "st_gates (snd (approve_action_core e w i actor st)) = st_gates st
   \<and> st_gate_locks (snd (approve_action_core e w i actor st)) = st_gate_locks st"
proof (cases "get_action st i")
  case None
  then show ?thesis by (simp add: approve_action_core_def)
next
  case (Some a)
  show ?thesis
  proof (cases "approval_open e w a st")
    case True
    from approve_core_open [OF Some True] show ?thesis
      by (simp add: approved_store_def Let_def decide_action_gates)
  next
    case False
    with Some show ?thesis
      by (auto simp: approve_action_core_def approval_open_def split: option.split)
  qed
qed

lemma decide_gates:
  "st_gates (snd (take_decision d e i actor st)) = st_gates st
   \<and> st_gate_locks (snd (take_decision d e i actor st)) = st_gate_locks st"
  by (cases d)
     (simp_all add: approve_core_gates reject_action_core_def cancel_grace_action_core_def
        decide_action_gates split: option.split)

lemma decide_all_gates:
  "st_gates (decide_all ds st) = st_gates st \<and> st_gate_locks (decide_all ds st) = st_gate_locks st"
  by (induction ds st rule: decide_all.induct) (simp_all add: decide_gates)


lemma propose_gates:
  assumes "\<And>aid st. st_gates (move aid st) = F aid (st_gates st) \<and> st_gate_locks (move aid st) = st_gate_locks st"
  shows "st_gates (snd (propose_gate_action e w req p move user st))
           = F (fst (propose_gate_action e w req p move user st)) (st_gates st)
       \<and> st_gate_locks (snd (propose_gate_action e w req p move user st)) = st_gate_locks st"
  unfolding propose_gate_action_def using assms by (simp add: draw_def Let_def)









section \<open>Runs\<close>









definition idle_store :: store where
  "idle_store = bare_store\<lparr>st_gate_locks := [\<lparr>nl_id = ''singleton'', nl_active_gate_id = None\<rparr>]\<rparr>"

definition lab_request :: gate_request where
  "lab_request = \<lparr>gr_cluster = sample_cluster, gr_exec_mode = ''none'',
     gr_nodes = [(''n1'', [''osd'']), (''n2'', [''mon''])], gr_preview = (\<lambda>_. None)\<rparr>"

lemma idle_locked: "gates_locked idle_store"
  by (simp add: idle_store_def bare_store_def gates_hold_def lock_rows_ok_def lock_id_def)


section \<open>A refused preparation\<close>

lemma prepare_gate_won:
  assumes "prepare_gate e w req host v roles user st = (Some aid, st1)" and "lock_rows_ok (st_gate_locks st)"
  shows "lock_rows_ok (st_gate_locks st1)
       \<and> gate_holder (st_gate_locks st1) (cluster_scope_id (gr_cluster req)) = Some (ev_uuid e (st_draws st))
       \<and> (\<exists>g \<in> set (st_gates st1). ng_id g = ev_uuid e (st_draws st) \<and> ng_state g = NG_PREPARING
             \<and> ng_prepare_action_id g = Some aid)"
proof -
  let ?cid = "cluster_scope_id (gr_cluster req)" and ?gid = "ev_uuid e (st_draws st)"
  obtain won locks where claim: "claim_node_upgrade_gate_lock ?gid ?cid (st_gate_locks st) = (won, locks)"
    by (cases "claim_node_upgrade_gate_lock ?gid ?cid (st_gate_locks st)")
  with assms(1) have won: won by (auto simp: prepare_gate_def draw_def Let_def split: if_splits)
  let ?new = "new_gate e ?gid ?cid host v (PList (map PStr roles))"
  let ?p = "propose_gate_action e w req (prepare_proposal host v roles ?cid ?gid user)
      (\<lambda>aid. add_gate (?new aid)) user (st\<lparr>st_draws := Suc (st_draws st), st_gate_locks := locks\<rparr>)"
  have p: "?p = (aid, st1)"
    using assms(1) claim won by (simp add: prepare_gate_def draw_def Let_def case_prod_unfold prod_eq_iff)
  have "st_gates (snd ?p) = st_gates st @ [?new (fst ?p)] \<and> st_gate_locks (snd ?p) = locks"
    using propose_gates [of "\<lambda>aid. add_gate (?new aid)" "\<lambda>aid rows. rows @ [?new aid]"]
    by (simp add: add_gate_def)
  then have "st_gates st1 = st_gates st @ [?new aid]" "st_gate_locks st1 = locks" by (simp_all add: p)
  moreover have "lock_rows_ok locks \<and> gate_holder locks ?cid = Some ?gid"
    using gate_lock.get_inv [OF assms(2), of ?gid ?cid] gate_lock.get_holder [OF assms(2), of ?gid ?cid ?cid]
      claim won by simp
  ultimately show ?thesis by (auto simp: new_gate_def)
qed

lemma prepare_gate_lost:
  assumes "lock_rows_ok (st_gate_locks st)"
    and "gate_holder (st_gate_locks st) (cluster_scope_id (gr_cluster req)) \<noteq> None"
  shows "prepare_gate e w req host v roles user st = (None, st)"
proof -
  have "\<not> fst (claim_node_upgrade_gate_lock (ev_uuid e (st_draws st)) (cluster_scope_id (gr_cluster req))
      (st_gate_locks st))"
    using gate_lock.get_answer [OF assms(1)] assms(2) by simp
  then show ?thesis by (simp add: prepare_gate_def draw_def Let_def case_prod_unfold)
qed

text \<open>
  C38. A preparation whose own approval is refused blocks its cluster: the gate and the lock are
  committed before the approval, and whatever the operators then decide, also rejecting the action of
  the gate, the gate stays in preparation and every preparation of a node of that cluster is refused.
\<close>

theorem refused_prepare_blocks_cluster:
  assumes "prepare_gate e w req host v roles user st = (Some aid, st1)"
    and "lock_rows_ok (st_gate_locks st)"
    and "cluster_scope_id (gr_cluster req') = cluster_scope_id (gr_cluster req)"
  shows "list_ex (\<lambda>g. ng_state g = NG_PREPARING \<and> ng_prepare_action_id g = Some aid)
           (st_gates (decide_all ds st1))
       \<and> prepare_gate e' w' req' host' v' roles' user' (decide_all ds st1) = (None, decide_all ds st1)"
proof -
  note won = prepare_gate_won [OF assms(1,2)]
  have "prepare_gate e' w' req' host' v' roles' user' (decide_all ds st1) = (None, decide_all ds st1)"
    by (rule prepare_gate_lost) (simp_all add: decide_all_gates won assms(3))
  then show ?thesis using won by (auto simp: decide_all_gates list_ex_iff)
qed

lemma refused_prepare_blocks_cluster_witness:
  "fst (prepare_gate bare_env lab_world lab_request ''n2'' ''18.2.4'' [''mon''] ''op''
     (decide_all [(Reject, bare_env, ''u2'', ''op'')]
        (snd (prepare_gate bare_env lab_world lab_request ''n1'' ''18.2.4'' [''osd''] ''op'' idle_store)))) = None"
proof -
  have claim: "claim_node_upgrade_gate_lock ''u0'' (Some ''c1'') (st_gate_locks idle_store) =
     (True, st_gate_locks idle_store @ [\<lparr>nl_id = ''cluster:c1'', nl_active_gate_id = Some ''u0''\<rparr>])"
    by (simp add: claim_node_upgrade_gate_lock_def with_lock_row_def lock_id_def update_where_def idle_store_def)
  have first: "ev_uuid bare_env (st_draws idle_store) = ''u0''" "cluster_scope_id (gr_cluster lab_request) = Some ''c1''"
    by code_simp+
  have "fst (prepare_gate bare_env lab_world lab_request ''n1'' ''18.2.4'' [''osd''] ''op'' idle_store) \<noteq> None"
    using claim first by (simp add: prepare_gate_def draw_def Let_def case_prod_unfold)
  then obtain aid where won: "prepare_gate bare_env lab_world lab_request ''n1'' ''18.2.4'' [''osd''] ''op'' idle_store
      = (Some aid, snd (prepare_gate bare_env lab_world lab_request ''n1'' ''18.2.4'' [''osd''] ''op'' idle_store))"
    by (metis option.exhaust prod.collapse)
  have ok: "lock_rows_ok (st_gate_locks idle_store)" using idle_locked by (simp add: gates_hold_def)
  show ?thesis
    using refused_prepare_blocks_cluster [OF won ok, where req' = lab_request
        and ds = "[(Reject, bare_env, ''u2'', ''op'')]", OF refl] by (metis fst_conv)
qed

section \<open>Confirm against Abort\<close>

text \<open>
  Confirm can overwrite an abort: the confirmation reads the gate, then writes it by its id
  alone.  When an abort is committed in between, a confirmation that reads again would be refused,
  but the write that follows the earlier read moves the aborting gate to recovery, so that the
  abort and the recovery of one node are both proposed for execution.
\<close>

theorem confirm_overwrites_abort:
  assumes "confirm_read req gid st = Some g" and "distinct (map ng_id (st_gates st))"
    and "abort_gate e w req g user st = (Some abort_id, st1)"
    and "confirm_write e' w' req g user' st1 = (confirm_id, st2)"
  shows "confirm_read req gid st1 = None
       \<and> (\<exists>r. find_id ng_id gid (st_gates st2) = Some r \<and> ng_state r = NG_RECOVERING
            \<and> ng_abort_action_id r = Some abort_id \<and> ng_confirm_action_id r = Some confirm_id)"
proof -
  have g: "find_id ng_id gid (st_gates st) = Some g" "ng_state g = NG_PREPARED"
    using assms(1) by (auto simp: confirm_read_def split: option.splits if_splits)
  have gid: "ng_id g = gid" using find_id_Some [OF g(1)] by simp
  have one: "length (filter (abort_slot gid) (st_gates st)) = 1"
    using assms(3) gid by (auto simp: abort_gate_def split: if_splits)
  have slot: "abort_slot gid g"
  proof -
    from one obtain r where "r \<in> set (st_gates st)" "abort_slot gid r"
      by (metis filter_empty_conv list.size(3) zero_neq_one)
    then show ?thesis
      using same_key [OF assms(2), of r g] find_id_Some [OF g(1)] by (auto simp: abort_slot_def)
  qed
  let ?f = "\<lambda>g. g\<lparr>ng_abort_action_id := Some abort_id, ng_state := NG_ABORTING, ng_updated_at := ev_now e\<rparr>"
  have "st_gates st1 = snd (update_where (abort_slot gid) ?f (st_gates st))"
    using assms(3) one gid propose_gates [of "reserve_abort e gid" "\<lambda>aid rows. snd (update_where (abort_slot gid)
        (\<lambda>g. g\<lparr>ng_abort_action_id := Some aid, ng_state := NG_ABORTING, ng_updated_at := ev_now e\<rparr>) rows)"
        e w req "abort_proposal g (cluster_scope_id (gr_cluster req)) user" user st]
    by (auto simp: abort_gate_def reserve_abort_def case_prod_unfold Let_def)
  then have g1: "find_id ng_id gid (st_gates st1) = Some (?f g)"
    using g(1) slot by (simp add: find_id_update_where)
  let ?h = "\<lambda>r. r\<lparr>ng_confirm_action_id := Some confirm_id, ng_state := NG_RECOVERING\<rparr>"
  have "st_gates st2 = map (\<lambda>r. if ng_id r = gid then save_gate (ev_now e') ?h r else r) (st_gates st1)"
    using assms(4) gid propose_gates [of "\<lambda>aid. edit_gate e' gid (\<lambda>r. r\<lparr>ng_confirm_action_id := Some aid,
          ng_state := NG_RECOVERING\<rparr>)" "\<lambda>aid. map (\<lambda>r. if ng_id r = gid then save_gate (ev_now e')
          (\<lambda>r. r\<lparr>ng_confirm_action_id := Some aid, ng_state := NG_RECOVERING\<rparr>) r else r)" e' w' req
        "confirm_proposal g (cluster_scope_id (gr_cluster req)) user'" user' st1]
    by (simp add: confirm_write_def edit_gate_def)
  then have "find_id ng_id gid (st_gates st2) = Some (save_gate (ev_now e') ?h (?f g))"
    using g1 gid by (simp add: find_id_map)
  with g1 show ?thesis by (simp add: confirm_read_def)
qed

definition prepared_store :: store where
  "prepared_store = idle_store\<lparr>st_gates := [prepared_gate\<lparr>ng_cluster_id := Some ''c1''\<rparr>]\<rparr>"

lemma confirm_overwrites_abort_witness:
  "\<exists>abort_id st1 confirm_id st2.
     abort_gate bare_env lab_world lab_request (prepared_gate\<lparr>ng_cluster_id := Some ''c1''\<rparr>) ''op'' prepared_store
       = (Some abort_id, st1)
   \<and> confirm_write bare_env lab_world lab_request (prepared_gate\<lparr>ng_cluster_id := Some ''c1''\<rparr>) ''op'' st1
       = (confirm_id, st2)
   \<and> (\<exists>r. find_id ng_id ''g1'' (st_gates st2) = Some r \<and> ng_state r = NG_RECOVERING
        \<and> ng_abort_action_id r = Some abort_id)"
proof -
  let ?g = "prepared_gate\<lparr>ng_cluster_id := Some ''c1''\<rparr>"
  have gates: "st_gates prepared_store = [?g]" by (simp add: prepared_store_def)
  have read: "confirm_read lab_request ''g1'' prepared_store = Some ?g"
    by (simp add: confirm_read_def gates find_id_def prepared_gate_def cluster_scope_id_def
        lab_request_def sample_cluster_def)
  have "fst (abort_gate bare_env lab_world lab_request ?g ''op'' prepared_store) \<noteq> None"
    by (simp add: abort_gate_def gates abort_slot_def prepared_gate_def case_prod_unfold Let_def)
  then obtain abort_id where ab: "abort_gate bare_env lab_world lab_request ?g ''op'' prepared_store
      = (Some abort_id, snd (abort_gate bare_env lab_world lab_request ?g ''op'' prepared_store))"
    by (metis option.exhaust prod.collapse)
  have "distinct (map ng_id (st_gates prepared_store))" by (simp add: gates)
  from confirm_overwrites_abort [OF read this ab surjective_pairing] ab show ?thesis
    by (metis surjective_pairing)
qed

end
