(* ===== verification/Remote.thy ===== *)
theory Remote
  imports Approvals HealthRecovery
begin

text \<open>
  What the execution of an approved action (\<open>worker/llm/router_client.py\<close>) shares: the nodes and the
  SSH credentials of a cluster (\<open>shared/cluster_nodes.py\<close>), the checks of the target, the remote
  commands as a trace of effects, the progress document, and the transaction that records the
  result.  Commands' answers, the live RBD trash and the parsing of texts are arguments.
\<close>

section \<open>The nodes and the credentials of a cluster\<close>

record worker_settings =
  ws_ssh_user :: string
  ws_ssh_key_path :: string
  ws_ceph_exec_mode :: string
  ws_ceph_container_name :: string
  ws_ceph_mon_nodes :: string
  ws_ceph_mgr_nodes :: string
  ws_ceph_osd_nodes :: string
  ws_ceph_rgw_nodes :: string
  ws_incident_verify_delay_seconds :: int
  ws_rbd_trash_retention_days :: int

text \<open>\<open>[n.strip() for n in raw.split(",") if n.strip()]\<close>.\<close>

definition host_list :: "string \<Rightarrow> string list" where
  "host_list raw = filter (\<lambda>n. n \<noteq> []) (map str_strip (split_on (CHR '','') raw))"

definition mon_nodes :: "worker_settings \<Rightarrow> cluster option \<Rightarrow> string list" where
  "mon_nodes ws cl = host_list (case cl of None \<Rightarrow> ws_ceph_mon_nodes ws | Some c \<Rightarrow> cl_ceph_mon_nodes c)"

definition mgr_nodes :: "worker_settings \<Rightarrow> cluster option \<Rightarrow> string list" where
  "mgr_nodes ws cl = host_list (case cl of None \<Rightarrow> ws_ceph_mgr_nodes ws | Some c \<Rightarrow> cl_ceph_mgr_nodes c)"

definition osd_nodes :: "worker_settings \<Rightarrow> cluster option \<Rightarrow> string list" where
  "osd_nodes ws cl = host_list (case cl of None \<Rightarrow> ws_ceph_osd_nodes ws | Some c \<Rightarrow> cl_ceph_osd_nodes c)"

definition rgw_nodes :: "worker_settings \<Rightarrow> cluster option \<Rightarrow> string list" where
  "rgw_nodes ws cl = host_list (case cl of None \<Rightarrow> ws_ceph_rgw_nodes ws | Some c \<Rightarrow> cl_ceph_rgw_nodes c)"

text \<open>\<open>list(dict.fromkeys(xs))\<close> keeps the first occurrence of each element.\<close>

definition first_occurrences :: "'a list \<Rightarrow> 'a list" where
  "first_occurrences xs = rev (remdups (rev xs))"

definition node_roles :: "worker_settings \<Rightarrow> cluster option \<Rightarrow> string \<Rightarrow> string list" where
  "node_roles ws cl host =
     (if host \<in> set (mgr_nodes ws cl) then [''MGR''] else [])
     @ (if host \<in> set (mon_nodes ws cl) then [''MON''] else [])
     @ (if host \<in> set (osd_nodes ws cl) then [''OSD''] else [])
     @ (if host \<in> set (rgw_nodes ws cl) then [''RGW''] else [])"

definition configured_nodes :: "worker_settings \<Rightarrow> cluster option \<Rightarrow> (string \<times> string list) list" where
  "configured_nodes ws cl =
     map (\<lambda>host. (host, node_roles ws cl host))
       (first_occurrences (mon_nodes ws cl @ mgr_nodes ws cl @ osd_nodes ws cl @ rgw_nodes ws cl))"

definition read_only_key_path :: string where
  "read_only_key_path = ''/tmp/readonly-id_ed25519''"

definition resolve_ssh_creds :: "worker_settings \<Rightarrow> cluster option \<Rightarrow> ssh_creds" where
  "resolve_ssh_creds ws cl =
     (case cl of
        Some c \<Rightarrow>
          \<lparr>sc_user = cl_ssh_user c,
           sc_key_path = (if cl_ssh_key_path c = read_only_key_path \<and> ws_ssh_key_path ws \<noteq> []
                          then ws_ssh_key_path ws else cl_ssh_key_path c),
           sc_exec_mode = cl_ceph_exec_mode c, sc_container_name = cl_ceph_container_name c\<rparr>
      | None \<Rightarrow>
          \<lparr>sc_user = ws_ssh_user ws, sc_key_path = ws_ssh_key_path ws,
           sc_exec_mode = ws_ceph_exec_mode ws, sc_container_name = ws_ceph_container_name ws\<rparr>)"

section \<open>The checks of the target\<close>

text \<open>The default cluster is unique (\<open>single_default_cluster\<close>).\<close>

definition stored_default :: "store \<Rightarrow> cluster option" where
  "stored_default st = find cl_is_default (st_clusters st)"

definition openstack_hosts :: "store \<Rightarrow> cluster option \<Rightarrow> string list" where
  "openstack_hosts st cl =
     (case (case cl of None \<Rightarrow> stored_default st | Some c \<Rightarrow> Some c) of
        None \<Rightarrow> []
      | Some c \<Rightarrow> host_list (cl_openstack_controller_nodes c @ '','' @ cl_openstack_compute_nodes c))"

definition allowed_hosts :: "worker_settings \<Rightarrow> store \<Rightarrow> cluster option \<Rightarrow> string list" where
  "allowed_hosts ws st cl = map fst (configured_nodes ws cl) @ openstack_hosts st cl"

text \<open>
  \<open>under_tmp\<close> tells whether a path, with its links resolved, lies under \<open>/tmp\<close>.  The branch that
  switches the check off under the test runner is left out.
\<close>

definition live_action_target_safety_reason ::
  "worker_settings \<Rightarrow> (string \<Rightarrow> bool) \<Rightarrow> store \<Rightarrow> cluster option \<Rightarrow> string list \<Rightarrow> string \<Rightarrow> bool
     \<Rightarrow> string option" where
  "live_action_target_safety_reason ws under_tmp st cl nodes ssh_key_path allow_unregistered =
     (let unexpected = filter (\<lambda>host. host \<notin> set (allowed_hosts ws st cl)) nodes in
      if \<not> allow_unregistered \<and> unexpected \<noteq> []
      then Some ((''target node kh'' @ [CHR 0xC3, CHR 0xB4] @ ''ng thu'' @
       [CHR 0xE1, CHR 0xBB, CHR 0x99] @ ''c c'' @ [CHR 0xE1, CHR 0xBA, CHR 0xA5] @
       ''u h'' @ [CHR 0xC3, CHR 0xAC] @ ''nh cluster hi'' @
       [CHR 0xE1, CHR 0xBB, CHR 0x87] @ ''n t'' @ [CHR 0xE1, CHR 0xBA, CHR 0xA1] @
       ''i: '') @ join '', '' unexpected)
      else if ssh_key_path = [] then Some (''cluster ch'' @ [CHR 0xC6, CHR 0xB0] @ ''a c'' @
       [CHR 0xE1, CHR 0xBA, CHR 0xA5] @ ''u h'' @ [CHR 0xC3, CHR 0xAC] @ ''nh SSH key'')
      else if under_tmp ssh_key_path
      then Some ((''SSH key path kh'' @ [CHR 0xC3, CHR 0xB4] @ ''ng h'' @
       [CHR 0xE1, CHR 0xBB, CHR 0xA3] @ ''p l'' @ [CHR 0xE1, CHR 0xBB, CHR 0x87] @
       '' cho production: '') @ ssh_key_path)
      else None)"

definition new_cluster_deploy_action_ids :: "string list" where
  "new_cluster_deploy_action_ids =
     [''deploy_cluster_cephadm'', ''deploy_cluster_ceph_deploy'', ''deploy_cluster_rpm_local'']"

definition targets_plan_nodes :: "string \<Rightarrow> pyval \<Rightarrow> bool" where
  "targets_plan_nodes action_id params =
     (action_id \<in> set new_cluster_deploy_action_ids \<or> action_id = ''restore_cluster_from_backup''
      \<or> action_id \<in> {''delete_cluster_cephadm'', ''delete_cluster_manual''} \<and> is_dict params
        \<and> truthy (dget params ''_expected_fsid''))"

definition cluster_binding_reason :: "store \<Rightarrow> incident option \<Rightarrow> pyval \<Rightarrow> string option" where
  "cluster_binding_reason st inc params =
     (case inc of
        None \<Rightarrow> Some (''Action kh'' @ [CHR 0xC3, CHR 0xB4] @ ''ng c'' @ [CHR 0xC3, CHR 0xB2] @
       ''n Incident n'' @ [CHR 0xC3, CHR 0xAA] @ ''n kh'' @ [CHR 0xC3, CHR 0xB4] @
       ''ng x'' @ [CHR 0xC3, CHR 0xA1] @ ''c '' @
       [CHR 0xC4, CHR 0x91, CHR 0xE1, CHR 0xBB, CHR 0x8B] @ ''nh '' @
       [CHR 0xC4, CHR 0x91, CHR 0xC6, CHR 0xB0, CHR 0xE1, CHR 0xBB, CHR 0xA3] @
       ''c c'' @ [CHR 0xE1, CHR 0xBB, CHR 0xA5] @ ''m '' @
       [CHR 0xC4, CHR 0x91, CHR 0xC3, CHR 0xAD] @ ''ch.'')
      | Some i \<Rightarrow>
          (let parameter =
             (if truthy (dget params ''_cluster_id'') then
                (let bound = (case in_cluster_id i of Some c \<Rightarrow> Some c
                              | None \<Rightarrow> map_option cl_id (stored_default st)) in
                 if py_str (dget params ''_cluster_id'') \<noteq> (case bound of None \<Rightarrow> ''None'' | Some b \<Rightarrow> b)
                 then Some ((''Tham s'' @ [CHR 0xE1, CHR 0xBB, CHR 0x91] @ '' _cluster_id ('') @ py_str (dget params ''_cluster_id'')
                       @ ('') kh'' @ [CHR 0xC3, CHR 0xA1] @ ''c c'' @ [CHR 0xE1, CHR 0xBB, CHR 0xA5] @
       ''m c'' @ [CHR 0xE1, CHR 0xBB, CHR 0xA7] @ ''a s'' @
       [CHR 0xE1, CHR 0xBB, CHR 0xB1] @ '' c'' @ [CHR 0xE1, CHR 0xBB, CHR 0x91] @ '' ('')
                       @ (if opt_truthy bound then or_empty bound else (''m'' @ [CHR 0xE1, CHR 0xBA, CHR 0xB7] @ ''c '' @
       [CHR 0xC4, CHR 0x91, CHR 0xE1, CHR 0xBB, CHR 0x8B] @ ''nh''))
                       @ (''); kh'' @ [CHR 0xC3, CHR 0xB4] @ ''ng th'' @ [CHR 0xE1, CHR 0xBB, CHR 0xB1] @
       ''c thi.''))
                 else None)
              else None) in
           case in_cluster_id i of
             None \<Rightarrow> parameter
           | Some cid \<Rightarrow>
               (case get_cluster st cid of
                  None \<Rightarrow> Some ((''C'' @ [CHR 0xE1, CHR 0xBB, CHR 0xA5] @ ''m '') @ cid @
                     ('' c'' @ [CHR 0xE1, CHR 0xBB, CHR 0xA7] @ ''a s'' @
       [CHR 0xE1, CHR 0xBB, CHR 0xB1] @ '' c'' @ [CHR 0xE1, CHR 0xBB, CHR 0x91] @
       '' kh'' @ [CHR 0xC3, CHR 0xB4] @ ''ng c'' @ [CHR 0xC3, CHR 0xB2] @ ''n t'' @
       [CHR 0xE1, CHR 0xBB, CHR 0x93] @ ''n t'' @ [CHR 0xE1, CHR 0xBA, CHR 0xA1] @
       ''i; kh'' @ [CHR 0xC3, CHR 0xB4] @ ''ng th'' @ [CHR 0xE1, CHR 0xBB, CHR 0xB1] @
       ''c thi thay b'' @ [CHR 0xE1, CHR 0xBA, CHR 0xB1] @ ''ng c'' @
       [CHR 0xE1, CHR 0xBB, CHR 0xA5] @ ''m m'' @ [CHR 0xE1, CHR 0xBA, CHR 0xB7] @
       ''c '' @ [CHR 0xC4, CHR 0x91, CHR 0xE1, CHR 0xBB, CHR 0x8B] @ ''nh.''))
                | Some c \<Rightarrow>
                    if \<not> cl_is_active c
                    then Some ((''C'' @ [CHR 0xE1, CHR 0xBB, CHR 0xA5] @ ''m '') @ cl_name c @ ('' '' @ [CHR 0xC4, CHR 0x91, CHR 0xC3, CHR 0xA3] @ '' b'' @
       [CHR 0xE1, CHR 0xBB, CHR 0x8B] @ '' t'' @ [CHR 0xE1, CHR 0xBA, CHR 0xAF] @
       ''t sau khi h'' @ [CHR 0xC3, CHR 0xA0] @ ''nh '' @
       [CHR 0xC4, CHR 0x91, CHR 0xE1, CHR 0xBB, CHR 0x99] @ ''ng '' @
       [CHR 0xC4, CHR 0x91, CHR 0xC6, CHR 0xB0, CHR 0xE1, CHR 0xBB, CHR 0xA3] @
       ''c duy'' @ [CHR 0xE1, CHR 0xBB, CHR 0x87] @ ''t.''))
                    else parameter)))"

section \<open>Remote commands\<close>

text \<open>The alert a recorded result sends, and the one of a failed upgrade.\<close>

record remediation_alert =
  ra_ceph_code :: string
  ra_diagnosis_text :: "string option"
  ra_rationale :: "string option"
  ra_command :: "string option"
  ra_succeeded :: bool
  ra_action_id :: string
  ra_target_nodes :: "json_text option"
  ra_channel :: "(string \<times> string \<times> bool) option"

record update_failure_alert =
  uf_ceph_code :: string
  uf_diagnosis_text :: "string option"
  uf_failures :: string
  uf_rollback_summary :: string
  uf_cluster_name :: "string option"
  uf_channel :: "(string \<times> string \<times> bool) option"

text \<open>
  The effects outside the database, oldest first: a command run on a host as a user with a key, an
  entry removed from the query cache, an alert handed to the notifier.
\<close>

datatype effect =
    Ran string string string string
  | Invalidated string string
  | Alerted remediation_alert
  | UpdateFailed update_failure_alert

record exec_state =
  xs_store :: store
  xs_trace :: "effect list"

text \<open>
  \<open>xw_reply n host command\<close> is the answer of the command run after \<open>n\<close> effects: the error text of an
  \<open>ExecutorError\<close>, or the output.  \<open>xw_refusal\<close> gives the text of a refused command,
  \<open>xw_json\<close> and \<open>xw_datetime\<close> read a text (\<open>json.loads\<close>, \<open>datetime.fromisoformat\<close> brought to UTC), \<open>xw_trash\<close> is the live RBD trash of a
  pool, \<open>None\<close> where the query fails.  An orchestrator of another module gets the stored
  action, its parameters and targets, and returns the verdict, the command and the output.
\<close>

record exec_world =
  xw_settings :: worker_settings
  xw_policy :: pyval
  xw_commands :: command_world
  xw_reply :: "nat \<Rightarrow> string \<Rightarrow> string \<Rightarrow> string + string"
  xw_refusal :: "string \<Rightarrow> string \<Rightarrow> pyval \<Rightarrow> string"
  xw_json :: "string \<Rightarrow> json_text"
  xw_datetime :: "string \<Rightarrow> time option"
  xw_under_tmp :: "string \<Rightarrow> bool"
  xw_trash :: "string \<Rightarrow> pyval list option"
  xw_orchestrator :: "string \<Rightarrow> string \<Rightarrow> pyval \<Rightarrow> string list \<Rightarrow> exec_state
     \<Rightarrow> (bool \<times> string option \<times> string option) \<times> exec_state"

definition add_effect :: "effect \<Rightarrow> exec_state \<Rightarrow> exec_state" where
  "add_effect x s = s\<lparr>xs_trace := xs_trace s @ [x]\<rparr>"

definition on_store :: "(store \<Rightarrow> store) \<Rightarrow> exec_state \<Rightarrow> exec_state" where
  "on_store f s = s\<lparr>xs_store := f (xs_store s)\<rparr>"

definition execute_command ::
  "exec_world \<Rightarrow> ssh_creds \<Rightarrow> string \<Rightarrow> string \<Rightarrow> exec_state \<Rightarrow> (string + string) \<times> exec_state" where
  "execute_command w creds host command s =
     (xw_reply w (length (xs_trace s)) host command,
      add_effect (Ran host command (sc_user creds) (sc_key_path creds)) s)"

definition write_action_progress :: "env \<Rightarrow> string \<Rightarrow> pyval list \<Rightarrow> exec_state \<Rightarrow> exec_state" where
  "write_action_progress e action_pk progress =
     on_store (edit_action e action_pk
       (\<lambda>r. r\<lparr>ac_execution_progress := Some (JText (PList progress))\<rparr>))"

text \<open>\<open>d[k] = v\<close>, and \<open>d.update(...)\<close>, on a progress entry.\<close>

fun set_item :: "(pyval \<times> pyval) list \<Rightarrow> pyval \<Rightarrow> pyval \<Rightarrow> (pyval \<times> pyval) list" where
  "set_item [] k v = [(k, v)]"
| "set_item ((k', v') # kvs) k v = (if k' = k then (k, v) # kvs else (k', v') # set_item kvs k v)"

definition set_key :: "string \<Rightarrow> pyval \<Rightarrow> pyval \<Rightarrow> pyval" where
  "set_key k v d = PDict (set_item (items_of d) (PStr k) v)"

definition set_keys :: "(string \<times> pyval) list \<Rightarrow> pyval \<Rightarrow> pyval" where
  "set_keys kvs d = fold (\<lambda>(k, v). set_key k v) kvs d"

definition stamp :: "env \<Rightarrow> pyval" where
  "stamp e = PStr (isoformat (ev_now e))"

section \<open>The display of trashed volumes\<close>

text \<open>\<open>round(q, 2)\<close> in hundredths; the tie goes to the even neighbour.\<close>

definition round_hundredths :: "rat \<Rightarrow> int" where
  "round_hundredths q =
     (let x = 100 * q; f = floor x; d = x - of_int f in
      if d < 1/2 then f else if d > 1/2 then f + 1 else if even f then f else f + 1)"

definition trash_values ::
  "exec_world \<Rightarrow> string \<Rightarrow> pyval \<Rightarrow> (rbd_trash_usage \<Rightarrow> rbd_trash_usage) option" where
  "trash_values w img snapshot =
     (case (py_int (dget snapshot ''provisioned_size_bytes''), py_int (dget snapshot ''used_size_bytes''),
            xw_datetime w (py_str (dget snapshot ''observed_at''))) of
        (Some p, Some u, Some t) \<Rightarrow>
          (let provisioned = max 0 p; used = max 0 u in
           Some (\<lambda>r. r\<lparr>ru_image := img, ru_provisioned_size_bytes := provisioned,
             ru_used_size_bytes := used,
             ru_used_percent := (if provisioned \<noteq> 0
               then round_hundredths (of_int used * 100 / of_int provisioned) else 0),
             ru_observed_at := t\<rparr>))
      | _ \<Rightarrow> None)"

text \<open>The rows of the answer; an \<open>images\<close> field that cannot be iterated raises.\<close>

definition moved_entry :: "pyval \<Rightarrow> string \<Rightarrow> py_exn + pyval option" where
  "moved_entry payload img =
     (case iterate (if is_list payload then payload
                    else if is_dict payload then dget_default payload ''images'' (PList [])
                    else PList []) of
        Inl _ \<Rightarrow> Inl TypeError
      | Inr rows \<Rightarrow> Inr (find (\<lambda>row. is_dict row \<and> dget row ''name'' = PStr img) rows))"

definition store_trash_usage ::
  "env \<Rightarrow> string \<Rightarrow> string \<Rightarrow> string \<Rightarrow> (rbd_trash_usage \<Rightarrow> rbd_trash_usage) \<Rightarrow> store \<Rightarrow> store" where
  "store_trash_usage e cid pool trash_id f st =
     (let mine = (\<lambda>r. ru_cluster_id r = cid \<and> ru_pool r = pool \<and> ru_trash_id r = trash_id) in
      if list_ex mine (st_trash st)
      then st\<lparr>st_trash := map (\<lambda>r. if mine r then f r else r) (st_trash st)\<rparr>
      else (let (uid, st1) = draw e st in
            st1\<lparr>st_trash := st_trash st1 @
              [f \<lparr>ru_id = uid, ru_cluster_id = cid, ru_pool = pool, ru_trash_id = trash_id,
                  ru_image = [], ru_provisioned_size_bytes = 0, ru_used_size_bytes = 0,
                  ru_used_percent = 0, ru_observed_at = 0, ru_created_at = ev_now e\<rparr>]\<rparr>))"

definition stored_params :: "action_row \<Rightarrow> pyval option" where
  "stored_params a =
     (case ac_action_params a of None \<Rightarrow> Some (PDict []) | Some JMalformed \<Rightarrow> None
      | Some (JText v) \<Rightarrow> Some v)"

definition persist_rbd_trash_usage ::
  "env \<Rightarrow> exec_world \<Rightarrow> action_row \<Rightarrow> incident option \<Rightarrow> string option \<Rightarrow> store \<Rightarrow> py_exn + store" where
  "persist_rbd_trash_usage e w a inc output st =
     (case (inc, stored_params a, xw_json w (or_empty output)) of
        (Some i, Some params, JText payload) \<Rightarrow>
          (let snapshot = dget params ''trash_usage'' in
           if \<not> opt_truthy (in_cluster_id i) \<or> \<not> is_dict params \<or> \<not> is_dict snapshot then Inr st
           else (case dget params ''image'' of
               PStr img \<Rightarrow>
                 (case (moved_entry payload img, dget params ''pool_name'', trash_values w img snapshot) of
                      (Inl x, _, _) \<Rightarrow> Inl x
                    | (Inr (Some entry), PStr pool, Some f) \<Rightarrow>
                        Inr (if truthy (dget entry ''id'') \<and> pool \<noteq> []
                             then store_trash_usage e (or_empty (in_cluster_id i)) pool
                                    (py_str (dget entry ''id'')) f st
                             else st)
                    | _ \<Rightarrow> Inr st)
             | _ \<Rightarrow> Inr st))
      | _ \<Rightarrow> Inr st)"

text \<open>The pool and the ids whose rows a purge or a restore removes, \<open>None\<close> for nothing.\<close>

definition removed_trash :: "action_row \<Rightarrow> (pyval \<times> string list) option" where
  "removed_trash a =
     (case stored_params a of
        None \<Rightarrow> None
      | Some params \<Rightarrow>
          if ac_action_id a \<in> {''rbd_trash_remove'', ''rbd_trash_restore_volume''} then
            Some (dget params ''pool_name'',
                  case dget params ''trash_id'' of PStr t \<Rightarrow> if t \<noteq> [] then [t] else [] | _ \<Rightarrow> [])
          else if ac_action_id a = ''rbd_trash_purge_all'' then
            Some (dget params ''pool_name'', map py_str (elems_of (dget params ''trash_ids'')))
          else None)"

definition delete_rbd_trash_usage :: "action_row \<Rightarrow> incident option \<Rightarrow> store \<Rightarrow> store" where
  "delete_rbd_trash_usage a inc st =
     (case (inc, removed_trash a) of
        (Some i, Some (PStr pool, ids)) \<Rightarrow>
          if opt_truthy (in_cluster_id i) \<and> pool \<noteq> [] then
            st\<lparr>st_trash := filter (\<lambda>r. \<not> (ru_cluster_id r = or_empty (in_cluster_id i)
                 \<and> ru_pool r = pool \<and> ru_trash_id r \<in> set ids)) (st_trash st)\<rparr>
          else st
      | _ \<Rightarrow> st)"

section \<open>Recording the result\<close>

text \<open>The message a node command leaves in the conversation that proposed it.\<close>

definition result_block :: "pyval \<Rightarrow> string option" where
  "result_block item =
     (let host = py_str (dget_default item ''host'' (PStr ''node'')) in
      if dget item ''status'' = PStr ''done'' then
        Some ((''K'' @ [CHR 0xE1, CHR 0xBA, CHR 0xBF] @ ''t qu'' @
       [CHR 0xE1, CHR 0xBA, CHR 0xA3] @ '' tr'' @ [CHR 0xC3, CHR 0xAA] @ ''n '') @ host @ '':'' @ [CHR 0x0A]
          @ py_str (por (dget item ''output'') (PStr (''(l'' @ [CHR 0xE1, CHR 0xBB, CHR 0x87] @ ''nh ho'' @ [CHR 0xC3, CHR 0xA0] @
       ''n t'' @ [CHR 0xE1, CHR 0xBA, CHR 0xA5] @ ''t, kh'' @ [CHR 0xC3, CHR 0xB4] @
       ''ng c'' @ [CHR 0xC3, CHR 0xB3] @ '' output)''))))
      else if dget item ''status'' = PStr ''failed'' then
        Some ((''L'' @ [CHR 0xE1, CHR 0xBB, CHR 0x87] @ ''nh th'' @
       [CHR 0xE1, CHR 0xBA, CHR 0xA5] @ ''t b'' @ [CHR 0xE1, CHR 0xBA, CHR 0xA1] @
       ''i tr'' @ [CHR 0xC3, CHR 0xAA] @ ''n '') @ host @ '':'' @ [CHR 0x0A]
          @ py_str (por (dget item ''error'') (PStr (''Kh'' @ [CHR 0xC3, CHR 0xB4] @ ''ng r'' @ [CHR 0xC3, CHR 0xB5] @ '' l'' @
       [CHR 0xE1, CHR 0xBB, CHR 0x97] @ ''i''))))
      else None)"

definition result_content :: "json_text option \<Rightarrow> string" where
  "result_content raw =
     (let blocks = List.map_filter result_block
            (elems_of (case raw of Some (JText v) \<Rightarrow> v | _ \<Rightarrow> PList []));
          text = join [CHR 0x0A, CHR 0x0A] blocks in
      if text \<noteq> [] then text
      else (''Worker '' @ [CHR 0xC4, CHR 0x91, CHR 0xC3, CHR 0xA3] @ '' k'' @
       [CHR 0xE1, CHR 0xBA, CHR 0xBF] @ ''t th'' @ [CHR 0xC3, CHR 0xBA] @ ''c nh'' @
       [CHR 0xC6, CHR 0xB0] @ ''ng kh'' @ [CHR 0xC3, CHR 0xB4] @ ''ng ghi nh'' @
       [CHR 0xE1, CHR 0xBA, CHR 0xAD] @ ''n '' @
       [CHR 0xC4, CHR 0x91, CHR 0xC6, CHR 0xB0, CHR 0xE1, CHR 0xBB, CHR 0xA3] @
       ''c k'' @ [CHR 0xE1, CHR 0xBA, CHR 0xBF] @ ''t qu'' @
       [CHR 0xE1, CHR 0xBA, CHR 0xA3] @ '' l'' @ [CHR 0xE1, CHR 0xBB, CHR 0x87] @ ''nh.''))"

definition post_result_message :: "env \<Rightarrow> string \<Rightarrow> string \<Rightarrow> store \<Rightarrow> store" where
  "post_result_message e incident_id content st =
     (case find (\<lambda>m. ch_proposed_incident_id m = Some incident_id
              \<and> ch_proposed_action_id m = Some ''execute_node_command'') (st_chat st) of
        None \<Rightarrow> st
      | Some source \<Rightarrow>
          if list_ex (\<lambda>m. ch_proposed_incident_id m = Some incident_id
                \<and> ch_proposed_status m = Some ''RESULT'') (st_chat st) then st
          else (let (uid, st1) = draw e st in
            st1\<lparr>st_chat := st_chat st1 @
              [\<lparr>ch_id = uid, ch_session_id = ch_session_id source, ch_role = ''assistant'',
                ch_content = content, ch_actor = ch_actor source, ch_proposed_action_id = None,
                ch_proposed_status = Some ''RESULT'', ch_proposed_incident_id = Some incident_id,
                ch_created_at = ev_now e\<rparr>]\<rparr>))"

definition rbd_cached_action_ids :: "string list" where
  "rbd_cached_action_ids =
     [''rbd_create_volume'', ''rbd_resize_volume'', ''rbd_rename_volume'', ''rbd_clone_volume'',
      ''rbd_flatten_volume'', ''rbd_template_mark'', ''rbd_qos_set'', ''rbd_trash_move_volume'',
      ''rbd_trash_restore_volume'', ''rbd_trash_remove'', ''rbd_trash_purge_all'', ''rbd_move_volume'']"

definition invalidations :: "store \<Rightarrow> action_row \<Rightarrow> incident option \<Rightarrow> effect list" where
  "invalidations st a inc =
     (let params = (case stored_params a of None \<Rightarrow> PDict [] | Some v \<Rightarrow> v);
          pools = sorted_set [p. k \<leftarrow> [''pool_name'', ''dest_pool''],
                                 p \<leftarrow> (case dget params k of PStr s \<Rightarrow> if s \<noteq> [] then [s] else [] | _ \<Rightarrow> [])];
          cid = (case inc of Some i \<Rightarrow> (case in_cluster_id i of Some c \<Rightarrow> Some c
                                        | None \<Rightarrow> map_option cl_id (stored_default st))
                 | None \<Rightarrow> map_option cl_id (stored_default st)) in
      if ac_action_id a \<notin> set rbd_cached_action_ids then []
      else case cid of None \<Rightarrow> []
        | Some c \<Rightarrow> [Invalidated ns (c @ '':'' @ p). p \<leftarrow> pools,
                      ns \<leftarrow> [''rbd-trash'', ''rbd-inventory'', ''rbd-iostat'']])"

definition telegram_channel :: "cluster option \<Rightarrow> (string \<times> string \<times> bool) option" where
  "telegram_channel cl =
     (case cl of
        Some c \<Rightarrow> if cl_telegram_bot_token c \<noteq> [] \<and> cl_telegram_chat_id c \<noteq> []
                  then Some (cl_telegram_bot_token c, cl_telegram_chat_id c, cl_telegram_enabled c)
                  else None
      | None \<Rightarrow> None)"

definition cluster_of :: "store \<Rightarrow> incident \<Rightarrow> cluster option" where
  "cluster_of st i = (case in_cluster_id i of None \<Rightarrow> None | Some c \<Rightarrow> get_cluster st c)"

definition recorded_row :: "env \<Rightarrow> string option \<Rightarrow> bool \<Rightarrow> action_row \<Rightarrow> action_row" where
  "recorded_row e command succeeded r =
     (let r1 = (if command \<noteq> None then r\<lparr>ac_proposed_command := command\<rparr> else r) in
      if succeeded then r1\<lparr>ac_status := AS_EXECUTED, ac_executed_at := Some (ev_now e)\<rparr>
      else r1\<lparr>ac_status := AS_FAILED\<rparr>)"

text \<open>
  What the result makes of the incident: FAILED; RESOLVED where a monitor owns the code; otherwise
  VERIFYING until the check that is due after the delay.
\<close>

definition close_incident ::
  "env \<Rightarrow> int \<Rightarrow> bool \<Rightarrow> incident \<Rightarrow> store \<Rightarrow> store" where
  "close_incident e verify_delay succeeded i st =
     (if \<not> succeeded then edit_incident e (in_id i) (incident_to e IS_FAILED) st
      else if is_monitor_owned (in_ceph_code i) then
        record_verified e (in_id i) True (ev_now e) (doc [(''verified_by'', PStr ''owning_monitor'')])
          (edit_incident e (in_id i) (incident_to e IS_RESOLVED) st)
      else edit_incident e (in_id i)
             (\<lambda>r. (incident_to e IS_VERIFYING r)
                \<lparr>in_verify_after := Some (ev_now e + seconds (max 0 verify_delay))\<rparr>) st)"

definition result_alert ::
  "store \<Rightarrow> incident \<Rightarrow> action_row \<Rightarrow> string option \<Rightarrow> bool \<Rightarrow> effect" where
  "result_alert st i a command succeeded =
     Alerted \<lparr>ra_ceph_code = in_ceph_code i, ra_diagnosis_text = in_diagnosis_text i,
       ra_rationale = ac_rationale a, ra_command = command, ra_succeeded = succeeded,
       ra_action_id = ac_action_id a, ra_target_nodes = ac_target_nodes a,
       ra_channel = telegram_channel (cluster_of st i)\<rparr>"

text \<open>The transaction, and the effects after its commit; an exception rolls it back.\<close>

definition recorded_store ::
  "env \<Rightarrow> exec_world \<Rightarrow> action_row \<Rightarrow> incident option \<Rightarrow> string option \<Rightarrow> bool \<Rightarrow> store \<Rightarrow> store" where
  "recorded_store e w a inc command succeeded st =
     (let st1 = record_execution e (ac_id a) succeeded (Some (ev_now e)) st;
          st2 = (case inc of None \<Rightarrow> st1
                 | Some i \<Rightarrow>
                     audit_record e (in_id i) (Some (ac_id a))
                       (if succeeded then ''risky_action_executed'' else ''risky_action_failed'')
                       actor_system None
                       (close_incident e (ws_incident_verify_delay_seconds (xw_settings w)) succeeded i st1))
      in if ac_action_id a = ''execute_node_command''
         then post_result_message e (ac_incident_id a) (result_content (ac_execution_progress a)) st2
         else st2)"

definition record_approved_execution_result ::
  "env \<Rightarrow> exec_world \<Rightarrow> string \<Rightarrow> string option \<Rightarrow> bool \<Rightarrow> string option \<Rightarrow> exec_state
     \<Rightarrow> py_exn option \<times> exec_state" where
  "record_approved_execution_result e w action_pk command succeeded output s =
     (let st = xs_store s in
      case get_action st action_pk of
        None \<Rightarrow> (None, s)
      | Some a \<Rightarrow>
          (let inc = get_incident st (ac_incident_id a);
               st1 = edit_action e action_pk (recorded_row e command succeeded) st;
               usage = (if \<not> succeeded then Inr st1
                        else if ac_action_id a = ''rbd_trash_move_volume''
                        then persist_rbd_trash_usage e w a inc output st1
                        else Inr (delete_rbd_trash_usage a inc st1)) in
           case usage of
             Inl x \<Rightarrow> (Some x, s)
           | Inr st2 \<Rightarrow>
               (None,
                s\<lparr>xs_store := recorded_store e w a inc command succeeded st2,
                  xs_trace := xs_trace s @ (if succeeded then invalidations st a inc else [])
                    @ (case inc of None \<Rightarrow> []
                       | Some i \<Rightarrow> [result_alert st i a command succeeded])\<rparr>)))"

definition notify_update_failure ::
  "string \<Rightarrow> string list \<Rightarrow> string \<Rightarrow> cluster option \<Rightarrow> exec_state \<Rightarrow> exec_state" where
  "notify_update_failure incident_id failures rollback_summary cl s =
     (let inc = get_incident (xs_store s) incident_id in
      add_effect (UpdateFailed
        \<lparr>uf_ceph_code = (case inc of None \<Rightarrow> ''CLUSTER_UPGRADE'' | Some i \<Rightarrow> in_ceph_code i),
         uf_diagnosis_text = (case inc of None \<Rightarrow> None | Some i \<Rightarrow> in_diagnosis_text i),
         uf_failures = join ''; '' failures, uf_rollback_summary = rollback_summary,
         uf_cluster_name = map_option cl_name cl, uf_channel = telegram_channel cl\<rparr>) s)"

end
