(* ===== verification/PackageUpgrade.thy ===== *)
theory PackageUpgrade
  imports Remote
begin

text \<open>
  The package upgrade of a cluster (\<open>_execute_package_upgrade_action\<close> of
  \<open>worker/llm/router_client.py\<close>): maintenance flags, the installation on every host, the restarts by
  role, the removal of the flags, the closing release command.  The progress entries the phases
  share by reference are addressed by their position in the list.  An exception other than
  \<open>ExecutorError\<close> ends the phases and escapes after the flags are removed.
\<close>

section \<open>The run\<close>

record upgrade_run =
  ur_exec :: exec_state
  ur_progress :: "pyval list"
  ur_executed_any :: bool
  ur_all_succeeded :: bool
  ur_last_command :: "string option"
  ur_failed_install_hosts :: "string list"
  ur_aborted :: bool
  ur_failures :: "string list"

text \<open>What every step of an upgrade uses: the action, its parameters and the cluster.\<close>

record upgrade_job =
  uj_pk :: string
  uj_action_id :: string
  uj_params :: pyval
  uj_incident_id :: string
  uj_cluster :: "cluster option"

definition save_progress :: "env \<Rightarrow> upgrade_job \<Rightarrow> upgrade_run \<Rightarrow> upgrade_run" where
  "save_progress e j u =
     u\<lparr>ur_exec := write_action_progress e (uj_pk j) (ur_progress u) (ur_exec u)\<rparr>"

definition update_entry :: "nat \<Rightarrow> (string \<times> pyval) list \<Rightarrow> upgrade_run \<Rightarrow> upgrade_run" where
  "update_entry k kvs u = u\<lparr>ur_progress := (ur_progress u)[k := set_keys kvs (ur_progress u ! k)]\<rparr>"

text \<open>The entry of a step: the prepared one, or a new one at the end.\<close>

definition put_entry ::
  "string \<Rightarrow> string \<Rightarrow> nat option \<Rightarrow> (string \<times> pyval) list \<Rightarrow> upgrade_run \<Rightarrow> nat \<times> upgrade_run" where
  "put_entry host phase place kvs u =
     (case place of
        Some k \<Rightarrow> (k, update_entry k kvs u)
      | None \<Rightarrow> (length (ur_progress u),
          u\<lparr>ur_progress := ur_progress u @
             [doc ([(''host'', PStr host), (''phase'', PStr phase)] @ kvs)]\<rparr>))"

text \<open>\<open>resolve_ssh_creds(None)\<close> are the settings that \<open>execute_command\<close> falls back to.\<close>

definition run_on_host ::
  "exec_world \<Rightarrow> upgrade_job \<Rightarrow> string \<Rightarrow> string \<Rightarrow> upgrade_run \<Rightarrow> (string + string) \<times> upgrade_run" where
  "run_on_host w j host command u =
     (let (r, s) = execute_command w (resolve_ssh_creds (xw_settings w) (uj_cluster j)) host command (ur_exec u)
      in (r, u\<lparr>ur_exec := s\<rparr>))"

definition failed_step :: "string \<Rightarrow> string \<Rightarrow> string \<Rightarrow> upgrade_run \<Rightarrow> upgrade_run" where
  "failed_step host phase error u =
     u\<lparr>ur_all_succeeded := False, ur_aborted := True,
       ur_failures := ur_failures u @ [''Node '' @ host @ ('', b'' @ [CHR 0xC6, CHR 0xB0, CHR 0xE1, CHR 0xBB, CHR 0x9B] @ ''c '') @ phase @ '': '' @ error]\<rparr>"

section \<open>Steps on a monitor host\<close>

text \<open>A best-effort command with an entry of its own: the flags, and the release.\<close>

definition side_step ::
  "env \<Rightarrow> exec_world \<Rightarrow> upgrade_job \<Rightarrow> string \<Rightarrow> string \<Rightarrow> upgrade_run \<Rightarrow> upgrade_run" where
  "side_step e w j host command u =
     (let k = length (ur_progress u);
          u1 = save_progress e j (u\<lparr>ur_progress := ur_progress u @
                 [doc [(''host'', PStr host), (''status'', PStr ''running''),
                       (''command'', PStr command), (''started_at'', stamp e)]]\<rparr>);
          (r, u2) = run_on_host w j host command u1
      in save_progress e j (update_entry k
           ((case r of Inl error \<Rightarrow> [(''status'', PStr ''failed''), (''error'', PStr error)]
             | Inr _ \<Rightarrow> [(''status'', PStr ''done'')]) @ [(''finished_at'', stamp e)]) u2))"

definition set_flags_command :: string where
  "set_flags_command = join '' && '' (map (\<lambda>flag. ''ceph osd set '' @ flag) upgrade_osd_flags)"

definition unset_flags_command :: string where
  "unset_flags_command = join ''; '' (map (\<lambda>flag. ''ceph osd unset '' @ flag) upgrade_osd_flags)"

definition set_upgrade_osd_flags ::
  "env \<Rightarrow> exec_world \<Rightarrow> upgrade_job \<Rightarrow> string \<Rightarrow> upgrade_run \<Rightarrow> upgrade_run" where
  "set_upgrade_osd_flags e w j mon_host = side_step e w j mon_host set_flags_command"

definition unset_upgrade_osd_flags ::
  "env \<Rightarrow> exec_world \<Rightarrow> upgrade_job \<Rightarrow> string \<Rightarrow> upgrade_run \<Rightarrow> upgrade_run" where
  "unset_upgrade_osd_flags e w j mon_host = side_step e w j mon_host unset_flags_command"

definition finalize_package_upgrade_osd_release ::
  "env \<Rightarrow> exec_world \<Rightarrow> upgrade_job \<Rightarrow> upgrade_run \<Rightarrow> upgrade_run" where
  "finalize_package_upgrade_osd_release e w j u =
     (case (case dget (uj_params j) ''target_version'' of
              PStr v \<Rightarrow> if v = [] then None else codename_for_version v | _ \<Rightarrow> None) of
        None \<Rightarrow> u
      | Some codename \<Rightarrow>
          (case mon_nodes (xw_settings w) (uj_cluster j) of
             [] \<Rightarrow> u
           | mon_host # _ \<Rightarrow>
               if codename = [] then u
               else side_step e w j mon_host (''ceph osd require-osd-release '' @ codename) u))"

section \<open>The phases\<close>

definition role_restart_phases :: "(string \<times> string \<times> string list) list" where
  "role_restart_phases =
     [(''mon'', ''MON'', [''mon'']), (''mgr'', ''MGR'', [''mgr'']), (''osd'', ''OSD'', [''osd''])]"

definition nothing_to_restart_message :: string where
  "nothing_to_restart_message = (''Kh'' @ [CHR 0xC3, CHR 0xB4] @ ''ng t'' @ [CHR 0xC3, CHR 0xAC] @ ''m th'' @
       [CHR 0xE1, CHR 0xBA, CHR 0xA5] @ ''y systemd unit n'' @ [CHR 0xC3, CHR 0xA0] @
       ''o c'' @ [CHR 0xE1, CHR 0xBA, CHR 0xA7] @ ''n kh'' @
       [CHR 0xE1, CHR 0xBB, CHR 0x9F] @ ''i '' @
       [CHR 0xC4, CHR 0x91, CHR 0xE1, CHR 0xBB, CHR 0x99] @ ''ng l'' @
       [CHR 0xE1, CHR 0xBA, CHR 0xA1] @ ''i tr'' @ [CHR 0xC3, CHR 0xAA] @ ''n node n'' @
       [CHR 0xC3, CHR 0xA0] @ ''y'')"

definition install_failed_skip_message :: string where
  "install_failed_skip_message = (''B'' @ [CHR 0xE1, CHR 0xBB, CHR 0x8F] @ '' qua v'' @ [CHR 0xC3, CHR 0xAC] @
       '' c'' @ [CHR 0xC3, CHR 0xA0] @ ''i '' @
       [CHR 0xC4, CHR 0x91, CHR 0xE1, CHR 0xBA, CHR 0xB7] @ ''t g'' @
       [CHR 0xC3, CHR 0xB3] @ ''i th'' @ [CHR 0xE1, CHR 0xBA, CHR 0xA5] @ ''t b'' @
       [CHR 0xE1, CHR 0xBA, CHR 0xA1] @ ''i tr'' @ [CHR 0xC3, CHR 0xAA] @ ''n node n'' @
       [CHR 0xC3, CHR 0xA0] @ ''y'')"

definition upgrade_aborted_skip_message :: string where
  "upgrade_aborted_skip_message = (''B'' @ [CHR 0xE1, CHR 0xBB, CHR 0x8F] @ '' qua '' @
       [CHR 0xC4, CHR 0x91, CHR 0xE1, CHR 0xBB, CHR 0x83] @ '' b'' @
       [CHR 0xE1, CHR 0xBA, CHR 0xA3] @ ''o v'' @ [CHR 0xE1, CHR 0xBB, CHR 0x87] @
       '' c'' @ [CHR 0xE1, CHR 0xBB, CHR 0xA5] @ ''m sau khi m'' @
       [CHR 0xE1, CHR 0xBB, CHR 0x99] @ ''t b'' @
       [CHR 0xC6, CHR 0xB0, CHR 0xE1, CHR 0xBB, CHR 0x9B] @ ''c c'' @
       [CHR 0xE1, CHR 0xBA, CHR 0xAD] @ ''p nh'' @ [CHR 0xE1, CHR 0xBA, CHR 0xAD] @
       ''t th'' @ [CHR 0xE1, CHR 0xBA, CHR 0xA5] @ ''t b'' @
       [CHR 0xE1, CHR 0xBA, CHR 0xA1] @ ''i'')"

text \<open>\<open>dict(action_params, _phase=...)\<close> needs a dictionary.\<close>

definition phase_command ::
  "exec_world \<Rightarrow> upgrade_job \<Rightarrow> string \<Rightarrow> (string \<times> pyval) list \<Rightarrow> (py_exn + string) + string" where
  "phase_command w j host kvs =
     (let params = set_keys kvs (uj_params j) in
      if \<not> is_dict (uj_params j) then Inl (Inl TypeError)
      else case get_command (xw_commands w) (uj_action_id j) (Some host) params None [] of
        Inl (Raises x) \<Rightarrow> Inl (Inl x)
      | Inl ExecutorError \<Rightarrow> Inl (Inr (xw_refusal w (uj_action_id j) host params))
      | Inr command \<Rightarrow> Inr command)"

definition install_params :: "(string \<times> pyval) list" where
  "install_params = [(''_phase'', PStr ''install_only'')]"

text \<open>The command of a step, run with its entry at position \<open>k\<close> already shown as running.\<close>

definition run_step ::
  "env \<Rightarrow> exec_world \<Rightarrow> upgrade_job \<Rightarrow> string \<Rightarrow> string \<Rightarrow> string \<Rightarrow> nat \<Rightarrow> upgrade_run
     \<Rightarrow> bool \<times> upgrade_run" where
  "run_step e w j host phase command k u =
     (let (r, u1) = run_on_host w j host command u; u2 = u1\<lparr>ur_executed_any := True\<rparr> in
      case r of
        Inr _ \<Rightarrow>
          (True, save_progress e j (update_entry k
             [(''status'', PStr ''done''), (''finished_at'', stamp e)] u2))
      | Inl error \<Rightarrow>
          (False, save_progress e j (update_entry k
             [(''status'', PStr ''failed''), (''error'', PStr error), (''finished_at'', stamp e)]
             (failed_step host phase error u2))))"

definition install_host ::
  "env \<Rightarrow> exec_world \<Rightarrow> upgrade_job \<Rightarrow> string \<Rightarrow> nat \<Rightarrow> upgrade_run \<Rightarrow> py_exn option \<times> upgrade_run" where
  "install_host e w j host k u =
     (case phase_command w j host install_params of
        Inl (Inl x) \<Rightarrow> (Some x, u)
      | Inl (Inr error) \<Rightarrow>
          (None, save_progress e j (update_entry k
             [(''status'', PStr ''failed''), (''error'', PStr error)]
             (failed_step host ''install'' error
               (u\<lparr>ur_failed_install_hosts := host # ur_failed_install_hosts u\<rparr>))))
      | Inr command \<Rightarrow>
          (let u1 = save_progress e j (update_entry k
                 [(''status'', PStr ''running''), (''command'', PStr command), (''started_at'', stamp e)]
                 (u\<lparr>ur_last_command := Some command\<rparr>));
               (ok, u2) = run_step e w j host ''install'' command k u1
           in (None, if ok then u2
                     else u2\<lparr>ur_failed_install_hosts := host # ur_failed_install_hosts u2\<rparr>)))"

fun run_install_phase ::
  "env \<Rightarrow> exec_world \<Rightarrow> upgrade_job \<Rightarrow> (string \<times> nat) list \<Rightarrow> upgrade_run
     \<Rightarrow> py_exn option \<times> upgrade_run" where
  "run_install_phase e w j [] u = (None, u)"
| "run_install_phase e w j ((host, k) # rest) u =
     (case install_host e w j host k u of
        (Some x, u1) \<Rightarrow> (Some x, u1)
      | (None, u1) \<Rightarrow> if ur_aborted u1 then (None, u1) else run_install_phase e w j rest u1)"

definition discover_for_cluster ::
  "exec_world \<Rightarrow> upgrade_job \<Rightarrow> string \<Rightarrow> cmd_error + (string \<times> string list) list" where
  "discover_for_cluster w j host =
     (case uj_cluster j of
        None \<Rightarrow> discover_ceph_units (cw_listing (xw_commands w)) host PNone PNone
      | Some c \<Rightarrow>
          (let creds = resolve_ssh_creds (xw_settings w) (Some c) in
           discover_ceph_units (cw_listing (xw_commands w)) host (PStr (sc_user creds))
             (PStr (sc_key_path creds))))"

definition restart_params ::
  "exec_world \<Rightarrow> upgrade_job \<Rightarrow> string list \<Rightarrow> (string \<times> pyval) list" where
  "restart_params w j daemon_types =
     [(''_phase'', PStr ''restart_only''), (''_phase_daemon_types'', PList (map PStr daemon_types))]
     @ (case uj_cluster j of None \<Rightarrow> []
        | Some c \<Rightarrow>
            (let creds = resolve_ssh_creds (xw_settings w) (Some c) in
             [(''_ssh_user'', PStr (sc_user creds)), (''_ssh_key_path'', PStr (sc_key_path creds))]))"

definition closed_entry :: "env \<Rightarrow> string \<Rightarrow> string \<Rightarrow> (string \<times> pyval) list" where
  "closed_entry e status error =
     [(''status'', PStr status), (''error'', PStr error), (''started_at'', stamp e),
      (''finished_at'', stamp e)]"

definition restart_host ::
  "env \<Rightarrow> exec_world \<Rightarrow> upgrade_job \<Rightarrow> string \<Rightarrow> string list \<Rightarrow> string \<Rightarrow> nat option \<Rightarrow> upgrade_run
     \<Rightarrow> py_exn option \<times> upgrade_run" where
  "restart_host e w j phase daemon_types host place u =
     (if host \<in> set (ur_failed_install_hosts u) then
        (None, save_progress e j (snd (put_entry host phase place
           (if place = None then closed_entry e ''skipped'' install_failed_skip_message
            else [(''status'', PStr ''skipped''), (''error'', PStr install_failed_skip_message)]) u)))
      else case discover_for_cluster w j host of
        Inl (Raises x) \<Rightarrow> (Some x, u)
      | Inl ExecutorError \<Rightarrow>
          (let error = xw_refusal w ''discover'' host PNone in
           (None, save_progress e j (snd (put_entry host phase place (closed_entry e ''failed'' error)
              (failed_step host (phase @ ''/discover'') error u)))))
      | Inr discovered \<Rightarrow>
          if \<not> list_ex (\<lambda>t. map_of discovered t \<noteq> None \<and> map_of discovered t \<noteq> Some []) daemon_types
          then (None, if place = None then u
                      else save_progress e j (snd (put_entry host phase place
                        [(''status'', PStr ''skipped''), (''error'', PStr nothing_to_restart_message)] u)))
          else (case phase_command w j host (restart_params w j daemon_types) of
              Inl (Inl x) \<Rightarrow> (Some x, u)
            | Inl (Inr error) \<Rightarrow>
                (None, save_progress e j (snd (put_entry host phase place (closed_entry e ''failed'' error)
                   (failed_step host (phase @ ''/prepare'') error u))))
            | Inr command \<Rightarrow>
                (let (k, u1) = put_entry host phase place
                       [(''status'', PStr ''running''), (''command'', PStr command), (''started_at'', stamp e)]
                       (u\<lparr>ur_last_command := Some command\<rparr>)
                 in (None, snd (run_step e w j host (phase @ ''/restart'') command k (save_progress e j u1))))))"

fun run_restart_phase ::
  "env \<Rightarrow> exec_world \<Rightarrow> upgrade_job \<Rightarrow> string \<Rightarrow> string list \<Rightarrow> (string \<times> nat option) list \<Rightarrow> upgrade_run
     \<Rightarrow> py_exn option \<times> upgrade_run" where
  "run_restart_phase e w j phase daemon_types [] u = (None, u)"
| "run_restart_phase e w j phase daemon_types ((host, place) # rest) u =
     (if ur_aborted u then (None, u)
      else case restart_host e w j phase daemon_types host place u of
        (Some x, u1) \<Rightarrow> (Some x, u1)
      | (None, u1) \<Rightarrow> run_restart_phase e w j phase daemon_types rest u1)"

section \<open>The sequence\<close>

definition role_hosts :: "exec_world \<Rightarrow> upgrade_job \<Rightarrow> string list \<Rightarrow> string \<Rightarrow> string list" where
  "role_hosts w j nodes role =
     filter (\<lambda>h. case map_of (configured_nodes (xw_settings w) (uj_cluster j)) h of
                   None \<Rightarrow> False | Some roles \<Rightarrow> role \<in> set roles) nodes"

definition pending_entry :: "string \<Rightarrow> string \<Rightarrow> pyval" where
  "pending_entry phase host =
     doc [(''host'', PStr host), (''status'', PStr ''pending''), (''phase'', PStr phase)]"

definition planned_entries :: "exec_world \<Rightarrow> upgrade_job \<Rightarrow> string list \<Rightarrow> pyval list" where
  "planned_entries w j nodes =
     map (pending_entry ''install'') nodes
     @ concat (map (\<lambda>(phase, role, _). map (pending_entry phase) (role_hosts w j nodes role))
         role_restart_phases)"

definition phase_places :: "string \<Rightarrow> pyval list \<Rightarrow> nat list" where
  "phase_places phase progress =
     filter (\<lambda>k. dget (progress ! k) ''phase'' = PStr phase) [0..<length progress]"

fun run_role_phases ::
  "env \<Rightarrow> exec_world \<Rightarrow> upgrade_job \<Rightarrow> string list \<Rightarrow> (string \<times> string \<times> string list) list
     \<Rightarrow> upgrade_run \<Rightarrow> py_exn option \<times> upgrade_run" where
  "run_role_phases e w j nodes [] u = (None, u)"
| "run_role_phases e w j nodes ((phase, role, daemon_types) # rest) u =
     (case run_restart_phase e w j phase daemon_types
             (zip (role_hosts w j nodes role) (map Some (phase_places phase (ur_progress u)))) u of
        (Some x, u1) \<Rightarrow> (Some x, u1)
      | (None, u1) \<Rightarrow> if ur_aborted u1 then (None, u1) else run_role_phases e w j nodes rest u1)"

definition run_phases ::
  "env \<Rightarrow> exec_world \<Rightarrow> upgrade_job \<Rightarrow> string list \<Rightarrow> upgrade_run \<Rightarrow> py_exn option \<times> upgrade_run" where
  "run_phases e w j nodes u =
     (case run_install_phase e w j (zip nodes (phase_places ''install'' (ur_progress u))) u of
        (Some x, u1) \<Rightarrow> (Some x, u1)
      | (None, u1) \<Rightarrow>
          if ur_aborted u1 then (None, u1)
          else (case run_role_phases e w j nodes role_restart_phases u1 of
              (Some x, u2) \<Rightarrow> (Some x, u2)
            | (None, u2) \<Rightarrow>
                if ur_aborted u2 then (None, u2)
                else run_restart_phase e w j ''mds_rgw'' [''mds'', ''rgw'']
                       (map (\<lambda>h. (h, None)) nodes) u2))"

definition new_run :: "exec_world \<Rightarrow> upgrade_job \<Rightarrow> string list \<Rightarrow> exec_state \<Rightarrow> upgrade_run" where
  "new_run w j nodes s =
     \<lparr>ur_exec = s, ur_progress = planned_entries w j nodes, ur_executed_any = False,
      ur_all_succeeded = True, ur_last_command = None, ur_failed_install_hosts = [],
      ur_aborted = False, ur_failures = []\<rparr>"

definition flags_host :: "exec_world \<Rightarrow> upgrade_job \<Rightarrow> string option" where
  "flags_host w j =
     (case mon_nodes (xw_settings w) (uj_cluster j) of [] \<Rightarrow> None | m # _ \<Rightarrow> Some m)"

definition skip_pending :: "env \<Rightarrow> pyval \<Rightarrow> pyval" where
  "skip_pending e item =
     (if dget item ''status'' = PStr ''pending''
      then set_keys (closed_entry e ''skipped'' upgrade_aborted_skip_message) item else item)"

definition abort_entries :: "env \<Rightarrow> exec_world \<Rightarrow> upgrade_job \<Rightarrow> upgrade_run \<Rightarrow> upgrade_run" where
  "abort_entries e w j u =
     save_progress e j (u\<lparr>ur_progress := map (skip_pending e) (ur_progress u) @
       [doc [(''host'', PStr (case flags_host w j of None \<Rightarrow> ''cluster'' | Some m \<Rightarrow> m)),
             (''phase'', PStr ''rollback''), (''status'', PStr ''done''),
             (''message'', PStr ([CHR 0xC4, CHR 0x90, CHR 0xC3, CHR 0xA3] @ '' d'' @
       [CHR 0xE1, CHR 0xBB, CHR 0xAB] @ ''ng rollout, kh'' @ [CHR 0xC3, CHR 0xB4] @
       ''ng restart th'' @ [CHR 0xC3, CHR 0xAA] @ ''m daemon v'' @
       [CHR 0xC3, CHR 0xA0] @ '' '' @ [CHR 0xC4, CHR 0x91, CHR 0xC3, CHR 0xA3] @
       '' g'' @ [CHR 0xE1, CHR 0xBB, CHR 0xA1] @ '' c'' @ [CHR 0xC3, CHR 0xA1] @
       ''c c'' @ [CHR 0xE1, CHR 0xBB, CHR 0x9D] @ '' b'' @
       [CHR 0xE1, CHR 0xBA, CHR 0xA3] @ ''o tr'' @ [CHR 0xC3, CHR 0xAC] @ '' Ceph.'')),
             (''started_at'', stamp e), (''finished_at'', stamp e)]]\<rparr>)"

definition notify_package_upgrade_failure :: "upgrade_job \<Rightarrow> upgrade_run \<Rightarrow> exec_state \<Rightarrow> exec_state" where
  "notify_package_upgrade_failure j u =
     notify_update_failure (uj_incident_id j)
       (if join ''; '' (ur_failures u) = [] then [(''Kh'' @ [CHR 0xC3, CHR 0xB4] @ ''ng x'' @ [CHR 0xC3, CHR 0xA1] @ ''c '' @
       [CHR 0xC4, CHR 0x91, CHR 0xE1, CHR 0xBB, CHR 0x8B] @ ''nh '' @
       [CHR 0xC4, CHR 0x91, CHR 0xC6, CHR 0xB0, CHR 0xE1, CHR 0xBB, CHR 0xA3] @
       ''c chi ti'' @ [CHR 0xE1, CHR 0xBA, CHR 0xBF] @ ''t l'' @
       [CHR 0xE1, CHR 0xBB, CHR 0x97] @ ''i'')] else ur_failures u)
       ([CHR 0xC4, CHR 0x90, CHR 0xC3, CHR 0xA3] @ '' d'' @
       [CHR 0xE1, CHR 0xBB, CHR 0xAB] @ ''ng c'' @ [CHR 0xC3, CHR 0xA1] @ ''c b'' @
       [CHR 0xC6, CHR 0xB0, CHR 0xE1, CHR 0xBB, CHR 0x9B] @ ''c c'' @
       [CHR 0xC3, CHR 0xB2] @ ''n l'' @ [CHR 0xE1, CHR 0xBA, CHR 0xA1] @ ''i, gi'' @
       [CHR 0xE1, CHR 0xBB, CHR 0xAF] @ '' nguy'' @ [CHR 0xC3, CHR 0xAA] @
       ''n daemon '' @ [CHR 0xC4, CHR 0x91] @ ''ang ch'' @
       [CHR 0xE1, CHR 0xBA, CHR 0xA1] @ ''y v'' @ [CHR 0xC3, CHR 0xA0] @ '' g'' @
       [CHR 0xE1, CHR 0xBB, CHR 0xA1] @ '' c'' @ [CHR 0xC3, CHR 0xA1] @ ''c c'' @
       [CHR 0xE1, CHR 0xBB, CHR 0x9D] @ '' b'' @ [CHR 0xE1, CHR 0xBA, CHR 0xA3] @
       ''o tr'' @ [CHR 0xC3, CHR 0xAC] @ '' Ceph.'') (uj_cluster j)"

definition maintained_phases ::
  "env \<Rightarrow> exec_world \<Rightarrow> upgrade_job \<Rightarrow> string list \<Rightarrow> upgrade_run \<Rightarrow> py_exn option \<times> upgrade_run" where
  "maintained_phases e w j nodes u =
     (case flags_host w j of
        None \<Rightarrow> run_phases e w j nodes u
      | Some m \<Rightarrow>
          (let (x, u1) = run_phases e w j nodes (set_upgrade_osd_flags e w j m u)
           in (x, unset_upgrade_osd_flags e w j m u1)))"

text \<open>\<open>action_params = action_params or {}\<close>.\<close>

definition with_params :: "upgrade_job \<Rightarrow> upgrade_job" where
  "with_params job = job\<lparr>uj_params := por (uj_params job) (PDict [])\<rparr>"

definition execute_package_upgrade_action ::
  "env \<Rightarrow> exec_world \<Rightarrow> upgrade_job \<Rightarrow> string list \<Rightarrow> exec_state \<Rightarrow> py_exn option \<times> exec_state" where
  "execute_package_upgrade_action e w job nodes s =
     (let j = with_params job;
          (x, u) = maintained_phases e w j nodes (save_progress e j (new_run w j nodes s)) in
      if x \<noteq> None then (x, ur_exec u)
      else
        (let u1 = (if ur_aborted u then abort_entries e w j u
                   else if ur_executed_any u then finalize_package_upgrade_osd_release e w j u
                   else u);
             (x2, s2) = record_approved_execution_result e w (uj_pk j) (ur_last_command u1)
                (ur_all_succeeded u1 \<and> ur_executed_any u1) None (ur_exec u1)
         in (x2, if x2 = None \<and> ur_aborted u1 then notify_package_upgrade_failure j u1 s2 else s2)))"

end
