(* ===== verification/Reconciliation.thy ===== *)
theory Reconciliation
  imports Remote
begin

text \<open>
  The post-checks of storage actions: \<open>worker/executor/rbd_reconciliation.py\<close> and
  \<open>worker/executor/cinder_reconciliation.py\<close> compare the output of an executed command with the
  approved parameters.  Parsing the output is an argument.  Equality of JSON values is equality of
  their texts, numbers or flags; a parameter document is a dictionary.
\<close>

section \<open>Results\<close>

datatype post_check = Agrees | Disagrees string | CheckRaises py_exn

definition require_that :: "bool \<Rightarrow> string \<Rightarrow> post_check \<Rightarrow> post_check" where
  "require_that ok error rest = (if ok then rest else Disagrees error)"

lemma require_that_Agrees [simp]: "require_that ok error rest = Agrees \<longleftrightarrow> ok \<and> rest = Agrees"
  by (simp add: require_that_def)

text \<open>\<open>int(v)\<close> with \<open>-1\<close> where it raises, and \<open>int(v)\<close> whose exception escapes.\<close>

definition int_or_minus_one :: "pyval \<Rightarrow> int" where
  "int_or_minus_one v = (case py_int v of Some n \<Rightarrow> n | None \<Rightarrow> -1)"

definition with_int :: "pyval \<Rightarrow> (int \<Rightarrow> post_check) \<Rightarrow> post_check" where
  "with_int v f =
     (case py_int v of Some n \<Rightarrow> f n
      | None \<Rightarrow> CheckRaises (if is_str v \<or> v = PNonFinite then ValueError else TypeError))"

definition named :: "pyval \<Rightarrow> pyval \<Rightarrow> bool" where
  "named payload name = (is_dict payload \<and> dget payload ''name'' = name)"

section \<open>RBD\<close>

definition rbd_reconciled_action_ids :: "string list" where
  "rbd_reconciled_action_ids =
     [''rbd_create_volume'', ''rbd_resize_volume'', ''rbd_rename_volume'', ''rbd_clone_volume'',
      ''rbd_copy_volume'', ''rbd_move_volume'', ''rbd_move_cleanup_partial'', ''rbd_flatten_volume'',
      ''rbd_template_mark'', ''rbd_qos_set'', ''rbd_trash_move_volume'', ''rbd_trash_restore_volume'',
      ''rbd_trash_purge_all'']"

definition check_sized_image :: "pyval \<Rightarrow> pyval \<Rightarrow> post_check" where
  "check_sized_image params payload =
     require_that (named payload (dget params ''image'')) ''RBD post-check returned a different image''
       (case dget params ''size_mib'' of
          PInt size_mib \<Rightarrow>
            (let expected_size = size_mib * 1024 * 1024; actual_size = int_or_minus_one (dget payload ''size'') in
             require_that (actual_size = expected_size)
               (''RBD post-check size mismatch: expected '' @ int_text expected_size @ '', got ''
                 @ int_text actual_size) Agrees)
        | _ \<Rightarrow> Disagrees ''RBD post-check is missing approved size_mib'')"

definition check_cleanup :: "pyval \<Rightarrow> pyval \<Rightarrow> post_check" where
  "check_cleanup params payload =
     require_that (named payload (dget params ''dest_image''))
       ''RBD partial cleanup post-check returned a different destination''
     (require_that (dget payload ''source_present'' = PBool True)
       ''RBD partial cleanup post-check did not confirm source preservation''
     (require_that (dget payload ''destination_deleted'' = PBool True)
       ''RBD partial cleanup post-check did not confirm destination deletion''
     (require_that (dget payload ''marker_verified'' = PBool True
                    \<or> dget payload ''recovered'' = PBool True \<and> dget payload ''source_present'' = PBool True)
       ''RBD partial cleanup post-check did not confirm token ownership'' Agrees)))"

definition expected_image :: "string \<Rightarrow> pyval \<Rightarrow> pyval" where
  "expected_image action_id params =
     (if action_id = ''rbd_rename_volume'' then dget params ''new_image''
      else if action_id \<in> {''rbd_clone_volume'', ''rbd_copy_volume'', ''rbd_move_volume''}
      then dget params ''dest_image'' else dget params ''image'')"

text \<open>\<open>isinstance(v, int) and v > 0\<close>.\<close>

definition positive_int :: "pyval \<Rightarrow> bool" where
  "positive_int v = (case v of PInt n \<Rightarrow> n > 0 | PBool b \<Rightarrow> b | _ \<Rightarrow> False)"

definition check_copied_size :: "string \<Rightarrow> pyval \<Rightarrow> pyval \<Rightarrow> post_check \<Rightarrow> post_check" where
  "check_copied_size action_id params payload rest =
     (let whole_copy = action_id \<in> {''rbd_copy_volume'', ''rbd_move_volume''};
          size = dget params ''size_bytes'' in
      if \<not> whole_copy \<and> \<not> (action_id = ''rbd_clone_volume'' \<and> size \<noteq> PNone) then rest
      else require_that (\<not> whole_copy \<or> positive_int size)
             ''RBD copy/clone post-check is missing approved size''
           (with_int size (\<lambda>expected.
             require_that (int_or_minus_one (dget payload ''size'') = expected)
               ''RBD copy/clone post-check size mismatch'' rest)))"

definition check_moved :: "string \<Rightarrow> pyval \<Rightarrow> post_check" where
  "check_moved action_id payload =
     (if action_id \<noteq> ''rbd_move_volume'' then Agrees
      else require_that (dget payload ''source_deleted'' = PBool True)
             ''RBD move post-check did not confirm source deletion''
           (require_that (dget payload ''checksum_verified'' = PBool True
                          \<or> dget payload ''recovered'' = PBool True \<and> dget payload ''source_deleted'' = PBool True)
             ''RBD move post-check did not confirm checksum verification'' Agrees))"

definition check_named_image :: "string \<Rightarrow> pyval \<Rightarrow> pyval \<Rightarrow> post_check" where
  "check_named_image action_id params payload =
     require_that (named payload (expected_image action_id params))
       ''RBD post-check did not find the expected destination image''
       (check_copied_size action_id params payload (check_moved action_id payload))"

definition protected_flag :: "pyval \<Rightarrow> bool" where
  "protected_flag v = (v \<in> {PBool True, PStr ''true'', PStr ''True'', PInt 1, PFloat 1, PStr ''1''})"

definition check_template :: "pyval \<Rightarrow> pyval \<Rightarrow> post_check" where
  "check_template params payload =
     require_that (is_list payload) ''RBD template post-check returned an unexpected snapshot payload''
       (require_that
          (case find (\<lambda>item. named item (dget params ''snapshot'')) (elems_of payload) of
             None \<Rightarrow> False | Some row \<Rightarrow> protected_flag (dget row ''protected''))
          ''RBD template post-check did not confirm a protected snapshot'' Agrees)"

definition qos_options :: "string list" where
  "qos_options =
     [''rbd_qos_iops_limit'', ''rbd_qos_bps_limit'', ''rbd_qos_iops_burst'', ''rbd_qos_bps_burst'',
      ''rbd_qos_read_iops_limit'', ''rbd_qos_read_bps_limit'', ''rbd_qos_write_iops_limit'',
      ''rbd_qos_write_bps_limit'']"

definition qos_row :: "pyval \<Rightarrow> pyval \<Rightarrow> pyval" where
  "qos_row row values =
     (let key = por (por (dget row ''name'') (dget row ''key'')) (dget row ''option'') in
      if is_dict row \<and> truthy key then set_key (py_str key) (dget row ''value'') values else values)"

definition qos_values :: "pyval \<Rightarrow> pyval" where
  "qos_values payload =
     (let rows = (if is_dict payload then dget payload ''options'' else payload) in
      if is_dict rows then rows else fold qos_row (elems_of rows) (PDict []))"

fun check_qos :: "pyval \<Rightarrow> pyval \<Rightarrow> string list \<Rightarrow> post_check" where
  "check_qos params values [] = Agrees"
| "check_qos params values (option # options) =
     with_int (dget_default params option (PInt 0)) (\<lambda>expected.
       (let actual = int_or_minus_one (dget_default values option (PInt 0)) in
        require_that (actual = expected)
          (''RBD QoS post-check mismatch for '' @ option @ '': expected '' @ int_text expected
            @ '', got '' @ int_text actual)
          (check_qos params values options)))"

definition still_present :: "pyval list \<Rightarrow> string list \<Rightarrow> string list" where
  "still_present rows removed =
     sorted_set (filter (\<lambda>t. t \<in> set (map (\<lambda>row. py_str (dget row ''id''))
         (filter (\<lambda>row. is_dict row \<and> dget row ''id'' \<noteq> PNone) rows))) removed)"

definition check_purged :: "pyval \<Rightarrow> pyval \<Rightarrow> post_check" where
  "check_purged params payload =
     (case iterate (dget_default params ''trash_ids'' (PList [])) of
        Inl _ \<Rightarrow> CheckRaises TypeError
      | Inr ids \<Rightarrow>
          (let left = still_present (elems_of payload) (map py_str ids) in
           require_that (left = [])
             (''RBD purge post-check still contains trash IDs: '' @ join '', '' left) Agrees))"

definition check_trash :: "string \<Rightarrow> pyval \<Rightarrow> pyval \<Rightarrow> post_check" where
  "check_trash action_id params payload =
     require_that (is_list payload) ''RBD trash post-check returned an unexpected payload''
       (if action_id = ''rbd_trash_move_volume'' then
          require_that (list_ex (\<lambda>row. named row (dget params ''image'')) (elems_of payload))
            ''RBD post-check did not find the image in trash'' Agrees
        else check_purged params payload)"

definition rbd_reconcile :: "(string \<Rightarrow> json_text) \<Rightarrow> string \<Rightarrow> pyval \<Rightarrow> string \<Rightarrow> post_check" where
  "rbd_reconcile json action_id params output =
     (if action_id \<notin> set rbd_reconciled_action_ids then Agrees
      else case json (str_strip output) of
        JMalformed \<Rightarrow> Disagrees ''RBD post-check did not return valid JSON''
      | JText payload \<Rightarrow>
          if action_id \<in> {''rbd_create_volume'', ''rbd_resize_volume''} then check_sized_image params payload
          else if action_id = ''rbd_move_cleanup_partial'' then check_cleanup params payload
          else if action_id \<in> {''rbd_rename_volume'', ''rbd_clone_volume'', ''rbd_copy_volume'',
                               ''rbd_move_volume'', ''rbd_flatten_volume'', ''rbd_trash_restore_volume''}
          then check_named_image action_id params payload
          else if action_id = ''rbd_template_mark'' then check_template params payload
          else if action_id = ''rbd_qos_set'' then check_qos params (qos_values payload) qos_options
          else check_trash action_id params payload)"

section \<open>Cinder\<close>

definition cinder_attachment_action_ids :: "string list" where
  "cinder_attachment_action_ids = [''cinder_attach_volume'', ''cinder_detach_volume'']"

text \<open>\<open>str(d.get(k1) or d.get(k2) or ... or "")\<close>.\<close>

fun first_text :: "pyval \<Rightarrow> string list \<Rightarrow> string" where
  "first_text d [] = []"
| "first_text d (k # ks) = (if truthy (dget d k) then py_str (dget d k) else first_text d ks)"

definition check_created_snapshot :: "pyval \<Rightarrow> pyval \<Rightarrow> post_check" where
  "check_created_snapshot params payload =
     require_that (is_list payload) (''Cinder snapshot post-check kh'' @ [CHR 0xC3, CHR 0xB4] @ ''ng tr'' @
       [CHR 0xE1, CHR 0xBA, CHR 0xA3] @ '' v'' @ [CHR 0xE1, CHR 0xBB, CHR 0x81] @
       '' danh s'' @ [CHR 0xC3, CHR 0xA1] @ ''ch'')
       (case find (\<lambda>row. is_dict row
              \<and> first_text row [''name'', ''Name''] = first_text params [''snapshot_name'']) (elems_of payload) of
          None \<Rightarrow> Disagrees (''Cinder snapshot post-check kh'' @ [CHR 0xC3, CHR 0xB4] @ ''ng t'' @
       [CHR 0xC3, CHR 0xAC] @ ''m th'' @ [CHR 0xE1, CHR 0xBA, CHR 0xA5] @
       ''y snapshot v'' @ [CHR 0xE1, CHR 0xBB, CHR 0xAB] @ ''a t'' @
       [CHR 0xE1, CHR 0xBA, CHR 0xA1] @ ''o'')
        | Some row \<Rightarrow>
            (let status = str_lower (first_text row [''status'', ''Status'']) in
             require_that (status \<notin> {''error'', ''error_deleting''})
               ((''Cinder snapshot post-check c'' @ [CHR 0xC3, CHR 0xB3] @ '' tr'' @
       [CHR 0xE1, CHR 0xBA, CHR 0xA1] @ ''ng th'' @ [CHR 0xC3, CHR 0xA1] @ ''i l'' @
       [CHR 0xE1, CHR 0xBB, CHR 0x97] @ ''i: '') @ status) Agrees))"

definition check_deleted_snapshot :: "pyval \<Rightarrow> pyval \<Rightarrow> post_check" where
  "check_deleted_snapshot params payload =
     require_that (is_dict payload) (''Cinder snapshot delete post-check kh'' @ [CHR 0xC3, CHR 0xB4] @ ''ng tr'' @
       [CHR 0xE1, CHR 0xBA, CHR 0xA3] @ '' v'' @ [CHR 0xE1, CHR 0xBB, CHR 0x81] @
       '' object'')
     (require_that (str_lower (first_text payload [''snapshot_id'', ''id''])
                    = str_lower (first_text params [''snapshot_id'']))
        (''Cinder snapshot delete post-check tr'' @ [CHR 0xE1, CHR 0xBA, CHR 0xA3] @
       '' v'' @ [CHR 0xE1, CHR 0xBB, CHR 0x81] @ '' snapshot ID kh'' @
       [CHR 0xC3, CHR 0xB4] @ ''ng kh'' @ [CHR 0xE1, CHR 0xBB, CHR 0x9B] @ ''p'')
     (require_that (dget payload ''deleted'' = PBool True)
        (''Cinder snapshot v'' @ [CHR 0xE1, CHR 0xBA, CHR 0xAB] @ ''n c'' @
       [CHR 0xC3, CHR 0xB2] @ ''n t'' @ [CHR 0xE1, CHR 0xBB, CHR 0x93] @ ''n t'' @
       [CHR 0xE1, CHR 0xBA, CHR 0xA1] @ ''i sau khi x'' @ [CHR 0xC3, CHR 0xB3] @ ''a'') Agrees))"

definition lowered_keys :: "pyval \<Rightarrow> pyval" where
  "lowered_keys payload =
     fold (\<lambda>(k, v). set_key (str_lower (py_str k)) v) (items_of payload) (PDict [])"

definition attached_to :: "pyval \<Rightarrow> pyval \<Rightarrow> bool" where
  "attached_to params volume =
     list_ex (\<lambda>row. is_dict row
         \<and> str_lower (first_text row [''server_id'', ''instance_id'', ''instance''])
           = str_lower (first_text params [''server_id'']))
       (elems_of (dget volume ''attachments''))"

definition check_attachment :: "string \<Rightarrow> pyval \<Rightarrow> pyval \<Rightarrow> post_check" where
  "check_attachment action_id params payload =
     require_that (is_dict payload) (''Cinder post-check kh'' @ [CHR 0xC3, CHR 0xB4] @ ''ng tr'' @
       [CHR 0xE1, CHR 0xBA, CHR 0xA3] @ '' v'' @ [CHR 0xE1, CHR 0xBB, CHR 0x81] @
       '' volume object'')
       (let volume = lowered_keys payload; attached = attached_to params volume in
        require_that (str_lower (first_text volume [''id'']) = str_lower (first_text params [''volume_id'']))
          (''Cinder post-check tr'' @ [CHR 0xE1, CHR 0xBA, CHR 0xA3] @ '' v'' @
       [CHR 0xE1, CHR 0xBB, CHR 0x81] @ '' volume ID kh'' @ [CHR 0xC3, CHR 0xB4] @
       ''ng kh'' @ [CHR 0xE1, CHR 0xBB, CHR 0x9B] @ ''p'')
          (require_that (attached = (action_id = ''cinder_attach_volume''))
            ((''Cinder post-check l'' @ [CHR 0xE1, CHR 0xBB, CHR 0x87] @ ''ch tr'' @
       [CHR 0xE1, CHR 0xBA, CHR 0xA1] @ ''ng th'' @ [CHR 0xC3, CHR 0xA1] @ ''i: server '') @ (if attached then (''c'' @ [CHR 0xC3, CHR 0xB3]) else (''kh'' @ [CHR 0xC3, CHR 0xB4] @ ''ng c'' @ [CHR 0xC3, CHR 0xB3]))
              @ '' attachment'') Agrees))"

definition cinder_reconcile :: "(string \<Rightarrow> json_text) \<Rightarrow> string \<Rightarrow> pyval \<Rightarrow> string \<Rightarrow> post_check" where
  "cinder_reconcile json action_id params output =
     (if action_id \<notin> set (cinder_attachment_action_ids @ [''cinder_create_snapshot'', ''cinder_delete_snapshot''])
      then Agrees
      else case json output of
        JMalformed \<Rightarrow> Disagrees (''Cinder post-check kh'' @ [CHR 0xC3, CHR 0xB4] @ ''ng tr'' @
       [CHR 0xE1, CHR 0xBA, CHR 0xA3] @ '' v'' @ [CHR 0xE1, CHR 0xBB, CHR 0x81] @
       '' JSON h'' @ [CHR 0xE1, CHR 0xBB, CHR 0xA3] @ ''p l'' @
       [CHR 0xE1, CHR 0xBB, CHR 0x87])
      | JText payload \<Rightarrow>
          if action_id = ''cinder_create_snapshot'' then check_created_snapshot params payload
          else if action_id = ''cinder_delete_snapshot'' then check_deleted_snapshot params payload
          else check_attachment action_id params payload)"

text \<open>Both checks, in their order, on the output of a command.\<close>

definition reconcile_output :: "(string \<Rightarrow> json_text) \<Rightarrow> string \<Rightarrow> pyval \<Rightarrow> string \<Rightarrow> post_check" where
  "reconcile_output json action_id params output =
     (case rbd_reconcile json action_id params output of
        Agrees \<Rightarrow> cinder_reconcile json action_id params output
      | other \<Rightarrow> other)"

section \<open>Facts\<close>

lemma with_int_Agrees: "with_int v f = Agrees \<Longrightarrow> py_int v = Some n \<Longrightarrow> f n = Agrees"
  by (simp add: with_int_def)

lemma rbd_reconcile_other: "action_id \<notin> set rbd_reconciled_action_ids \<Longrightarrow> rbd_reconcile json action_id p out = Agrees"
  by (simp add: rbd_reconcile_def)

end
