(* ===== verification/Execution.thy ===== *)
theory Execution
  imports PackageUpgrade Reconciliation
begin

text \<open>
  The execution of an approved action (\<open>_execute_approved_action\<close> of \<open>worker/llm/router_client.py\<close>):
  the transaction that re-reads the approval, the claim, the checks of the cluster and the targets,
  and the command on each host.  Each is an operation of its own, so that two workers can interleave.
\<close>

section \<open>The approval is read again\<close>

record ticket =
  tk_action_id :: string
  tk_incident_id :: string
  tk_target_nodes :: "json_text option"
  tk_action_params :: "json_text option"

datatype recheck = NothingToDo | SyntheticBlocked | PolicyChanged | RiskChanged | Cleared ticket

definition legacy_hash :: string where
  "legacy_hash = replicate 64 (CHR ''0'')"

definition synthetic_note :: string where
  "synthetic_note = (''[Synthetic lab] Shadow-only run: kh'' @ [CHR 0xC3, CHR 0xB4] @ ''ng '' @
       [CHR 0xC4, CHR 0x91, CHR 0xC6, CHR 0xB0, CHR 0xE1, CHR 0xBB, CHR 0xA3] @
       ''c ph'' @ [CHR 0xC3, CHR 0xA9] @ ''p th'' @ [CHR 0xE1, CHR 0xBB, CHR 0xB1] @
       ''c thi l'' @ [CHR 0xE1, CHR 0xBB, CHR 0x87] @ ''nh tr'' @ [CHR 0xC3, CHR 0xAA] @
       ''n Ceph.'')"

definition block_synthetic :: "env \<Rightarrow> action_row \<Rightarrow> incident \<Rightarrow> store \<Rightarrow> store" where
  "block_synthetic e a i st =
     audit_record e (in_id i) (Some (ac_id a)) ''synthetic_execution_blocked'' actor_system None
       (edit_incident e (in_id i) (\<lambda>r. diagnosis_note synthetic_note (incident_to e IS_REJECTED r))
         (edit_action e (ac_id a) (\<lambda>r. r\<lparr>ac_status := AS_REJECTED\<rparr>) st))"

definition current_tier :: "pyval \<Rightarrow> store \<Rightarrow> string \<Rightarrow> string" where
  "current_tier policy st action_id =
     classification_value (classify_action (load_action_id_lists policy) action_id
       (Some (\<lambda>a. map_option po_classification (find_id po_action_id a (st_overrides st)))))"

definition require_reapproval :: "env \<Rightarrow> action_row \<Rightarrow> incident option \<Rightarrow> string \<Rightarrow> store \<Rightarrow> store" where
  "require_reapproval e a inc tier st =
     (let st1 = edit_action e (ac_id a)
                  (\<lambda>r. r\<lparr>ac_classification := tier, ac_status := AS_PENDING_APPROVAL\<rparr>) st in
      case inc of None \<Rightarrow> st1
      | Some i \<Rightarrow>
          audit_record e (in_id i) (Some (ac_id a)) ''action_policy_reapproval_required'' actor_system
            (Some (doc [(''previous_classification'', PStr (ac_classification a)),
                        (''effective_classification'', PStr tier)]))
            (edit_incident e (in_id i) (incident_to e IS_PENDING_APPROVAL) st1))"

text \<open>An assessment that is missing or from before the fingerprints is acknowledged once.\<close>

definition reassess_risk :: "env \<Rightarrow> action_row \<Rightarrow> store \<Rightarrow> store" where
  "reassess_risk e a st =
     (let legacy = (case get_assessment st (ac_id a) of None \<Rightarrow> True
                    | Some r \<Rightarrow> cr_assessment_hash r = legacy_hash);
          (risk, st1) = assess_and_record e a None st;
          st2 = edit_action e (ac_id a) (attach_summary risk) st1 in
      if legacy
      then edit_assessment (ac_id a) (\<lambda>r. r\<lparr>cr_acknowledged_hash := Some (cr_assessment_hash r)\<rparr>) st2
      else st2)"

definition risk_acknowledged :: "store \<Rightarrow> string \<Rightarrow> bool" where
  "risk_acknowledged st action_pk =
     (case get_assessment st action_pk of None \<Rightarrow> False
      | Some r \<Rightarrow> cr_acknowledged_hash r = Some (cr_assessment_hash r))"

text \<open>The policy tier, then the risk: a change of either sends the action back to the operator.\<close>

definition recheck_risk :: "env \<Rightarrow> action_row \<Rightarrow> store \<Rightarrow> recheck \<times> store" where
  "recheck_risk e a st =
     (let st1 = reassess_risk e a st in
      if risk_acknowledged st1 (ac_id a) then
        (Cleared \<lparr>tk_action_id = ac_action_id a, tk_incident_id = ac_incident_id a,
                  tk_target_nodes = ac_target_nodes a, tk_action_params = ac_action_params a\<rparr>, st1)
      else (RiskChanged,
            edit_incident e (ac_incident_id a) (incident_to e IS_PENDING_APPROVAL)
              (edit_action e (ac_id a) (\<lambda>r. r\<lparr>ac_status := AS_PENDING_APPROVAL\<rparr>) st1)))"

definition recheck_approval :: "env \<Rightarrow> pyval \<Rightarrow> string \<Rightarrow> store \<Rightarrow> recheck \<times> store" where
  "recheck_approval e policy action_pk st =
     (case get_action st action_pk of
        None \<Rightarrow> (NothingToDo, st)
      | Some a \<Rightarrow>
          (let inc = get_incident st (ac_incident_id a); tier = current_tier policy st (ac_action_id a);
               synthetic = (case inc of None \<Rightarrow> None
                 | Some i \<Rightarrow> if is_synthetic_evidence (in_signal_evidence_json i) then Some i else None) in
           if ac_status a \<noteq> AS_APPROVED then (NothingToDo, st)
           else case synthetic of
             Some i \<Rightarrow> (SyntheticBlocked, block_synthetic e a i st)
           | None \<Rightarrow>
               if ac_classification a \<noteq> tier then (PolicyChanged, require_reapproval e a inc tier st)
               else recheck_risk e a st))"

section \<open>The claim\<close>

text \<open>
  \<open>UPDATE incidents SET status = 'EXECUTING' WHERE id = ... AND status <> 'EXECUTING'\<close>; the worker
  goes on only if one row changed.
\<close>

definition claim_execution :: "env \<Rightarrow> string \<Rightarrow> store \<Rightarrow> bool \<times> store" where
  "claim_execution e incident_id st =
     (let (n, rows) = update_where (\<lambda>r. in_id r = incident_id \<and> in_status r \<noteq> IS_EXECUTING)
            (\<lambda>r. r\<lparr>in_status := IS_EXECUTING, in_updated_at := ev_now e\<rparr>) (st_incidents st)
      in (n = 1, st\<lparr>st_incidents := rows\<rparr>))"

section \<open>The checks before the first command\<close>

definition parsed :: "json_text option \<Rightarrow> pyval" where
  "parsed raw = (case raw of Some (JText v) \<Rightarrow> v | _ \<Rightarrow> PNone)"

fun host_names :: "pyval list \<Rightarrow> string list option" where
  "host_names [] = Some []"
| "host_names (PStr h # vs) = (if h = [] then None else map_option (\<lambda>hs. h # hs) (host_names vs))"
| "host_names _ = None"

text \<open>A non-empty list of non-empty texts.\<close>

definition valid_targets :: "json_text option \<Rightarrow> string list option" where
  "valid_targets raw =
     (case parsed raw of PList (v # vs) \<Rightarrow> host_names (v # vs) | _ \<Rightarrow> None)"

fun plan_ips :: "pyval list \<Rightarrow> string list option" where
  "plan_ips [] = Some []"
| "plan_ips (v # vs) =
     (case dget v ''ip'' of PStr ip \<Rightarrow> map_option (\<lambda>ips. ip # ips) (plan_ips vs) | _ \<Rightarrow> None)"

definition matches_plan :: "pyval \<Rightarrow> string list \<Rightarrow> bool" where
  "matches_plan params nodes =
     (case dget params ''nodes'' of PList (v # vs) \<Rightarrow> plan_ips (v # vs) = Some nodes | _ \<Rightarrow> False)"

text \<open>A refusal: the reason as the only progress entry, and the result FAILED.\<close>

definition refuse_silently ::
  "env \<Rightarrow> exec_world \<Rightarrow> string \<Rightarrow> exec_state \<Rightarrow> py_exn option \<times> exec_state" where
  "refuse_silently e w action_pk s = record_approved_execution_result e w action_pk None False None s"

definition preflight_entry :: "env \<Rightarrow> string \<Rightarrow> string \<Rightarrow> pyval" where
  "preflight_entry e label message =
     doc [(''step'', PStr ''preflight''), (''label'', PStr label), (''pct'', PInt 0),
          (''status'', PStr ''failed''), (''message'', PStr message), (''finished_at'', stamp e)]"

definition refuse ::
  "env \<Rightarrow> exec_world \<Rightarrow> string \<Rightarrow> string \<Rightarrow> string \<Rightarrow> exec_state \<Rightarrow> py_exn option \<times> exec_state" where
  "refuse e w action_pk label message s =
     refuse_silently e w action_pk (write_action_progress e action_pk [preflight_entry e label message] s)"

section \<open>Purging trashed volumes\<close>

datatype ttl_kind = CephExpired | CephProtected | TtlUnknown | TtlComputed int

text \<open>\<open>trash_entry_ttl_status\<close>: the remaining time in microseconds.\<close>

definition trash_entry_ttl_status :: "exec_world \<Rightarrow> int \<Rightarrow> time \<Rightarrow> pyval \<Rightarrow> ttl_kind" where
  "trash_entry_ttl_status w ttl_days now entry =
     (let status = str_lower (str_strip (first_text entry [''status'']));
          raw = str_strip (first_text entry [''deletion_time'', ''deleted_at'']) in
      if starts_with status ''expired at'' \<or> status = ''expired'' then CephExpired
      else if starts_with status ''protected until'' then CephProtected
      else case xw_datetime w raw of
        None \<Rightarrow> TtlUnknown
      | Some deleted_at \<Rightarrow> TtlComputed (deleted_at + seconds (ttl_days * 86400) - now))"

definition ttl_days :: "worker_settings \<Rightarrow> int" where
  "ttl_days ws = max 1 (min (ws_rbd_trash_retention_days ws) 3650)"

definition purge_refusal :: "ttl_kind \<Rightarrow> string option" where
  "purge_refusal k =
     (case k of
        CephProtected \<Rightarrow> Some (''Ceph v'' @ [CHR 0xE1, CHR 0xBA, CHR 0xAB] @ ''n '' @ [CHR 0xC4, CHR 0x91] @
       ''ang b'' @ [CHR 0xE1, CHR 0xBA, CHR 0xA3] @ ''o v'' @
       [CHR 0xE1, CHR 0xBB, CHR 0x87] @ '' image theo deferment time'')
      | TtlUnknown \<Rightarrow> Some (''Kh'' @ [CHR 0xC3, CHR 0xB4] @ ''ng x'' @ [CHR 0xC3, CHR 0xA1] @ ''c '' @
       [CHR 0xC4, CHR 0x91, CHR 0xE1, CHR 0xBB, CHR 0x8B] @ ''nh '' @
       [CHR 0xC4, CHR 0x91, CHR 0xC6, CHR 0xB0, CHR 0xE1, CHR 0xBB, CHR 0xA3] @
       ''c deferment time t'' @ [CHR 0xE1, CHR 0xBB, CHR 0xAB] @ '' Ceph'')
      | CephExpired \<Rightarrow> None
      | TtlComputed remaining \<Rightarrow>
          if remaining \<le> 0 then None else Some (''Volume ch'' @ [CHR 0xC6, CHR 0xB0] @ ''a h'' @ [CHR 0xE1, CHR 0xBA, CHR 0xBF] @
       ''t TTL t'' @ [CHR 0xE1, CHR 0xBA, CHR 0xA1] @ ''i th'' @
       [CHR 0xE1, CHR 0xBB, CHR 0x9D] @ ''i '' @ [CHR 0xC4, CHR 0x91] @ ''i'' @
       [CHR 0xE1, CHR 0xBB, CHR 0x83] @ ''m th'' @ [CHR 0xE1, CHR 0xBB, CHR 0xB1] @
       ''c thi''))"

text \<open>Per id the reason against the purge; a repeated id in the listing keeps its last entry.\<close>

definition rbd_trash_purge_eligibility ::
  "env \<Rightarrow> exec_world \<Rightarrow> string \<Rightarrow> (string \<Rightarrow> string option) option" where
  "rbd_trash_purge_eligibility e w pool =
     (case xw_trash w pool of
        None \<Rightarrow> None
      | Some entries \<Rightarrow> Some (\<lambda>trash_id.
          case map_of (rev (map (\<lambda>entry. (py_str (dget entry ''id''), entry)) entries)) trash_id of
            None \<Rightarrow> Some (''Trash ID kh'' @ [CHR 0xC3, CHR 0xB4] @ ''ng c'' @ [CHR 0xC3, CHR 0xB2] @
       ''n t'' @ [CHR 0xE1, CHR 0xBB, CHR 0x93] @ ''n t'' @
       [CHR 0xE1, CHR 0xBA, CHR 0xA1] @ ''i ('' @
       [CHR 0xC4, CHR 0x91, CHR 0xC3, CHR 0xA3] @ '' kh'' @ [CHR 0xC3, CHR 0xB4] @
       ''i ph'' @ [CHR 0xE1, CHR 0xBB, CHR 0xA5] @ ''c ho'' @
       [CHR 0xE1, CHR 0xBA, CHR 0xB7] @ ''c '' @
       [CHR 0xC4, CHR 0x91, CHR 0xC3, CHR 0xA3] @ '' b'' @
       [CHR 0xE1, CHR 0xBB, CHR 0x8B] @ '' xo'' @ [CHR 0xC3, CHR 0xA1] @ '')'')
          | Some entry \<Rightarrow>
              purge_refusal (trash_entry_ttl_status w (ttl_days (xw_settings w)) (ev_now e) entry)))"

definition trash_remove_command :: "exec_world \<Rightarrow> string \<Rightarrow> string \<Rightarrow> string \<Rightarrow> cmd_error + string" where
  "trash_remove_command w host pool trash_id =
     get_command (xw_commands w) ''rbd_trash_remove'' (Some host)
       (doc [(''pool_name'', PStr pool), (''trash_id'', PStr trash_id)]) None []"

text \<open>One id: skipped with its reason, or purged; the entry is written before and after.\<close>

definition purge_one ::
  "env \<Rightarrow> exec_world \<Rightarrow> string \<Rightarrow> ssh_creds \<Rightarrow> string \<Rightarrow> string \<Rightarrow> string option \<Rightarrow> nat \<Rightarrow> string
     \<Rightarrow> pyval list \<times> exec_state \<Rightarrow> bool \<times> pyval list \<times> exec_state" where
  "purge_one e w action_pk creds host trash_id reason k command v =
     (let (progress, s) = v;
          entry = (\<lambda>kvs ps. ps[k := set_keys kvs (ps ! k)]) in
      case reason of
        Some r \<Rightarrow>
          (let ps = entry [(''status'', PStr ''skipped''), (''error'', PStr r), (''finished_at'', stamp e)] progress
           in (False, ps, write_action_progress e action_pk ps s))
      | None \<Rightarrow>
          (let ps = entry [(''status'', PStr ''running''), (''command'', PStr command),
                          (''started_at'', stamp e)] progress;
               (reply, s1) = execute_command w creds host command (write_action_progress e action_pk ps s);
               ps1 = (case reply of
                 Inl error \<Rightarrow> entry [(''status'', PStr ''failed''), (''error'', PStr error),
                                    (''finished_at'', stamp e)] ps
               | Inr _ \<Rightarrow> entry [(''status'', PStr ''done''), (''finished_at'', stamp e)] ps)
           in (\<not> isl reply, ps1, write_action_progress e action_pk ps1 s1)))"

fun purge_each ::
  "env \<Rightarrow> exec_world \<Rightarrow> string \<Rightarrow> ssh_creds \<Rightarrow> string \<Rightarrow> (string \<Rightarrow> string option)
     \<Rightarrow> (nat \<times> string \<times> string) list \<Rightarrow> pyval list \<times> exec_state \<Rightarrow> bool \<times> exec_state" where
  "purge_each e w action_pk creds host eligibility [] v = (True, snd v)"
| "purge_each e w action_pk creds host eligibility ((k, trash_id, command) # rest) v =
     (let (ok, v1) = purge_one e w action_pk creds host trash_id (eligibility trash_id) k command v;
          (rest_ok, s) = purge_each e w action_pk creds host eligibility rest v1
      in (ok \<and> rest_ok, s))"

text \<open>Every command is built before the first one runs; a value that is not a text is read as one.\<close>

definition purge_commands ::
  "exec_world \<Rightarrow> string \<Rightarrow> string \<Rightarrow> string list \<Rightarrow> cmd_error + (string \<times> string) list" where
  "purge_commands w host pool ids =
     map_cmd (\<lambda>t. bind_cmd (trash_remove_command w host pool t) (\<lambda>c. Inr (t, c))) ids"

definition execute_rbd_trash_purge_all_action ::
  "env \<Rightarrow> exec_world \<Rightarrow> string \<Rightarrow> pyval \<Rightarrow> string \<Rightarrow> ssh_creds \<Rightarrow> exec_state
     \<Rightarrow> py_exn option \<times> bool \<times> exec_state" where
  "execute_rbd_trash_purge_all_action e w action_pk params host creds s =
     (case (dget params ''pool_name'', dget params ''trash_ids'') of
        (PStr pool, PList vs) \<Rightarrow>
          (let ids = map py_str vs in
           if vs = [] \<or> \<not> distinct ids then (None, False, s)
           else (case purge_commands w host pool ids of
               Inl (Raises x) \<Rightarrow> (Some x, False, s)
             | Inl ExecutorError \<Rightarrow> (None, False, s)
             | Inr commands \<Rightarrow>
                 (case rbd_trash_purge_eligibility e w pool of
                    None \<Rightarrow> (None, False, s)
                  | Some eligibility \<Rightarrow>
                      (let progress = map (\<lambda>t. doc [(''trash_id'', PStr t), (''status'', PStr ''pending'')]) ids;
                           (ok, s1) = purge_each e w action_pk creds host eligibility
                              (zip [0..<length ids] commands)
                              (progress, write_action_progress e action_pk progress s)
                       in (None, ok, s1)))))
      | _ \<Rightarrow> (None, False, s))"

section \<open>A command on each host\<close>

record host_run =
  hn_exec :: exec_state
  hn_progress :: "pyval list"
  hn_executed_any :: bool
  hn_all_succeeded :: bool
  hn_last_command :: "string option"
  hn_last_output :: "string option"
  hn_update_failures :: "string list"
  hn_rollback_summary :: "string option"

text \<open>What the loop over the hosts uses.\<close>

record host_job =
  hj_pk :: string
  hj_action_id :: string
  hj_params :: pyval
  hj_creds :: ssh_creds

definition save_hosts :: "env \<Rightarrow> host_job \<Rightarrow> host_run \<Rightarrow> host_run" where
  "save_hosts e j h = h\<lparr>hn_exec := write_action_progress e (hj_pk j) (hn_progress h) (hn_exec h)\<rparr>"

definition set_entry :: "nat \<Rightarrow> (string \<times> pyval) list \<Rightarrow> host_run \<Rightarrow> host_run" where
  "set_entry k kvs h = h\<lparr>hn_progress := (hn_progress h)[k := set_keys kvs (hn_progress h ! k)]\<rparr>"

definition host_command :: "exec_world \<Rightarrow> host_job \<Rightarrow> string \<Rightarrow> cmd_error + string" where
  "host_command w j host =
     get_command (xw_commands w) (hj_action_id j) (Some host) (hj_params j)
       (Some (sc_exec_mode (hj_creds j))) (sc_container_name (hj_creds j))"

text \<open>The outcome of one command: its output, the text of a failure, or an escaping exception.\<close>

datatype host_outcome = Succeeded string | Failed string | Escaped py_exn

definition run_and_check ::
  "exec_world \<Rightarrow> host_job \<Rightarrow> string \<Rightarrow> string \<Rightarrow> exec_state \<Rightarrow> host_outcome \<times> exec_state" where
  "run_and_check w j host command s =
     (let (reply, s1) = execute_command w (hj_creds j) host command s in
      (case reply of
         Inl error \<Rightarrow> Failed error
       | Inr output \<Rightarrow>
           (case reconcile_output (xw_json w) (hj_action_id j) (por (hj_params j) (PDict [])) output of
              Agrees \<Rightarrow> Succeeded output | Disagrees error \<Rightarrow> Failed error
            | CheckRaises x \<Rightarrow> Escaped x), s1))"

definition upgrade_rollback_command :: string where
  "upgrade_rollback_command =
     ''cephadm shell -- bash -c '' @ [CHR 0x27] @ ''ceph orch upgrade stop; ''
     @ join ''; '' (map (\<lambda>flag. ''ceph osd unset '' @ flag) upgrade_osd_flags) @ [CHR 0x27]"

definition skip_rest :: "env \<Rightarrow> host_run \<Rightarrow> host_run" where
  "skip_rest e h = h\<lparr>hn_progress := map (skip_pending e) (hn_progress h)\<rparr>"

text \<open>The stop of a cephadm upgrade that failed on a host, and the removal of its flags.\<close>

definition roll_back_upgrade :: "env \<Rightarrow> exec_world \<Rightarrow> host_job \<Rightarrow> string \<Rightarrow> host_run \<Rightarrow> host_run" where
  "roll_back_upgrade e w j host h =
     (let k = length (hn_progress h);
          h1 = save_hosts e j (h\<lparr>hn_progress := hn_progress h @
                 [doc [(''host'', PStr host), (''phase'', PStr ''rollback''), (''status'', PStr ''running''),
                       (''command'', PStr upgrade_rollback_command), (''started_at'', stamp e)]]\<rparr>);
          (reply, s) = execute_command w (hj_creds j) host upgrade_rollback_command (hn_exec h1);
          h2 = h1\<lparr>hn_exec := s\<rparr>;
          h3 = (case reply of
            Inl error \<Rightarrow> (set_entry k [(''status'', PStr ''failed''), (''error'', PStr error)] h2)
               \<lparr>hn_rollback_summary := Some ((''Rollback cephadm th'' @ [CHR 0xE1, CHR 0xBA, CHR 0xA5] @ ''t b'' @
       [CHR 0xE1, CHR 0xBA, CHR 0xA1] @ ''i: '') @ error)\<rparr>
          | Inr _ \<Rightarrow> (set_entry k [(''status'', PStr ''done'')] h2)
               \<lparr>hn_rollback_summary := Some ([CHR 0xC4, CHR 0x90, CHR 0xC3, CHR 0xA3] @ '' d'' @
       [CHR 0xE1, CHR 0xBB, CHR 0xAB] @ ''ng cephadm upgrade v'' @
       [CHR 0xC3, CHR 0xA0] @ '' g'' @ [CHR 0xE1, CHR 0xBB, CHR 0xA1] @ '' c'' @
       [CHR 0xC3, CHR 0xA1] @ ''c c'' @ [CHR 0xE1, CHR 0xBB, CHR 0x9D] @ '' b'' @
       [CHR 0xE1, CHR 0xBA, CHR 0xA3] @ ''o tr'' @ [CHR 0xC3, CHR 0xAC] @ '' Ceph.'')\<rparr>)
      in save_hosts e j (skip_rest e (set_entry k [(''finished_at'', stamp e)] h3)))"

text \<open>The step on one host; the flag tells whether the loop goes on.\<close>

definition host_step ::
  "env \<Rightarrow> exec_world \<Rightarrow> host_job \<Rightarrow> nat \<Rightarrow> string \<Rightarrow> host_run \<Rightarrow> py_exn option \<times> bool \<times> host_run" where
  "host_step e w j k host h =
     (let upgrade = (hj_action_id j = ''upgrade_ceph_cluster'') in
      case host_command w j host of
        Inl (Raises x) \<Rightarrow> (Some x, False, h)
      | Inl ExecutorError \<Rightarrow>
          (let error = xw_refusal w (hj_action_id j) host (hj_params j);
               h1 = save_hosts e j (set_entry k [(''status'', PStr ''failed''), (''error'', PStr error)]
                      (h\<lparr>hn_all_succeeded := False\<rparr>)) in
           if upgrade
           then (None, False, h1\<lparr>hn_update_failures := hn_update_failures h1
                   @ [''Node '' @ host @ ('', b'' @ [CHR 0xC6, CHR 0xB0, CHR 0xE1, CHR 0xBB, CHR 0x9B] @ ''c chu'' @
       [CHR 0xE1, CHR 0xBA, CHR 0xA9] @ ''n b'' @ [CHR 0xE1, CHR 0xBB, CHR 0x8B] @ '': '') @ error]\<rparr>)
           else (None, True, h1))
      | Inr command \<Rightarrow>
          (let h1 = save_hosts e j (set_entry k [(''status'', PStr ''running''), (''command'', PStr command),
                       (''started_at'', stamp e)] (h\<lparr>hn_last_command := Some command\<rparr>));
               (outcome, s) = run_and_check w j host command (hn_exec h1);
               h2 = h1\<lparr>hn_exec := s, hn_executed_any := True\<rparr> in
           case outcome of
             Escaped x \<Rightarrow> (Some x, False, h2)
           | Failed error \<Rightarrow>
               (let h3 = save_hosts e j (set_entry k [(''status'', PStr ''failed''), (''error'', PStr error),
                           (''finished_at'', stamp e)] (h2\<lparr>hn_all_succeeded := False\<rparr>)) in
                if upgrade
                then (None, False, roll_back_upgrade e w j host
                       (h3\<lparr>hn_update_failures := hn_update_failures h3
                         @ [''Node '' @ host @ ('', b'' @ [CHR 0xC6, CHR 0xB0, CHR 0xE1, CHR 0xBB, CHR 0x9B] @
       ''c cephadm upgrade: '') @ error]\<rparr>))
                else (None, True, h3))
           | Succeeded output \<Rightarrow>
               (None, True, save_hosts e j (set_entry k
                  ([(''status'', PStr ''done'')]
                   @ (if hj_action_id j = ''execute_node_command''
                      then [(''output'', PStr (drop (length output - 50000) output))] else [])
                   @ [(''finished_at'', stamp e)]) (h2\<lparr>hn_last_output := Some output\<rparr>)))))"

fun run_hosts ::
  "env \<Rightarrow> exec_world \<Rightarrow> host_job \<Rightarrow> (nat \<times> string) list \<Rightarrow> host_run \<Rightarrow> py_exn option \<times> host_run" where
  "run_hosts e w j [] h = (None, h)"
| "run_hosts e w j ((k, host) # rest) h =
     (case host_step e w j k host h of
        (Some x, _, h1) \<Rightarrow> (Some x, h1)
      | (None, go_on, h1) \<Rightarrow> if go_on then run_hosts e w j rest h1 else (None, h1))"

definition start_hosts :: "string list \<Rightarrow> exec_state \<Rightarrow> host_run" where
  "start_hosts nodes s =
     \<lparr>hn_exec = s,
      hn_progress = map (\<lambda>host. doc [(''host'', PStr host), (''status'', PStr ''pending'')]) nodes,
      hn_executed_any = False, hn_all_succeeded = True, hn_last_command = None, hn_last_output = None,
      hn_update_failures = [], hn_rollback_summary = None\<rparr>"

definition execute_on_hosts ::
  "env \<Rightarrow> exec_world \<Rightarrow> host_job \<Rightarrow> string \<Rightarrow> cluster option \<Rightarrow> string list \<Rightarrow> exec_state
     \<Rightarrow> py_exn option \<times> exec_state" where
  "execute_on_hosts e w j incident_id cl nodes s =
     (case run_hosts e w j (zip [0..<length nodes] nodes) (save_hosts e j (start_hosts nodes s)) of
        (Some x, h) \<Rightarrow> (Some x, hn_exec h)
      | (None, h) \<Rightarrow>
          (let (x, s1) = record_approved_execution_result e w (hj_pk j) (hn_last_command h)
                 (hn_all_succeeded h \<and> hn_executed_any h) (hn_last_output h) (hn_exec h) in
           (x, if x = None \<and> hn_update_failures h \<noteq> []
               then notify_update_failure incident_id (hn_update_failures h)
                      (case hn_rollback_summary h of Some t \<Rightarrow> t
                       | None \<Rightarrow> ([CHR 0xC4, CHR 0x90, CHR 0xC3, CHR 0xA3] @ '' d'' @
       [CHR 0xE1, CHR 0xBB, CHR 0xAB] @ ''ng rollout tr'' @
       [CHR 0xC6, CHR 0xB0, CHR 0xE1, CHR 0xBB, CHR 0x9B] @ ''c c'' @
       [CHR 0xC3, CHR 0xA1] @ ''c node c'' @ [CHR 0xC3, CHR 0xB2] @ ''n l'' @
       [CHR 0xE1, CHR 0xBA, CHR 0xA1] @ ''i.'')) cl s1
               else s1)))"

section \<open>The dispatch\<close>

definition package_upgrade_action_ids :: "string list" where
  "package_upgrade_action_ids =
     [''upgrade_ceph_cluster_package_download'', ''upgrade_ceph_cluster_package_local'']"

definition rbd_orchestrated_action_ids :: "string list" where
  "rbd_orchestrated_action_ids = [''rbd_move_volume'', ''rbd_move_cleanup_partial'']"

definition orchestrated_action_ids :: "exec_world \<Rightarrow> string list" where
  "orchestrated_action_ids w =
     rbd_orchestrated_action_ids @ load_cluster_deploy_action_ids (xw_policy w)
     @ load_volume_perf_action_ids (xw_policy w) @ load_backup_action_ids (xw_policy w)"

text \<open>Only the volume moves report a command and its output.\<close>

definition run_orchestrator ::
  "env \<Rightarrow> exec_world \<Rightarrow> host_job \<Rightarrow> string list \<Rightarrow> exec_state \<Rightarrow> py_exn option \<times> exec_state" where
  "run_orchestrator e w j nodes s =
     (let ((succeeded, command, output), s1) =
            xw_orchestrator w (hj_action_id j) (hj_pk j) (hj_params j) nodes s;
          reports = hj_action_id j \<in> set rbd_orchestrated_action_ids in
      record_approved_execution_result e w (hj_pk j)
        (if reports \<and> opt_truthy command then command else None) succeeded
        (if reports then output else None) s1)"

text \<open>
  The live check of a single purge: \<open>Some None\<close> refuses, \<open>Some (Some reason)\<close> refuses and shows the
  reason, \<open>None\<close> lets the purge go on.
\<close>

definition trash_remove_refusal ::
  "env \<Rightarrow> exec_world \<Rightarrow> string \<Rightarrow> pyval \<Rightarrow> py_exn + string option option" where
  "trash_remove_refusal e w host params =
     (case (dget params ''pool_name'', dget params ''trash_id'') of
        (PStr pool, PStr trash_id) \<Rightarrow>
          (case get_command (xw_commands w) ''rbd_trash_remove'' (Some host) params None [] of
             Inl (Raises x) \<Rightarrow> Inl x
           | Inl ExecutorError \<Rightarrow> Inr (Some None)
           | Inr _ \<Rightarrow>
               (case rbd_trash_purge_eligibility e w pool of
                  None \<Rightarrow> Inr (Some None)
                | Some eligibility \<Rightarrow>
                    Inr (case eligibility trash_id of None \<Rightarrow> None | Some r \<Rightarrow> Some (Some r))))
      | _ \<Rightarrow> Inr (Some None))"

definition dispatch_action ::
  "env \<Rightarrow> exec_world \<Rightarrow> host_job \<Rightarrow> string \<Rightarrow> cluster option \<Rightarrow> string list \<Rightarrow> exec_state
     \<Rightarrow> py_exn option \<times> exec_state" where
  "dispatch_action e w j incident_id cl nodes s =
     (let action_id = hj_action_id j; pk = hj_pk j; params = hj_params j in
      if action_id = ''rbd_trash_remove'' then
        (case trash_remove_refusal e w (hd nodes) params of
           Inl x \<Rightarrow> (Some x, s)
         | Inr None \<Rightarrow> execute_on_hosts e w j incident_id cl nodes s
         | Inr (Some None) \<Rightarrow> refuse_silently e w pk s
         | Inr (Some (Some reason)) \<Rightarrow>
             refuse_silently e w pk (write_action_progress e pk
               [doc [(''trash_id'', dget params ''trash_id''), (''status'', PStr ''skipped''),
                     (''error'', PStr reason)]] s))
      else if action_id = ''rbd_trash_purge_all'' then
        (case execute_rbd_trash_purge_all_action e w pk params (hd nodes) (hj_creds j) s of
           (Some x, _, s1) \<Rightarrow> (Some x, s1)
         | (None, succeeded, s1) \<Rightarrow> record_approved_execution_result e w pk None succeeded None s1)
      else if action_id \<in> set (orchestrated_action_ids w) then
        (if is_dict params then run_orchestrator e w j nodes s else refuse_silently e w pk s)
      else if action_id \<in> set package_upgrade_action_ids then
        execute_package_upgrade_action e w
          \<lparr>uj_pk = pk, uj_action_id = action_id, uj_params = params, uj_incident_id = incident_id,
           uj_cluster = cl\<rparr> nodes s
      else execute_on_hosts e w j incident_id cl nodes s)"

section \<open>The whole execution\<close>

definition checked_target ::
  "exec_world \<Rightarrow> store \<Rightarrow> string \<Rightarrow> pyval \<Rightarrow> cluster option \<Rightarrow> string list \<Rightarrow> (string \<times> string) option" where
  "checked_target w st action_id params cl nodes =
     (let plan = targets_plan_nodes action_id params;
          creds = resolve_ssh_creds (xw_settings w) cl in
      if plan \<and> \<not> matches_plan params nodes
      then Some (([CHR 0xC4, CHR 0x90, CHR 0xE1, CHR 0xBB, CHR 0x91] @ ''i chi'' @
       [CHR 0xE1, CHR 0xBA, CHR 0xBF] @ ''u node v'' @ [CHR 0xE1, CHR 0xBB, CHR 0x9B] @
       ''i k'' @ [CHR 0xE1, CHR 0xBA, CHR 0xBF] @ '' ho'' @
       [CHR 0xE1, CHR 0xBA, CHR 0xA1] @ ''ch '' @
       [CHR 0xC4, CHR 0x91, CHR 0xC3, CHR 0xA3] @ '' duy'' @
       [CHR 0xE1, CHR 0xBB, CHR 0x87] @ ''t''),
                 (''T'' @ [CHR 0xE1, CHR 0xBB, CHR 0xAB] @ '' ch'' @
       [CHR 0xE1, CHR 0xBB, CHR 0x91] @ ''i th'' @ [CHR 0xE1, CHR 0xBB, CHR 0xB1] @
       ''c thi: target_nodes kh'' @ [CHR 0xC3, CHR 0xB4] @ ''ng kh'' @
       [CHR 0xE1, CHR 0xBB, CHR 0x9B] @ ''p danh s'' @ [CHR 0xC3, CHR 0xA1] @
       ''ch node trong k'' @ [CHR 0xE1, CHR 0xBA, CHR 0xBF] @ '' ho'' @
       [CHR 0xE1, CHR 0xBA, CHR 0xA1] @ ''ch Deploy Cluster '' @
       [CHR 0xC4, CHR 0x91, CHR 0xC3, CHR 0xA3] @ '' duy'' @
       [CHR 0xE1, CHR 0xBB, CHR 0x87] @ ''t.''))
      else map_option (\<lambda>reason. ((''Ki'' @ [CHR 0xE1, CHR 0xBB, CHR 0x83] @ ''m tra an to'' @
       [CHR 0xC3, CHR 0xA0] @ ''n node '' @ [CHR 0xC4, CHR 0x91, CHR 0xC3, CHR 0xAD] @
       ''ch''), reason))
             (live_action_target_safety_reason (xw_settings w) (xw_under_tmp w) st cl nodes
               (sc_key_path creds) plan))"

definition run_claimed ::
  "env \<Rightarrow> exec_world \<Rightarrow> string \<Rightarrow> ticket \<Rightarrow> exec_state \<Rightarrow> py_exn option \<times> exec_state" where
  "run_claimed e w action_pk tk s =
     (let st = xs_store s; inc = get_incident st (tk_incident_id tk);
          params = parsed (tk_action_params tk);
          cl = (case inc of None \<Rightarrow> None | Some i \<Rightarrow> cluster_of st i);
          creds = resolve_ssh_creds (xw_settings w) cl in
      case cluster_binding_reason st inc params of
        Some reason \<Rightarrow>
          refuse e w action_pk (''Ki'' @ [CHR 0xE1, CHR 0xBB, CHR 0x83] @ ''m tra c'' @
       [CHR 0xE1, CHR 0xBB, CHR 0xA5] @ ''m '' @
       [CHR 0xC4, CHR 0x91, CHR 0xC3, CHR 0xAD] @ ''ch'') reason
            (on_store (audit_record e (tk_incident_id tk) (Some action_pk) ''action_cluster_binding_blocked''
               actor_system (Some (doc
                 [(''incident_cluster_id'', case inc of None \<Rightarrow> PNone | Some i \<Rightarrow> opt_py (in_cluster_id i)),
                  (''reason'', PStr reason)]))) s)
      | None \<Rightarrow>
          (case valid_targets (tk_target_nodes tk) of
             None \<Rightarrow> refuse e w action_pk (''Ki'' @ [CHR 0xE1, CHR 0xBB, CHR 0x83] @ ''m tra target node'')
                (''T'' @ [CHR 0xE1, CHR 0xBB, CHR 0xAB] @ '' ch'' @
       [CHR 0xE1, CHR 0xBB, CHR 0x91] @ ''i th'' @ [CHR 0xE1, CHR 0xBB, CHR 0xB1] @
       ''c thi: danh s'' @ [CHR 0xC3, CHR 0xA1] @ ''ch target_nodes thi'' @
       [CHR 0xE1, CHR 0xBA, CHR 0xBF] @ ''u ho'' @ [CHR 0xE1, CHR 0xBA, CHR 0xB7] @
       ''c kh'' @ [CHR 0xC3, CHR 0xB4] @ ''ng h'' @ [CHR 0xE1, CHR 0xBB, CHR 0xA3] @
       ''p l'' @ [CHR 0xE1, CHR 0xBB, CHR 0x87] @ ''.'') s
           | Some nodes \<Rightarrow>
               (case checked_target w st (tk_action_id tk) params cl nodes of
                  Some (label, message) \<Rightarrow> refuse e w action_pk label message s
                | None \<Rightarrow>
                    dispatch_action e w \<lparr>hj_pk = action_pk, hj_action_id = tk_action_id tk,
                      hj_params = params, hj_creds = creds\<rparr> (tk_incident_id tk) cl nodes s)))"

definition execute_approved_action ::
  "env \<Rightarrow> exec_world \<Rightarrow> string \<Rightarrow> exec_state \<Rightarrow> py_exn option \<times> exec_state" where
  "execute_approved_action e w action_pk s =
     (case recheck_approval e (xw_policy w) action_pk (xs_store s) of
        (Cleared tk, st1) \<Rightarrow>
          (let (claimed, st2) = claim_execution e (tk_incident_id tk) st1; s2 = s\<lparr>xs_store := st2\<rparr> in
           if claimed then run_claimed e w action_pk tk s2 else (None, s2))
      | (_, st1) \<Rightarrow> (None, s\<lparr>xs_store := st1\<rparr>))"

end
