(* ===== verification/ExecutionSafety.thy ===== *)
theory ExecutionSafety
  imports Execution
begin

text \<open>
  What holds of an execution: which approvals, clusters and targets a remote command needs, what the
  result writes, the claim, and the commands of the loop over the hosts.
\<close>

section \<open>The commands of a trace\<close>

definition is_command :: "effect \<Rightarrow> bool" where
  "is_command x = (case x of Ran _ _ _ _ \<Rightarrow> True | _ \<Rightarrow> False)"

definition commands_run :: "exec_state \<Rightarrow> effect list" where
  "commands_run s = filter is_command (xs_trace s)"

lemma is_command_simps [simp]:
  "is_command (Ran h c u k)" "\<not> is_command (Invalidated a b)" "\<not> is_command (Alerted x)"
  "\<not> is_command (UpdateFailed y)"
  by (simp_all add: is_command_def)

lemma commands_run_store [simp]: "commands_run (on_store f s) = commands_run s"
  "commands_run (s\<lparr>xs_store := st\<rparr>) = commands_run s"
  by (simp_all add: commands_run_def on_store_def)

lemma write_progress_simps [simp]:
  "commands_run (write_action_progress e pk p s) = commands_run s"
  "xs_trace (write_action_progress e pk p s) = xs_trace s"
  by (simp_all add: write_action_progress_def) (simp add: on_store_def)

lemma invalidations_no_command [simp]: "filter is_command (invalidations st a inc) = []"
  by (auto simp: invalidations_def Let_def filter_concat filter_empty_conv split: option.splits)

lemma record_commands [simp]:
  "commands_run (snd (record_approved_execution_result e w pk c ok out s)) = commands_run s"
  by (simp add: record_approved_execution_result_def Let_def commands_run_def result_alert_def
      split: option.split sum.split)

lemma refuse_commands [simp]:
  "commands_run (snd (refuse_silently e w pk s)) = commands_run s"
  "commands_run (snd (refuse e w pk label message s)) = commands_run s"
  by (simp_all add: refuse_silently_def refuse_def)

lemma set_entry_simps [simp]:
  "hn_exec (set_entry k kvs h) = hn_exec h" "hn_executed_any (set_entry k kvs h) = hn_executed_any h"
  "hn_all_succeeded (set_entry k kvs h) = hn_all_succeeded h"
  "hn_update_failures (set_entry k kvs h) = hn_update_failures h"
  by (simp_all add: set_entry_def)

lemma save_hosts_simps [simp]:
  "xs_trace (hn_exec (save_hosts e j h)) = xs_trace (hn_exec h)"
  "hn_executed_any (save_hosts e j h) = hn_executed_any h"
  "hn_all_succeeded (save_hosts e j h) = hn_all_succeeded h"
  "hn_update_failures (save_hosts e j h) = hn_update_failures h"
  by (simp_all add: save_hosts_def)

lemma notify_simps [simp]:
  "commands_run (notify_update_failure i fs t cl s) = commands_run s"
  "xs_store (notify_update_failure i fs t cl s) = xs_store s"
  by (simp_all add: notify_update_failure_def add_effect_def commands_run_def Let_def)

section \<open>The approval that is read again\<close>

lemma reassess_tables:
  "st_incidents (reassess_risk e a st) = st_incidents st"
  "st_clusters (reassess_risk e a st) = st_clusters st"
  "st_overrides (reassess_risk e a st) = st_overrides st"
  by (simp_all add: reassess_risk_def Let_def case_prod_unfold assess_and_record_def draw_def
      edit_assessment_def split: option.split)

lemma get_assessment_edit:
  assumes "\<And>r. cr_action_id (f r) = cr_action_id r"
  shows "get_assessment (edit_assessment pk f st) pk = map_option f (get_assessment st pk)"
proof -
  have "find_id cr_action_id pk (map (\<lambda>r. if cr_action_id r = pk then f r else r) rows)
      = map_option f (find_id cr_action_id pk rows)" for rows
    unfolding find_id_def using assms by (induction rows) auto
  then show ?thesis by (simp add: get_assessment_def edit_assessment_def)
qed

lemma assess_and_record_assessment:
  "\<exists>r. get_assessment (snd (assess_and_record e a inc st)) (ac_id a) = Some r
     \<and> cr_assessment_hash r = rr_fingerprint (assess e st a inc)
     \<and> cr_acknowledged_hash r =
         (case get_assessment st (ac_id a) of None \<Rightarrow> None | Some q \<Rightarrow> cr_acknowledged_hash q)"
proof (cases "get_assessment st (ac_id a)")
  case None
  then show ?thesis
    by (simp add: assess_and_record_def Let_def draw_def get_assessment_def find_id_append_new assessed_row_def)
next
  case (Some q)
  then show ?thesis
    by (simp add: assess_and_record_def Let_def get_assessment_edit assessed_row_def)
qed

definition risk_standing :: "env \<Rightarrow> store \<Rightarrow> action_row \<Rightarrow> bool" where
  "risk_standing e st a =
     (case get_assessment st (ac_id a) of None \<Rightarrow> True
      | Some r \<Rightarrow> cr_assessment_hash r = legacy_hash
          \<or> cr_acknowledged_hash r = Some (rr_fingerprint (assess e st a None)))"

lemma get_assessment_edit_action [simp]:
  "get_assessment (edit_action e i f st) pk = get_assessment st pk"
  by (simp add: get_assessment_def)

lemma risk_acknowledged_iff:
  "risk_acknowledged (reassess_risk e a st) (ac_id a) \<longleftrightarrow> risk_standing e st a"
proof -
  obtain r where r: "get_assessment (snd (assess_and_record e a None st)) (ac_id a) = Some r"
    "cr_assessment_hash r = rr_fingerprint (assess e st a None)"
    "cr_acknowledged_hash r =
         (case get_assessment st (ac_id a) of None \<Rightarrow> None | Some q \<Rightarrow> cr_acknowledged_hash q)"
    using assess_and_record_assessment by blast
  then show ?thesis
    by (auto simp: risk_acknowledged_def reassess_risk_def Let_def case_prod_unfold risk_standing_def
        get_assessment_edit split: option.splits)
qed

lemma recheck_Cleared:
  assumes "recheck_approval e policy pk st = (Cleared tk, st1)"
  shows "\<exists>a. get_action st pk = Some a \<and> ac_status a = AS_APPROVED
     \<and> ac_classification a = current_tier policy st (ac_action_id a)
     \<and> (case get_incident st (ac_incident_id a) of None \<Rightarrow> True
        | Some i \<Rightarrow> \<not> is_synthetic_evidence (in_signal_evidence_json i))
     \<and> risk_standing e st a \<and> st1 = reassess_risk e a st
     \<and> tk = \<lparr>tk_action_id = ac_action_id a, tk_incident_id = ac_incident_id a,
              tk_target_nodes = ac_target_nodes a, tk_action_params = ac_action_params a\<rparr>"
  using assms
  by (auto simp: recheck_approval_def recheck_risk_def Let_def risk_acknowledged_iff
      split: option.splits if_splits)

section \<open>The claim\<close>

lemma claim_execution_tables [simp]:
  "st_actions (snd (claim_execution e i st)) = st_actions st"
  "st_clusters (snd (claim_execution e i st)) = st_clusters st"
  "st_overrides (snd (claim_execution e i st)) = st_overrides st"
  by (simp_all add: claim_execution_def case_prod_unfold Let_def)

lemma claim_wins_iff:
  assumes "distinct (map in_id (st_incidents st))"
  shows "fst (claim_execution e i st) \<longleftrightarrow>
     (case get_incident st i of None \<Rightarrow> False | Some r \<Rightarrow> in_status r \<noteq> IS_EXECUTING)"
  using assms
  by (auto simp: claim_execution_def case_prod_unfold Let_def update_where_key_count split: option.split)

lemma claim_incident:
  "get_incident (snd (claim_execution e i st)) j =
     map_option (\<lambda>r. if in_id r = i \<and> in_status r \<noteq> IS_EXECUTING
       then r\<lparr>in_status := IS_EXECUTING, in_updated_at := ev_now e\<rparr> else r) (get_incident st j)"
  by (simp add: claim_execution_def case_prod_unfold Let_def find_id_update_where)


section \<open>What a command needs\<close>

definition cluster_usable :: "store \<Rightarrow> incident \<Rightarrow> bool" where
  "cluster_usable st i =
     (case in_cluster_id i of None \<Rightarrow> True
      | Some c \<Rightarrow> (case get_cluster st c of None \<Rightarrow> False | Some cl \<Rightarrow> cl_is_active cl))"

definition targets_allowed ::
  "exec_world \<Rightarrow> store \<Rightarrow> cluster option \<Rightarrow> string \<Rightarrow> pyval \<Rightarrow> string list \<Rightarrow> bool" where
  "targets_allowed w st cl action_id params nodes =
     (let key = sc_key_path (resolve_ssh_creds (xw_settings w) cl) in
      (if targets_plan_nodes action_id params then matches_plan params nodes
       else set nodes \<subseteq> set (allowed_hosts (xw_settings w) st cl))
      \<and> key \<noteq> [] \<and> \<not> xw_under_tmp w key)"

lemma binding_usable: "cluster_binding_reason st (Some i) params = None \<Longrightarrow> cluster_usable st i"
  by (auto simp: cluster_binding_reason_def cluster_usable_def Let_def split: option.splits if_splits)

lemma checked_target_None:
  "checked_target w st action_id params cl nodes = None \<longleftrightarrow> targets_allowed w st cl action_id params nodes"
  by (auto simp: checked_target_def targets_allowed_def live_action_target_safety_reason_def Let_def
      filter_empty_conv)

lemma run_claimed_commands:
  assumes "commands_run (snd (run_claimed e w pk tk s)) \<noteq> commands_run s"
    and "get_incident (xs_store s) (tk_incident_id tk) = Some i"
  shows "cluster_usable (xs_store s) i
     \<and> (\<exists>nodes. valid_targets (tk_target_nodes tk) = Some nodes
          \<and> targets_allowed w (xs_store s) (cluster_of (xs_store s) i) (tk_action_id tk)
              (parsed (tk_action_params tk)) nodes)"
  using assms
  by (auto simp: run_claimed_def Let_def checked_target_None [symmetric] binding_usable
      split: option.splits prod.splits)

lemma allowed_same_clusters:
  "st_clusters st' = st_clusters st \<Longrightarrow> targets_allowed w st' cl a p nodes = targets_allowed w st cl a p nodes"
  "st_clusters st' = st_clusters st \<Longrightarrow> cluster_usable st' i = cluster_usable st i"
  "st_clusters st' = st_clusters st \<Longrightarrow> cluster_of st' i = cluster_of st i"
  by (simp_all add: targets_allowed_def allowed_hosts_def openstack_hosts_def stored_default_def
      cluster_usable_def cluster_of_def Let_def cong: option.case_cong)

text \<open>
  C6. A remote command is run for an action only if, in the database the execution started from, the
  action is approved, its stored tier is the one the policy gives now, the risk that was acknowledged
  is the risk assessed now (or the assessment predates fingerprints), its incident is neither an
  injected one nor already being executed, the incident's cluster still exists and is enabled, and
  the targets are hosts of that cluster's configuration, or exactly the hosts of the approved plan,
  reached with a key outside \<open>/tmp\<close>.
\<close>

theorem execution_needs_standing_approval:
  assumes "commands_run (snd (execute_approved_action e w pk s)) \<noteq> commands_run s"
    and "distinct (map in_id (st_incidents (xs_store s)))"
  shows "\<exists>a i nodes. get_action (xs_store s) pk = Some a \<and> ac_status a = AS_APPROVED
     \<and> ac_classification a = current_tier (xw_policy w) (xs_store s) (ac_action_id a)
     \<and> risk_standing e (xs_store s) a
     \<and> get_incident (xs_store s) (ac_incident_id a) = Some i \<and> in_status i \<noteq> IS_EXECUTING
     \<and> \<not> is_synthetic_evidence (in_signal_evidence_json i) \<and> cluster_usable (xs_store s) i
     \<and> valid_targets (ac_target_nodes a) = Some nodes
     \<and> targets_allowed w (xs_store s) (cluster_of (xs_store s) i) (ac_action_id a)
         (parsed (ac_action_params a)) nodes"
proof -
  let ?st = "xs_store s"
  obtain tk st1 where tk: "recheck_approval e (xw_policy w) pk ?st = (Cleared tk, st1)"
    and ran: "commands_run (snd (execute_approved_action e w pk s)) \<noteq> commands_run s"
    using assms(1) by (auto simp: execute_approved_action_def split: prod.splits recheck.splits)
  obtain a where a: "get_action ?st pk = Some a" "ac_status a = AS_APPROVED"
      "ac_classification a = current_tier (xw_policy w) ?st (ac_action_id a)"
      "case get_incident ?st (ac_incident_id a) of None \<Rightarrow> True
        | Some i \<Rightarrow> \<not> is_synthetic_evidence (in_signal_evidence_json i)"
      "risk_standing e ?st a" "st1 = reassess_risk e a ?st"
      "tk = \<lparr>tk_action_id = ac_action_id a, tk_incident_id = ac_incident_id a,
              tk_target_nodes = ac_target_nodes a, tk_action_params = ac_action_params a\<rparr>"
    using recheck_Cleared [OF tk] by blast
  let ?c = "claim_execution e (ac_incident_id a) st1"
  have won: "fst ?c" and run: "commands_run (snd (run_claimed e w pk tk (s\<lparr>xs_store := snd ?c\<rparr>)))
      \<noteq> commands_run (s\<lparr>xs_store := snd ?c\<rparr>)"
    using ran tk a(7) by (auto simp: execute_approved_action_def Let_def split: prod.splits if_splits)
  have tables: "st_incidents st1 = st_incidents ?st" "st_clusters st1 = st_clusters ?st"
    by (simp_all add: a(6) reassess_tables)
  from won assms(2) obtain i where i: "get_incident ?st (ac_incident_id a) = Some i" "in_status i \<noteq> IS_EXECUTING"
    by (auto simp: claim_wins_iff tables split: option.splits)
  let ?i = "i\<lparr>in_status := IS_EXECUTING, in_updated_at := ev_now e\<rparr>"
  have "in_id i = ac_incident_id a" using find_id_Some [OF i(1)] by simp
  then have claimed: "get_incident (snd ?c) (ac_incident_id a) = Some ?i"
    using i by (simp add: claim_incident tables)
  have "cluster_usable (snd ?c) ?i" and "\<exists>nodes. valid_targets (ac_target_nodes a) = Some nodes
      \<and> targets_allowed w (snd ?c) (cluster_of (snd ?c) ?i) (ac_action_id a) (parsed (ac_action_params a)) nodes"
    using run_claimed_commands [OF run, of ?i] claimed by (simp_all add: a(7))
  moreover have "cluster_usable (snd ?c) ?i = cluster_usable ?st i" "cluster_of (snd ?c) ?i = cluster_of ?st i"
    by (simp_all add: cluster_usable_def cluster_of_def tables cong: option.case_cong)
  moreover have "targets_allowed w (snd ?c) cl b p n = targets_allowed w ?st cl b p n" for cl b p n
    by (rule allowed_same_clusters(1)) (simp add: tables)
  ultimately show ?thesis using a i by auto
qed


section \<open>What a result writes\<close>

lemma record_execution_tables [simp]:
  "st_actions (record_execution e pk ok t st) = st_actions st"
  "st_incidents (record_execution e pk ok t st) = st_incidents st"
  "st_clusters (record_execution e pk ok t st) = st_clusters st"
  by (simp_all add: record_execution_def)

lemma record_verified_rows [simp]:
  "st_actions (record_verified e i ok t p st) = st_actions st"
  "st_incidents (record_verified e i ok t p st) = st_incidents st"
  "st_clusters (record_verified e i ok t p st) = st_clusters st"
  by (simp_all add: record_verified_def)

lemma usage_tables:
  "st_actions (delete_rbd_trash_usage a inc st) = st_actions st"
  "st_incidents (delete_rbd_trash_usage a inc st) = st_incidents st"
  "st_cases (delete_rbd_trash_usage a inc st) = st_cases st"
  "persist_rbd_trash_usage e w a inc out st = Inr st'
     \<Longrightarrow> st_actions st' = st_actions st \<and> st_incidents st' = st_incidents st \<and> st_cases st' = st_cases st"
  by (auto simp: delete_rbd_trash_usage_def persist_rbd_trash_usage_def store_trash_usage_def draw_def Let_def
      split: option.splits pyval.splits json_text.splits sum.splits if_splits)

lemma post_message_tables [simp]:
  "st_actions (post_result_message e i c st) = st_actions st"
  "st_incidents (post_result_message e i c st) = st_incidents st"
  "st_cases (post_result_message e i c st) = st_cases st"
  by (simp_all add: post_result_message_def draw_def Let_def split: option.split)

lemma recorded_store_tables:
  "st_actions (recorded_store e w a inc c ok st) = st_actions st"
  by (simp add: recorded_store_def Let_def close_incident_def split: option.split)

definition closed_status :: "incident \<Rightarrow> bool \<Rightarrow> incident_status" where
  "closed_status i ok =
     (if \<not> ok then IS_FAILED else if is_monitor_owned (in_ceph_code i) then IS_RESOLVED else IS_VERIFYING)"

lemma close_incident_get:
  assumes "get_incident st (in_id i) = Some i"
  shows "\<exists>i'. get_incident (close_incident e d ok i st) (in_id i) = Some i'
     \<and> in_status i' = closed_status i ok
     \<and> (closed_status i ok = IS_VERIFYING \<longrightarrow> in_verify_after i' = Some (ev_now e + seconds (max 0 d)))"
  using assms by (auto simp: close_incident_def closed_status_def get_incident_edit)

lemma recorded_incident:
  assumes "get_incident st (in_id i) = Some i"
  shows "\<exists>i'. get_incident (recorded_store e w a (Some i) c ok st) (in_id i) = Some i'
     \<and> in_status i' = closed_status i ok
     \<and> (closed_status i ok = IS_VERIFYING \<longrightarrow> in_verify_after i'
           = Some (ev_now e + seconds (max 0 (ws_incident_verify_delay_seconds (xw_settings w)))))"
  using close_incident_get [where st = "record_execution e (ac_id a) ok (Some (ev_now e)) st" and i = i and e = e
      and d = "ws_incident_verify_delay_seconds (xw_settings w)" and ok = ok] assms
  by (simp add: recorded_store_def Let_def)

lemma record_result_store:
  assumes "record_approved_execution_result e w pk command ok out s = (None, s')"
    and "get_action (xs_store s) pk = Some a"
  shows "\<exists>st. st_actions st = st_actions (edit_action e pk (recorded_row e command ok) (xs_store s))
     \<and> st_incidents st = st_incidents (xs_store s)
     \<and> xs_store s' = recorded_store e w a (get_incident (xs_store s) (ac_incident_id a)) command ok st"
proof -
  let ?st1 = "edit_action e pk (recorded_row e command ok) (xs_store s)"
  let ?inc = "get_incident (xs_store s) (ac_incident_id a)"
  define usage where "usage = (if \<not> ok then Inr ?st1
      else if ac_action_id a = ''rbd_trash_move_volume'' then persist_rbd_trash_usage e w a ?inc out ?st1
      else Inr (delete_rbd_trash_usage a ?inc ?st1))"
  obtain st where st: "usage = Inr st" and "xs_store s' = recorded_store e w a ?inc command ok st"
    using assms by (cases usage)
      (auto simp: record_approved_execution_result_def Let_def usage_def [symmetric])
  moreover have "st_actions st = st_actions ?st1 \<and> st_incidents st = st_incidents ?st1"
    using st usage_tables(4) [of e w a ?inc out ?st1 st]
    by (auto simp: usage_def usage_tables(1,2) split: if_splits)
  ultimately show ?thesis by auto
qed

text \<open>
  C9. A recorded result never closes an incident on the command's word: a failed execution makes the
  action FAILED and the incident FAILED; a successful one makes the action EXECUTED with its time, and
  the incident waits as VERIFYING until the check that is due after the configured delay, unless a
  monitor owns its code, which alone makes it RESOLVED.
\<close>

theorem recorded_verdict:
  assumes "record_approved_execution_result e w pk command ok out s = (None, s')"
    and "get_action (xs_store s) pk = Some a"
    and "get_incident (xs_store s) (ac_incident_id a) = Some i"
  shows "\<exists>a' i'. get_action (xs_store s') pk = Some a' \<and> get_incident (xs_store s') (ac_incident_id a) = Some i'
     \<and> ac_status a' = (if ok then AS_EXECUTED else AS_FAILED)
     \<and> ac_executed_at a' = (if ok then Some (ev_now e) else ac_executed_at a)
     \<and> in_status i' = closed_status i ok
     \<and> (closed_status i ok \<noteq> IS_VERIFYING \<or> in_verify_after i'
           = Some (ev_now e + seconds (max 0 (ws_incident_verify_delay_seconds (xw_settings w)))))"
proof -
  let ?st1 = "edit_action e pk (recorded_row e command ok) (xs_store s)"
  obtain st2 where st2: "st_actions st2 = st_actions ?st1" "st_incidents st2 = st_incidents (xs_store s)"
    and s': "xs_store s' = recorded_store e w a (Some i) command ok st2"
    using record_result_store [OF assms(1,2)] assms(3) by auto
  have row: "ac_id (recorded_row e command ok r) = ac_id r" for r
    by (simp add: recorded_row_def Let_def)
  have i: "in_id i = ac_incident_id a" using find_id_Some [OF assms(3)] by simp
  have "get_incident st2 (in_id i) = Some i" using assms(3) by (simp add: st2 i)
  from recorded_incident [OF this, where e = e and w = w and a = a and c = command and ok = ok] obtain i' where
    "get_incident (xs_store s') (ac_incident_id a) = Some i'" "in_status i' = closed_status i ok"
    "closed_status i ok = IS_VERIFYING \<longrightarrow> in_verify_after i'
       = Some (ev_now e + seconds (max 0 (ws_incident_verify_delay_seconds (xw_settings w))))"
    by (auto simp: s' i)
  moreover have "get_action (xs_store s') pk = Some (save_action (ev_now e) (recorded_row e command ok) a)"
    using get_action_edit [where f = "recorded_row e command ok" and e = e and i = pk and j = pk and st = "xs_store s", OF row] assms(2)
    by (simp add: s' recorded_store_tables st2)
  ultimately show ?thesis by (simp add: recorded_row_def Let_def disj_imp)
qed

lemma record_total:
  assumes "get_action (xs_store s) pk = Some a" and "ac_action_id a \<noteq> ''rbd_trash_move_volume''"
  shows "record_approved_execution_result e w pk c ok out s =
     (None, snd (record_approved_execution_result e w pk c ok out s))"
  using assms by (simp add: record_approved_execution_result_def Let_def)

section \<open>Two workers\<close>

text \<open>
  While an execution holds its incident, no other worker gets it: after a successful claim every
  further claim of the same incident fails and changes nothing.
\<close>

theorem claimed_incident_exclusive:
  assumes "claim_execution e i st = (True, st1)" and "distinct (map in_id (st_incidents st))"
  shows "claim_execution e2 i st1 = (False, st1)"
proof -
  let ?P = "\<lambda>r. in_id r = i \<and> in_status r \<noteq> IS_EXECUTING"
  let ?f = "\<lambda>r. if ?P r then r\<lparr>in_status := IS_EXECUTING, in_updated_at := ev_now e\<rparr> else r"
  have "st_incidents st1 = map (\<lambda>r. if ?P r then r\<lparr>in_status := IS_EXECUTING, in_updated_at := ev_now e\<rparr> else r)
      (st_incidents st)"
    using arg_cong [OF assms(1), of "\<lambda>x. st_incidents (snd x)"]
    by (simp add: claim_execution_def case_prod_unfold Let_def update_where_def)
  moreover have "\<not> ?P (?f r)" for r by (cases "?P r") simp_all
  ultimately have none: "\<forall>r \<in> set (st_incidents st1). \<not> ?P r" by (simp only: set_map ball_simps) blast
  have "claim_execution e2 i st1 = (fst (update_where ?P f rows) = 1, st1\<lparr>st_incidents := snd (update_where ?P f rows)\<rparr>)"
    if "f = (\<lambda>r. r\<lparr>in_status := IS_EXECUTING, in_updated_at := ev_now e2\<rparr>)" "rows = st_incidents st1" for f rows
    by (simp add: claim_execution_def case_prod_unfold Let_def that)
  then show ?thesis
    using none update_where_count_zero [of ?P _ "st_incidents st1"] update_where_none [OF none] by simp
qed


section \<open>A concrete run\<close>

definition run_settings :: worker_settings where
  "run_settings =
     \<lparr>ws_ssh_user = ''ceph'', ws_ssh_key_path = ''/keys/id'', ws_ceph_exec_mode = ''none'',
      ws_ceph_container_name = [], ws_ceph_mon_nodes = ''n1, n2'', ws_ceph_mgr_nodes = [],
      ws_ceph_osd_nodes = ''n2'', ws_ceph_rgw_nodes = [], ws_incident_verify_delay_seconds = 300,
      ws_rbd_trash_retention_days = 30\<rparr>"

definition run_world :: exec_world where
  "run_world =
     \<lparr>xw_settings = run_settings, xw_policy = doc [(''safe'', PList [PStr ''resync_ntp''])],
      xw_commands = \<lparr>cw_exec_mode = ''none'', cw_listing = (\<lambda>_ _ _. Inr ''ceph-mon@n1.service''),
        cw_fields_of = (\<lambda>_ _. None), cw_preview = (\<lambda>_ _ _. Inl ExecutorError)\<rparr>,
      xw_reply = (\<lambda>n host command. if host = ''n2'' then Inl ''no route'' else Inr ''ok''),
      xw_refusal = (\<lambda>_ _ _. ''refused''), xw_json = (\<lambda>_. JMalformed), xw_datetime = (\<lambda>_. None),
      xw_under_tmp = (\<lambda>p. starts_with p ''/tmp''),
      xw_trash = (\<lambda>_. Some [doc [(''id'', PStr ''t1''), (''status'', PStr ''expired'')]]),
      xw_orchestrator = (\<lambda>_ _ _ _ s. ((True, None, None), s))\<rparr>"

definition approved_action :: action_row where
  "approved_action = lab_action\<lparr>ac_status := AS_APPROVED\<rparr>"

definition approved_incident :: incident where
  "approved_incident = lab_incident\<lparr>in_cluster_id := None, in_status := IS_APPROVED\<rparr>"

definition run_store :: store where
  "run_store = lab_store\<lparr>st_incidents := [approved_incident], st_actions := [approved_action], st_clusters := []\<rparr>"

definition run_start :: exec_state where
  "run_start = \<lparr>xs_store = run_store, xs_trace = []\<rparr>"

lemma run_rows:
  "get_action run_store ''a1'' = Some approved_action" "get_incident run_store ''i1'' = Some approved_incident"
  "get_assessment run_store ''a1'' = None" "st_incidents run_store = [approved_incident]"
  "in_id approved_incident = ''i1''" "in_status approved_incident = IS_APPROVED"
  "in_signal_evidence_json approved_incident = None" "in_cluster_id approved_incident = None"
  "ac_id approved_action = ''a1''" "ac_incident_id approved_action = ''i1''"
  "ac_status approved_action = AS_APPROVED" "ac_action_id approved_action = ''resync_ntp''"
  "ac_classification approved_action = ''SAFE''" "ac_action_params approved_action = None"
  "ac_target_nodes approved_action = Some (JText (PList [PStr ''n1'']))"
  by (simp_all add: run_store_def lab_store_def approved_action_def approved_incident_def lab_action_def
      lab_incident_def find_id_def get_assessment_def)

lemma run_tier: "current_tier (xw_policy run_world) run_store ''resync_ntp'' = ''SAFE''"
  by code_simp

lemma run_world_simps:
  "xw_settings run_world = run_settings"
  "xw_reply run_world n host c = (if host = ''n2'' then Inl ''no route'' else Inr ''ok'')"
  "cw_listing (xw_commands run_world) host u p = Inr ''ceph-mon@n1.service''"
  by (simp_all add: run_world_def)

lemma ntp_command:
  "get_command (xw_commands run_world) ''resync_ntp'' (Some host) p m c =
     Inr (the (map_of static_commands ''resync_ntp''))"
  by (simp add: get_command_def validate_typed_action_params_def guard_cmd_def build_command_def
      management_command_builders_def incident_parameter_command_builders_def bind_cmd_def
      device_health_command_builders_def cluster_deploy_previews_def volume_perf_previews_def
      backup_previews_def static_commands_def ceph_runtime_action_ids_def split: option.split)


lemma recheck_clears:
  assumes "get_action st pk = Some a" and "ac_status a = AS_APPROVED"
    and "ac_classification a = current_tier policy st (ac_action_id a)"
    and "case get_incident st (ac_incident_id a) of None \<Rightarrow> True
        | Some i \<Rightarrow> \<not> is_synthetic_evidence (in_signal_evidence_json i)"
    and "risk_standing e st a"
  shows "recheck_approval e policy pk st =
     (Cleared \<lparr>tk_action_id = ac_action_id a, tk_incident_id = ac_incident_id a,
              tk_target_nodes = ac_target_nodes a, tk_action_params = ac_action_params a\<rparr>,
      reassess_risk e a st)"
  using assms
  by (auto simp: recheck_approval_def recheck_risk_def Let_def risk_acknowledged_iff split: option.splits)

lemma hosts_commands:
  assumes "run_hosts e w j (zip [0..<length nodes] nodes) (save_hosts e j (start_hosts nodes s)) = (None, h)"
  shows "commands_run (snd (execute_on_hosts e w j incident_id cl nodes s)) = commands_run (hn_exec h)"
  using assms by (simp add: execute_on_hosts_def case_prod_unfold Let_def)

abbreviation run_ticket :: ticket where
  "run_ticket \<equiv> \<lparr>tk_action_id = ''resync_ntp'', tk_incident_id = ''i1'',
     tk_target_nodes = Some (JText (PList [PStr ''n1''])), tk_action_params = None\<rparr>"

abbreviation run_job :: host_job where
  "run_job \<equiv> \<lparr>hj_pk = ''a1'', hj_action_id = ''resync_ntp'', hj_params = PNone,
     hj_creds = resolve_ssh_creds run_settings None\<rparr>"

lemma run_cleared:
  "recheck_approval lab_env (xw_policy run_world) ''a1'' run_store =
     (Cleared run_ticket, reassess_risk lab_env approved_action run_store)"
  using recheck_clears [OF run_rows(1), of "xw_policy run_world" lab_env]
  by (simp add: run_rows run_tier is_synthetic_evidence_def risk_standing_def find_id_def)

lemma run_target: "checked_target run_world st ''resync_ntp'' PNone None [''n1''] = None"
proof -
  have "host_list ''n1, n2'' = [''n1'', ''n2'']" "host_list [] = []" "host_list ''n2'' = [''n2'']" by code_simp+
  then show ?thesis
    by (simp add: checked_target_None targets_allowed_def targets_plan_nodes_def allowed_hosts_def
        new_cluster_deploy_action_ids_def configured_nodes_def first_occurrences_def mon_nodes_def mgr_nodes_def
        osd_nodes_def rgw_nodes_def run_world_def run_settings_def resolve_ssh_creds_def Let_def)
qed

lemma run_claimed_hosts:
  assumes "get_incident (xs_store s) ''i1'' = Some i" and "in_cluster_id i = None"
  shows "run_claimed lab_env run_world ''a1'' run_ticket s
     = execute_on_hosts lab_env run_world run_job ''i1'' None [''n1''] s"
proof -
  have "xw_settings run_world = run_settings" "orchestrated_action_ids run_world = rbd_orchestrated_action_ids"
    by (simp_all add: run_world_def orchestrated_action_ids_def load_cluster_deploy_action_ids_def
        load_volume_perf_action_ids_def load_backup_action_ids_def load_ids_def doc_def strings_of_def por_def)
  then show ?thesis
    by (simp add: run_claimed_def Let_def assms cluster_of_def parsed_def cluster_binding_reason_def
        valid_targets_def run_target dispatch_action_def rbd_orchestrated_action_ids_def
        package_upgrade_action_ids_def)
qed

lemma run_host:
  "\<exists>h. run_hosts lab_env run_world run_job (zip [0..<length [''n1'']] [''n1''])
      (save_hosts lab_env run_job (start_hosts [''n1''] s)) = (None, h)
    \<and> commands_run (hn_exec h) \<noteq> commands_run s"
proof -
  have "host_command run_world run_job host = Inr (the (map_of static_commands ''resync_ntp''))" for host
    by (simp add: host_command_def ntp_command)
  moreover have "reconcile_output (xw_json run_world) ''resync_ntp'' p out = Agrees" for p out
    by (simp add: reconcile_output_def rbd_reconcile_def cinder_reconcile_def rbd_reconciled_action_ids_def
        cinder_attachment_action_ids_def)
  moreover have "xw_reply run_world n ''n1'' c = Inr ''ok''" for n c
    by (simp add: run_world_def)
  ultimately show ?thesis
    by (simp add: host_step_def Let_def run_and_check_def execute_command_def commands_run_def add_effect_def
        start_hosts_def)
qed

lemma execution_needs_standing_approval_witness:
  "\<exists>a i nodes. get_action run_store ''a1'' = Some a \<and> ac_status a = AS_APPROVED
     \<and> ac_classification a = current_tier (xw_policy run_world) run_store (ac_action_id a)
     \<and> get_incident run_store (ac_incident_id a) = Some i
     \<and> targets_allowed run_world run_store (cluster_of run_store i) (ac_action_id a)
         (parsed (ac_action_params a)) nodes"
proof -
  let ?st1 = "reassess_risk lab_env approved_action run_store"
  let ?c = "claim_execution lab_env ''i1'' ?st1"
  have st1: "st_incidents ?st1 = [approved_incident]" by (simp add: reassess_tables run_rows)
  have won: "fst ?c" by (simp add: claim_wins_iff st1 find_id_def run_rows)
  have inc: "get_incident (snd ?c) ''i1''
      = Some (approved_incident\<lparr>in_status := IS_EXECUTING, in_updated_at := ev_now lab_env\<rparr>)"
    using find_id_in [of in_id "[approved_incident]" approved_incident]
    by (simp add: claim_incident st1 run_rows)
  let ?s = "run_start\<lparr>xs_store := snd ?c\<rparr>"
  obtain h where "run_hosts lab_env run_world run_job (zip [0..<length [''n1'']] [''n1''])
      (save_hosts lab_env run_job (start_hosts [''n1''] ?s)) = (None, h)" "commands_run (hn_exec h) \<noteq> commands_run ?s"
    using run_host by blast
  then have "commands_run (snd (execute_on_hosts lab_env run_world run_job ''i1'' None [''n1''] ?s)) \<noteq> commands_run ?s"
    by (simp add: hosts_commands)
  moreover have "execute_approved_action lab_env run_world ''a1'' run_start
      = execute_on_hosts lab_env run_world run_job ''i1'' None [''n1''] ?s"
    using won run_claimed_hosts [where s = ?s] inc run_rows
    by (simp add: execute_approved_action_def run_cleared run_start_def case_prod_unfold Let_def)
  ultimately have "commands_run (snd (execute_approved_action lab_env run_world ''a1'' run_start)) \<noteq> commands_run run_start"
    by simp
  from execution_needs_standing_approval [OF this] show ?thesis
    by (auto simp: run_start_def run_rows)
qed


lemma recorded_verdict_witness:
  "\<exists>a' i'. get_action (xs_store (snd (record_approved_execution_result lab_env run_world ''a1'' None True None
       run_start))) ''a1'' = Some a' \<and> ac_status a' = AS_EXECUTED
     \<and> get_incident (xs_store (snd (record_approved_execution_result lab_env run_world ''a1'' None True None
       run_start))) ''i1'' = Some i' \<and> in_status i' = IS_VERIFYING"
proof -
  have start: "get_action (xs_store run_start) ''a1'' = Some approved_action"
    "get_incident (xs_store run_start) (ac_incident_id approved_action) = Some approved_incident"
    using run_rows by (simp_all add: run_start_def)
  have "closed_status approved_incident True = IS_VERIFYING" by code_simp
  moreover have "record_approved_execution_result lab_env run_world ''a1'' None True None run_start =
      (None, snd (record_approved_execution_result lab_env run_world ''a1'' None True None run_start))"
    by (rule record_total [OF start(1)]) (simp add: run_rows)
  from recorded_verdict [OF this start] calculation show ?thesis
    by (auto simp: run_rows)
qed

lemma claimed_incident_exclusive_witness:
  "claim_execution lab_env ''i1'' (snd (claim_execution lab_env ''i1'' run_store))
     = (False, snd (claim_execution lab_env ''i1'' run_store))"
proof -
  have "fst (claim_execution lab_env ''i1'' run_store)"
    by (simp add: claim_wins_iff run_rows find_id_def)
  then have "claim_execution lab_env ''i1'' run_store = (True, snd (claim_execution lab_env ''i1'' run_store))"
    by (simp add: prod_eq_iff)
  from claimed_incident_exclusive [OF this] show ?thesis by (simp add: run_rows)
qed




end
