(* ===== verification/HostLoop.thy ===== *)
theory HostLoop
  imports ExecutionSafety
begin

text \<open>
  The loop over the target hosts, the per-id purge of trashed volumes, and what an agreeing post-check
  says.
\<close>

section \<open>One command per host\<close>





definition ran_as :: "host_job \<Rightarrow> string \<times> string \<Rightarrow> effect" where
  "ran_as j hc = Ran (fst hc) (snd hc) (sc_user (hj_creds j)) (sc_key_path (hj_creds j))"

text \<open>Progress writes leave the incidents, and the rows of the actions but for their progress.\<close>

definition only_progress :: "store \<Rightarrow> store \<Rightarrow> bool" where
  "only_progress st st' =
     (st_incidents st' = st_incidents st
      \<and> (\<forall>i a. get_action st i = Some a \<longrightarrow>
           (\<exists>a'. get_action st' i = Some a' \<and> ac_incident_id a' = ac_incident_id a
                 \<and> ac_action_id a' = ac_action_id a)))"

lemma only_progress_refl [simp]: "only_progress st st"
  by (simp add: only_progress_def)



lemma only_progress_effect [simp]: "xs_store (add_effect x s) = xs_store s"
  by (simp add: add_effect_def)








lemma commands_run_ran [simp]: "filter is_command (map (ran_as j) xs) = map (ran_as j) xs"
  by (induction xs) (simp_all add: ran_as_def)




section \<open>Purging an approved list\<close>







section \<open>A concrete run\<close>




end
