(* ===== verification/UpgradeOrder.thy ===== *)
theory UpgradeOrder
  imports ExecutionSafety "HOL-Library.Sublist"
begin

text \<open>
  The order of a package upgrade's commands: the flags around everything, the installation on every
  host before the first restart, the restarts by role, and nothing after a failed command.
\<close>

section \<open>Answered commands\<close>

text \<open>Every command of a piece of trace that starts after \<open>n\<close> effects is answered without an error.\<close>

fun answered :: "exec_world \<Rightarrow> nat \<Rightarrow> effect list \<Rightarrow> bool" where
  "answered w n [] = True"
| "answered w n (x # xs) =
     ((case x of Ran host command _ _ \<Rightarrow> \<not> isl (xw_reply w n host command) | _ \<Rightarrow> True)
      \<and> answered w (Suc n) xs)"

lemma answered_append: "answered w n (xs @ ys) \<longleftrightarrow> answered w n xs \<and> answered w (n + length xs) ys"
  by (induction xs arbitrary: n) auto

lemma answered_butlast: "answered w n xs \<Longrightarrow> answered w n (butlast xs)"
  using answered_append [of w n "butlast xs" "[last xs]"] by (cases "xs = []") auto

lemma answered_butlast_append:
  "answered w n xs \<Longrightarrow> answered w (n + length xs) (butlast ys) \<Longrightarrow> answered w n (butlast (xs @ ys))"
  by (cases "ys = []") (simp_all add: answered_butlast butlast_append answered_append)

text \<open>
  A part of the run: what it adds to the trace; all but its last command are answered, and all of them
  when the run can go on.
\<close>

abbreviation ur_trace :: "upgrade_run \<Rightarrow> effect list" where
  "ur_trace u \<equiv> xs_trace (ur_exec u)"

definition goes_on :: "py_exn option \<Rightarrow> upgrade_run \<Rightarrow> bool" where
  "goes_on x u = (x = None \<and> \<not> ur_aborted u)"

definition adds :: "exec_world \<Rightarrow> upgrade_run \<Rightarrow> effect list \<Rightarrow> py_exn option \<Rightarrow> upgrade_run \<Rightarrow> bool" where
  "adds w u new x u1 =
     (ur_trace u1 = ur_trace u @ new \<and> answered w (length (ur_trace u)) (butlast new)
      \<and> (goes_on x u1 \<longrightarrow> answered w (length (ur_trace u)) new))"

lemma adds_nothing: "ur_trace u1 = ur_trace u \<Longrightarrow> adds w u [] x u1"
  by (simp add: adds_def)

lemma adds_trans:
  "adds w u xs None u1 \<Longrightarrow> goes_on None u1 \<Longrightarrow> adds w u1 ys x u2 \<Longrightarrow> adds w u (xs @ ys) x u2"
  by (auto simp: adds_def answered_append answered_butlast_append)

section \<open>The steps\<close>

definition ran_on :: "exec_world \<Rightarrow> upgrade_job \<Rightarrow> string \<Rightarrow> string \<Rightarrow> effect" where
  "ran_on w j host command =
     (let creds = resolve_ssh_creds (xw_settings w) (uj_cluster j) in
      Ran host command (sc_user creds) (sc_key_path creds))"

definition step_text :: "exec_world \<Rightarrow> upgrade_job \<Rightarrow> (string \<times> pyval) list \<Rightarrow> string \<Rightarrow> string" where
  "step_text w j kvs host = (case phase_command w j host kvs of Inr c \<Rightarrow> c | Inl _ \<Rightarrow> [])"

definition installs :: "exec_world \<Rightarrow> upgrade_job \<Rightarrow> string \<Rightarrow> effect" where
  "installs w j host = ran_on w j host (step_text w j install_params host)"

definition restarts :: "exec_world \<Rightarrow> upgrade_job \<Rightarrow> string list \<Rightarrow> string \<Rightarrow> effect" where
  "restarts w j daemon_types host =
     ran_on w j host (step_text w j (restart_params w j daemon_types) host)"

lemma run_simps [simp]:
  "ur_trace (save_progress e j u) = ur_trace u" "ur_aborted (save_progress e j u) = ur_aborted u"
  "ur_trace (update_entry k kvs u) = ur_trace u" "ur_aborted (update_entry k kvs u) = ur_aborted u"
  "ur_trace (snd (put_entry host phase place kvs u)) = ur_trace u"
  "ur_aborted (snd (put_entry host phase place kvs u)) = ur_aborted u"
  "ur_trace (failed_step host phase err u) = ur_trace u" "ur_aborted (failed_step host phase err u)"
  by (simp_all add: save_progress_def update_entry_def put_entry_def failed_step_def split: option.split)

lemma run_on_host_eq:
  "run_on_host w j host c u =
     (xw_reply w (length (ur_trace u)) host c, u\<lparr>ur_exec := add_effect (ran_on w j host c) (ur_exec u)\<rparr>)"
  by (simp add: run_on_host_def execute_command_def ran_on_def Let_def)

lemma side_step_trace:
  "ur_trace (side_step e w j host c u) = ur_trace u @ [ran_on w j host c]"
  "ur_aborted (side_step e w j host c u) = ur_aborted u"
  "ur_executed_any (side_step e w j host c u) = ur_executed_any u"
  by (simp_all add: side_step_def Let_def run_on_host_eq add_effect_def save_progress_def update_entry_def)

lemma run_step_adds:
  assumes "run_step e w j host phase c k u = (ok, u1)" and "\<not> ur_aborted u"
  shows "adds w u [ran_on w j host c] None u1"
  using assms
  by (auto simp: run_step_def Let_def run_on_host_eq adds_def add_effect_def goes_on_def ran_on_def
      split: sum.splits)

lemma adds_same_trace: "ur_trace u' = ur_trace u \<Longrightarrow> adds w u' new x u1 \<Longrightarrow> adds w u new x u1"
  by (simp add: adds_def)

lemma install_host_adds:
  assumes "install_host e w j host k u = (x, u1)" and "\<not> ur_aborted u"
  shows "\<exists>new. adds w u new x u1 \<and> (new = [] \<or> new = [installs w j host])
     \<and> (goes_on x u1 \<longrightarrow> new \<noteq> [])"
proof (cases "phase_command w j host install_params")
  case (Inl r)
  then show ?thesis using assms
    by (cases r) (auto simp: install_host_def goes_on_def intro!: exI [of _ "[]"] adds_nothing)
next
  case (Inr c)
  let ?u = "save_progress e j (update_entry k
                 [(''status'', PStr ''running''), (''command'', PStr c), (''started_at'', stamp e)]
                 (u\<lparr>ur_last_command := Some c\<rparr>))"
  obtain ok u2 where step: "run_step e w j host ''install'' c k ?u = (ok, u2)"
    by (metis surj_pair)
  have x: "x = None" and u1: "ur_trace u1 = ur_trace u2" "ur_aborted u1 = ur_aborted u2"
    using assms(1) Inr step by (auto simp: install_host_def Let_def split: if_splits)
  have "adds w ?u [ran_on w j host c] None u2"
    by (rule run_step_adds [OF step]) (simp add: assms(2))
  then have "adds w u [ran_on w j host c] x u1"
    by (simp add: adds_def goes_on_def x u1)
  moreover have "ran_on w j host c = installs w j host" by (simp add: installs_def step_text_def Inr)
  ultimately show ?thesis by auto
qed

lemma restart_host_adds:
  assumes "restart_host e w j phase types host place u = (x, u1)" and "\<not> ur_aborted u"
  shows "\<exists>new. adds w u new x u1 \<and> (new = [] \<or> new = [restarts w j types host])"
proof (cases "\<exists>c. phase_command w j host (restart_params w j types) = Inr c
    \<and> ur_trace u1 \<noteq> ur_trace u")
  case False
  then have "ur_trace u1 = ur_trace u"
    using assms(1)
    by (auto simp: restart_host_def Let_def split: if_splits sum.splits cmd_error.splits prod.splits)
  then show ?thesis using adds_nothing by blast
next
  case True
  then obtain c where c: "phase_command w j host (restart_params w j types) = Inr c"
    and ran: "ur_trace u1 \<noteq> ur_trace u" by blast
  let ?kvs = "[(''status'', PStr ''running''), (''command'', PStr c), (''started_at'', stamp e)]"
  let ?u = "snd (put_entry host phase place ?kvs (u\<lparr>ur_last_command := Some c\<rparr>))"
  let ?k = "fst (put_entry host phase place ?kvs (u\<lparr>ur_last_command := Some c\<rparr>))"
  have step: "(x, u1) = (None, snd (run_step e w j host (phase @ ''/restart'') c ?k (save_progress e j ?u)))"
    using assms(1) c ran
    by (auto simp: restart_host_def Let_def case_prod_unfold split: if_splits sum.splits cmd_error.splits)
  obtain ok u2 where run: "run_step e w j host (phase @ ''/restart'') c ?k (save_progress e j ?u) = (ok, u2)"
    by (metis surj_pair)
  have "adds w (save_progress e j ?u) [ran_on w j host c] None u2"
    by (rule run_step_adds [OF run]) (simp add: assms(2))
  then have "adds w u [ran_on w j host c] x u1" using step run by (simp add: adds_def goes_on_def)
  moreover have "ran_on w j host c = restarts w j types host" by (simp add: restarts_def step_text_def c)
  ultimately show ?thesis by auto
qed

section \<open>The phases\<close>

lemma run_install_phase_adds:
  assumes "run_install_phase e w j hks u = (x, u1)" and "\<not> ur_aborted u"
  shows "\<exists>k \<le> length hks. adds w u (map (installs w j) (take k (map fst hks))) x u1
     \<and> (goes_on x u1 \<longrightarrow> k = length hks)"
  using assms
proof (induction hks arbitrary: u)
  case Nil
  then show ?case by (simp add: adds_nothing)
next
  case (Cons hk hks)
  obtain host k where hk: "hk = (host, k)" by (cases hk)
  obtain x1 u2 where step: "install_host e w j host k u = (x1, u2)" by (metis surj_pair)
  obtain new where new: "adds w u new x1 u2" "new = [] \<or> new = [installs w j host]"
    "goes_on x1 u2 \<longrightarrow> new \<noteq> []"
    using install_host_adds [OF step Cons.prems(2)] by blast
  show ?case
  proof (cases "goes_on x1 u2")
    case False
    then have "x = x1 \<and> u1 = u2"
      using Cons.prems(1) step by (auto simp: hk goes_on_def split: option.splits if_splits)
    with new False show ?thesis
      by (cases "new = []") (auto simp: hk intro: exI [of _ 0] exI [of _ "Suc 0"])
  next
    case True
    then have "x1 = None" "\<not> ur_aborted u2" "run_install_phase e w j hks u2 = (x, u1)"
      using Cons.prems(1) step by (auto simp: hk goes_on_def)
    with Cons.IH [of u2] obtain n where n: "n \<le> length hks"
      "adds w u2 (map (installs w j) (take n (map fst hks))) x u1" "goes_on x u1 \<longrightarrow> n = length hks"
      by blast
    have "adds w u ([installs w j host] @ map (installs w j) (take n (map fst hks))) x u1"
      using adds_trans [OF _ _ n(2)] new True \<open>x1 = None\<close> by (metis goes_on_def)
    with n show ?thesis by (auto simp: hk intro!: exI [of _ "Suc n"])
  qed
qed

lemma run_restart_phase_adds:
  assumes "run_restart_phase e w j phase types hps u = (x, u1)" and "\<not> ur_aborted u"
  shows "\<exists>hosts. subseq hosts (map fst hps) \<and> adds w u (map (restarts w j types) hosts) x u1"
  using assms
proof (induction hps arbitrary: u)
  case Nil
  then show ?case by (auto simp: adds_nothing intro: exI [of _ "[]"])
next
  case (Cons hp hps)
  obtain host place where hp: "hp = (host, place)" by (cases hp)
  obtain x1 u2 where step: "restart_host e w j phase types host place u = (x1, u2)" by (metis surj_pair)
  obtain new where new: "adds w u new x1 u2" "new = [] \<or> new = [restarts w j types host]"
    using restart_host_adds [OF step Cons.prems(2)] by blast
  obtain hs where hs: "hs = [] \<or> hs = [host]" "new = map (restarts w j types) hs"
    using new(2) that [of "[]"] that [of "[host]"] by auto
  have head: "subseq hs [host]" using hs(1) by auto
  show ?case
  proof (cases "goes_on x1 u2")
    case False
    have "x = x1 \<and> u1 = u2"
    proof (cases x1)
      case None
      with False have "ur_aborted u2" by (simp add: goes_on_def)
      then have "run_restart_phase e w j phase types hps u2 = (None, u2)" by (cases hps) auto
      then show ?thesis using Cons.prems step None by (simp add: hp)
    qed (use Cons.prems step in \<open>simp add: hp\<close>)
    moreover have "subseq hs (map fst (hp # hps))"
      using list_emb_append_mono [OF head list_emb_Nil, of "map fst hps"] by (simp add: hp)
    ultimately show ?thesis using new(1) hs(2) by blast
  next
    case True
    then have "x1 = None" "\<not> ur_aborted u2" "run_restart_phase e w j phase types hps u2 = (x, u1)"
      using Cons.prems step by (auto simp: hp goes_on_def)
    with Cons.IH [of u2] obtain rest where rest: "subseq rest (map fst hps)"
      "adds w u2 (map (restarts w j types) rest) x u1" by blast
    have "adds w u (map (restarts w j types) (hs @ rest)) x u1"
      using adds_trans [OF _ _ rest(2)] new(1) True \<open>x1 = None\<close> by (simp add: hs(2) goes_on_def)
    moreover have "subseq (hs @ rest) (map fst (hp # hps))"
      using list_emb_append_mono [OF head rest(1)] by (simp add: hp)
    ultimately show ?thesis by blast
  qed
qed


text \<open>The restarts of the role phases, one group of hosts for each phase.\<close>

fun grouped_restarts ::
  "exec_world \<Rightarrow> upgrade_job \<Rightarrow> string list list \<Rightarrow> (string \<times> string \<times> string list) list \<Rightarrow> effect list" where
  "grouped_restarts w j (hs # hss) ((phase, role, types) # phases) =
     map (restarts w j types) hs @ grouped_restarts w j hss phases"
| "grouped_restarts w j _ _ = []"

fun within_roles ::
  "exec_world \<Rightarrow> upgrade_job \<Rightarrow> string list \<Rightarrow> string list list \<Rightarrow> (string \<times> string \<times> string list) list \<Rightarrow> bool" where
  "within_roles w j nodes (hs # hss) ((phase, role, types) # phases) =
     (subseq hs (role_hosts w j nodes role) \<and> within_roles w j nodes hss phases)"
| "within_roles w j nodes [] [] = True"
| "within_roles w j nodes _ _ = False"

fun no_hosts :: "(string \<times> string \<times> string list) list \<Rightarrow> string list list" where
  "no_hosts [] = []"
| "no_hosts (p # ps) = [] # no_hosts ps"

lemma no_hosts [simp]: "within_roles w j nodes (no_hosts phases) phases" "grouped_restarts w j (no_hosts phases) phases = []"
  by (induction phases) auto

lemma subseq_zip: "subseq hs (map fst (zip xs ys)) \<Longrightarrow> subseq hs xs"
proof -
  have "map fst (zip xs ys) = take (length ys) xs"
    by (induction xs ys rule: list_induct2') auto
  then show "subseq hs (map fst (zip xs ys)) \<Longrightarrow> subseq hs xs"
    by (metis prefix_imp_subseq subseq_order.trans take_is_prefix)
qed

lemma run_role_phases_adds:
  assumes "run_role_phases e w j nodes phases u = (x, u1)" and "\<not> ur_aborted u"
  shows "\<exists>hss. within_roles w j nodes hss phases \<and> adds w u (grouped_restarts w j hss phases) x u1"
  using assms
proof (induction phases arbitrary: u)
  case Nil
  then show ?case by (auto simp: adds_nothing intro: exI [of _ "[]"])
next
  case (Cons p phases)
  obtain phase role types where p: "p = (phase, role, types)" by (metis prod_cases3)
  let ?hps = "zip (role_hosts w j nodes role) (map Some (phase_places phase (ur_progress u)))"
  obtain x1 u2 where step: "run_restart_phase e w j phase types ?hps u = (x1, u2)" by (metis surj_pair)
  obtain hs where hs: "subseq hs (map fst ?hps)" "adds w u (map (restarts w j types) hs) x1 u2"
    using run_restart_phase_adds [OF step Cons.prems(2)] by blast
  note within = subseq_zip [OF hs(1)]
  show ?case
  proof (cases "goes_on x1 u2")
    case False
    then have "x = x1 \<and> u1 = u2"
      using Cons.prems(1) step by (auto simp: p goes_on_def split: option.splits if_splits)
    then show ?thesis
      using within hs(2) by (intro exI [of _ "hs # no_hosts phases"]) (simp add: p)
  next
    case True
    then have "x1 = None" "\<not> ur_aborted u2" "run_role_phases e w j nodes phases u2 = (x, u1)"
      using Cons.prems(1) step by (auto simp: p goes_on_def)
    with Cons.IH [of u2] obtain hss where hss: "within_roles w j nodes hss phases"
      "adds w u2 (grouped_restarts w j hss phases) x u1" by blast
    have "adds w u (map (restarts w j types) hs @ grouped_restarts w j hss phases) x u1"
      using adds_trans [OF _ _ hss(2)] hs(2) True \<open>x1 = None\<close> by (simp add: goes_on_def)
    then show ?thesis
      using within hss(1) by (intro exI [of _ "hs # hss"]) (simp add: p)
  qed
qed

section \<open>The places of the installation\<close>

lemma dget_set_item: "map_of (set_item kvs k v) k' = (if k' = k then Some v else map_of kvs k')"
  by (induction kvs k v rule: set_item.induct) auto

lemma dget_set_key [simp]: "dget (set_key k v d) k' = (if k' = k then v else dget d k')"
  by (simp add: set_key_def dget_def dget_set_item)

lemma length_phase_places:
  "length (phase_places phase progress) = length (filter (\<lambda>d. dget d ''phase'' = PStr phase) progress)"
proof -
  have "filter P (map ((!) xs) ks) = map ((!) xs) (filter (\<lambda>k. P (xs ! k)) ks)" for P ks and xs :: "pyval list"
    by (simp add: filter_map comp_def)
  from this [of "\<lambda>d. dget d ''phase'' = PStr phase" progress "[0..<length progress]"]
  show ?thesis by (simp only: map_nth phase_places_def length_map)
qed

definition install_entries :: "pyval list \<Rightarrow> nat" where
  "install_entries progress = length (filter (\<lambda>d. dget d ''phase'' = PStr ''install'') progress)"

lemma install_entries_append [simp]: "install_entries (xs @ ys) = install_entries xs + install_entries ys"
  by (simp add: install_entries_def)

lemma length_filter_update:
  "k < length xs \<Longrightarrow> P d = P (xs ! k) \<Longrightarrow> length (filter P (xs[k := d])) = length (filter P xs)"
  by (induction xs arbitrary: k) (auto split: nat.split)

lemma install_entries_update:
  "k < length xs \<Longrightarrow> dget d ''phase'' = dget (xs ! k) ''phase''
     \<Longrightarrow> install_entries (xs[k := d]) = install_entries xs"
  by (simp add: install_entries_def length_filter_update)

lemma planned_install_entries: "install_entries (planned_entries w j nodes) = length nodes"
proof -
  have "install_entries (map (pending_entry ''install'') hs) = length hs"
    and "phase \<noteq> ''install'' \<Longrightarrow> install_entries (map (pending_entry phase) hs) = 0" for phase hs
    by (induction hs) (simp_all add: install_entries_def pending_entry_def doc_def)
  then show ?thesis by (simp add: planned_entries_def role_restart_phases_def)
qed

lemma side_step_install_entries:
  "install_entries (ur_progress (side_step e w j host c u)) = install_entries (ur_progress u)"
  by (simp add: side_step_def Let_def run_on_host_eq save_progress_def update_entry_def set_keys_def
      install_entries_update nth_append install_entries_def doc_def list_update_append split: sum.split)


section \<open>The whole upgrade\<close>

lemma run_phases_adds:
  assumes "run_phases e w j nodes u = (x, u1)" and "\<not> ur_aborted u"
    and "install_entries (ur_progress u) = length nodes"
  shows "\<exists>k hss others. within_roles w j nodes hss role_restart_phases \<and> subseq others nodes
     \<and> adds w u (map (installs w j) (take k nodes) @ grouped_restarts w j hss role_restart_phases
          @ map (restarts w j [''mds'', ''rgw'']) others) x u1
     \<and> (k \<ge> length nodes \<or> hss = no_hosts role_restart_phases \<and> others = [])"
proof -
  let ?hks = "zip nodes (phase_places ''install'' (ur_progress u))"
  have hks: "length ?hks = length nodes" "map fst ?hks = nodes"
    using assms(3) by (simp_all add: length_phase_places install_entries_def)
  obtain x1 u2 where install: "run_install_phase e w j ?hks u = (x1, u2)" by (metis surj_pair)
  obtain k where k: "adds w u (map (installs w j) (take k nodes)) x1 u2" "goes_on x1 u2 \<longrightarrow> k = length nodes"
    using run_install_phase_adds [OF install assms(2)] hks by auto
  show ?thesis
  proof (cases "goes_on x1 u2")
    case False
    then have "x = x1 \<and> u1 = u2"
      using assms(1) install by (auto simp: run_phases_def goes_on_def split: option.splits if_splits)
    then show ?thesis using k(1)
      by (intro exI [of _ k] exI [of _ "no_hosts role_restart_phases"] exI [of _ "[]"]) simp
  next
    case go: True
    then have u2: "x1 = None" "\<not> ur_aborted u2" by (auto simp: goes_on_def)
    obtain x2 u3 where roles: "run_role_phases e w j nodes role_restart_phases u2 = (x2, u3)" by (metis surj_pair)
    obtain hss where hss: "within_roles w j nodes hss role_restart_phases"
      "adds w u2 (grouped_restarts w j hss role_restart_phases) x2 u3"
      using run_role_phases_adds [OF roles u2(2)] by blast
    have first: "adds w u (map (installs w j) (take k nodes) @ grouped_restarts w j hss role_restart_phases) x2 u3"
      using adds_trans [OF _ _ hss(2)] k(1) go u2 by simp
    show ?thesis
    proof (cases "goes_on x2 u3")
      case False
      then have "x = x2 \<and> u1 = u3"
        using assms(1) install roles u2
        by (auto simp: run_phases_def goes_on_def split: option.splits if_splits)
      then show ?thesis using first hss(1) k(2) go
        by (intro exI [of _ k] exI [of _ hss] exI [of _ "[]"]) simp
    next
      case True
      then have u3: "x2 = None" "\<not> ur_aborted u3" by (auto simp: goes_on_def)
      have last: "run_restart_phase e w j ''mds_rgw'' [''mds'', ''rgw''] (map (\<lambda>h. (h, None)) nodes) u3 = (x, u1)"
        using assms(1) install roles u2 u3 by (simp add: run_phases_def)
      obtain others where o1: "subseq others nodes"
        "adds w u3 (map (restarts w j [''mds'', ''rgw'']) others) x u1"
        using run_restart_phase_adds [OF last u3(2)] by (auto simp: comp_def)
      have "adds w u ((map (installs w j) (take k nodes) @ grouped_restarts w j hss role_restart_phases)
          @ map (restarts w j [''mds'', ''rgw'']) others) x u1"
        using adds_trans [OF first [unfolded u3(1)] _ o1(2)] True u3(1) by simp
      then show ?thesis using hss(1) o1(1) k(2) go
        by (intro exI [of _ k] exI [of _ hss] exI [of _ others]) simp
    qed
  qed
qed

lemma ran_on_command [simp]:
  "is_command (ran_on w j h c)" "filter is_command (map (installs w j) hs) = map (installs w j) hs"
  "filter is_command (map (restarts w j types) hs) = map (restarts w j types) hs"
  by (simp_all add: ran_on_def Let_def installs_def restarts_def filter_id_conv)

lemma finalize_trace:
  assumes "flags_host w j = Some m"
  shows "\<exists>tail. ur_trace (finalize_package_upgrade_osd_release e w j u) = ur_trace u @ tail
     \<and> (tail = [] \<or> (\<exists>c. tail = [ran_on w j m (''ceph osd require-osd-release '' @ c)]))"
  using assms
  by (auto simp: finalize_package_upgrade_osd_release_def flags_host_def side_step_trace
      split: option.splits list.splits)

lemma notify_package_commands [simp]:
  "commands_run (notify_package_upgrade_failure j u s) = commands_run s"
  by (simp add: notify_package_upgrade_failure_def notify_update_failure_def add_effect_def commands_run_def Let_def)

lemma three_groups:
  assumes "within_roles w j nodes hss role_restart_phases"
  obtains mons mgrs osds where "hss = [mons, mgrs, osds]"
    "subseq mons (role_hosts w j nodes ''MON'')" "subseq mgrs (role_hosts w j nodes ''MGR'')"
    "subseq osds (role_hosts w j nodes ''OSD'')"
proof -
  obtain a b c where "hss = [a, b, c]"
    using assms unfolding role_restart_phases_def
    by (cases hss; cases "tl hss"; cases "tl (tl hss)"; cases "tl (tl (tl hss))") auto
  then show thesis using assms that unfolding role_restart_phases_def by auto
qed

text \<open>
  C7. A package upgrade with a configured monitor sets the maintenance flags before anything else and
  removes them after the last step, also after a failure or an exception.  In between it installs the
  packages in the order of the targets; it restarts nothing before every target is installed, and then
  restarts monitors, managers, OSDs and the remaining daemons in this order, each on a host that has
  the role.  Every command between the flags was answered before the next one ran, so nothing runs
  after a failure; the release is closed only when all of them succeeded.
\<close>

theorem upgrade_installs_before_restarts:
  assumes "execute_package_upgrade_action e w job nodes s = (x, s')"
    and "j = with_params job" and "flags_host w j = Some m"
  shows "\<exists>k mons mgrs osds others mid tail.
     mid = map (installs w j) (take k nodes)
        @ map (restarts w j [''mon'']) mons @ map (restarts w j [''mgr'']) mgrs
        @ map (restarts w j [''osd'']) osds @ map (restarts w j [''mds'', ''rgw'']) others
     \<and> commands_run s' = commands_run s @ [ran_on w j m set_flags_command] @ mid
        @ [ran_on w j m unset_flags_command] @ tail
     \<and> (k \<ge> length nodes \<or> mons @ mgrs @ osds @ others = [])
     \<and> subseq mons (role_hosts w j nodes ''MON'') \<and> subseq mgrs (role_hosts w j nodes ''MGR'')
     \<and> subseq osds (role_hosts w j nodes ''OSD'') \<and> subseq others nodes
     \<and> answered w (Suc (length (xs_trace s))) (butlast mid)
     \<and> (tail = [] \<or> answered w (Suc (length (xs_trace s))) mid
          \<and> (\<exists>c. tail = [ran_on w j m (''ceph osd require-osd-release '' @ c)]))"
proof -
  let ?u0 = "set_upgrade_osd_flags e w j m (save_progress e j (new_run w j nodes s))"
  obtain x1 u1 where phases: "run_phases e w j nodes ?u0 = (x1, u1)" by (metis surj_pair)
  have start: "ur_trace ?u0 = xs_trace s @ [ran_on w j m set_flags_command]" "\<not> ur_aborted ?u0"
    "install_entries (ur_progress ?u0) = length nodes"
    by (simp_all add: set_upgrade_osd_flags_def side_step_trace side_step_install_entries new_run_def
        planned_install_entries save_progress_def)
  obtain k hss others where r: "within_roles w j nodes hss role_restart_phases" "subseq others nodes"
     "adds w ?u0 (map (installs w j) (take k nodes) @ grouped_restarts w j hss role_restart_phases
          @ map (restarts w j [''mds'', ''rgw'']) others) x1 u1"
     "k \<ge> length nodes \<or> hss = no_hosts role_restart_phases \<and> others = []"
    using run_phases_adds [OF phases start(2,3)] by blast
  obtain mons mgrs osds where g: "hss = [mons, mgrs, osds]" "subseq mons (role_hosts w j nodes ''MON'')"
    "subseq mgrs (role_hosts w j nodes ''MGR'')" "subseq osds (role_hosts w j nodes ''OSD'')"
    using three_groups [OF r(1)] .
  define mid where "mid = map (installs w j) (take k nodes) @ map (restarts w j [''mon'']) mons
     @ map (restarts w j [''mgr'']) mgrs @ map (restarts w j [''osd'']) osds
     @ map (restarts w j [''mds'', ''rgw'']) others"
  have mid: "adds w ?u0 mid x1 u1" "k \<ge> length nodes \<or> mons @ mgrs @ osds @ others = []"
    using r(3,4) by (auto simp: mid_def g(1) role_restart_phases_def)
  let ?u2 = "unset_upgrade_osd_flags e w j m u1"
  have u2: "ur_trace ?u2 = xs_trace s @ [ran_on w j m set_flags_command] @ mid @ [ran_on w j m unset_flags_command]"
    "ur_aborted ?u2 = ur_aborted u1"
    using mid(1) by (simp_all add: unset_upgrade_osd_flags_def side_step_trace adds_def start(1))
  have ran: "maintained_phases e w j nodes (save_progress e j (new_run w j nodes s)) = (x1, ?u2)"
    by (simp add: maintained_phases_def assms(3) phases)
  have only: "filter is_command mid = mid" by (simp add: mid_def)
  have closing: "\<exists>tail. commands_run s' = commands_run s @ [ran_on w j m set_flags_command] @ mid
        @ [ran_on w j m unset_flags_command] @ tail \<and> (tail = [] \<or> goes_on x1 u1
          \<and> (\<exists>c. tail = [ran_on w j m (''ceph osd require-osd-release '' @ c)]))"
  proof (cases "goes_on x1 u1 \<and> ur_executed_any ?u2")
    case True
    obtain tail where tail: "ur_trace (finalize_package_upgrade_osd_release e w j ?u2) = ur_trace ?u2 @ tail"
      "tail = [] \<or> (\<exists>c. tail = [ran_on w j m (''ceph osd require-osd-release '' @ c)])"
      using finalize_trace [OF assms(3)] by blast
    have "commands_run s' = commands_run (ur_exec (finalize_package_upgrade_osd_release e w j ?u2))"
      using assms(1) ran True u2(2)
      by (auto simp: execute_package_upgrade_action_def assms(2) [symmetric] goes_on_def Let_def
          case_prod_unfold)
    then have "commands_run s' = filter is_command (ur_trace ?u2 @ tail)"
      by (simp add: commands_run_def tail(1))
    then show ?thesis using tail(2) True only by (auto simp: u2(1) commands_run_def)
  next
    case False
    have "commands_run (ur_exec (abort_entries e w j ?u2)) = commands_run (ur_exec ?u2)"
      by (simp add: abort_entries_def commands_run_def)
    then have "commands_run s' = commands_run (ur_exec ?u2)"
      using assms(1) ran False u2(2)
      by (auto simp: execute_package_upgrade_action_def assms(2) [symmetric] goes_on_def Let_def
          case_prod_unfold split: if_splits)
    then show ?thesis using only by (simp add: u2(1) commands_run_def)
  qed
  then obtain tail where tail: "commands_run s' = commands_run s @ [ran_on w j m set_flags_command] @ mid
        @ [ran_on w j m unset_flags_command] @ tail" "tail = [] \<or> goes_on x1 u1
          \<and> (\<exists>c. tail = [ran_on w j m (''ceph osd require-osd-release '' @ c)])" by blast
  have "answered w (Suc (length (xs_trace s))) (butlast mid)"
    "goes_on x1 u1 \<longrightarrow> answered w (Suc (length (xs_trace s))) mid"
    using mid(1) by (simp_all add: adds_def start(1))
  then show ?thesis using mid_def tail mid(2) g r(2) by blast
qed

section \<open>A concrete run\<close>

lemma upgrade_installs_before_restarts_witness:
  "\<exists>mid tail. commands_run (snd (execute_package_upgrade_action lab_env run_world
       \<lparr>uj_pk = ''a1'', uj_action_id = ''upgrade_ceph_cluster_package_local'',
        uj_params = doc [(''package_dir'', PStr ''/pkg'')], uj_incident_id = ''i1'', uj_cluster = None\<rparr>
       [''n1'', ''n2''] run_start)) =
     [Ran ''n1'' set_flags_command ''ceph'' ''/keys/id''] @ mid @ [Ran ''n1'' unset_flags_command ''ceph'' ''/keys/id'']
       @ tail"
proof -
  let ?job = "\<lparr>uj_pk = ''a1'', uj_action_id = ''upgrade_ceph_cluster_package_local'',
        uj_params = doc [(''package_dir'', PStr ''/pkg'')], uj_incident_id = ''i1'', uj_cluster = None\<rparr>"
  obtain x s' where run: "execute_package_upgrade_action lab_env run_world ?job [''n1'', ''n2''] run_start = (x, s')"
    by (metis surj_pair)
  have "host_list ''n1, n2'' = [''n1'', ''n2'']" by code_simp
  then have "flags_host run_world (with_params ?job) = Some ''n1''"
    by (simp add: flags_host_def mon_nodes_def run_world_def run_settings_def with_params_def)
  moreover have "ran_on run_world (with_params ?job) h c = Ran h c ''ceph'' ''/keys/id''" for h c
    by (simp add: ran_on_def resolve_ssh_creds_def run_world_def run_settings_def with_params_def)
  ultimately obtain mid tail where
    "commands_run s' = commands_run run_start @ [Ran ''n1'' set_flags_command ''ceph'' ''/keys/id''] @ mid
       @ [Ran ''n1'' unset_flags_command ''ceph'' ''/keys/id''] @ tail"
    using upgrade_installs_before_restarts [OF run refl, of "''n1''"] by (simp only:) blast
  moreover have "commands_run run_start = []" by (simp add: run_start_def commands_run_def)
  ultimately show ?thesis by (simp only: run snd_conv append_Nil) blast
qed

end
