(* ===== verification/Preflight.thy ===== *)
theory Preflight
  imports Ledger
begin

text \<open>
  The preflight of a proposed action (\<open>worker/preflight.py\<close>) with the two tables it reads: the
  capability inventory the watcher appends to (\<open>watcher/capability_inventory.py\<close>) and the capability
  matrix operators maintain (\<open>shared/capability_matrix.py\<close>).  The reasons are stored in the
  incident, so their texts are exact.
\<close>

section \<open>The tables\<close>

datatype capability_status = CS_SUPPORTED | CS_UNSUPPORTED_VERSION | CS_UNAVAILABLE | CS_UNKNOWN

fun capability_value :: "capability_status \<Rightarrow> string" where
  "capability_value CS_SUPPORTED = ''SUPPORTED''"
| "capability_value CS_UNSUPPORTED_VERSION = ''UNSUPPORTED_VERSION''"
| "capability_value CS_UNAVAILABLE = ''UNAVAILABLE''"
| "capability_value CS_UNKNOWN = ''UNKNOWN''"

record capability_inventory =
  ci_id :: string
  ci_cluster_id :: string
  ci_status :: capability_status
  ci_deployment_mode :: "string option"
  ci_per_type_versions_json :: "json_text option"
  ci_distinct_versions_json :: "json_text option"
  ci_is_mixed_version :: bool
  ci_current_version :: "string option"
  ci_current_major :: "int option"
  ci_error_message :: "string option"
  ci_collected_at :: time

record matrix_entry =
  me_id :: string
  me_command_id :: string
  me_inner_command :: string
  me_flag :: "string option"
  me_module :: "string option"
  me_backend :: "string option"
  me_min_major :: int
  me_max_major :: "int option"
  me_doc_url :: string
  me_verified_at :: time
  me_verified_by :: string
  me_active :: bool
  me_notes :: "string option"
  me_created_at :: time
  me_updated_at :: time

record capability_tables =
  ct_inventory :: "capability_inventory list"
  ct_matrix :: "matrix_entry list"

section \<open>Texts\<close>

text \<open>
  \<open>repr\<close> of a text: single quotes, or double ones where the text has single quotes only; control
  characters are escaped.  Characters outside ASCII are taken as printable.
\<close>

definition hex_digit :: "nat \<Rightarrow> char" where
  "hex_digit n = (if n < 10 then char_of (48 + n) else char_of (87 + n))"

definition repr_char :: "char \<Rightarrow> char \<Rightarrow> string" where
  "repr_char q c =
     (let n = char_code c in
      if c = q \<or> n = 92 then [CHR 0x5C, c]
      else if n = 9 then [CHR 0x5C, CHR ''t'']
      else if n = 10 then [CHR 0x5C, CHR ''n'']
      else if n = 13 then [CHR 0x5C, CHR ''r'']
      else if n < 32 \<or> n = 127 then [CHR 0x5C, CHR ''x'', hex_digit (n div 16), hex_digit (n mod 16)]
      else [c])"

definition str_repr :: "string \<Rightarrow> string" where
  "str_repr s =
     (let q = (if CHR 0x27 \<in> set s \<and> CHR 0x22 \<notin> set s then CHR 0x22 else CHR 0x27)
      in [q] @ concat (map (repr_char q) s) @ [q])"

text \<open>\<open>str(timedelta)\<close>.\<close>

definition timedelta_text :: "int \<Rightarrow> string" where
  "timedelta_text d =
     (let day = seconds 86400; days = d div day; rest = d mod day;
          secs = rest div 1000000; micro = rest mod 1000000 in
      (if days = 0 then [] else int_text days @ (if abs days = 1 then '' day, '' else '' days, ''))
      @ int_text (secs div 3600) @ '':'' @ padded 2 (secs div 60 mod 60) @ '':'' @ padded 2 (secs mod 60)
      @ (if micro = 0 then [] else ''.'' @ padded 6 micro))"

definition int_opt_text :: "int option \<Rightarrow> string" where
  "int_opt_text v = (case v of None \<Rightarrow> ''None'' | Some n \<Rightarrow> int_text n)"

definition opt_text :: "string option \<Rightarrow> string" where
  "opt_text v = (case v of None \<Rightarrow> ''None'' | Some s \<Rightarrow> s)"

definition ranges_text :: "matrix_entry list \<Rightarrow> string" where
  "ranges_text entries =
     ''['' @ join '', '' (map (\<lambda>m. ''('' @ int_text (me_min_major m) @ '', ''
                           @ int_opt_text (me_max_major m) @ '')'') entries) @ '']''"

section \<open>The capability matrix\<close>

record capability_check =
  cc_status :: capability_status
  cc_entry :: "matrix_entry option"
  cc_is_stale :: bool
  cc_reason :: "string option"

definition active_entries :: "matrix_entry list \<Rightarrow> string \<Rightarrow> matrix_entry list" where
  "active_entries rows command_id = filter (\<lambda>m. me_command_id m = command_id \<and> me_active m) rows"

definition covers :: "int \<Rightarrow> matrix_entry \<Rightarrow> bool" where
  "covers major m =
     (me_min_major m \<le> major \<and> (case me_max_major m of None \<Rightarrow> True | Some x \<Rightarrow> major \<le> x))"

definition check_capability ::
  "time \<Rightarrow> int \<Rightarrow> matrix_entry list \<Rightarrow> string \<Rightarrow> int option \<Rightarrow> capability_check" where
  "check_capability now max_age_days rows command_id ceph_major =
     (case ceph_major of
        None \<Rightarrow> \<lparr>cc_status = CS_UNKNOWN, cc_entry = None, cc_is_stale = False,
                cc_reason = Some (''Ch'' @ [CHR 0xC6, CHR 0xB0] @ ''a x'' @ [CHR 0xC3, CHR 0xA1] @ ''c '' @
       [CHR 0xC4, CHR 0x91, CHR 0xE1, CHR 0xBB, CHR 0x8B] @ ''nh '' @
       [CHR 0xC4, CHR 0x91, CHR 0xC6, CHR 0xB0, CHR 0xE1, CHR 0xBB, CHR 0xA3] @
       ''c phi'' @ [CHR 0xC3, CHR 0xAA] @ ''n b'' @ [CHR 0xE1, CHR 0xBA, CHR 0xA3] @
       ''n Ceph c'' @ [CHR 0xE1, CHR 0xBB, CHR 0xA7] @ ''a c'' @
       [CHR 0xE1, CHR 0xBB, CHR 0xA5] @ ''m'')\<rparr>
      | Some major \<Rightarrow>
          (let entries = active_entries rows command_id; matching = filter (covers major) entries in
           if entries = [] then
             \<lparr>cc_status = CS_UNKNOWN, cc_entry = None, cc_is_stale = False,
              cc_reason = Some ((''Ch'' @ [CHR 0xC6, CHR 0xB0] @ ''a c'' @ [CHR 0xC3, CHR 0xB3] @
       '' capability matrix entry n'' @ [CHR 0xC3, CHR 0xA0] @ ''o cho command_id='') @ str_repr command_id)\<rparr>
           else case first_by (\<lambda>m. (me_max_major m = None, - me_verified_at m)) matching of
             None \<Rightarrow>
               \<lparr>cc_status = CS_UNSUPPORTED_VERSION, cc_entry = None, cc_is_stale = False,
                cc_reason = Some (''command_id='' @ str_repr command_id
                  @ ('' kh'' @ [CHR 0xC3, CHR 0xB4] @ ''ng c'' @ [CHR 0xC3, CHR 0xB3] @ '' entry h'' @
       [CHR 0xE1, CHR 0xBB, CHR 0x97] @ '' tr'' @ [CHR 0xE1, CHR 0xBB, CHR 0xA3] @
       '' Ceph major '') @ int_text major
                  @ ('' (c'' @ [CHR 0xC3, CHR 0xA1] @ ''c range '' @
       [CHR 0xC4, CHR 0x91, CHR 0xC3, CHR 0xA3] @ '' bi'' @
       [CHR 0xE1, CHR 0xBA, CHR 0xBF] @ ''t: '') @ ranges_text entries @ '')'')\<rparr>
           | Some m \<Rightarrow>
               \<lparr>cc_status = CS_SUPPORTED, cc_entry = Some m,
                cc_is_stale = (now - me_verified_at m) div seconds 86400 > max_age_days,
                cc_reason = None\<rparr>))"

section \<open>The preflight\<close>

record preflight_result =
  pf_allowed :: bool
  pf_reason :: "string option"
  pf_capability_status :: "capability_status option"

text \<open>The most recent row; none for the absent id, which no row has.\<close>

definition latest_snapshot ::
  "capability_inventory list \<Rightarrow> string option \<Rightarrow> capability_inventory option" where
  "latest_snapshot rows cluster_id =
     first_by (\<lambda>r. - ci_collected_at r) (filter (\<lambda>r. Some (ci_cluster_id r) = cluster_id) rows)"

definition unusable_reason :: "capability_inventory \<Rightarrow> string" where
  "unusable_reason r =
     (''Capability inventory g'' @ [CHR 0xE1, CHR 0xBA, CHR 0xA7] @ ''n nh'' @
       [CHR 0xE1, CHR 0xBA, CHR 0xA5] @ ''t ('') @ isoformat (ci_collected_at r) @ ('') cho c'' @ [CHR 0xE1, CHR 0xBB, CHR 0xA5] @ ''m n'' @ [CHR 0xC3, CHR 0xA0] @
       ''y l'' @ [CHR 0xC3, CHR 0xA0] @ '' '')
     @ capability_value (ci_status r)
     @ (if ci_is_mixed_version r
        then ('' ('' @ [CHR 0xC4, CHR 0x91] @ ''ang c'' @ [CHR 0xC3, CHR 0xB3] @ '' nhi'' @
       [CHR 0xE1, CHR 0xBB, CHR 0x81] @ ''u phi'' @ [CHR 0xC3, CHR 0xAA] @ ''n b'' @
       [CHR 0xE1, CHR 0xBA, CHR 0xA3] @ ''n Ceph kh'' @ [CHR 0xC3, CHR 0xA1] @
       ''c nhau '' @ [CHR 0xE2, CHR 0x80, CHR 0x94] @ '' c'' @ [CHR 0xC3, CHR 0xB3] @
       '' th'' @ [CHR 0xE1, CHR 0xBB, CHR 0x83] @ '' gi'' @
       [CHR 0xE1, CHR 0xBB, CHR 0xAF] @ ''a qu'' @ [CHR 0xC3, CHR 0xA1] @ '' tr'' @
       [CHR 0xC3, CHR 0xAC] @ ''nh n'' @ [CHR 0xC3, CHR 0xA2] @ ''ng c'' @
       [CHR 0xE1, CHR 0xBA, CHR 0xA5] @ ''p)'') else [])
     @ (if opt_truthy (ci_error_message r) then ('', l'' @ [CHR 0xE1, CHR 0xBB, CHR 0x97] @ ''i: '') @ or_empty (ci_error_message r) else [])
     @ ('' '' @ [CHR 0xE2, CHR 0x80, CHR 0x94] @ '' ch'' @ [CHR 0xC6, CHR 0xB0] @
       ''a '' @ [CHR 0xC4, CHR 0x91, CHR 0xE1, CHR 0xBB, CHR 0xA7] @ '' evidence '' @
       [CHR 0xC4, CHR 0x91, CHR 0xE1, CHR 0xBB, CHR 0x83] @ '' t'' @
       [CHR 0xE1, CHR 0xBA, CHR 0xA1] @ ''o '' @
       [CHR 0xC4, CHR 0x91, CHR 0xE1, CHR 0xBB, CHR 0x81] @ '' xu'' @
       [CHR 0xE1, CHR 0xBA, CHR 0xA5] @ ''t h'' @ [CHR 0xC3, CHR 0xA0] @ ''nh '' @
       [CHR 0xC4, CHR 0x91, CHR 0xE1, CHR 0xBB, CHR 0x99] @ ''ng.'')"

definition stale_reason :: "time \<Rightarrow> int \<Rightarrow> capability_inventory \<Rightarrow> string" where
  "stale_reason now max_age r =
     (''Capability inventory g'' @ [CHR 0xE1, CHR 0xBA, CHR 0xA7] @ ''n nh'' @
       [CHR 0xE1, CHR 0xBA, CHR 0xA5] @ ''t cho c'' @ [CHR 0xE1, CHR 0xBB, CHR 0xA5] @
       ''m n'' @ [CHR 0xC3, CHR 0xA0] @ ''y thu th'' @ [CHR 0xE1, CHR 0xBA, CHR 0xAD] @
       ''p l'' @ [CHR 0xC3, CHR 0xBA] @ ''c '') @ isoformat (ci_collected_at r)
     @ ('' '' @ [CHR 0xE2, CHR 0x80, CHR 0x94] @ '' '' @
       [CHR 0xC4, CHR 0x91, CHR 0xC3, CHR 0xA3] @ '' qu'' @ [CHR 0xC3, CHR 0xA1] @
       '' c'' @ [CHR 0xC5, CHR 0xA9] @ '' ('') @ timedelta_text (now - ci_collected_at r) @ '' > '' @ timedelta_text max_age
     @ ('', c'' @ [CHR 0xC3, CHR 0xB3] @ '' th'' @ [CHR 0xE1, CHR 0xBB, CHR 0x83] @
       '' Watcher '' @ [CHR 0xC4, CHR 0x91, CHR 0xC3, CHR 0xA3] @ '' ng'' @
       [CHR 0xE1, CHR 0xBB, CHR 0xAB] @ ''ng qu'' @ [CHR 0xC3, CHR 0xA9] @ ''t c'' @
       [CHR 0xE1, CHR 0xBB, CHR 0xA5] @ ''m n'' @ [CHR 0xC3, CHR 0xA0] @ ''y) '' @
       [CHR 0xE2, CHR 0x80, CHR 0x94] @ '' INSUFFICIENT_EVIDENCE, kh'' @
       [CHR 0xC3, CHR 0xB4] @ ''ng d'' @ [CHR 0xC3, CHR 0xB9] @ ''ng evidence c'' @
       [CHR 0xC5, CHR 0xA9] @ '' '' @
       [CHR 0xC4, CHR 0x91, CHR 0xE1, CHR 0xBB, CHR 0x83] @ '' t'' @
       [CHR 0xE1, CHR 0xBA, CHR 0xA1] @ ''o '' @
       [CHR 0xC4, CHR 0x91, CHR 0xE1, CHR 0xBB, CHR 0x81] @ '' xu'' @
       [CHR 0xE1, CHR 0xBA, CHR 0xA5] @ ''t h'' @ [CHR 0xC3, CHR 0xA0] @ ''nh '' @
       [CHR 0xC4, CHR 0x91, CHR 0xE1, CHR 0xBB, CHR 0x99] @ ''ng.'')"

definition no_snapshot_reason :: string where
  "no_snapshot_reason =
     (''Ch'' @ [CHR 0xC6, CHR 0xB0] @ ''a c'' @ [CHR 0xC3, CHR 0xB3] @
       '' Cluster Capability Inventory (Pha 0.1) cho c'' @
       [CHR 0xE1, CHR 0xBB, CHR 0xA5] @ ''m n'' @ [CHR 0xC3, CHR 0xA0] @ ''y '' @
       [CHR 0xE2, CHR 0x80, CHR 0x94] @ '' Watcher ch'' @ [CHR 0xC6, CHR 0xB0] @
       ''a qu'' @ [CHR 0xC3, CHR 0xA9] @ ''t l'' @ [CHR 0xE1, CHR 0xBA, CHR 0xA7] @
       ''n n'' @ [CHR 0xC3, CHR 0xA0] @ ''o k'' @ [CHR 0xE1, CHR 0xBB, CHR 0x83] @
       '' t'' @ [CHR 0xE1, CHR 0xBB, CHR 0xAB] @ '' khi c'' @
       [CHR 0xE1, CHR 0xBB, CHR 0xA5] @ ''m '' @
       [CHR 0xC4, CHR 0x91, CHR 0xC6, CHR 0xB0, CHR 0xE1, CHR 0xBB, CHR 0xA3] @
       ''c th'' @ [CHR 0xC3, CHR 0xAA] @ ''m. INSUFFICIENT_EVIDENCE.'')"

record preflight_settings =
  pq_inventory_max_age_seconds :: int
  pq_matrix_max_age_days :: int

definition refused :: "string \<Rightarrow> capability_status option \<Rightarrow> preflight_result" where
  "refused reason cs = \<lparr>pf_allowed = False, pf_reason = Some reason, pf_capability_status = cs\<rparr>"

definition matrix_refusal :: "string \<Rightarrow> capability_inventory \<Rightarrow> capability_check \<Rightarrow> string" where
  "matrix_refusal action_id snapshot cap =
     (''Capability Matrix (Pha 0.2) tr'' @ [CHR 0xE1, CHR 0xBA, CHR 0xA3] @ '' '') @ capability_value (cc_status cap) @ '' cho action_id=''
     @ str_repr action_id @ ('' tr'' @ [CHR 0xC3, CHR 0xAA] @ ''n Ceph major '') @ int_opt_text (ci_current_major snapshot)
     @ ('' (phi'' @ [CHR 0xC3, CHR 0xAA] @ ''n b'' @ [CHR 0xE1, CHR 0xBA, CHR 0xA3] @
       ''n: '') @ opt_text (ci_current_version snapshot) @ ''): '' @ opt_text (cc_reason cap)"

definition safe_override :: "store \<Rightarrow> string \<Rightarrow> policy_override option" where
  "safe_override st action_id =
     (case find_id po_action_id action_id (st_overrides st) of
        Some v \<Rightarrow> if po_classification v = ''SAFE'' then Some v else None
      | None \<Rightarrow> None)"

text \<open>An administrator's SAFE override replaces an unknown verdict of the matrix only.\<close>

definition matrix_verdict ::
  "store \<Rightarrow> string \<Rightarrow> capability_inventory \<Rightarrow> capability_check \<Rightarrow> preflight_result" where
  "matrix_verdict st action_id snapshot cap =
     (if cc_status cap = CS_SUPPORTED then
        \<lparr>pf_allowed = True, pf_reason = None, pf_capability_status = Some CS_SUPPORTED\<rparr>
      else case (if cc_status cap = CS_UNKNOWN then safe_override st action_id else None) of
        Some v \<Rightarrow>
          \<lparr>pf_allowed = True,
           pf_reason = Some ((''Capability Matrix UNKNOWN '' @
       [CHR 0xC4, CHR 0x91, CHR 0xC6, CHR 0xB0, CHR 0xE1, CHR 0xBB, CHR 0xA3] @
       ''c thay th'' @ [CHR 0xE1, CHR 0xBA, CHR 0xBF] @ '' b'' @
       [CHR 0xE1, CHR 0xBB, CHR 0x9F] @ ''i admin SAFE override cho action_id='')
             @ str_repr action_id @ '' ('' @ po_updated_by v @ '': '' @ po_reason v @ '').''),
           pf_capability_status = Some CS_UNKNOWN\<rparr>
      | None \<Rightarrow> refused (matrix_refusal action_id snapshot cap) (Some (cc_status cap)))"

definition inventory_verdict ::
  "time \<Rightarrow> preflight_settings \<Rightarrow> capability_tables \<Rightarrow> store \<Rightarrow> string option \<Rightarrow> string
     \<Rightarrow> preflight_result" where
  "inventory_verdict now ps ct st cluster_id action_id =
     (let max_age = seconds (pq_inventory_max_age_seconds ps) in
      case latest_snapshot (ct_inventory ct) cluster_id of
        None \<Rightarrow> refused no_snapshot_reason (Some CS_UNKNOWN)
      | Some r \<Rightarrow>
          if ci_status r \<noteq> CS_SUPPORTED then refused (unusable_reason r) (Some (ci_status r))
          else if now - ci_collected_at r > max_age
          then refused (stale_reason now max_age r) (Some CS_UNKNOWN)
          else matrix_verdict st action_id r
                 (check_capability now (pq_matrix_max_age_days ps) (ct_matrix ct) action_id
                    (ci_current_major r)))"

definition run_preflight ::
  "time \<Rightarrow> preflight_settings \<Rightarrow> capability_tables \<Rightarrow> store \<Rightarrow> string option \<Rightarrow> string
     \<Rightarrow> preflight_result" where
  "run_preflight now ps ct st cluster_id action_id =
     (let disabled = (case (if opt_truthy cluster_id then get_cluster st (or_empty cluster_id) else None) of
                        Some c \<Rightarrow> if cl_is_active c then None else Some c
                      | None \<Rightarrow> None) in
      case disabled of
        Some c \<Rightarrow> refused ((''C'' @ [CHR 0xE1, CHR 0xBB, CHR 0xA5] @ ''m '') @ str_repr (cl_name c) @ ('' '' @ [CHR 0xC4, CHR 0x91, CHR 0xC3, CHR 0xA3] @ '' b'' @
       [CHR 0xE1, CHR 0xBB, CHR 0x8B] @ '' v'' @ [CHR 0xC3, CHR 0xB4] @ '' hi'' @
       [CHR 0xE1, CHR 0xBB, CHR 0x87] @ ''u ho'' @ [CHR 0xC3, CHR 0xA1] @
       '' (is_active=false).'')) None
      | None \<Rightarrow>
          if action_id \<in> {''investigate_manually'', ''pg_repair_force''}
          then \<lparr>pf_allowed = True,
                pf_reason = Some (''H'' @ [CHR 0xC3, CHR 0xA0] @ ''nh '' @
       [CHR 0xC4, CHR 0x91, CHR 0xE1, CHR 0xBB, CHR 0x99] @ ''ng ch'' @
       [CHR 0xE1, CHR 0xBB, CHR 0x89] @ '' '' @ [CHR 0xC4, CHR 0x91] @ ''i'' @
       [CHR 0xE1, CHR 0xBB, CHR 0x81] @ ''u tra, kh'' @ [CHR 0xC3, CHR 0xB4] @
       ''ng c'' @ [CHR 0xC3, CHR 0xB3] @ '' l'' @ [CHR 0xE1, CHR 0xBB, CHR 0x87] @
       ''nh t'' @ [CHR 0xE1, CHR 0xBB, CHR 0xB1] @ '' '' @
       [CHR 0xC4, CHR 0x91, CHR 0xE1, CHR 0xBB, CHR 0x99] @ ''ng '' @
       [CHR 0xC4, CHR 0x91, CHR 0xE1, CHR 0xBB, CHR 0x83] @ '' ki'' @
       [CHR 0xE1, CHR 0xBB, CHR 0x83] @ ''m tra capability.''),
                pf_capability_status = None\<rparr>
          else inventory_verdict now ps ct st cluster_id action_id)"

section \<open>What an allowed preflight means\<close>

lemma check_capability_supported:
  assumes "cc_status (check_capability now d rows a major) = CS_SUPPORTED"
  shows "\<exists>m x. m \<in> set (active_entries rows a) \<and> major = Some x \<and> covers x m"
  using assms
  by (auto simp: check_capability_def Let_def split: option.splits if_splits dest!: first_by_in)

lemma safe_override_Some:
  "safe_override st a = Some v \<Longrightarrow> find_id po_action_id a (st_overrides st) = Some v \<and> po_classification v = ''SAFE''"
  by (auto simp: safe_override_def split: option.splits if_splits)

lemma refused_simps [simp]: "\<not> pf_allowed (refused r c)" "pf_reason (refused r c) = Some r"
  "pf_capability_status (refused r c) = c"
  by (simp_all add: refused_def)

lemma matrix_verdict_allowed:
  "pf_allowed (matrix_verdict st a r cap) \<longleftrightarrow> cc_status cap = CS_SUPPORTED
     \<or> cc_status cap = CS_UNKNOWN \<and> safe_override st a \<noteq> None"
  by (simp add: matrix_verdict_def split: option.split)

lemma inventory_verdict_allowed:
  "pf_allowed (inventory_verdict now ps ct st c a) \<longleftrightarrow>
     (\<exists>r. latest_snapshot (ct_inventory ct) c = Some r \<and> ci_status r = CS_SUPPORTED
        \<and> now - ci_collected_at r \<le> seconds (pq_inventory_max_age_seconds ps)
        \<and> pf_allowed (matrix_verdict st a r
            (check_capability now (pq_matrix_max_age_days ps) (ct_matrix ct) a (ci_current_major r))))"
  by (simp add: inventory_verdict_def Let_def not_less split: option.split)

lemma latest_snapshot_in:
  "latest_snapshot rows c = Some r \<Longrightarrow> r \<in> set rows \<and> c = Some (ci_cluster_id r)"
  by (auto simp: latest_snapshot_def dest!: first_by_in)

text \<open>An action that runs a command passes only for a known cluster that is scanned and enabled.\<close>

lemma preflight_allowedE:
  assumes "pf_allowed (run_preflight now ps ct st c a)" and "a \<notin> {''investigate_manually'', ''pg_repair_force''}"
  obtains r cid where "c = Some cid" "latest_snapshot (ct_inventory ct) c = Some r" "ci_cluster_id r = cid"
    "ci_status r = CS_SUPPORTED" "now - ci_collected_at r \<le> seconds (pq_inventory_max_age_seconds ps)"
proof -
  have "pf_allowed (inventory_verdict now ps ct st c a)"
    using assms by (auto simp: run_preflight_def Let_def split: option.splits if_splits)
  then show thesis
    using that by (auto simp: inventory_verdict_allowed dest: latest_snapshot_in)
qed

lemma preflight_cluster_active:
  assumes "pf_allowed (run_preflight now ps ct st (Some cid) a)" and "cid \<noteq> []"
    and "get_cluster st cid = Some c"
  shows "cl_is_active c"
  using assms by (auto simp: run_preflight_def Let_def opt_truthy_def or_empty_def split: if_splits)

end
