(* ===== verification/OperationalGate.thy ===== *)
theory OperationalGate
  imports PyVal Releases
begin

text \<open>
  The runtime safety gate over a fresh \<open>ceph status\<close> (\<open>worker/operational_gate.py\<close>).  The snapshot is
  what \<open>json.loads\<close> returned, so any shape is possible and an operation on a value of the wrong type
  raises; the caller treats a raise like an empty snapshot.  The reasons are stored in the incident.
\<close>

section \<open>Numbers\<close>

datatype float_val = Finite rat | PlusInfinity | MinusInfinity | NotANumber

text \<open>
  \<open>float(v)\<close>, \<open>None\<close> where it raises.  \<open>special\<close> is the value of a text, or of a number that is
  not finite; integers are taken as exact.
\<close>

definition py_float :: "(pyval \<Rightarrow> float_val option) \<Rightarrow> pyval \<Rightarrow> float_val option" where
  "py_float special v =
     (case v of
        PInt i \<Rightarrow> Some (Finite (of_int i))
      | PBool b \<Rightarrow> Some (Finite (if b then 1 else 0))
      | PFloat q \<Rightarrow> Some (Finite q)
      | PStr s \<Rightarrow> special v
      | PNonFinite \<Rightarrow> special v
      | _ \<Rightarrow> None)"

definition exceeds :: "float_val \<Rightarrow> rat \<Rightarrow> bool" where
  "exceeds x c = (case x of Finite q \<Rightarrow> q > c | PlusInfinity \<Rightarrow> True | _ \<Rightarrow> False)"

text \<open>\<open>f"{q:.0f}"\<close>: the nearest integer, the even one of two.\<close>

definition round_even :: "rat \<Rightarrow> int" where
  "round_even q =
     (let f = floor q; d = q - of_int f in
      if d < 1/2 then f else if d > 1/2 then f + 1 else if even f then f else f + 1)"

definition whole_text :: "float_val \<Rightarrow> string" where
  "whole_text x =
     (case x of Finite q \<Rightarrow> int_text (round_even q) | PlusInfinity \<Rightarrow> ''inf''
      | MinusInfinity \<Rightarrow> ''-inf'' | NotANumber \<Rightarrow> ''nan'')"

text \<open>\<open>len(v)\<close>, \<open>None\<close> where it raises.  For a text only whether it is empty is asked of it.\<close>

definition py_len :: "pyval \<Rightarrow> nat option" where
  "py_len v =
     (case v of PList xs \<Rightarrow> Some (length xs) | PDict kvs \<Rightarrow> Some (length kvs)
      | PStr s \<Rightarrow> Some (length s) | _ \<Rightarrow> None)"

section \<open>The gate\<close>

datatype gate_result = GateAllowed | GateBlocked string | GateRaises

text \<open>\<open>d.get(k)\<close> raises unless \<open>d\<close> is a dictionary.\<close>

definition with_dict :: "pyval \<Rightarrow> (pyval \<Rightarrow> gate_result) \<Rightarrow> gate_result" where
  "with_dict v f = (if is_dict v then f v else GateRaises)"

definition some_or_raise :: "'a option \<Rightarrow> ('a \<Rightarrow> gate_result) \<Rightarrow> gate_result" where
  "some_or_raise x f = (case x of None \<Rightarrow> GateRaises | Some v \<Rightarrow> f v)"

definition expected_mons :: "pyval \<Rightarrow> int option" where
  "expected_mons monmap =
     (if truthy (dget monmap ''num_mons'') then py_int (dget monmap ''num_mons'')
      else map_option int (py_len (por (dget monmap ''mons'') (PList []))))"

text \<open>\<open>not isinstance(quorum, list) or len(quorum) < expected // 2 + 1\<close>.\<close>

definition quorum_unsafe :: "int \<Rightarrow> pyval \<Rightarrow> bool" where
  "quorum_unsafe expected quorum =
     (expected \<noteq> 0 \<and> (\<not> is_list quorum \<or> int (length (elems_of quorum)) < expected div 2 + 1))"

definition stuck_tokens :: "string list" where
  "stuck_tokens = [''inactive'', ''incomplete'', ''stale'']"

text \<open>The rows of \<open>pgs_by_state\<close>; the names of the states are texts.\<close>

fun stuck_pgs :: "pyval list \<Rightarrow> gate_result" where
  "stuck_pgs [] = GateAllowed"
| "stuck_pgs (row # rows) =
     with_dict row (\<lambda>row.
       let state = str_lower (py_str (por (dget row ''state_name'') (PStr []))) in
       some_or_raise (py_int (por (dget row ''count'') (PInt 0))) (\<lambda>count.
         if count \<noteq> 0 \<and> list_ex (\<lambda>token. token \<in> set (split_on (CHR ''+'') state)) stuck_tokens
         then GateBlocked (int_text count @ '' PG(s) are '' @ state)
         else stuck_pgs rows))"

text \<open>Iterating over a text or a dictionary gives texts, which have no \<open>get\<close>.\<close>

definition pg_rows :: "pyval \<Rightarrow> pyval list option" where
  "pg_rows v = (if \<not> truthy v then Some [] else if is_list v then Some (elems_of v) else None)"

definition load_checks ::
  "(pyval \<Rightarrow> float_val option) \<Rightarrow> pyval \<Rightarrow> rat \<Rightarrow> int \<Rightarrow> gate_result" where
  "load_checks special pgmap max_recovery active_latency_incidents =
     some_or_raise (py_float special (por (dget pgmap ''recovering_bytes_per_sec'') (PInt 0))) (\<lambda>rate.
       let ceiling = max 0 max_recovery in
       if ceiling > 0 \<and> exceeds rate ceiling
       then GateBlocked (''recovery rate '' @ whole_text rate @ '' B/s exceeds ''
              @ whole_text (Finite ceiling) @ '' B/s'')
       else if active_latency_incidents \<noteq> 0
       then GateBlocked (int_text active_latency_incidents @ '' active OSD latency incident(s)'')
       else GateAllowed)"

definition pg_checks ::
  "(pyval \<Rightarrow> float_val option) \<Rightarrow> pyval \<Rightarrow> rat \<Rightarrow> int \<Rightarrow> gate_result" where
  "pg_checks special pgmap max_recovery active_latency_incidents =
     with_dict pgmap (\<lambda>pgmap.
       some_or_raise (pg_rows (dget pgmap ''pgs_by_state'')) (\<lambda>rows.
         case stuck_pgs rows of
           GateAllowed \<Rightarrow> load_checks special pgmap max_recovery active_latency_incidents
         | other \<Rightarrow> other))"

definition mon_checks :: "pyval \<Rightarrow> pyval \<Rightarrow> gate_result \<Rightarrow> gate_result" where
  "mon_checks monmap quorum rest =
     with_dict monmap (\<lambda>monmap.
       some_or_raise (expected_mons monmap) (\<lambda>expected.
         if quorum_unsafe expected quorum
         then some_or_raise (py_len (por quorum (PList []))) (\<lambda>n.
           GateBlocked (''MON quorum is unsafe ('' @ int_text (int n) @ ''/'' @ int_text expected @ '')''))
         else rest))"

definition evaluate_operational ::
  "(pyval \<Rightarrow> float_val option) \<Rightarrow> pyval \<Rightarrow> rat \<Rightarrow> int \<Rightarrow> gate_result" where
  "evaluate_operational special snapshot max_recovery active_latency_incidents =
     (if \<not> is_dict snapshot \<or> \<not> truthy snapshot
      then GateBlocked ''fresh ceph status is unavailable or malformed''
      else with_dict (por (dget snapshot ''health'') (PDict [])) (\<lambda>health.
        let status = por (dget health ''status'') (dget snapshot ''status'') in
        case in_strings status [''HEALTH_OK'', ''HEALTH_WARN'', ''HEALTH_ERR''] of
          Inl _ \<Rightarrow> GateRaises
        | Inr known \<Rightarrow>
            if \<not> known then GateBlocked ''fresh cluster health status is unknown''
            else if status = PStr ''HEALTH_ERR'' then GateBlocked ''cluster is HEALTH_ERR''
            else mon_checks (por (dget snapshot ''monmap'') (PDict [])) (dget snapshot ''quorum_names'')
                   (pg_checks special (por (dget snapshot ''pgmap'') (PDict [])) max_recovery
                      active_latency_incidents)))"

section \<open>What an open gate means\<close>

lemma with_dict_allowed: "with_dict v f = GateAllowed \<longleftrightarrow> is_dict v \<and> f v = GateAllowed"
  by (simp add: with_dict_def)

lemma some_or_raise_allowed: "some_or_raise x f = GateAllowed \<longleftrightarrow> (\<exists>v. x = Some v \<and> f v = GateAllowed)"
  by (simp add: some_or_raise_def split: option.split)

text \<open>No placement group in use is in a stuck state.\<close>

definition pg_fine :: "pyval \<Rightarrow> bool" where
  "pg_fine row =
     (is_dict row \<and> (py_int (por (dget row ''count'') (PInt 0)) = Some 0
        \<or> (\<forall>token \<in> set stuck_tokens.
             token \<notin> set (split_on (CHR ''+'') (str_lower (py_str (por (dget row ''state_name'') (PStr []))))))))"

lemma stuck_pgs_allowed: "stuck_pgs rows = GateAllowed \<Longrightarrow> list_all pg_fine rows"
  by (induction rows) (auto simp: with_dict_allowed some_or_raise_allowed pg_fine_def Let_def
      list_ex_iff split: if_splits)

lemma mon_checks_allowed:
  "mon_checks monmap quorum rest = GateAllowed \<longleftrightarrow>
     is_dict monmap \<and> (\<exists>n. expected_mons monmap = Some n \<and> \<not> quorum_unsafe n quorum) \<and> rest = GateAllowed"
  by (auto simp: mon_checks_def with_dict_allowed some_or_raise_allowed split: if_splits)

lemma load_checks_allowed:
  "load_checks special pgmap c n = GateAllowed \<longleftrightarrow>
     (\<exists>r. py_float special (por (dget pgmap ''recovering_bytes_per_sec'') (PInt 0)) = Some r
        \<and> (0 < c \<longrightarrow> \<not> exceeds r c)) \<and> n = 0"
  by (auto simp: load_checks_def some_or_raise_allowed Let_def max_def)

text \<open>
  The conditions under which the gate is open: a known health that is not an error, a majority of the
  monitors in quorum, no stuck placement group, no recovery above the ceiling, no slow OSD.
\<close>

definition operational_ok ::
  "(pyval \<Rightarrow> float_val option) \<Rightarrow> pyval \<Rightarrow> rat \<Rightarrow> int \<Rightarrow> bool" where
  "operational_ok special snapshot c n =
     (let status = por (dget (dget snapshot ''health'') ''status'') (dget snapshot ''status'');
          monmap = por (dget snapshot ''monmap'') (PDict []);
          pgmap = por (dget snapshot ''pgmap'') (PDict []) in
      status \<in> {PStr ''HEALTH_OK'', PStr ''HEALTH_WARN''}
      \<and> (\<exists>m. expected_mons monmap = Some m \<and> \<not> quorum_unsafe m (dget snapshot ''quorum_names''))
      \<and> (\<exists>rows. pg_rows (dget pgmap ''pgs_by_state'') = Some rows \<and> list_all pg_fine rows)
      \<and> (\<exists>r. py_float special (por (dget pgmap ''recovering_bytes_per_sec'') (PInt 0)) = Some r
           \<and> (c \<le> 0 \<or> \<not> exceeds r c))
      \<and> n = 0)"

lemma dget_por_empty: "dget (por v (PDict [])) k = dget v k"
  by (cases v) (simp_all add: por_def)

lemma pg_checks_allowed:
  assumes "pg_checks special pgmap c n = GateAllowed"
  shows "(\<exists>rows. pg_rows (dget pgmap ''pgs_by_state'') = Some rows \<and> list_all pg_fine rows)
     \<and> (\<exists>r. py_float special (por (dget pgmap ''recovering_bytes_per_sec'') (PInt 0)) = Some r
           \<and> (c \<le> 0 \<or> \<not> exceeds r c)) \<and> n = 0"
proof -
  obtain rows where rows: "pg_rows (dget pgmap ''pgs_by_state'') = Some rows"
    and rest: "(case stuck_pgs rows of GateAllowed \<Rightarrow> load_checks special pgmap c n | x \<Rightarrow> x) = GateAllowed"
    using assms by (auto simp: pg_checks_def with_dict_allowed some_or_raise_allowed)
  from rest have "stuck_pgs rows = GateAllowed" and "load_checks special pgmap c n = GateAllowed"
    by (cases "stuck_pgs rows"; simp)+
  with rows show ?thesis
    by (auto simp: load_checks_allowed not_less dest: stuck_pgs_allowed)
qed

lemma operational_allowed:
  assumes "evaluate_operational special snapshot c n = GateAllowed"
  shows "operational_ok special snapshot c n"
proof -
  let ?status = "por (dget (por (dget snapshot ''health'') (PDict [])) ''status'') (dget snapshot ''status'')"
  from assms have "?status \<in> {PStr ''HEALTH_OK'', PStr ''HEALTH_WARN''}"
    by (auto simp: evaluate_operational_def with_dict_allowed Let_def split: if_splits sum.splits dest!: in_strings_True)
  moreover from assms have mon: "mon_checks (por (dget snapshot ''monmap'') (PDict [])) (dget snapshot ''quorum_names'')
      (pg_checks special (por (dget snapshot ''pgmap'') (PDict [])) c n) = GateAllowed"
    by (auto simp: evaluate_operational_def with_dict_allowed Let_def split: if_splits sum.splits)
  moreover from mon have "pg_checks special (por (dget snapshot ''pgmap'') (PDict [])) c n = GateAllowed"
    by (simp add: mon_checks_allowed)
  from pg_checks_allowed [OF this] calculation show ?thesis
    by (simp add: operational_ok_def Let_def mon_checks_allowed dget_por_empty)
qed

end
