(* ===== verification/TypedGateway.thy ===== *)
theory TypedGateway
  imports CommandTable Ledger
begin

text \<open>
  The typed execution boundary (\<open>worker/executor/action_contract.py\<close>): the request, its validation, and
  the gateway that lets a request through only for a listed action and capability, a target in the
  scope the server resolved, before its expiry.  Pydantic's own part is its documented behaviour: a
  text is trimmed, then its length is checked, then the validators run.  Trimming is that of ASCII;
  the length of the encoded parameters is an argument.
\<close>

section \<open>Requests\<close>

record typed_request =
  tr_action_id :: string
  tr_cluster_id :: string
  tr_capability :: string
  tr_target_type :: string
  tr_target_id :: string
  tr_params :: pyval
  tr_evidence_fingerprint :: string
  tr_expires_at :: time
  tr_actor :: string
  tr_approval_fingerprint :: "string option"

definition trim_char :: "char \<Rightarrow> bool" where
  "trim_char c = (let n = char_code c in 9 \<le> n \<and> n \<le> 13 \<or> n = 32)"

definition trim :: "string \<Rightarrow> string" where
  "trim s = rev (dropWhile trim_char (rev (dropWhile trim_char s)))"

text \<open>The characters of a UTF-8 text: the bytes that do not continue one.\<close>

definition char_length :: "string \<Rightarrow> nat" where
  "char_length s = length (filter (\<lambda>c. \<not> (128 \<le> char_code c \<and> char_code c < 192)) s)"

definition length_within :: "nat \<Rightarrow> nat \<Rightarrow> string \<Rightarrow> bool" where
  "length_within lo hi s = (lo \<le> char_length s \<and> char_length s \<le> hi)"

definition hex64 :: "string \<Rightarrow> bool" where
  "hex64 s = (length s = 64 \<and> list_all hex_char s)"

text \<open>\<open>^[A-Za-z][A-Za-z0-9_.:-]{0,63}$\<close>, on the whole text.\<close>

definition contract_identifier :: "string \<Rightarrow> bool" where
  "contract_identifier s =
     (case s of [] \<Rightarrow> False
      | c # cs \<Rightarrow> alpha_char c \<and> length cs \<le> 63
          \<and> list_all (\<lambda>c. alnum_char c \<or> c \<in> {CHR ''_'', CHR ''.'', CHR '':'', CHR ''-''}) cs)"

definition target_types :: "string list" where
  "target_types =
     [''cluster'', ''host'', ''node'', ''osd'', ''pool'', ''pg'', ''volume'', ''bucket'', ''object'']"

definition forbidden_param_keys :: "string list" where
  "forbidden_param_keys =
     [''cmd'', ''command'', ''command_line'', ''freeform_command'', ''raw_command'', ''script'', ''shell'']"

definition max_param_depth :: nat where
  "max_param_depth = 5"

definition max_params_json_chars :: nat where
  "max_params_json_chars = 16000"

definition param_key_ok :: "pyval \<Rightarrow> bool" where
  "param_key_ok k =
     (case k of PStr s \<Rightarrow> str_strip s \<noteq> [] \<and> str_lower (str_strip s) \<notin> set forbidden_param_keys
      | _ \<Rightarrow> False)"

fun walk_params :: "nat \<Rightarrow> pyval \<Rightarrow> bool" where
  "walk_params depth (PDict kvs) =
     (depth \<le> max_param_depth \<and> list_all (\<lambda>kv. param_key_ok (fst kv) \<and> walk_params (depth + 1) (snd kv)) kvs)"
| "walk_params depth (PList xs) =
     (depth \<le> max_param_depth \<and> list_all (walk_params (depth + 1)) xs)"
| "walk_params depth PNonFinite = False"
| "walk_params depth v = (depth \<le> max_param_depth)"

definition trimmed :: "typed_request \<Rightarrow> typed_request" where
  "trimmed r =
     r\<lparr>tr_action_id := trim (tr_action_id r), tr_cluster_id := trim (tr_cluster_id r),
       tr_capability := trim (tr_capability r), tr_target_type := trim (tr_target_type r),
       tr_target_id := trim (tr_target_id r),
       tr_evidence_fingerprint := trim (tr_evidence_fingerprint r), tr_actor := trim (tr_actor r),
       tr_approval_fingerprint := map_option trim (tr_approval_fingerprint r)\<rparr>"

definition lowered :: "typed_request \<Rightarrow> typed_request" where
  "lowered r =
     r\<lparr>tr_evidence_fingerprint := str_lower (tr_evidence_fingerprint r),
       tr_approval_fingerprint := map_option str_lower (tr_approval_fingerprint r)\<rparr>"

definition fingerprint_ok :: "string \<Rightarrow> bool" where
  "fingerprint_ok s = (length_within 64 64 s \<and> hex64 s)"

definition fields_ok :: "(pyval \<Rightarrow> nat) \<Rightarrow> typed_request \<Rightarrow> bool" where
  "fields_ok encoded_length r =
     (length_within 1 64 (tr_action_id r) \<and> contract_identifier (tr_action_id r)
      \<and> length_within 1 128 (tr_cluster_id r)
      \<and> length_within 1 64 (tr_capability r) \<and> contract_identifier (tr_capability r)
      \<and> length_within 1 16 (tr_target_type r) \<and> tr_target_type r \<in> set target_types
      \<and> length_within 1 255 (tr_target_id r)
      \<and> is_dict (tr_params r) \<and> walk_params 0 (tr_params r)
      \<and> encoded_length (tr_params r) \<le> max_params_json_chars
      \<and> fingerprint_ok (tr_evidence_fingerprint r)
      \<and> length_within 1 128 (tr_actor r)
      \<and> (case tr_approval_fingerprint r of None \<Rightarrow> True | Some s \<Rightarrow> fingerprint_ok s))"

definition validate_request :: "(pyval \<Rightarrow> nat) \<Rightarrow> typed_request \<Rightarrow> typed_request option" where
  "validate_request encoded_length r =
     (if fields_ok encoded_length (trimmed r) then Some (lowered (trimmed r)) else None)"

section \<open>The gateway\<close>

record target_scope =
  ts_cluster_id :: string
  ts_nodes :: "string list"
  ts_osds :: "string list"
  ts_pools :: "string list"
  ts_pgs :: "string list"
  ts_volumes :: "string list"
  ts_buckets :: "string list"
  ts_objects :: "string list"

definition scope_valid :: "target_scope \<Rightarrow> bool" where
  "scope_valid s = length_within 1 128 (ts_cluster_id s)"

definition target_values :: "target_scope \<Rightarrow> string \<Rightarrow> string list" where
  "target_values s target_type =
     (if target_type = ''cluster'' then [ts_cluster_id s]
      else case map_of [(''host'', ts_nodes), (''node'', ts_nodes), (''osd'', ts_osds), (''pool'', ts_pools),
                        (''pg'', ts_pgs), (''volume'', ts_volumes), (''bucket'', ts_buckets),
                        (''object'', ts_objects)] target_type of
        Some f \<Rightarrow> f s | None \<Rightarrow> [])"

text \<open>The check of the capability answers, or raises (\<open>None\<close>).\<close>

record gateway =
  gw_allowed_action_ids :: "string list"
  gw_allowed_capabilities :: "string list"
  gw_target_scope :: target_scope
  gw_approval_required :: "string list"
  gw_capability_check :: "(typed_request \<Rightarrow> bool option) option"
  gw_capabilities_by_action :: "(string \<times> string list) list option"

datatype gateway_refusal =
    RequestInvalid | ParamsInvalid | ActionNotListed | CapabilityNotGranted | MappingMissing
  | CapabilityMismatch | ClusterMismatch | TargetOutOfScope | ContractExpired
  | CapabilityUnavailable | CapabilityRefused | FingerprintMismatch | ApprovalMissing

definition execution_fingerprint :: "(pyval \<Rightarrow> string) \<Rightarrow> typed_request \<Rightarrow> string" where
  "execution_fingerprint sha r =
     sha (sort_keys (doc
       [(''action_id'', PStr (tr_action_id r)), (''cluster_id'', PStr (tr_cluster_id r)),
        (''capability'', PStr (tr_capability r)), (''target_type'', PStr (tr_target_type r)),
        (''target_id'', PStr (tr_target_id r)), (''params'', tr_params r),
        (''evidence_fingerprint'', PStr (tr_evidence_fingerprint r)),
        (''expires_at'', PStr (isoformat (tr_expires_at r) @ ''Z'')), (''actor'', PStr (tr_actor r))]))"

text \<open>Without a mapping of actions to capabilities the gateway must be for one action only.\<close>

definition capability_binding :: "gateway \<Rightarrow> typed_request \<Rightarrow> gateway_refusal option" where
  "capability_binding g r =
     (case gw_capabilities_by_action g of
        None \<Rightarrow>
          if length (remdups (gw_allowed_action_ids g)) \<noteq> 1
             \<or> length (remdups (gw_allowed_capabilities g)) \<noteq> 1
          then Some MappingMissing else None
      | Some m \<Rightarrow>
          if tr_capability r \<notin> set (case map_of m (tr_action_id r) of None \<Rightarrow> [] | Some cs \<Rightarrow> cs)
          then Some CapabilityMismatch else None)"

definition scope_refusal :: "gateway \<Rightarrow> time \<Rightarrow> typed_request \<Rightarrow> gateway_refusal option" where
  "scope_refusal g now r =
     (if tr_cluster_id r \<noteq> ts_cluster_id (gw_target_scope g) then Some ClusterMismatch
      else if tr_target_id r \<notin> set (target_values (gw_target_scope g) (tr_target_type r))
      then Some TargetOutOfScope
      else if tr_expires_at r \<le> now then Some ContractExpired
      else case gw_capability_check g of
        None \<Rightarrow> None
      | Some check \<Rightarrow>
          (case check r of
             None \<Rightarrow> Some CapabilityUnavailable
           | Some ok \<Rightarrow> if ok then None else Some CapabilityRefused))"

definition approval_refusal ::
  "(pyval \<Rightarrow> string) \<Rightarrow> gateway \<Rightarrow> string option \<Rightarrow> typed_request \<Rightarrow> gateway_refusal option" where
  "approval_refusal sha g approved_fingerprint r =
     (let expected = execution_fingerprint sha r in
      if tr_action_id r \<notin> set (gw_approval_required g) then None
      else if tr_approval_fingerprint r \<noteq> Some expected then Some FingerprintMismatch
      else if approved_fingerprint \<noteq> Some expected then Some ApprovalMissing
      else None)"

definition first_refusal :: "gateway_refusal option list \<Rightarrow> gateway_refusal option" where
  "first_refusal rs = (case filter (\<lambda>r. r \<noteq> None) rs of [] \<Rightarrow> None | r # _ \<Rightarrow> r)"

record boundary =
  bd_encoded_length :: "pyval \<Rightarrow> nat"
  bd_fields_of :: "string \<Rightarrow> pyval \<Rightarrow> pyval option"
  bd_sha :: "pyval \<Rightarrow> string"

definition authorize ::
  "boundary \<Rightarrow> gateway \<Rightarrow> string option \<Rightarrow> time \<Rightarrow> typed_request
     \<Rightarrow> gateway_refusal + typed_request" where
  "authorize b g approved_fingerprint now request =
     (case validate_request (bd_encoded_length b) request of
        None \<Rightarrow> Inl RequestInvalid
      | Some r \<Rightarrow>
          (case first_refusal
             [if validate_typed_action_params (bd_fields_of b) (tr_action_id r) (tr_params r) then None
              else Some ParamsInvalid,
              if tr_action_id r \<notin> set (gw_allowed_action_ids g) then Some ActionNotListed else None,
              if tr_capability r \<notin> set (gw_allowed_capabilities g) then Some CapabilityNotGranted else None,
              capability_binding g r, scope_refusal g now r,
              approval_refusal (bd_sha b) g approved_fingerprint r] of
             Some x \<Rightarrow> Inl x
           | None \<Rightarrow> Inr r))"

section \<open>What a validated request is\<close>

text \<open>How deep a value is nested, its keys at every level, and whether all its numbers are finite.\<close>

fun height :: "pyval \<Rightarrow> nat" where
  "height (PDict kvs) = fold max (map (\<lambda>kv. height (snd kv) + 1) kvs) 0"
| "height (PList xs) = fold max (map (\<lambda>x. height x + 1) xs) 0"
| "height v = 0"

fun all_keys :: "pyval \<Rightarrow> pyval list" where
  "all_keys (PDict kvs) = map fst kvs @ concat (map (\<lambda>kv. all_keys (snd kv)) kvs)"
| "all_keys (PList xs) = concat (map all_keys xs)"
| "all_keys v = []"

fun all_finite :: "pyval \<Rightarrow> bool" where
  "all_finite (PDict kvs) = list_all (\<lambda>kv. all_finite (snd kv)) kvs"
| "all_finite (PList xs) = list_all all_finite xs"
| "all_finite v = (v \<noteq> PNonFinite)"

lemma fold_max_le: "fold max xs (a::nat) \<le> n \<longleftrightarrow> a \<le> n \<and> (\<forall>x \<in> set xs. x \<le> n)"
  by (induction xs arbitrary: a) auto

lemma walk_params_iff:
  "walk_params d v \<longleftrightarrow> d + height v \<le> max_param_depth \<and> list_all param_key_ok (all_keys v) \<and> all_finite v"
proof (induction d v rule: walk_params.induct)
  case (1 d kvs)
  then have "list_all (\<lambda>kv. param_key_ok (fst kv) \<and> walk_params (d + 1) (snd kv)) kvs
      \<longleftrightarrow> list_all (\<lambda>kv. param_key_ok (fst kv) \<and> d + 1 + height (snd kv) \<le> max_param_depth
            \<and> list_all param_key_ok (all_keys (snd kv)) \<and> all_finite (snd kv)) kvs"
    by (auto simp: list_all_iff)
  moreover have "d + fold max (map (\<lambda>kv. height (snd kv) + 1) kvs) 0 \<le> max_param_depth \<longleftrightarrow>
      d \<le> max_param_depth \<and> list_all (\<lambda>kv. d + 1 + height (snd kv) \<le> max_param_depth) kvs"
    using fold_max_le [of "map (\<lambda>kv. height (snd kv) + 1) kvs" 0 "max_param_depth - d"]
    by (cases "d \<le> max_param_depth") (auto simp: list_all_iff)
  ultimately show ?case by (auto simp: list_all_iff)
next
  case (2 d xs)
  then have "list_all (walk_params (d + 1)) xs \<longleftrightarrow> list_all (\<lambda>x. d + 1 + height x \<le> max_param_depth
      \<and> list_all param_key_ok (all_keys x) \<and> all_finite x) xs"
    by (auto simp: list_all_iff)
  moreover have "d + fold max (map (\<lambda>x. height x + 1) xs) 0 \<le> max_param_depth \<longleftrightarrow>
      d \<le> max_param_depth \<and> list_all (\<lambda>x. d + 1 + height x \<le> max_param_depth) xs"
    using fold_max_le [of "map (\<lambda>x. height x + 1) xs" 0 "max_param_depth - d"]
    by (cases "d \<le> max_param_depth") (auto simp: list_all_iff)
  ultimately show ?case by (auto simp: list_all_iff)
qed simp_all

lemma first_refusal_None: "first_refusal rs = None \<longleftrightarrow> list_all (\<lambda>r. r = None) rs"
proof (cases "filter (\<lambda>r. r \<noteq> None) rs")
  case Nil
  then show ?thesis by (auto simp: first_refusal_def filter_empty_conv list_all_iff)
next
  case (Cons r rest)
  have "first_refusal rs = r" by (simp only: first_refusal_def Cons list.case)
  moreover from Cons have "r \<noteq> None \<and> r \<in> set rs" by (auto simp: filter_eq_Cons_iff)
  ultimately show ?thesis by (auto simp: list_all_iff)
qed

text \<open>
  The properties of a request behind the boundary, stated without the order of its checks: short
  trimmed names, a target of a known kind, parameters that are shallow, finite and free of commands,
  and a lower-case fingerprint of the evidence.
\<close>

definition well_typed :: "typed_request \<Rightarrow> bool" where
  "well_typed r =
     (list_all (\<lambda>s. trim s = s \<and> s \<noteq> [])
        [tr_action_id r, tr_cluster_id r, tr_capability r, tr_target_type r, tr_target_id r, tr_actor r]
      \<and> contract_identifier (tr_action_id r) \<and> contract_identifier (tr_capability r)
      \<and> tr_target_type r \<in> set target_types
      \<and> is_dict (tr_params r) \<and> height (tr_params r) \<le> 5 \<and> all_finite (tr_params r)
      \<and> list_all param_key_ok (all_keys (tr_params r))
      \<and> list_all (\<lambda>s. hex64 s \<and> str_lower s = s)
           (tr_evidence_fingerprint r # (case tr_approval_fingerprint r of None \<Rightarrow> [] | Some s \<Rightarrow> [s])))"

lemma dropWhile_idem: "dropWhile P (dropWhile P xs) = dropWhile P xs"
  by (induction xs) auto

lemma dropWhile_trim_id: "xs = [] \<or> \<not> P (hd xs) \<Longrightarrow> dropWhile P xs = xs"
  by (cases xs) auto

lemma trim_idem: "trim (trim s) = trim s"
proof -
  let ?d = "dropWhile trim_char"
  let ?a = "?d s"
  let ?b = "?d (rev ?a)"
  have "?d (rev ?b) = rev ?b"
  proof (rule dropWhile_trim_id)
    obtain ws where ws: "rev ?a = ws @ ?b" using takeWhile_dropWhile_id [of trim_char "rev ?a"] by metis
    show "rev ?b = [] \<or> \<not> trim_char (hd (rev ?b))"
    proof (cases "?b = []")
      case False
      have "?a = rev ?b @ rev ws" using arg_cong [OF ws, of rev] by simp
      with False have "hd (rev ?b) = hd ?a" by (metis hd_append2 rev_is_Nil_conv)
      moreover have "?a \<noteq> []" using False by (metis dropWhile.simps(1) rev.simps(1))
      ultimately show ?thesis by (metis hd_dropWhile)
    qed simp
  qed
  then show ?thesis by (simp add: trim_def dropWhile_idem)
qed

lemma str_lower_idem: "str_lower (str_lower s) = str_lower s"
proof -
  have "lower_char (lower_char c) = lower_char c" for c
    by (cases "65 \<le> char_code c \<and> char_code c \<le> 90") (auto simp: lower_char_def char_code_def)
  then show ?thesis by (simp add: str_lower_def)
qed

lemma length_within_nonempty: "length_within (Suc n) hi s \<Longrightarrow> s \<noteq> []"
  by (auto simp: length_within_def char_length_def)

lemma hex_not_trim: "hex_char c \<Longrightarrow> \<not> trim_char c"
  by (auto simp: hex_char_def trim_char_def char_code_def)

lemma hex_lower: "hex_char c \<Longrightarrow> hex_char (lower_char c)"
proof -
  have "list_all (\<lambda>c. hex_char (lower_char c)) ''0123456789abcdefABCDEF''" by code_simp
  then have "\<forall>c \<in> set ''0123456789abcdefABCDEF''. hex_char (lower_char c)" unfolding list_all_iff .
  then show "hex_char c \<Longrightarrow> hex_char (lower_char c)" unfolding hex_char_def [of c] by (rule bspec)
qed

lemma trim_hex: "list_all hex_char s \<Longrightarrow> trim s = s"
proof -
  assume s: "list_all hex_char s"
  have "dropWhile trim_char xs = xs" if "list_all hex_char xs" for xs
    using that by (cases xs) (auto dest: hex_not_trim)
  with s show "trim s = s" by (simp add: trim_def)
qed

lemma fingerprint_lower: "fingerprint_ok s \<Longrightarrow> fingerprint_ok (str_lower s)"
proof -
  have "128 \<le> char_code (lower_char c) \<and> char_code (lower_char c) < 192
      \<longleftrightarrow> 128 \<le> char_code c \<and> char_code c < 192" for c
    by (auto simp: lower_char_def char_code_def)
  then have "char_length (str_lower s) = char_length s" for s
    by (induction s) (auto simp: char_length_def str_lower_def)
  then show "fingerprint_ok s \<Longrightarrow> fingerprint_ok (str_lower s)"
    by (auto simp: fingerprint_ok_def length_within_def hex64_def str_lower_def list_all_iff hex_lower)
qed

lemma validate_requestE:
  assumes "validate_request n r = Some r'"
  obtains "fields_ok n (trimmed r)" "r' = lowered (trimmed r)"
  using assms by (auto simp: validate_request_def split: if_splits)

lemma hex_of_fingerprint: "fingerprint_ok s \<Longrightarrow> list_all hex_char s"
  by (simp add: fingerprint_ok_def hex64_def)

lemma trimmed_fields:
  "tr_action_id (trimmed r) = trim (tr_action_id r)" "tr_cluster_id (trimmed r) = trim (tr_cluster_id r)"
  "tr_capability (trimmed r) = trim (tr_capability r)" "tr_target_type (trimmed r) = trim (tr_target_type r)"
  "tr_target_id (trimmed r) = trim (tr_target_id r)" "tr_actor (trimmed r) = trim (tr_actor r)"
  by (simp_all add: trimmed_def)

lemma lowered_fields:
  "tr_evidence_fingerprint (lowered r) = str_lower (tr_evidence_fingerprint r)"
  "tr_approval_fingerprint (lowered r) = map_option str_lower (tr_approval_fingerprint r)"
  by (simp_all add: lowered_def)

lemma trimmed_lowered_trimmed:
  assumes "fields_ok n (trimmed r)"
  shows "trimmed (lowered (trimmed r)) = lowered (trimmed r)"
proof -
  have lower_trim: "trim (str_lower s) = str_lower s" if "fingerprint_ok s" for s
    using trim_hex [OF hex_of_fingerprint [OF fingerprint_lower [OF that]]] .
  have "fingerprint_ok (trim (tr_evidence_fingerprint r))"
    and "\<And>s. tr_approval_fingerprint r = Some s \<Longrightarrow> fingerprint_ok (trim s)"
    using assms by (auto simp: fields_ok_def trimmed_def)
  then show ?thesis
    by (cases "tr_approval_fingerprint r") (simp_all add: trimmed_def lowered_def trim_idem lower_trim)
qed

lemma fields_ok_lowered: "fields_ok n r \<Longrightarrow> fields_ok n (lowered r)"
  by (cases "tr_approval_fingerprint r") (simp_all add: fields_ok_def lowered_def fingerprint_lower)

lemma lowered_idem: "lowered (lowered r) = lowered r"
  by (cases "tr_approval_fingerprint r") (simp_all add: lowered_def str_lower_idem)

lemma validated_fields:
  assumes "validate_request n r = Some v"
  shows "trimmed v = v" "lowered v = v" "tr_target_id v = trim (tr_target_id r)"
    "tr_target_type v = trim (tr_target_type r)" "tr_expires_at v = tr_expires_at r"
proof -
  from assms have v: "v = lowered (trimmed r)" and valid: "fields_ok n (trimmed r)"
    by (auto elim!: validate_requestE)
  show "trimmed v = v" "lowered v = v" using valid by (simp_all add: v trimmed_lowered_trimmed lowered_idem)
  show "tr_target_id v = trim (tr_target_id r)" "tr_target_type v = trim (tr_target_type r)"
    "tr_expires_at v = tr_expires_at r" by (simp_all add: v lowered_def trimmed_def)
qed

lemma authorizeE:
  assumes "authorize b g approved now request = Inr r"
  obtains "validate_request (bd_encoded_length b) request = Some r"
    "validate_typed_action_params (bd_fields_of b) (tr_action_id r) (tr_params r)"
    "tr_action_id r \<in> set (gw_allowed_action_ids g)" "tr_capability r \<in> set (gw_allowed_capabilities g)"
    "capability_binding g r = None" "scope_refusal g now r = None"
    "approval_refusal (bd_sha b) g approved r = None"
  using assms by (auto simp: authorize_def first_refusal_None split: option.splits if_splits)

lemma scope_refusal_None:
  "scope_refusal g now r = None \<longleftrightarrow>
     tr_cluster_id r = ts_cluster_id (gw_target_scope g)
     \<and> tr_target_id r \<in> set (target_values (gw_target_scope g) (tr_target_type r))
     \<and> now < tr_expires_at r
     \<and> (\<forall>check. gw_capability_check g = Some check \<longrightarrow> check r = Some True)"
  by (auto simp: scope_refusal_def split: option.splits)

section \<open>The boundary\<close>

text \<open>
  C12. What crosses the typed boundary is well typed, whatever was handed in: names are trimmed and
  match the identifier pattern, the parameters are nested at most five deep, hold only finite numbers
  and no key that names a command at any level, the fingerprints are 64 lower-case hexadecimal
  digits; and the target is one of the targets the server resolved for this very cluster, before the
  expiry.
\<close>

theorem authorized_request_well_typed:
  assumes "authorize b g approved now request = Inr r"
  shows "well_typed r \<and> tr_cluster_id r = ts_cluster_id (gw_target_scope g)
     \<and> tr_target_id r \<in> set (target_values (gw_target_scope g) (tr_target_type r))
     \<and> now < tr_expires_at r"
proof -
  obtain valid: "fields_ok (bd_encoded_length b) (trimmed request)" and r: "r = lowered (trimmed request)"
    and scope: "scope_refusal g now r = None"
    using assms by (auto elim!: authorizeE validate_requestE)
  have fields: "fields_ok (bd_encoded_length b) r" using valid by (simp add: r fields_ok_lowered)
  have "trimmed r = r" "lowered r = r" using valid by (simp_all add: r trimmed_lowered_trimmed lowered_idem)
  then have fixed: "trim (tr_action_id r) = tr_action_id r" "trim (tr_cluster_id r) = tr_cluster_id r"
    "trim (tr_capability r) = tr_capability r" "trim (tr_target_type r) = tr_target_type r"
    "trim (tr_target_id r) = tr_target_id r" "trim (tr_actor r) = tr_actor r"
    "str_lower (tr_evidence_fingerprint r) = tr_evidence_fingerprint r"
    "map_option str_lower (tr_approval_fingerprint r) = tr_approval_fingerprint r"
    by (metis trimmed_fields lowered_fields)+
  have "well_typed r"
    using fields fixed
    by (cases "tr_approval_fingerprint r")
       (auto simp: well_typed_def fields_ok_def walk_params_iff max_param_depth_def fingerprint_ok_def
         dest: length_within_nonempty [of 0, simplified])
  with scope show ?thesis by (simp add: scope_refusal_None)
qed

text \<open>
  C13. The gateway validates its argument again, instances included, and this changes nothing: a
  request that passed the boundary, taken apart and handed to the same gateway again, comes out as
  the very same request, so the fingerprint that was approved is the fingerprint that is executed.
\<close>

theorem authorized_request_stable:
  assumes "authorize b g approved now request = Inr r"
  shows "authorize b g approved now r = Inr r"
proof -
  obtain valid: "fields_ok (bd_encoded_length b) (trimmed request)" and r: "r = lowered (trimmed request)"
    and params: "validate_typed_action_params (bd_fields_of b) (tr_action_id r) (tr_params r)"
    and gates: "tr_action_id r \<in> set (gw_allowed_action_ids g)" "tr_capability r \<in> set (gw_allowed_capabilities g)"
      "capability_binding g r = None" "scope_refusal g now r = None"
      "approval_refusal (bd_sha b) g approved r = None"
    using assms by (auto elim!: authorizeE validate_requestE)
  have "validate_request (bd_encoded_length b) r = Some r"
    using valid by (simp add: validate_request_def r trimmed_lowered_trimmed fields_ok_lowered lowered_idem)
  with params gates show ?thesis by (simp add: authorize_def first_refusal_def)
qed

definition lab_typed_request :: typed_request where
  "lab_typed_request =
     \<lparr>tr_action_id = '' resync_ntp'', tr_cluster_id = ''c1'', tr_capability = ''playbook.resync_ntp'',
      tr_target_type = ''host'', tr_target_id = ''n1 '', tr_params = PDict [],
      tr_evidence_fingerprint = replicate 64 (CHR ''A''), tr_expires_at = seconds 900,
      tr_actor = ''system:autopilot'', tr_approval_fingerprint = None\<rparr>"

definition lab_gateway :: gateway where
  "lab_gateway =
     \<lparr>gw_allowed_action_ids = [''resync_ntp''], gw_allowed_capabilities = [''playbook.resync_ntp''],
      gw_target_scope = \<lparr>ts_cluster_id = ''c1'', ts_nodes = [''n1'', ''n2''], ts_osds = [], ts_pools = [],
        ts_pgs = [], ts_volumes = [], ts_buckets = [], ts_objects = []\<rparr>,
      gw_approval_required = [], gw_capability_check = Some (\<lambda>_. Some True),
      gw_capabilities_by_action = None\<rparr>"

definition lab_boundary :: boundary where
  "lab_boundary =
     \<lparr>bd_encoded_length = (\<lambda>_. 2), bd_fields_of = (\<lambda>_ _. None), bd_sha = (\<lambda>_. ''sha'')\<rparr>"

lemma lab_authorized: "authorize lab_boundary lab_gateway None 0 lab_typed_request = Inr (lowered (trimmed lab_typed_request))"
  by code_simp

lemma authorized_request_well_typed_witness:
  "well_typed (lowered (trimmed lab_typed_request)) \<and> tr_target_id (lowered (trimmed lab_typed_request)) = ''n1''"
proof -
  have "tr_target_id (lowered (trimmed lab_typed_request)) = ''n1''" by code_simp
  with authorized_request_well_typed [OF lab_authorized] show ?thesis by blast
qed

lemma authorized_request_stable_witness:
  "authorize lab_boundary lab_gateway None 0 (lowered (trimmed lab_typed_request)) = Inr (lowered (trimmed lab_typed_request))"
  by (rule authorized_request_stable [OF lab_authorized])

end
