(* ===== verification/Autopilot.thy ===== *)
theory Autopilot
  imports Execution Preflight OperationalGate TypedGateway Guardrails
begin

text \<open>
  The automatic execution of a SAFE action (\<open>_maybe_execute_safe_action\<close> of
  \<open>worker/llm/router_client.py\<close>): the authority of the deployment, the cluster and the playbook, the
  change risk, the grace period, the contract, the preflight, the live status, the typed boundary,
  the limits and the lease, then the command on each host and its result.  Every gate is a definition
  of its own that either stops the attempt, with what it wrote, or lets it go on.  The answers of the
  cluster's read-only queries are arguments.
\<close>

section \<open>What an attempt reads\<close>

record autopilot_settings =
  as_autopilot_enabled :: bool
  as_cluster_modes :: "string option"
  as_mode :: "string option"
  as_grace_period_seconds :: int
  as_large_omap_bootstrap_requires_approval :: bool
  as_preflight_enforcement_enabled :: bool
  as_preflight :: preflight_settings
  as_max_recovery_bytes_per_sec :: rat
  as_max_actions_per_hour :: int
  as_max_actions_per_day :: int
  as_target_cooldown_seconds :: int
  as_lease_ttl_seconds :: int

text \<open>
  \<open>aw_status c n\<close> is what the \<open>n\<close>-th query of \<open>ceph status\<close> on the cluster returns, \<open>None\<close> where it
  raises; \<open>aw_query c command\<close> the answer of another query, or the text of its \<open>CephQueryError\<close>.
\<close>

record autopilot_world =
  aw_exec :: exec_world
  aw_settings :: autopilot_settings
  aw_tables :: capability_tables
  aw_status :: "cluster \<Rightarrow> nat \<Rightarrow> pyval option"
  aw_query :: "cluster \<Rightarrow> string \<Rightarrow> string + pyval"
  aw_float :: "pyval \<Rightarrow> float_val option"
  aw_boundary :: boundary

record attempt =
  am_incident_id :: string
  am_action_pk :: string
  am_action_id :: string
  am_envelope :: pyval
  am_params :: pyval

type_synonym outcome = "py_exn option \<times> exec_state"

text \<open>A gate stops the attempt on the left, or hands on the state on the right.\<close>

type_synonym stage = "outcome + exec_state"

definition and_then :: "stage \<Rightarrow> (exec_state \<Rightarrow> stage) \<Rightarrow> stage" where
  "and_then r f = (case r of Inl x \<Rightarrow> Inl x | Inr s \<Rightarrow> f s)"

definition audit_if_incident ::
  "env \<Rightarrow> attempt \<Rightarrow> string \<Rightarrow> store \<Rightarrow> store" where
  "audit_if_incident e m event st =
     (case get_incident st (am_incident_id m) of
        None \<Rightarrow> st
      | Some i \<Rightarrow> audit_record e (am_incident_id m)
          (if get_action st (am_action_pk m) = None then None else Some (am_action_pk m)) event actor_system None st)"

section \<open>Handing the action to an operator\<close>

definition stored_action_params :: "store \<Rightarrow> string \<Rightarrow> pyval" where
  "stored_action_params st pk =
     (case get_action st pk of None \<Rightarrow> PNone
      | Some a \<Rightarrow> (case ac_action_params a of Some (JText v) \<Rightarrow> v | _ \<Rightarrow> PNone))"

text \<open>The command shown to the operator: none where there is no builder for the parameters.\<close>

definition display_command :: "exec_world \<Rightarrow> string \<Rightarrow> pyval \<Rightarrow> py_exn + string option" where
  "display_command w action_id params =
     (case get_command (xw_commands w) action_id None params None [] of
        Inr command \<Rightarrow> Inr (Some command)
      | Inl ExecutorError \<Rightarrow> Inr None
      | Inl (Raises x) \<Rightarrow> Inl x)"

definition parked :: "env \<Rightarrow> attempt \<Rightarrow> string option \<Rightarrow> string \<Rightarrow> store \<Rightarrow> store" where
  "parked e m command event st =
     audit_if_incident e m event
       (edit_incident e (am_incident_id m) (incident_to e IS_PENDING_APPROVAL)
         (edit_action e (am_action_pk m)
           (\<lambda>r. r\<lparr>ac_status := AS_PENDING_APPROVAL, ac_proposed_command := command\<rparr>) st))"

definition route_to_approval :: "env \<Rightarrow> exec_world \<Rightarrow> attempt \<Rightarrow> string \<Rightarrow> exec_state \<Rightarrow> outcome" where
  "route_to_approval e w m event s =
     (case display_command w (am_action_id m) (stored_action_params (xs_store s) (am_action_pk m)) of
        Inl x \<Rightarrow> (Some x, s)
      | Inr command \<Rightarrow> (None, on_store (parked e m command event) s))"

definition route_risky_to_approval :: "env \<Rightarrow> exec_world \<Rightarrow> attempt \<Rightarrow> exec_state \<Rightarrow> outcome" where
  "route_risky_to_approval e w m s = route_to_approval e w m ''risky_action_pending_approval'' s"

definition auto_reject_risky :: "env \<Rightarrow> attempt \<Rightarrow> store \<Rightarrow> store" where
  "auto_reject_risky e m st =
     audit_if_incident e m ''risky_action_auto_rejected_cluster_operation_in_progress''
       (edit_incident e (am_incident_id m) (incident_to e IS_REJECTED)
         (edit_action e (am_action_pk m) (\<lambda>r. r\<lparr>ac_status := AS_REJECTED\<rparr>) st))"

text \<open>A gate that explains itself in the diagnosis, and keeps the proposed command.\<close>

definition blocked_with_note :: "env \<Rightarrow> attempt \<Rightarrow> string \<Rightarrow> string \<Rightarrow> string \<Rightarrow> exec_state \<Rightarrow> outcome" where
  "blocked_with_note e m gate reason event s =
     (None, on_store (\<lambda>st.
        audit_if_incident e m event
          (edit_incident e (am_incident_id m)
             (\<lambda>r. diagnosis_note (''['' @ gate @ (''] B'' @ [CHR 0xE1, CHR 0xBB, CHR 0x8B] @ '' ch'' @
       [CHR 0xE1, CHR 0xBA, CHR 0xB7] @ ''n: '') @ reason)
                    (incident_to e IS_PENDING_APPROVAL r))
             (edit_action e (am_action_pk m) (\<lambda>r. r\<lparr>ac_status := AS_PENDING_APPROVAL\<rparr>) st))) s)"

section \<open>Recording the result\<close>

definition auto_recorded_row :: "env \<Rightarrow> string option \<Rightarrow> bool \<Rightarrow> action_row \<Rightarrow> action_row" where
  "auto_recorded_row e command succeeded r =
     (if succeeded
      then r\<lparr>ac_proposed_command := command, ac_status := AS_AUTO_EXECUTED,
             ac_executed_at := Some (ev_now e)\<rparr>
      else r\<lparr>ac_proposed_command := command, ac_status := AS_FAILED\<rparr>)"

definition auto_closed :: "env \<Rightarrow> int \<Rightarrow> bool \<Rightarrow> incident \<Rightarrow> incident" where
  "auto_closed e verify_delay succeeded r =
     (if succeeded
      then (incident_to e IS_VERIFYING r)
             \<lparr>in_verify_after := Some (ev_now e
                + seconds (if in_ceph_code r = ''OSD_DOWN'' then 30 else verify_delay))\<rparr>
      else incident_to e IS_FAILED r)"

definition auto_recorded :: "env \<Rightarrow> int \<Rightarrow> attempt \<Rightarrow> string option \<Rightarrow> bool \<Rightarrow> store \<Rightarrow> store" where
  "auto_recorded e verify_delay m command succeeded st =
     (let st1 = edit_action e (am_action_pk m) (auto_recorded_row e command succeeded) st;
          st2 = (if get_action st (am_action_pk m) = None then st1
                 else record_execution e (am_action_pk m) succeeded (Some (ev_now e)) st1)
      in audit_if_incident e m (if succeeded then ''safe_action_executed'' else ''safe_action_failed'')
           (edit_incident e (am_incident_id m) (auto_closed e verify_delay succeeded) st2))"

text \<open>The alert of a result whose action is gone names no action.\<close>

definition auto_alert ::
  "store \<Rightarrow> incident \<Rightarrow> action_row option \<Rightarrow> string option \<Rightarrow> bool \<Rightarrow> effect" where
  "auto_alert st i a command succeeded =
     Alerted \<lparr>ra_ceph_code = in_ceph_code i, ra_diagnosis_text = in_diagnosis_text i,
       ra_rationale = (case a of None \<Rightarrow> None | Some r \<Rightarrow> ac_rationale r), ra_command = command,
       ra_succeeded = succeeded, ra_action_id = (case a of None \<Rightarrow> [] | Some r \<Rightarrow> ac_action_id r),
       ra_target_nodes = (case a of None \<Rightarrow> None | Some r \<Rightarrow> ac_target_nodes r),
       ra_channel = telegram_channel (cluster_of st i)\<rparr>"

definition record_execution_result ::
  "env \<Rightarrow> exec_world \<Rightarrow> attempt \<Rightarrow> string option \<Rightarrow> bool \<Rightarrow> exec_state \<Rightarrow> exec_state" where
  "record_execution_result e w m command succeeded s =
     (let st = xs_store s;
          st1 = auto_recorded e (ws_incident_verify_delay_seconds (xw_settings w)) m command succeeded st in
      s\<lparr>xs_store := st1,
        xs_trace := xs_trace s
          @ (case get_incident st (am_incident_id m) of None \<Rightarrow> []
             | Some i \<Rightarrow> [auto_alert st i (get_action st (am_action_pk m)) command succeeded])\<rparr>)"

definition fail_attempt :: "env \<Rightarrow> exec_world \<Rightarrow> attempt \<Rightarrow> exec_state \<Rightarrow> outcome" where
  "fail_attempt e w m s = (None, record_execution_result e w m None False s)"

section \<open>The authority to act\<close>

text \<open>The cluster whose switch decides: the incident's, or the default one where it names none.\<close>

definition gate_cluster :: "store \<Rightarrow> string \<Rightarrow> cluster option" where
  "gate_cluster st incident_id =
     (case get_incident st incident_id of
        Some i \<Rightarrow> if opt_truthy (in_cluster_id i) then get_cluster st (or_empty (in_cluster_id i))
                  else stored_default st
      | None \<Rightarrow> stored_default st)"

definition runtime_mode :: "autopilot_world \<Rightarrow> cluster \<Rightarrow> autopilot_mode" where
  "runtime_mode w c =
     effective_runtime_mode (as_autopilot_enabled (aw_settings w)) (cl_autopilot_enabled c)
       (cluster_configured_mode (xw_json (aw_exec w)) (Some (cl_id c))
          (as_cluster_modes (aw_settings w)) (as_mode (aw_settings w)))"

text \<open>\<open>re.search(r"\d+", version or "")\<close>.\<close>

definition ceph_major :: "string option \<Rightarrow> string" where
  "ceph_major version =
     (let digits = takeWhile digit_char (dropWhile (\<lambda>c. \<not> digit_char c) (or_empty version))
      in if digits = [] then ''unknown'' else digits)"

definition scope_key :: "remediation_case \<Rightarrow> string" where
  "scope_key c =
     ''cluster='' @ (if opt_truthy (rc_cluster_id c) then or_empty (rc_cluster_id c) else ''legacy'')
     @ ''|ceph_major='' @ ceph_major (rc_ceph_version c)
     @ ''|deployment='' @ (if opt_truthy (rc_deployment_mode c) then or_empty (rc_deployment_mode c) else ''unknown'')"

definition trust_stat :: "store \<Rightarrow> attempt \<Rightarrow> playbook_stat option" where
  "trust_stat st m =
     (case get_case st (am_action_pk m) of
        None \<Rightarrow> None
      | Some c \<Rightarrow> find (\<lambda>p. ps_playbook_id p = am_action_id m
                         \<and> ps_playbook_version p = rc_playbook_version c
                         \<and> ps_scope_key p = scope_key c) (st_stats st))"

definition trust_blocks :: "store \<Rightarrow> attempt \<Rightarrow> bool" where
  "trust_blocks st m =
     (case trust_stat st m of
        None \<Rightarrow> False
      | Some p \<Rightarrow> safe_override st (am_action_id m) = None
          \<and> (opt_truthy (ps_auto_disabled_reason p) \<or> ps_maturity_level p \<noteq> ''L3''))"

text \<open>The event of the first authority that is missing.\<close>

definition authority_block :: "autopilot_world \<Rightarrow> attempt \<Rightarrow> store \<Rightarrow> string option" where
  "authority_block w m st =
     (if \<not> as_autopilot_enabled (aw_settings w) then Some ''autopilot_kill_switch_blocked''
      else case gate_cluster st (am_incident_id m) of
        None \<Rightarrow> Some ''autopilot_cluster_gate_blocked''
      | Some c \<Rightarrow>
          if \<not> cl_autopilot_enabled c then Some ''autopilot_cluster_gate_blocked''
          else if runtime_mode w c \<noteq> LIMITED_AUTOPILOT then Some ''autopilot_runtime_guard_blocked''
          else if am_action_id m = ''reshard_rgw_bucket''
                  \<and> as_large_omap_bootstrap_requires_approval (aw_settings w) \<and> trust_stat st m = None
          then Some ''autopilot_bootstrap_approval_required''
          else if trust_blocks st m then Some ''autopilot_playbook_contract_blocked''
          else None)"

definition authority_gate :: "env \<Rightarrow> autopilot_world \<Rightarrow> attempt \<Rightarrow> exec_state \<Rightarrow> stage" where
  "authority_gate e w m s =
     (case authority_block w m (xs_store s) of
        Some event \<Rightarrow> Inl (route_to_approval e (aw_exec w) m event s)
      | None \<Rightarrow> Inr s)"

section \<open>Change risk and grace\<close>

definition risk_gate :: "env \<Rightarrow> autopilot_world \<Rightarrow> attempt \<Rightarrow> exec_state \<Rightarrow> stage" where
  "risk_gate e w m s =
     (let st = xs_store s in
      case get_action st (am_action_pk m) of
        None \<Rightarrow> Inr s
      | Some a \<Rightarrow>
          (let (risk, st1) = assess_and_record e a (get_incident st (am_incident_id m)) st;
               s1 = s\<lparr>xs_store := edit_action e (ac_id a) (attach_summary risk) st1\<rparr> in
           if blocks_autopilot risk
           then Inl (route_to_approval e (aw_exec w) m ''change_risk_blocked_autopilot'' s1)
           else Inr s1))"

definition grace_started :: "env \<Rightarrow> autopilot_world \<Rightarrow> attempt \<Rightarrow> store \<Rightarrow> store" where
  "grace_started e w m st =
     audit_if_incident e m ''autopilot_grace_started''
       (edit_incident e (am_incident_id m) (incident_to e IS_GRACE_PENDING)
         (edit_action e (am_action_pk m)
           (\<lambda>r. r\<lparr>ac_grace_until := Some (ev_now e + seconds (as_grace_period_seconds (aw_settings w))),
                  ac_status := AS_GRACE_PENDING\<rparr>) st))"

definition grace_gate :: "env \<Rightarrow> autopilot_world \<Rightarrow> attempt \<Rightarrow> exec_state \<Rightarrow> stage" where
  "grace_gate e w m s =
     (case get_action (xs_store s) (am_action_pk m) of
        Some a \<Rightarrow>
          if as_grace_period_seconds (aw_settings w) > 0 \<and> ac_grace_until a = None
          then Inl (None, on_store (grace_started e w m) s)
          else Inr s
      | None \<Rightarrow> Inr s)"

section \<open>Contract and preflight\<close>

definition policy_tier :: "autopilot_world \<Rightarrow> string \<Rightarrow> action_classification" where
  "policy_tier w action_id =
     classify_action (load_action_id_lists (xw_policy (aw_exec w))) action_id None"

definition contract_verdict :: "attempt \<Rightarrow> contract_decision" where
  "contract_verdict m =
     (let nodes = dget (am_envelope m) ''nodes'' in
      evaluate_auto_execution (am_action_id m) ''SAFE'' (if is_list nodes then nodes else PNone)
        (am_params m) (has_command (am_action_id m)))"

text \<open>A destructive action is not refused here but by the stronger rule below.\<close>

definition contract_gate :: "env \<Rightarrow> autopilot_world \<Rightarrow> attempt \<Rightarrow> exec_state \<Rightarrow> stage" where
  "contract_gate e w m s =
     (let d = contract_verdict m in
      if policy_tier w (am_action_id m) \<noteq> DESTRUCTIVE \<and> \<not> ad_allowed d then
        Inl (if ad_hard_failure d then fail_attempt e (aw_exec w) m s
             else route_to_approval e (aw_exec w) m ''autopilot_playbook_contract_blocked'' s)
      else Inr s)"

definition attempt_preflight :: "env \<Rightarrow> autopilot_world \<Rightarrow> attempt \<Rightarrow> store \<Rightarrow> preflight_result" where
  "attempt_preflight e w m st =
     run_preflight (ev_now e) (as_preflight (aw_settings w)) (aw_tables w) st
       (case get_incident st (am_incident_id m) of None \<Rightarrow> None | Some i \<Rightarrow> in_cluster_id i)
       (am_action_id m)"

definition preflight_gate :: "env \<Rightarrow> autopilot_world \<Rightarrow> attempt \<Rightarrow> exec_state \<Rightarrow> stage" where
  "preflight_gate e w m s =
     (let r = attempt_preflight e w m (xs_store s) in
      if \<not> pf_allowed r \<and> as_preflight_enforcement_enabled (aw_settings w)
      then Inl (blocked_with_note e m ''Execution preflight'' (opt_text (pf_reason r))
                  ''proposal_blocked_by_preflight'' s)
      else Inr s)"

section \<open>The live status\<close>

definition operational_telemetry_attempts :: nat where
  "operational_telemetry_attempts = 5"

text \<open>The first answer within the bounded number of attempts.\<close>

definition read_operational_status :: "autopilot_world \<Rightarrow> cluster \<Rightarrow> pyval option" where
  "read_operational_status w c =
     (case List.map_filter (aw_status w c) [0..<operational_telemetry_attempts] of
        [] \<Rightarrow> None | v # _ \<Rightarrow> Some v)"

text \<open>The cluster the attempt runs on: the incident's, or the default one.\<close>

definition runtime_cluster :: "store \<Rightarrow> string \<Rightarrow> cluster option" where
  "runtime_cluster st incident_id =
     (case (case get_incident st incident_id of
              Some i \<Rightarrow> if opt_truthy (in_cluster_id i) then get_cluster st (or_empty (in_cluster_id i)) else None
            | None \<Rightarrow> None) of
        Some c \<Rightarrow> Some c | None \<Rightarrow> stored_default st)"

definition active_latency_incidents :: "store \<Rightarrow> string \<Rightarrow> nat" where
  "active_latency_incidents st cluster_id =
     length (filter (\<lambda>i. in_cluster_id i = Some cluster_id \<and> sql_like ''OSD_LATENCY_HIGH:%'' (in_ceph_code i)
       \<and> in_status i \<in> {IS_NEW, IS_DIAGNOSING, IS_PENDING_APPROVAL, IS_APPROVED, IS_EXECUTING, IS_VERIFYING,
                       IS_FAILED}) (st_incidents st))"

definition operational_verdict :: "autopilot_world \<Rightarrow> attempt \<Rightarrow> store \<Rightarrow> gate_result" where
  "operational_verdict w m st =
     (let unavailable = evaluate_operational (aw_float w) (PDict []) 0 0 in
      case runtime_cluster st (am_incident_id m) of
        None \<Rightarrow> unavailable
      | Some c \<Rightarrow>
          (case read_operational_status w c of
             None \<Rightarrow> unavailable
           | Some status \<Rightarrow>
               (case evaluate_operational (aw_float w) status (as_max_recovery_bytes_per_sec (aw_settings w))
                       (int (active_latency_incidents st (cl_id c))) of
                  GateRaises \<Rightarrow> unavailable
                | verdict \<Rightarrow> verdict)))"

definition operational_gate :: "env \<Rightarrow> autopilot_world \<Rightarrow> attempt \<Rightarrow> exec_state \<Rightarrow> stage" where
  "operational_gate e w m s =
     (case operational_verdict w m (xs_store s) of
        GateAllowed \<Rightarrow> Inr s
      | GateBlocked reason \<Rightarrow>
          Inl (blocked_with_note e m ''Operational gate'' reason ''autopilot_operational_gate_blocked'' s)
      | GateRaises \<Rightarrow>
          Inl (blocked_with_note e m ''Operational gate'' [] ''autopilot_operational_gate_blocked'' s))"

definition destructive_gate :: "env \<Rightarrow> autopilot_world \<Rightarrow> attempt \<Rightarrow> exec_state \<Rightarrow> stage" where
  "destructive_gate e w m s =
     (if policy_tier w (am_action_id m) = DESTRUCTIVE then Inl (fail_attempt e (aw_exec w) m s) else Inr s)"

section \<open>The typed boundary\<close>

definition text_items :: "pyval list \<Rightarrow> string list" where
  "text_items vs = List.map_filter (\<lambda>v. case v of PStr s \<Rightarrow> Some s | _ \<Rightarrow> None) vs"

definition pool_targets :: "pyval \<Rightarrow> string list" where
  "pool_targets params =
     (let adjustments = dget params ''adjustments''; pools = dget params ''pools'';
          raw = (if is_list adjustments
                 then map (\<lambda>item. dget item ''pool_name'') (filter is_dict (elems_of adjustments))
                 else if is_list pools then elems_of pools
                 else if is_str (dget params ''pool_name'') then [dget params ''pool_name''] else [])
      in first_occurrences (text_items raw))"

text \<open>\<open>None\<close> for a schema that no execution has.\<close>

definition typed_action_target_ids ::
  "string \<Rightarrow> string \<Rightarrow> string list \<Rightarrow> pyval \<Rightarrow> (string \<times> string list) option" where
  "typed_action_target_ids target_schema cluster_id target_nodes params =
     (if target_schema = ''cluster'' then Some (''cluster'', [cluster_id])
      else if target_schema = ''host'' then Some (''host'', first_occurrences target_nodes)
      else if target_schema = ''osd''
      then Some (''osd'', map py_str (case osd_ids_of params of None \<Rightarrow> [] | Some ids \<Rightarrow> ids))
      else if target_schema = ''pg'' then Some (''pg'', map py_str (elems_of (dget params ''pg_ids'')))
      else if target_schema = ''pool'' then Some (''pool'', pool_targets params)
      else None)"

text \<open>\<open>^[0-9]+\.[0-9a-f]+$\<close> on the whole text.\<close>

definition pg_id_text :: "string \<Rightarrow> bool" where
  "pg_id_text s =
     (case split_on (CHR ''.'') s of
        [pool, rest] \<Rightarrow> str_isdigit pool \<and> rest \<noteq> []
          \<and> list_all (\<lambda>c. digit_char c \<or> 97 \<le> char_code c \<and> char_code c \<le> 102) rest
      | _ \<Rightarrow> False)"

fun all_some :: "'a option list \<Rightarrow> 'a list option" where
  "all_some [] = Some []"
| "all_some (x # xs) = (case x of None \<Rightarrow> None | Some v \<Rightarrow> map_option (\<lambda>vs. v # vs) (all_some xs))"

definition live_osd_ids :: "autopilot_world \<Rightarrow> cluster \<Rightarrow> string list option" where
  "live_osd_ids w c =
     (case aw_query w c ''ceph osd ls'' of
        Inr (PList vs) \<Rightarrow>
          map_option (\<lambda>ns. map int_text ns @ map (\<lambda>n. ''osd.'' @ int_text n) ns) (all_some (map py_int vs))
      | _ \<Rightarrow> None)"

definition live_pool_names :: "autopilot_world \<Rightarrow> cluster \<Rightarrow> string list option" where
  "live_pool_names w c =
     (case aw_query w c ''ceph osd pool ls'' of
        Inr (PList vs) \<Rightarrow> if list_all valid_host vs then Some (text_items vs) else None
      | _ \<Rightarrow> None)"

fun live_pg_ids :: "autopilot_world \<Rightarrow> cluster \<Rightarrow> string list \<Rightarrow> string list option" where
  "live_pg_ids w c [] = Some []"
| "live_pg_ids w c (pg # pgs) =
     (if \<not> pg_id_text pg then live_pg_ids w c pgs
      else case aw_query w c (''ceph pg map '' @ pg) of
        Inl error \<Rightarrow>
          if contains_str ''ENOENT'' error \<or> contains_str ''does not exist'' error
          then live_pg_ids w c pgs else None
      | Inr payload \<Rightarrow>
          map_option (\<lambda>ids. if is_dict payload \<and> py_str (dget payload ''pgid'') = pg then pg # ids else ids)
            (live_pg_ids w c pgs))"

definition live_target_scope ::
  "autopilot_world \<Rightarrow> cluster \<Rightarrow> string \<Rightarrow> string list \<Rightarrow> target_scope option" where
  "live_target_scope w c target_type ids =
     (let osds = (if target_type = ''osd'' then live_osd_ids w c else Some []);
          pgs = (if target_type = ''pg'' then live_pg_ids w c ids else Some []);
          pools = (if target_type = ''pool'' then live_pool_names w c else Some []) in
      case (osds, pgs, pools) of
        (Some os, Some gs, Some ps) \<Rightarrow>
          Some \<lparr>ts_cluster_id = cl_id c,
                ts_nodes = map fst (configured_nodes (xw_settings (aw_exec w)) (Some c)),
                ts_osds = os, ts_pools = ps, ts_pgs = gs, ts_volumes = [], ts_buckets = [], ts_objects = []\<rparr>
      | _ \<Rightarrow> None)"

definition typed_capability :: "string \<Rightarrow> string" where
  "typed_capability action_id = ''playbook.'' @ action_id"

definition typed_gateway :: "string \<Rightarrow> target_scope \<Rightarrow> bool \<Rightarrow> gateway" where
  "typed_gateway action_id scope preflight_allowed =
     \<lparr>gw_allowed_action_ids = [action_id], gw_allowed_capabilities = [typed_capability action_id],
      gw_target_scope = scope, gw_approval_required = [],
      gw_capability_check = Some (\<lambda>_. Some preflight_allowed), gw_capabilities_by_action = None\<rparr>"

definition typed_request_for ::
  "string \<Rightarrow> cluster \<Rightarrow> string \<Rightarrow> pyval \<Rightarrow> string \<Rightarrow> time \<Rightarrow> string \<Rightarrow> typed_request" where
  "typed_request_for action_id c target_type params evidence expires_at target_id =
     \<lparr>tr_action_id = action_id, tr_cluster_id = cl_id c, tr_capability = typed_capability action_id,
      tr_target_type = target_type, tr_target_id = target_id, tr_params = por params (PDict []),
      tr_evidence_fingerprint = evidence, tr_expires_at = expires_at, tr_actor = ''system:autopilot'',
      tr_approval_fingerprint = None\<rparr>"

text \<open>The request is validated when it is built, and again by the gateway.\<close>

definition request_authorized :: "boundary \<Rightarrow> gateway \<Rightarrow> time \<Rightarrow> typed_request \<Rightarrow> bool" where
  "request_authorized b g now r =
     (case validate_request (bd_encoded_length b) r of
        None \<Rightarrow> False
      | Some v \<Rightarrow> \<not> isl (authorize b g None now v))"

definition authorize_typed_action ::
  "env \<Rightarrow> autopilot_world \<Rightarrow> cluster \<Rightarrow> action_row \<Rightarrow> string \<Rightarrow> string list \<Rightarrow> pyval \<Rightarrow> bool
     \<Rightarrow> remediation_case option \<Rightarrow> bool" where
  "authorize_typed_action e w c a action_id target_nodes params preflight_allowed case_row =
     (case (get_contract action_id, case_row, ac_expires_at a) of
        (Some pc, Some rc, Some expires_at) \<Rightarrow>
          rc_evidence_fingerprint rc \<noteq> []
          \<and> (case typed_action_target_ids (pc_target_schema pc) (cl_id c) target_nodes params of
               None \<Rightarrow> False
             | Some (target_type, ids) \<Rightarrow>
                 ids \<noteq> []
                 \<and> (case live_target_scope w c target_type ids of
                      None \<Rightarrow> False
                    | Some scope \<Rightarrow>
                        scope_valid scope
                        \<and> list_all (\<lambda>t. request_authorized (aw_boundary w)
                              (typed_gateway action_id scope preflight_allowed) (ev_now e)
                              (typed_request_for action_id c target_type params
                                 (rc_evidence_fingerprint rc) expires_at t)) ids))
      | _ \<Rightarrow> False)"

text \<open>The persisted targets and parameters of the action, \<open>None\<close> where they are malformed.\<close>

definition persisted_nodes :: "action_row \<Rightarrow> string list option" where
  "persisted_nodes a =
     (case ac_target_nodes a of
        None \<Rightarrow> Some []
      | Some (JText (PList vs)) \<Rightarrow> if list_all valid_host vs then Some (text_items vs) else None
      | _ \<Rightarrow> None)"

definition persisted_params :: "action_row \<Rightarrow> pyval option" where
  "persisted_params a =
     (case ac_action_params a of
        None \<Rightarrow> Some PNone
      | Some (JText v) \<Rightarrow> if is_dict v \<or> v = PNone then Some v else None
      | Some JMalformed \<Rightarrow> None)"

definition typed_allowed :: "env \<Rightarrow> autopilot_world \<Rightarrow> attempt \<Rightarrow> bool \<Rightarrow> store \<Rightarrow> bool" where
  "typed_allowed e w m preflight_allowed st =
     (case (get_action st (am_action_pk m), runtime_cluster st (am_incident_id m)) of
        (Some a, Some c) \<Rightarrow>
          (case (persisted_nodes a, persisted_params a) of
             (Some nodes, Some params) \<Rightarrow>
               authorize_typed_action e w c a (am_action_id m) nodes params preflight_allowed
                 (get_case st (am_action_pk m))
           | _ \<Rightarrow> False)
      | _ \<Rightarrow> False)"

definition typed_gate ::
  "env \<Rightarrow> autopilot_world \<Rightarrow> attempt \<Rightarrow> bool \<Rightarrow> exec_state \<Rightarrow> stage" where
  "typed_gate e w m preflight_allowed s =
     (if typed_allowed e w m preflight_allowed (xs_store s) then Inr s
      else Inl (route_to_approval e (aw_exec w) m ''autopilot_playbook_contract_blocked'' s))"

section \<open>Limits and the lease\<close>

definition limits_verdict ::
  "env \<Rightarrow> autopilot_settings \<Rightarrow> attempt \<Rightarrow> string \<Rightarrow> store \<Rightarrow> runtime_refusal option" where
  "limits_verdict e as m cluster_id st =
     check_limits st cluster_id (am_action_id m)
       (case get_action st (am_action_pk m) of None \<Rightarrow> None | Some a \<Rightarrow> ac_target_nodes a) (ev_now e)
       (as_max_actions_per_hour as) (as_max_actions_per_day as) (as_target_cooldown_seconds as)"

definition take_lease ::
  "env \<Rightarrow> autopilot_settings \<Rightarrow> attempt \<Rightarrow> string \<Rightarrow> store \<Rightarrow> runtime_refusal option \<times> store" where
  "take_lease e as m cluster_id st =
     (case limits_verdict e as m cluster_id st of
        Some refusal \<Rightarrow> (Some refusal, st)
      | None \<Rightarrow>
          (let (refusal, rows) = acquire_lease cluster_id (am_action_pk m) (ev_now e)
                                   (as_lease_ttl_seconds as) (st_leases st)
           in (refusal, st\<lparr>st_leases := rows\<rparr>)))"

definition mark_executing :: "env \<Rightarrow> attempt \<Rightarrow> store \<Rightarrow> store" where
  "mark_executing e m st =
     edit_incident e (am_incident_id m) (incident_to e IS_EXECUTING)
       (edit_action e (am_action_pk m) (\<lambda>r. r\<lparr>ac_status := AS_EXECUTING\<rparr>) st)"

definition runtime_gate :: "env \<Rightarrow> autopilot_world \<Rightarrow> attempt \<Rightarrow> exec_state \<Rightarrow> stage" where
  "runtime_gate e w m s =
     (case runtime_cluster (xs_store s) (am_incident_id m) of
        None \<Rightarrow> Inl (None, s)
      | Some c \<Rightarrow>
          (case take_lease e (aw_settings w) m (cl_id c) (xs_store s) of
             (Some refusal, st) \<Rightarrow>
               Inl (blocked_with_note e m ''Runtime guard'' (refusal_text refusal)
                      ''autopilot_runtime_guard_blocked'' (s\<lparr>xs_store := st\<rparr>))
           | (None, st) \<Rightarrow> Inr (s\<lparr>xs_store := mark_executing e m st\<rparr>)))"

section \<open>The commands\<close>

definition text_or :: "pyval \<Rightarrow> string \<Rightarrow> string \<Rightarrow> string" where
  "text_or envelope key fallback = py_str (por (dget envelope key) (PStr fallback))"

text \<open>The credentials the envelope carries, the worker's own where it carries none.\<close>

definition attempt_creds :: "worker_settings \<Rightarrow> pyval \<Rightarrow> ssh_creds" where
  "attempt_creds ws envelope =
     \<lparr>sc_user = text_or envelope ''ssh_user'' (ws_ssh_user ws),
      sc_key_path = text_or envelope ''ssh_key_path'' (ws_ssh_key_path ws),
      sc_exec_mode = text_or envelope ''ceph_exec_mode'' (ws_ceph_exec_mode ws),
      sc_container_name = text_or envelope ''ceph_container_name'' (ws_ceph_container_name ws)\<rparr>"

record auto_run =
  au_exec :: exec_state
  au_executed_any :: bool
  au_all_succeeded :: bool
  au_last_command :: "string option"

fun run_each_host ::
  "exec_world \<Rightarrow> attempt \<Rightarrow> ssh_creds \<Rightarrow> string list \<Rightarrow> auto_run \<Rightarrow> py_exn option \<times> auto_run" where
  "run_each_host w m creds [] r = (None, r)"
| "run_each_host w m creds (host # hosts) r =
     (case get_command (xw_commands w) (am_action_id m) (Some host) (am_params m)
             (Some (sc_exec_mode creds)) (sc_container_name creds) of
        Inl (Raises x) \<Rightarrow> (Some x, r)
      | Inl ExecutorError \<Rightarrow> run_each_host w m creds hosts (r\<lparr>au_all_succeeded := False\<rparr>)
      | Inr command \<Rightarrow>
          (let (reply, s1) = execute_command w creds host command (au_exec r);
               r1 = r\<lparr>au_exec := s1, au_executed_any := True, au_last_command := Some command\<rparr> in
           run_each_host w m creds hosts
             (if isl reply then r1\<lparr>au_all_succeeded := False\<rparr> else r1)))"

definition release_attempt :: "attempt \<Rightarrow> exec_state \<Rightarrow> exec_state" where
  "release_attempt m = on_store (\<lambda>st. st\<lparr>st_leases := release_lease (am_action_pk m) (st_leases st)\<rparr>)"

text \<open>
  An exception of a command builder escapes, with the action EXECUTING and the lease held.  The
  source repeats the check for a destructive action here; the policy document is read once, so it
  cannot answer differently.
\<close>

definition run_on_hosts ::
  "env \<Rightarrow> autopilot_world \<Rightarrow> attempt \<Rightarrow> string list \<Rightarrow> exec_state \<Rightarrow> outcome" where
  "run_on_hosts e w m hosts s =
     (let creds = attempt_creds (xw_settings (aw_exec w)) (am_envelope m) in
      case run_each_host (aw_exec w) m creds hosts
             \<lparr>au_exec = s, au_executed_any = False, au_all_succeeded = True, au_last_command = None\<rparr> of
        (Some x, r) \<Rightarrow> (Some x, au_exec r)
      | (None, r) \<Rightarrow>
          (None, release_attempt m (record_execution_result e (aw_exec w) m (au_last_command r)
             (au_all_succeeded r \<and> au_executed_any r) (au_exec r))))"

definition run_attempt :: "env \<Rightarrow> autopilot_world \<Rightarrow> attempt \<Rightarrow> exec_state \<Rightarrow> outcome" where
  "run_attempt e w m s =
     (case (case dget (am_envelope m) ''nodes'' of PList (v # vs) \<Rightarrow> host_names (v # vs) | _ \<Rightarrow> None) of
        None \<Rightarrow> fail_attempt e (aw_exec w) m s
      | Some hosts \<Rightarrow> run_on_hosts e w m hosts s)"

section \<open>The whole attempt\<close>

definition early_gates :: "env \<Rightarrow> autopilot_world \<Rightarrow> attempt \<Rightarrow> exec_state \<Rightarrow> stage" where
  "early_gates e w m s =
     and_then (and_then (and_then (authority_gate e w m s) (risk_gate e w m)) (grace_gate e w m))
       (contract_gate e w m)"

definition late_gates :: "env \<Rightarrow> autopilot_world \<Rightarrow> attempt \<Rightarrow> exec_state \<Rightarrow> stage" where
  "late_gates e w m s =
     (let preflight_allowed = pf_allowed (attempt_preflight e w m (xs_store s)) in
      and_then (and_then (and_then (and_then (preflight_gate e w m s) (operational_gate e w m))
        (destructive_gate e w m)) (typed_gate e w m preflight_allowed)) (runtime_gate e w m))"

definition maybe_execute_safe_action ::
  "env \<Rightarrow> autopilot_world \<Rightarrow> attempt \<Rightarrow> exec_state \<Rightarrow> outcome" where
  "maybe_execute_safe_action e w m s =
     (case and_then (early_gates e w m s) (late_gates e w m) of
        Inl stopped \<Rightarrow> stopped
      | Inr s1 \<Rightarrow> run_attempt e w m s1)"

section \<open>Resuming after the grace period\<close>

definition due_grace_ids :: "time \<Rightarrow> store \<Rightarrow> string list" where
  "due_grace_ids now st =
     map ac_id (filter (\<lambda>a. ac_status a = AS_GRACE_PENDING
       \<and> (case ac_grace_until a of None \<Rightarrow> False | Some t \<Rightarrow> t \<le> now)) (st_actions st))"

definition loaded :: "json_text option \<Rightarrow> pyval \<Rightarrow> pyval option" where
  "loaded raw fallback =
     (case raw of None \<Rightarrow> Some fallback | Some JMalformed \<Rightarrow> None | Some (JText v) \<Rightarrow> Some v)"

definition grace_envelope :: "pyval \<Rightarrow> remediation_case \<Rightarrow> pyval \<Rightarrow> pyval" where
  "grace_envelope nodes c snapshot =
     doc [(''nodes'', nodes), (''ceph_exec_mode'', opt_py (rc_deployment_mode c)),
          (''cluster_snapshot'', snapshot)]"

definition resume_grace :: "env \<Rightarrow> autopilot_world \<Rightarrow> string \<Rightarrow> exec_state \<Rightarrow> outcome" where
  "resume_grace e w action_pk s =
     (let st = xs_store s in
      case get_action st action_pk of
        None \<Rightarrow> (None, s)
      | Some a \<Rightarrow>
          (case (get_incident st (ac_incident_id a), get_case st action_pk) of
             (Some i, Some c) \<Rightarrow>
               (let move = (\<lambda>ast ist. on_store (\<lambda>st. edit_incident e (in_id i) (incident_to e ist)
                      (edit_action e action_pk (\<lambda>r. r\<lparr>ac_status := ast\<rparr>) st))) in
                if ac_status a \<noteq> AS_GRACE_PENDING then (None, s)
                else case (loaded (ac_target_nodes a) (PList []), loaded (ac_action_params a) PNone,
                           loaded (rc_pre_state_json c) (PDict [])) of
                  (Some nodes, Some params, Some snapshot) \<Rightarrow>
                    maybe_execute_safe_action e w
                      \<lparr>am_incident_id = in_id i, am_action_pk = action_pk, am_action_id = ac_action_id a,
                       am_envelope = grace_envelope nodes c snapshot, am_params = params\<rparr>
                      (move AS_PENDING IS_DIAGNOSING s)
                | _ \<Rightarrow> (None, move AS_PENDING_APPROVAL IS_PENDING_APPROVAL s))
           | _ \<Rightarrow> (None, s)))"

fun resume_each :: "env \<Rightarrow> autopilot_world \<Rightarrow> string list \<Rightarrow> exec_state \<Rightarrow> outcome" where
  "resume_each e w [] s = (None, s)"
| "resume_each e w (pk # pks) s =
     (case resume_grace e w pk s of
        (Some x, s1) \<Rightarrow> (Some x, s1)
      | (None, s1) \<Rightarrow> resume_each e w pks s1)"

definition process_due_grace_actions :: "env \<Rightarrow> autopilot_world \<Rightarrow> exec_state \<Rightarrow> outcome" where
  "process_due_grace_actions e w s = resume_each e w (due_grace_ids (ev_now e) (xs_store s)) s"

end
