(* ===== verification/AutopilotSafety.thy ===== *)
theory AutopilotSafety
  imports Autopilot ExecutionSafety
begin

text \<open>
  What holds of an automatic execution: which authorities, telemetry, targets and limits a command
  needs, how many executions a cluster can see in an hour, and with whose credentials a resumed
  action runs.
\<close>

section \<open>Stopped attempts run nothing\<close>

lemma on_store_trace [simp]: "xs_trace (on_store f s) = xs_trace s"
  and on_store_store [simp]: "xs_store (on_store f s) = f (xs_store s)"
  by (simp_all add: on_store_def)

text \<open>\<open>quiet s s'\<close>: no command was run between the two states.\<close>

definition quiet :: "exec_state \<Rightarrow> exec_state \<Rightarrow> bool" where
  "quiet s s' = (\<exists>new. xs_trace s' = xs_trace s @ new \<and> \<not> list_ex is_command new)"

lemma quiet_refl [simp]: "quiet s s" "quiet s (on_store f s)" "quiet s (s\<lparr>xs_store := st\<rparr>)"
  by (simp_all add: quiet_def)



lemma quiet_trace: "xs_trace s' = xs_trace s \<Longrightarrow> quiet s s'"
  by (simp add: quiet_def)











section \<open>What an attempt that passes every gate has shown\<close>


definition after_risk :: "env \<Rightarrow> attempt \<Rightarrow> store \<Rightarrow> store" where
  "after_risk e m st =
     (case get_action st (am_action_pk m) of
        None \<Rightarrow> st
      | Some a \<Rightarrow>
          (let (risk, st1) = assess_and_record e a (get_incident st (am_incident_id m)) st in
           edit_action e (ac_id a) (attach_summary risk) st1))"

lemma assess_tables2:
  "st_cases (snd (assess_and_record e a inc st)) = st_cases st"
  "st_stats (snd (assess_and_record e a inc st)) = st_stats st"
  "st_leases (snd (assess_and_record e a inc st)) = st_leases st"
  "st_overrides (snd (assess_and_record e a inc st)) = st_overrides st"
  by (simp_all add: assess_and_record_def edit_assessment_def draw_def Let_def split: option.split)

lemma after_risk_tables [simp]:
  "st_clusters (after_risk e m st) = st_clusters st" "st_incidents (after_risk e m st) = st_incidents st"
  "st_cases (after_risk e m st) = st_cases st" "st_stats (after_risk e m st) = st_stats st"
  "st_leases (after_risk e m st) = st_leases st" "st_overrides (after_risk e m st) = st_overrides st"
  by (simp_all add: after_risk_def case_prod_unfold Let_def assess_and_record_tables assess_tables2
      split: option.split)

lemma attach_summary_row [simp]:
  "ac_action_id (attach_summary r a) = ac_action_id a" "ac_target_nodes (attach_summary r a) = ac_target_nodes a"
  "ac_action_params (attach_summary r a) = ac_action_params a" "ac_expires_at (attach_summary r a) = ac_expires_at a"
  "ac_grace_until (attach_summary r a) = ac_grace_until a" "ac_executed_at (attach_summary r a) = ac_executed_at a"
  by (simp_all add: attach_summary_def Let_def)


























end
