(* ===== verification/AutopilotLimits.thy ===== *)
theory AutopilotLimits
  imports AutopilotSafety
begin

text \<open>
  The hourly limit of automatic executions over a whole pass, and the credentials a resumed action
  runs with.
\<close>

section \<open>Whose credentials a resumed action uses\<close>

definition uses_login :: "string \<Rightarrow> string \<Rightarrow> effect \<Rightarrow> bool" where
  "uses_login user key x = (case x of Ran _ _ u k \<Rightarrow> u = user \<and> k = key | _ \<Rightarrow> True)"

definition logins_only :: "string \<Rightarrow> string \<Rightarrow> exec_state \<Rightarrow> exec_state \<Rightarrow> bool" where
  "logins_only user key s s' = (\<exists>new. xs_trace s' = xs_trace s @ new \<and> list_all (uses_login user key) new)"

lemma logins_only_refl [simp]: "logins_only u k s s"
  by (simp add: logins_only_def)



lemma logins_only_store [simp]: "logins_only u k (on_store f s) t = logins_only u k s t"
  by (simp add: logins_only_def)








section \<open>The hourly limit\<close>



text \<open>
  \<open>edits_only st st'\<close>: actions and incidents are edited in place, and no action became executed.
\<close>

definition same_clusters :: "store \<Rightarrow> store \<Rightarrow> bool" where
  "same_clusters st st' =
     (\<forall>i. map_option in_cluster_id (get_incident st' i) = map_option in_cluster_id (get_incident st i))"

definition row_settles :: "action_row \<Rightarrow> action_row \<Rightarrow> bool" where
  "row_settles r r' =
     (ac_id r' = ac_id r \<and> ac_incident_id r' = ac_incident_id r \<and> ac_action_id r' = ac_action_id r
      \<and> (ac_status r' = AS_AUTO_EXECUTED \<longrightarrow>
           ac_status r = AS_AUTO_EXECUTED \<and> ac_executed_at r' = ac_executed_at r))"

definition edits_only :: "store \<Rightarrow> store \<Rightarrow> bool" where
  "edits_only st st' = (list_all2 row_settles (st_actions st) (st_actions st') \<and> same_clusters st st')"

lemma row_settles_refl [simp]: "row_settles r r"
  by (simp add: row_settles_def)

lemma settles_refl [simp]: "edits_only st st"
  by (simp add: edits_only_def same_clusters_def list.rel_refl)










section \<open>Stops only edit\<close>

lemma set_incident_status_cluster [simp]: "in_cluster_id (set_incident_status now x r) = in_cluster_id r"
  by (simp add: set_incident_status_def)




















section \<open>A recorded success\<close>





definition success_row :: "env \<Rightarrow> attempt \<Rightarrow> string option \<Rightarrow> action_row \<Rightarrow> action_row" where
  "success_row e m c r =
     (if ac_id r = am_action_pk m then save_action (ev_now e) (auto_recorded_row e c True) r else r)"

lemma success_row_simps [simp]:
  "ac_id (success_row e m c r) = ac_id r" "ac_incident_id (success_row e m c r) = ac_incident_id r"
  "ac_action_id (success_row e m c r) = ac_action_id r"
  by (simp_all add: success_row_def auto_recorded_row_def)




section \<open>One attempt\<close>










section \<open>A pass over the due actions\<close>






end
