(* ===== verification/AutopilotRun.thy ===== *)
theory AutopilotRun
  imports AutopilotLimits
begin































section \<open>The command of the attempt\<close>







end
