(* ===== verification/Spec2Isabelle.thy ===== *)
theory Spec2Isabelle
  imports Lifecycle Policy Guardrails Playbooks IncidentOutbox TelegramOutbox Delegation Runtime
    ExecutionMutex Recovery Verification HealthRecovery CommandFaults NodeGateFlow
    ExecutionSafety HostLoop UpgradeOrder AutopilotRun
begin

text \<open>
  Verification of the incident-remediation core of a Ceph operations assistant.

  \<^bold>\<open>The program.\<close>  A watcher polls the clusters and turns a fault into an incident; a worker
  diagnoses it with a language model and proposes an action; an operator, or for a few contracts a
  policy, approves it; the worker runs commands over SSH; the watcher verifies against fresh telemetry
  that the fault is gone, retries or gives up.  Around this run two durable outboxes (incidents to
  the broker, notices to Telegram), a case memory that judges whether a remediation held, delegated
  read-only investigations, and gates that keep two dangerous operations from overlapping.  All parts
  communicate through the rows of one SQL database.  The model covers the parts that decide: what may
  run, when, once, and what its result means.

  \<^bold>\<open>Conventions.\<close>  A table is the list of its rows in insertion order, a row a record with every
  column of the mapped class (Models).  A time is a number of microseconds.  An operation that owns a
  transaction takes the committed tables and returns them; where another process can commit between
  a read and a conditional write, the two halves are two definitions (\<open>select_candidate\<close> and
  \<open>commit_claim\<close>, \<open>recheck_approval\<close> and \<open>claim_execution\<close>, \<open>confirm_read\<close> and
  \<open>confirm_write\<close>) so that runs can interleave them.  An operation reads its clock once.  A raise, an
  early return or a refusal is a constructor of a result type.  A text column with JSON is a
  \<open>json_text\<close>, which says whether the text parses and to what.  Strings are UTF-8 bytes, exact
  where they are stored or compared.  Uuids come from a generator and a counter of the store
  (\<open>env\<close>, Ledger).  The answers of remote hosts, language models and the broker, SHA-256, Pydantic's
  field checks, alert senders, live queries of a cluster and the orchestrators of unmodelled modules
  are arguments of the definitions that use them.

  \<^bold>\<open>The theories, in the order of the code's layers.\<close>

  \<^item> \<^bold>\<open>Prelude, PyVal, Shell, Redaction, LeaseQueue\<close>: tables and ASCII string operations; Python's
    dynamic values with truth, comparison, \<open>str\<close> and \<open>int\<close>; \<open>shlex.quote\<close> against the lexical
    analysis of a POSIX shell; the secret redaction of the outboxes; the locale \<open>lease_queue\<close> and its
    extension \<open>exclusive_lease_queue\<close>, the contract of a table-backed queue.
  \<^item> \<^bold>\<open>Models, Ledger\<close>: \<open>shared/models.py\<close> for the tables used here; the \<open>store\<close>, and the append-only
    audit entries of \<open>shared/audit.py\<close> and \<open>shared/incident_events.py\<close>.
  \<^item> \<^bold>\<open>Lifecycle\<close>: \<open>shared/remediation_state_machine.py\<close>.  A step relation and its runs; the only way
    to success, the lock of an in-flight state, the length of a run.
  \<^item> \<^bold>\<open>Policy, Guardrails, Playbooks\<close>: \<open>worker/policy/gate.py\<close> with the deployed
    \<open>action_policy.yaml\<close>, \<open>shared/autopilot_guardrails.py\<close>, \<open>shared/controlled_action_contract.py\<close>,
    \<open>worker/policy/playbook_registry.py\<close>, \<open>shared/rollback_planner.py\<close>.  Exact characterisations of
    each decision, and what the shipped tables can ever decide.
  \<^item> \<^bold>\<open>IncidentOutbox, TelegramOutbox\<close>: \<open>shared/incident_outbox.py\<close>, \<open>shared/telegram_outbox.py\<close>.  Both
    interpret the queue locales (\<open>io_queue\<close>, \<open>tg_queue\<close>); only the Telegram claim re-checks the lease
    when it commits, so only it satisfies the exclusive contract.
  \<^item> \<^bold>\<open>CaseMemory, Runtime, ExecutionMutex, Recovery\<close>: \<open>shared/remediation_cases.py\<close>;
    \<open>worker/autonomy_runtime.py\<close>, \<open>shared/change_risk.py\<close> and \<open>shared/incident_actions.py\<close>; the lease of
    a cluster as an interpretation of the locale \<open>expiring_mutex\<close> and as a refinement of a lock table;
    the pass over expired executions in closed form.
  \<^item> \<^bold>\<open>Delegation\<close>: \<open>shared/ai_delegation.py\<close> and the admission and cancellation of
    \<open>dashboard/routes/chat.py\<close>: single owner, call budget, termination of a task.
  \<^item> \<^bold>\<open>Releases, Commands, CommandTable, CommandPlans, CommandFaults\<close>: \<open>shared/ceph_releases.py\<close> and
    every builder of \<open>worker/executor/commands.py\<close>.  A command is compared with what a shell reads:
    the plan of an action is a list of argument vectors with no quoting in it, and an accepted command
    is read as its plan.
  \<^item> \<^bold>\<open>ClusterAccess, NodeGate, Approvals, NodeGateFlow\<close>: \<open>dashboard/cluster_authorization.py\<close>,
    \<open>shared/clusters.py\<close>, \<open>shared/node_upgrade_gate.py\<close>, \<open>dashboard/routes/actions.py\<close>, the gate requests
    of \<open>dashboard/routes/upgrade.py\<close> and the gate transitions of \<open>worker/executor/cluster_deploy.py\<close>.
    The lock of the gate interprets \<open>exclusive_lock\<close>; \<open>gate_step\<close> interleaves requests, decisions
    and worker steps.
  \<^item> \<^bold>\<open>Verification, HealthRecovery\<close>: \<open>watcher/verify.py\<close>, \<open>watcher/ceph_code_families.py\<close>,
    \<open>watcher/publisher.py\<close>, \<open>watcher/resolve_grace.py\<close>, and the recovery pass of \<open>watcher/main.py\<close>.
  \<^item> \<^bold>\<open>Remote, Reconciliation, PackageUpgrade, Execution\<close>: the execution path of
    \<open>worker/llm/router_client.py\<close> with \<open>shared/cluster_nodes.py\<close>, \<open>shared/rbd_trash_retention.py\<close>,
    \<open>worker/executor/rbd_reconciliation.py\<close> and \<open>worker/executor/cinder_reconciliation.py\<close>.  Remote
    commands, alerts and progress notes are a trace of effects; what a host answers may depend on the
    whole position in that trace.
  \<^item> \<^bold>\<open>ExecutionSafety, HostLoop, UpgradeOrder\<close>: what every such trace satisfies.
  \<^item> \<^bold>\<open>Preflight, OperationalGate, TypedGateway\<close>: \<open>worker/preflight.py\<close> with the lookups of
    \<open>shared/capability_matrix.py\<close> and \<open>watcher/capability_inventory.py\<close>; \<open>worker/operational_gate.py\<close> over
    an arbitrary JSON value, exceptions included; the request model and the gateway of
    \<open>worker/executor/action_contract.py\<close>.
  \<^item> \<^bold>\<open>Autopilot, AutopilotSafety, AutopilotLimits, AutopilotRun\<close>: the automatic execution of
    \<open>worker/llm/router_client.py\<close> (\<open>_maybe_execute_safe_action\<close> and the pass over due grace periods).
    Each gate is a definition that stops the attempt or hands on the state; the theorems read the gates
    back from a run that executed a command, and count the executions of a cluster over a whole pass.

  \<^bold>\<open>What is shown.\<close>  Decisions: an approved action runs only under the policy, approval, risk
  acknowledgement and cluster that hold when execution starts (C6); an automatic one only when every
  switch, gate and limit agrees at that moment (C4), for named, bounded targets (C2, C5) that passed a
  typed boundary (C12, C13), and no more often than the hourly limit (C11); a parameter can never
  become shell syntax (C3).  Mutual exclusion: of an outbox row, a task, a cluster's execution lease,
  its lifecycle actions and its node gates (C14, C20-C22, C24-C26, C31, C32, C34).  Truthful results:
  \<open>EXECUTED\<close> exactly when every host passed, \<open>RESOLVED\<close> only after a check (C7-C10, C16, C23, C28).
  Progress: verification, delegated tasks, dispatch and the lifecycle end (C17, C30, C33, C36).
  Confidentiality: redacted case documents and credential-free notices (C27, C35).  C38-C40 show a dead
  end, a race and a wrong login the code has; they are stated as the behaviour of the code.

  \<^bold>\<open>Bounds.\<close>  No definition needs fuel: loops recurse on lists or on a number (with a measure for
  \<open>redact\<close> and \<open>osd_unit_ids\<close>), and the retry limits (five lifecycle transitions, the outboxes'
  attempts, two tries per subtask, the provider-call budget) are the code's constants.

  \<^bold>\<open>Not modelled.\<close>  Prompt assembly and the calls of language models (\<open>shared/router_client.py\<close>, the diagnosis
  half of \<open>worker/llm/router_client.py\<close>, \<open>shared/natural_language\<close>): free text and network I/O.
  The SSH scripts of \<open>worker/executor/cluster_deploy.py\<close> and its siblings: long sequences of remote
  commands whose effect is on hosts, not in the repository.  The collectors of \<open>watcher/ceph_client.py\<close>, the
  monitors and the poll loop: parsing of live output.  Forecasting and online learning: floating-point
  statistics.  Dashboard pages, forms, sessions and previews: rendering.  Backup, Vitastor, object
  gateways, failure lab, scripts and migrations: separate tools.  Asynchronous timers and threads
  are replaced by the interleaving of committed transactions.

  \<^bold>\<open>Next.\<close>  The operator maintenance of the capability matrix, the rebuilt post-checks of a restarted worker, the
  requests for cluster upgrades, and the statistics behind the maturity of a playbook.
\<close>

end
